(* ===== verification/Prelude.thy ===== *)
theory Prelude
  imports Main "HOL-Library.Word" "HOL-Library.Code_Target_Numeral"
begin

text \<open>
  Shared vocabulary of the development: the fixed-width integers of the C sources, the
  unsigned \<open>size_t\<close> arithmetic with its wrap-around written out, the memory copies the
  components perform on byte buffers, and the small list and word facts their proofs share.
\<close>

unbundle bit_operations_syntax

declare split_paired_All [simp del] split_paired_Ex [simp del]

section \<open>Machine types\<close>

type_synonym u8 = "8 word"
type_synonym u16 = "16 word"
type_synonym u32 = "32 word"
type_synonym u64 = "64 word"

text \<open>
  \<open>int32_t\<close> and \<open>int64_t\<close> values are words read through \<^const>\<open>sint\<close>; a C string is the
  list of its characters before the terminating NUL.
\<close>

type_synonym i32 = "32 word"
type_synonym i64 = "64 word"
type_synonym cstr = "u8 list"

named_theorems size_simps \<open>size_t arithmetic in the absence of wrap-around\<close>
named_theorems buf_simps \<open>copies into and out of byte buffers\<close>

section \<open>Unsigned size arithmetic\<close>

text \<open>
  \<open>size_t\<close> is 64 bits wide. A value is a natural number below \<open>SIZE_MOD\<close>; subtraction wraps
  modulo \<open>SIZE_MOD\<close> as it does in C.
\<close>

definition SIZE_MOD :: nat where
  "SIZE_MOD = 2 ^ 64"

definition size_sub :: "nat \<Rightarrow> nat \<Rightarrow> nat" where
  "size_sub a b = (if b \<le> a then a - b else (SIZE_MOD + a) - b)"

definition size_add :: "nat \<Rightarrow> nat \<Rightarrow> nat" where
  "size_add a b = (a + b) mod SIZE_MOD"

lemma size_sub_le [size_simps]: "b \<le> a \<Longrightarrow> size_sub a b = a - b"
  by (simp add: size_sub_def)

lemma size_add_small [size_simps]: "a + b < SIZE_MOD \<Longrightarrow> size_add a b = a + b"
  by (simp add: size_add_def)

text \<open>Equations for evaluation that avoid the power and, where possible, the division.\<close>

lemma SIZE_MOD_code [code]: "SIZE_MOD = 18446744073709551616"
  by (simp add: SIZE_MOD_def)

lemma size_add_code [code]: "size_add a b = (let s = a + b in if s < SIZE_MOD then s else s mod SIZE_MOD)"
  by (simp add: size_add_def Let_def)

lemma size_sub_0 [simp]: "size_sub a 0 = a"
  by (simp add: size_sub_def)

lemma size_sub_self [simp]: "size_sub a a = 0"
  by (simp add: size_sub_def)

section \<open>Copies into byte buffers\<close>

text \<open>
  \<open>memcpy(&mem[pos], src, n)\<close>: the first \<open>n\<close> bytes of \<open>src\<close> replace the bytes of \<open>mem\<close> from
  \<open>pos\<close> on.
\<close>

definition mem_put :: "'a list \<Rightarrow> nat \<Rightarrow> 'a list \<Rightarrow> nat \<Rightarrow> 'a list" where
  "mem_put mem pos src n = take pos mem @ take n src @ drop (pos + n) mem"

definition mem_get :: "'a list \<Rightarrow> nat \<Rightarrow> nat \<Rightarrow> 'a list" where
  "mem_get mem pos n = take n (drop pos mem)"

lemma length_mem_put [buf_simps]:
  "pos + n \<le> length mem \<Longrightarrow> n \<le> length src \<Longrightarrow> length (mem_put mem pos src n) = length mem"
  by (simp add: mem_put_def)

lemma length_mem_get [buf_simps]:
  "pos + n \<le> length mem \<Longrightarrow> length (mem_get mem pos n) = n"
  by (simp add: mem_get_def)

lemma mem_put_0 [simp]: "mem_put mem pos src 0 = mem"
  by (simp add: mem_put_def)

lemma mem_get_0 [simp]: "mem_get mem pos 0 = []"
  by (simp add: mem_get_def)

lemma take_drop_split: "a \<le> b \<Longrightarrow> take a (drop k xs) @ take (b - a) (drop (k + a) xs) = take b (drop k xs)"
  by (metis add.commute drop_drop le_add_diff_inverse take_add)

end
