(* ===== verification/Util_Misc.thy ===== *)
theory Util_Misc
  imports Prelude
begin

text \<open>
  The helpers of \<open>src/util_misc.c\<close> that compute: the table driven CRC-32 checksum and the counting of the
  ones of a network mask. The adapters to the tick counter and the random source of the platform are calls
  only. The checksum is compared with the bitwise shift register the table is made from, the count with the
  prefix length of a network mask.
\<close>

section \<open>Counting ones\<close>

function count_ones_loop :: "u8 \<Rightarrow> nat \<Rightarrow> nat" where
  "count_ones_loop b lo = (if b = 0 then lo else count_ones_loop (drop_bit 1 b) (lo + unat (b AND 1)))"
  by pat_completeness auto
termination
proof (relation "measure (\<lambda>(b, lo). unat b)", goal_cases)
  case (2 b lo)
  then show ?case
    by (simp add: drop_bit_eq_div unat_div word_greater_zero_iff unat_gt_0)
qed simp

declare count_ones_loop.simps [simp del]

definition count_leading_ones :: "u8 \<Rightarrow> nat" where
  "count_leading_ones b = count_ones_loop b 0"

fun count_ones_in_loop :: "u8 list \<Rightarrow> nat \<Rightarrow> nat" where
  "count_ones_in_loop [] lo = lo"
| "count_ones_in_loop (b # bs) lo = (if b \<noteq> 0xFF then lo + count_leading_ones b else count_ones_in_loop bs (lo + 8))"

definition count_leading_ones_in_buf :: "u8 list option \<Rightarrow> nat \<Rightarrow> nat" where
  "count_leading_ones_in_buf buf len = (case buf of None \<Rightarrow> 0 | Some bs \<Rightarrow> count_ones_in_loop (take len bs) 0)"

section \<open>CRC-32\<close>

definition crc_table :: "u32 list" where
  "crc_table = [
    0x00000000, 0x77073096, 0xEE0E612C, 0x990951BA, 0x076DC419, 0x706AF48F, 0xE963A535, 0x9E6495A3,
    0x0EDB8832, 0x79DCB8A4, 0xE0D5E91E, 0x97D2D988, 0x09B64C2B, 0x7EB17CBD, 0xE7B82D07, 0x90BF1D91,
    0x1DB71064, 0x6AB020F2, 0xF3B97148, 0x84BE41DE, 0x1ADAD47D, 0x6DDDE4EB, 0xF4D4B551, 0x83D385C7,
    0x136C9856, 0x646BA8C0, 0xFD62F97A, 0x8A65C9EC, 0x14015C4F, 0x63066CD9, 0xFA0F3D63, 0x8D080DF5,
    0x3B6E20C8, 0x4C69105E, 0xD56041E4, 0xA2677172, 0x3C03E4D1, 0x4B04D447, 0xD20D85FD, 0xA50AB56B,
    0x35B5A8FA, 0x42B2986C, 0xDBBBC9D6, 0xACBCF940, 0x32D86CE3, 0x45DF5C75, 0xDCD60DCF, 0xABD13D59,
    0x26D930AC, 0x51DE003A, 0xC8D75180, 0xBFD06116, 0x21B4F4B5, 0x56B3C423, 0xCFBA9599, 0xB8BDA50F,
    0x2802B89E, 0x5F058808, 0xC60CD9B2, 0xB10BE924, 0x2F6F7C87, 0x58684C11, 0xC1611DAB, 0xB6662D3D,
    0x76DC4190, 0x01DB7106, 0x98D220BC, 0xEFD5102A, 0x71B18589, 0x06B6B51F, 0x9FBFE4A5, 0xE8B8D433,
    0x7807C9A2, 0x0F00F934, 0x9609A88E, 0xE10E9818, 0x7F6A0DBB, 0x086D3D2D, 0x91646C97, 0xE6635C01,
    0x6B6B51F4, 0x1C6C6162, 0x856530D8, 0xF262004E, 0x6C0695ED, 0x1B01A57B, 0x8208F4C1, 0xF50FC457,
    0x65B0D9C6, 0x12B7E950, 0x8BBEB8EA, 0xFCB9887C, 0x62DD1DDF, 0x15DA2D49, 0x8CD37CF3, 0xFBD44C65,
    0x4DB26158, 0x3AB551CE, 0xA3BC0074, 0xD4BB30E2, 0x4ADFA541, 0x3DD895D7, 0xA4D1C46D, 0xD3D6F4FB,
    0x4369E96A, 0x346ED9FC, 0xAD678846, 0xDA60B8D0, 0x44042D73, 0x33031DE5, 0xAA0A4C5F, 0xDD0D7CC9,
    0x5005713C, 0x270241AA, 0xBE0B1010, 0xC90C2086, 0x5768B525, 0x206F85B3, 0xB966D409, 0xCE61E49F,
    0x5EDEF90E, 0x29D9C998, 0xB0D09822, 0xC7D7A8B4, 0x59B33D17, 0x2EB40D81, 0xB7BD5C3B, 0xC0BA6CAD,
    0xEDB88320, 0x9ABFB3B6, 0x03B6E20C, 0x74B1D29A, 0xEAD54739, 0x9DD277AF, 0x04DB2615, 0x73DC1683,
    0xE3630B12, 0x94643B84, 0x0D6D6A3E, 0x7A6A5AA8, 0xE40ECF0B, 0x9309FF9D, 0x0A00AE27, 0x7D079EB1,
    0xF00F9344, 0x8708A3D2, 0x1E01F268, 0x6906C2FE, 0xF762575D, 0x806567CB, 0x196C3671, 0x6E6B06E7,
    0xFED41B76, 0x89D32BE0, 0x10DA7A5A, 0x67DD4ACC, 0xF9B9DF6F, 0x8EBEEFF9, 0x17B7BE43, 0x60B08ED5,
    0xD6D6A3E8, 0xA1D1937E, 0x38D8C2C4, 0x4FDFF252, 0xD1BB67F1, 0xA6BC5767, 0x3FB506DD, 0x48B2364B,
    0xD80D2BDA, 0xAF0A1B4C, 0x36034AF6, 0x41047A60, 0xDF60EFC3, 0xA867DF55, 0x316E8EEF, 0x4669BE79,
    0xCB61B38C, 0xBC66831A, 0x256FD2A0, 0x5268E236, 0xCC0C7795, 0xBB0B4703, 0x220216B9, 0x5505262F,
    0xC5BA3BBE, 0xB2BD0B28, 0x2BB45A92, 0x5CB36A04, 0xC2D7FFA7, 0xB5D0CF31, 0x2CD99E8B, 0x5BDEAE1D,
    0x9B64C2B0, 0xEC63F226, 0x756AA39C, 0x026D930A, 0x9C0906A9, 0xEB0E363F, 0x72076785, 0x05005713,
    0x95BF4A82, 0xE2B87A14, 0x7BB12BAE, 0x0CB61B38, 0x92D28E9B, 0xE5D5BE0D, 0x7CDCEFB7, 0x0BDBDF21,
    0x86D3D2D4, 0xF1D4E242, 0x68DDB3F8, 0x1FDA836E, 0x81BE16CD, 0xF6B9265B, 0x6FB077E1, 0x18B74777,
    0x88085AE6, 0xFF0F6A70, 0x66063BCA, 0x11010B5C, 0x8F659EFF, 0xF862AE69, 0x616BFFD3, 0x166CCF45,
    0xA00AE278, 0xD70DD2EE, 0x4E048354, 0x3903B3C2, 0xA7672661, 0xD06016F7, 0x4969474D, 0x3E6E77DB,
    0xAED16A4A, 0xD9D65ADC, 0x40DF0B66, 0x37D83BF0, 0xA9BCAE53, 0xDEBB9EC5, 0x47B2CF7F, 0x30B5FFE9,
    0xBDBDF21C, 0xCABAC28A, 0x53B39330, 0x24B4A3A6, 0xBAD03605, 0xCDD70693, 0x54DE5729, 0x23D967BF,
    0xB3667A2E, 0xC4614AB8, 0x5D681B02, 0x2A6F2B94, 0xB40BBE37, 0xC30C8EA1, 0x5A05DF1B, 0x2D02EF8D]"

text \<open>The bytes are read through a \<open>char\<close> pointer, so they are sign extended before the index is masked.\<close>

definition crc32_step :: "u32 \<Rightarrow> u8 \<Rightarrow> u32" where
  "crc32_step c b = drop_bit 8 c XOR crc_table ! unat ((c XOR signed_take_bit 7 (ucast b)) AND 0xFF)"

definition crc32 :: "u8 list \<Rightarrow> nat \<Rightarrow> u32" where
  "crc32 buf len = foldl crc32_step (NOT 0) (take len buf) XOR 0xFFFFFFFF"

text \<open>The shift register of the checksum: one bit per step, with the reversed polynomial.\<close>

definition crc_bit :: "u32 \<Rightarrow> u32" where
  "crc_bit c = (if bit c 0 then drop_bit 1 c XOR 0xEDB88320 else drop_bit 1 c)"

definition crc_byte :: "u32 \<Rightarrow> u8 \<Rightarrow> u32" where
  "crc_byte c b = (crc_bit ^^ 8) (c XOR ucast b)"

definition crc_reference :: "u8 list \<Rightarrow> u32" where
  "crc_reference bs = NOT (foldl crc_byte (NOT 0) bs)"

lemma crc_bit_xor: "crc_bit (a XOR b) = crc_bit a XOR crc_bit b"
  by (auto simp: crc_bit_def bit_xor_iff bit_eq_iff bit_drop_bit_eq)

lemma crc_bits_xor: "(crc_bit ^^ n) (a XOR b) = (crc_bit ^^ n) a XOR (crc_bit ^^ n) b"
  by (induction n) (simp_all add: crc_bit_xor)

text \<open>As long as the bits that leave the register are zero, a step is a shift.\<close>

lemma crc_bits_shift: "(\<And>i. i < n \<Longrightarrow> \<not> bit c i) \<Longrightarrow> (crc_bit ^^ n) c = drop_bit n c"
proof (induction n)
  case (Suc n)
  have "\<not> bit (drop_bit n c) 0"
    using Suc.prems [of n] by (simp add: bit_drop_bit_eq)
  then show ?case
    using Suc.IH Suc.prems by (simp add: crc_bit_def drop_bit_drop_bit)
qed simp

lemma crc_bits_0: "(crc_bit ^^ n) 0 = 0"
  by (induction n) (simp_all add: crc_bit_def)

text \<open>
  The table of a linear function is made by doubling: every entry is the sum of the entries of the powers of
  two in its index.
\<close>

fun linear_table :: "u32 list \<Rightarrow> u32 list" where
  "linear_table [] = [0]"
| "linear_table (b # bs) = (let t = linear_table bs in t @ map (\<lambda>x. b XOR x) t)"

lemma length_linear_table [simp]: "length (linear_table bs) = 2 ^ length bs"
  by (induction bs) (simp_all add: Let_def)

lemma add_power_xor:
  assumes "k < 2 ^ n" "n < 32"
  shows "of_nat (2 ^ n + k) = (2 ^ n :: u32) XOR of_nat k"
proof -
  have "\<not> bit k n"
    using assms(1) by (metis bit_take_bit_iff less_irrefl take_bit_nat_eq_self)
  then have "(2 ^ n :: u32) AND of_nat k = 0"
    by (intro bit_word_eqI) (auto simp: bit_and_iff bit_exp_iff bit_of_nat_iff)
  then show ?thesis
    by (simp add: disjunctive_add_eq_xor [symmetric])
qed

lemma linear_table_nth:
  fixes f :: "u32 \<Rightarrow> u32"
  assumes lin: "\<And>a b. f (a XOR b) = f a XOR f b" and zero: "f 0 = 0"
  shows "n \<le> 32 \<Longrightarrow> k < 2 ^ n \<Longrightarrow> linear_table (map (\<lambda>j. f (2 ^ j)) (rev [0..<n])) ! k = f (of_nat k)"
proof (induction n arbitrary: k)
  case 0
  then show ?case by (simp add: zero)
next
  case (Suc n)
  show ?case
  proof (cases "k < 2 ^ n")
    case True
    then show ?thesis
      using Suc by (simp add: Let_def nth_append)
  next
    case False
    define j where "j = k - 2 ^ n"
    have j: "k = 2 ^ n + j" "j < 2 ^ n"
      using False Suc.prems by (auto simp: j_def)
    show ?thesis
      using Suc.IH [of j] Suc.prems j(2)
      by (simp add: j(1) Let_def nth_append add_power_xor [of j n, simplified] lin)
  qed
qed

lemma crc_bits_8: "(crc_bit ^^ 8) c = crc_bit (crc_bit (crc_bit (crc_bit (crc_bit (crc_bit (crc_bit (crc_bit c)))))))"
  by (simp add: eval_nat_numeral)

lemma crc_bit_odd: "crc_bit c = (if odd c then drop_bit 1 c XOR 0xEDB88320 else drop_bit 1 c)"
  by (simp add: crc_bit_def bit_0)

lemma crc_bases:
  "(crc_bit ^^ 8) 1 = 0x77073096"
  "(crc_bit ^^ 8) 2 = 0xEE0E612C"
  "(crc_bit ^^ 8) 4 = 0x076DC419"
  "(crc_bit ^^ 8) 8 = 0x0EDB8832"
  "(crc_bit ^^ 8) 16 = 0x1DB71064"
  "(crc_bit ^^ 8) 32 = 0x3B6E20C8"
  "(crc_bit ^^ 8) 64 = 0x76DC4190"
  "(crc_bit ^^ 8) 128 = 0xEDB88320"
  unfolding crc_bits_8 by (simp_all only: crc_bit_odd) simp_all

lemma crc_table_bases: "map (\<lambda>j. (crc_bit ^^ 8) (2 ^ j)) (rev [0..<8]) =
  [0xEDB88320, 0x76DC4190, 0x3B6E20C8, 0x1DB71064, 0x0EDB8832, 0x076DC419, 0xEE0E612C, 0x77073096]"
  by (simp add: upt_rec crc_bases)

lemma crc_table_linear: "crc_table = linear_table [0xEDB88320, 0x76DC4190, 0x3B6E20C8, 0x1DB71064, 0x0EDB8832, 0x076DC419, 0xEE0E612C, 0x77073096]"
  by (simp add: crc_table_def Let_def)

lemma crc_table_nth: "k < 256 \<Longrightarrow> crc_table ! k = (crc_bit ^^ 8) (of_nat k)"
  using linear_table_nth [of "crc_bit ^^ 8" 8 k] by (simp add: crc_table_linear crc_table_bases crc_bits_xor crc_bits_0)

lemma bit_low_byte: "bit (0xFF :: int) n \<longleftrightarrow> n < 8"
proof -
  have "(0xFF :: int) = mask 8"
    by (simp add: mask_eq_exp_minus_1)
  moreover have "bit (mask 8 :: int) n \<longleftrightarrow> n < 8"
    unfolding bit_mask_iff by simp
  ultimately show ?thesis
    by (simp only:)
qed

lemma char_index: "(c XOR signed_take_bit 7 (ucast b)) AND 0xFF = (c XOR ucast (b :: u8)) AND (0xFF :: u32)"
proof (rule bit_word_eqI)
  fix n
  show "bit ((c XOR signed_take_bit 7 (ucast b)) AND 0xFF) n = bit ((c XOR ucast b) AND (0xFF :: u32)) n" if "n < LENGTH(32)"
  proof (cases "n < 8")
    case True
    then have "min n 7 = n" by simp
    then show ?thesis by (simp add: bit_simps)
  qed (simp add: bit_and_iff bit_low_byte)
qed

lemma crc32_step_byte: "crc32_step c b = crc_byte c b"
proof -
  define x where "x = c XOR (ucast b :: u32)"
  have idx: "unat (x AND 0xFF) < 256"
    using word_and_le1 [of x "0xFF"] by (simp add: word_le_nat_alt)
  have split: "x = (x AND NOT 0xFF) XOR (x AND 0xFF)"
    by (intro bit_word_eqI) (auto simp: bit_simps)
  have high: "(crc_bit ^^ 8) (x AND NOT 0xFF) = drop_bit 8 c"
  proof -
    have low: "\<not> bit (x AND NOT 0xFF) i" if "i < 8" for i
      using that by (simp add: bit_simps bit_low_byte)
    have "drop_bit 8 (x AND NOT 0xFF) = drop_bit 8 c"
    proof (rule bit_word_eqI)
      fix n
      have "\<not> bit b (8 + n)"
        by (auto dest: bit_imp_le_length)
      then have "bit (x AND NOT 0xFF) (8 + n) = bit c (8 + n)"
        using bit_imp_le_length [of c "8 + n"] by (auto simp: x_def bit_simps bit_low_byte)
      then show "bit (drop_bit 8 (x AND NOT 0xFF)) n = bit (drop_bit 8 c) n"
        by (simp only: bit_drop_bit_eq comp_def)
    qed
    then show ?thesis
      by (simp only: crc_bits_shift [OF low])
  qed
  have "crc_byte c b = (crc_bit ^^ 8) (x AND NOT 0xFF) XOR (crc_bit ^^ 8) (x AND 0xFF)"
    unfolding crc_byte_def x_def [symmetric] by (subst split) (rule crc_bits_xor)
  then have "crc_byte c b = drop_bit 8 c XOR (crc_bit ^^ 8) (x AND 0xFF)"
    by (simp only: high)
  then show ?thesis
    using crc_table_nth [OF idx] by (simp add: crc32_step_def char_index x_def [symmetric])
qed

text \<open>
  C18. The table driven checksum is the one of the bitwise shift register: over every buffer \<open>crc32\<close> returns
  what the CRC-32 with the reversed polynomial \<open>0xEDB88320\<close> computes one bit at a time.
\<close>

theorem crc32_is_reference: "crc32 buf len = crc_reference (take len buf)"
proof -
  have "crc32_step = crc_byte"
    by (intro ext) (rule crc32_step_byte)
  moreover have "(0xFFFFFFFF :: u32) = - 1"
    by simp
  ultimately show ?thesis
    unfolding crc32_def crc_reference_def by (simp only: bit.xor_one_right)
qed

section \<open>The prefix length of a network mask\<close>

definition mask_byte :: "nat \<Rightarrow> u8" where
  "mask_byte k = NOT (mask (8 - k))"

fun netmask :: "nat \<Rightarrow> nat \<Rightarrow> u8 list" where
  "netmask n 0 = []"
| "netmask n (Suc len) = mask_byte (min 8 n) # netmask (n - 8) len"

lemma count_mask_byte: "k < 8 \<Longrightarrow> mask_byte k \<noteq> 0xFF \<and> count_leading_ones (mask_byte k) = k"
proof -
  assume "k < 8"
  moreover have "\<forall>k \<in> set [0..<8]. mask_byte k \<noteq> 0xFF \<and> count_leading_ones (mask_byte k) = k"
    by code_simp
  ultimately show ?thesis by simp
qed

lemma mask_byte_8: "mask_byte 8 = 0xFF"
  by (simp add: mask_byte_def)

lemma count_ones_netmask: "n \<le> 8 * len \<Longrightarrow> count_ones_in_loop (netmask n len) lo = lo + n"
proof (induction n len arbitrary: lo rule: netmask.induct)
  case (2 n len)
  show ?case
  proof (cases "n < 8")
    case True
    then show ?thesis
      using count_mask_byte [OF True] by simp
  next
    case False
    then show ?thesis
      using 2 by (simp add: mask_byte_8)
  qed
qed simp

lemma length_netmask [simp]: "length (netmask n len) = len"
  by (induction n len rule: netmask.induct) simp_all

text \<open>
  C19. The prefix of an interface address is the number of ones of its network mask: for the mask of \<open>len\<close> bytes
  whose first \<open>n\<close> bits are one and whose other bits are zero \<open>count_leading_ones_in_buf\<close> returns \<open>n\<close>.
\<close>

theorem netmask_prefix_length:
  "n \<le> 8 * len \<Longrightarrow> count_leading_ones_in_buf (Some (netmask n len)) len = n"
  by (simp add: count_leading_ones_in_buf_def count_ones_netmask)

theorem netmask_prefix_length_witness:
  "netmask 20 4 = [0xFF, 0xFF, 0xF0, 0x00] \<and> count_leading_ones_in_buf (Some (netmask 20 4)) 4 = 20"
proof -
  have "netmask 20 4 = [0xFF, 0xFF, 0xF0, 0x00]"
    by code_simp
  then show ?thesis
    using netmask_prefix_length [of 20 4] by simp
qed

text \<open>On other bytes the function counts every one, not only the leading ones its name and comment speak of.\<close>

lemma count_leading_ones_counts_all: "count_leading_ones 0x01 = 1 \<and> count_leading_ones 0xA5 = 4"
  by code_simp

end
