(* ===== verification/Prx_Err.thy ===== *)
theory Prx_Err
  imports Prelude
begin

text \<open>
  The error codes of the proxy (\<open>inc/prx_err.h\<close>) and their names (\<open>src/prx_err.c\<close>). Every
  fallible operation of the sources returns an \<open>int32_t\<close> that is one of the enumerators below,
  so the model uses the enumeration as the result type and \<open>prx_error_code\<close> for the number
  that goes over the wire.
\<close>

datatype prx_error =
    er_unknown
  | er_fatal
  | er_arg
  | er_fault
  | er_bad_state
  | er_out_of_memory
  | er_already_exists
  | er_not_found
  | er_not_supported
  | er_not_impl
  | er_permission
  | er_retry
  | er_nomore
  | er_network
  | er_connecting
  | er_busy
  | er_writing
  | er_reading
  | er_waiting
  | er_timeout
  | er_aborted
  | er_closed
  | er_shutdown
  | er_refused
  | er_no_address
  | er_no_host
  | er_host_unknown
  | er_address_family
  | er_reserved2
  | er_bad_flags
  | er_invalid_format
  | er_disk_io
  | er_reserved1
  | er_prop_get
  | er_prop_set
  | er_reset
  | er_undelivered
  | er_crypto
  | er_comm
  | er_ok

text \<open>
  The value the compiler gives each enumerator: the first one is written in the header, every
  further one is its predecessor plus one, and \<open>er_ok\<close> is set to zero.
\<close>

fun prx_error_code :: "prx_error \<Rightarrow> int" where
  "prx_error_code er_unknown = -1001"
| "prx_error_code er_fatal = -1000"
| "prx_error_code er_arg = -999"
| "prx_error_code er_fault = -998"
| "prx_error_code er_bad_state = -997"
| "prx_error_code er_out_of_memory = -996"
| "prx_error_code er_already_exists = -995"
| "prx_error_code er_not_found = -994"
| "prx_error_code er_not_supported = -993"
| "prx_error_code er_not_impl = -992"
| "prx_error_code er_permission = -991"
| "prx_error_code er_retry = -990"
| "prx_error_code er_nomore = -989"
| "prx_error_code er_network = -988"
| "prx_error_code er_connecting = -987"
| "prx_error_code er_busy = -986"
| "prx_error_code er_writing = -985"
| "prx_error_code er_reading = -984"
| "prx_error_code er_waiting = -983"
| "prx_error_code er_timeout = -982"
| "prx_error_code er_aborted = -981"
| "prx_error_code er_closed = -980"
| "prx_error_code er_shutdown = -979"
| "prx_error_code er_refused = -978"
| "prx_error_code er_no_address = -977"
| "prx_error_code er_no_host = -976"
| "prx_error_code er_host_unknown = -975"
| "prx_error_code er_address_family = -974"
| "prx_error_code er_reserved2 = -973"
| "prx_error_code er_bad_flags = -972"
| "prx_error_code er_invalid_format = -971"
| "prx_error_code er_disk_io = -970"
| "prx_error_code er_reserved1 = -969"
| "prx_error_code er_prop_get = -968"
| "prx_error_code er_prop_set = -967"
| "prx_error_code er_reset = -966"
| "prx_error_code er_undelivered = -965"
| "prx_error_code er_crypto = -964"
| "prx_error_code er_comm = -963"
| "prx_error_code er_ok = 0"

definition prx_err_string :: "int \<Rightarrow> string" where
  "prx_err_string error = (
    if error = prx_error_code er_unknown then ''er_unknown''
    else if error = prx_error_code er_fatal then ''er_fatal''
    else if error = prx_error_code er_arg then ''er_arg''
    else if error = prx_error_code er_fault then ''er_fault''
    else if error = prx_error_code er_bad_state then ''er_bad_state''
    else if error = prx_error_code er_out_of_memory then ''er_out_of_memory''
    else if error = prx_error_code er_already_exists then ''er_already_exists''
    else if error = prx_error_code er_not_found then ''er_not_found''
    else if error = prx_error_code er_not_supported then ''er_not_supported''
    else if error = prx_error_code er_not_impl then ''er_not_impl''
    else if error = prx_error_code er_permission then ''er_permission''
    else if error = prx_error_code er_retry then ''er_retry''
    else if error = prx_error_code er_nomore then ''er_nomore''
    else if error = prx_error_code er_network then ''er_network''
    else if error = prx_error_code er_connecting then ''er_connecting''
    else if error = prx_error_code er_busy then ''er_busy''
    else if error = prx_error_code er_writing then ''er_writing''
    else if error = prx_error_code er_reading then ''er_reading''
    else if error = prx_error_code er_waiting then ''er_waiting''
    else if error = prx_error_code er_timeout then ''er_timeout''
    else if error = prx_error_code er_aborted then ''er_aborted''
    else if error = prx_error_code er_closed then ''er_closed''
    else if error = prx_error_code er_shutdown then ''er_shutdown''
    else if error = prx_error_code er_refused then ''er_refused''
    else if error = prx_error_code er_no_address then ''er_no_address''
    else if error = prx_error_code er_no_host then ''er_no_host''
    else if error = prx_error_code er_host_unknown then ''er_host_unknown''
    else if error = prx_error_code er_address_family then ''er_address_family''
    else if error = prx_error_code er_reserved2 then ''er_reserved2''
    else if error = prx_error_code er_bad_flags then ''er_bad_flags''
    else if error = prx_error_code er_invalid_format then ''er_invalid_format''
    else if error = prx_error_code er_disk_io then ''er_disk_io''
    else if error = prx_error_code er_reserved1 then ''er_reserved1''
    else if error = prx_error_code er_prop_get then ''er_prop_get''
    else if error = prx_error_code er_prop_set then ''er_prop_set''
    else if error = prx_error_code er_reset then ''er_reset''
    else if error = prx_error_code er_crypto then ''er_crypto''
    else if error = prx_error_code er_comm then ''er_comm''
    else if error = prx_error_code er_undelivered then ''er_undelivered''
    else if error = prx_error_code er_ok then ''er_ok''
    else ''<unknown>'')"

text \<open>The enumerators are distinct numbers, and zero is the only success.\<close>

lemma prx_error_code_inj [simp]: "(prx_error_code a = prx_error_code b) = (a = b)"
  by (cases a; cases b; simp)

lemma prx_error_code_ok [simp]: "(prx_error_code a = 0) = (a = er_ok)"
  by (cases a; simp)

lemma prx_error_code_range: "- 1001 \<le> prx_error_code a \<and> prx_error_code a \<le> 0"
  by (cases a) simp_all

text \<open>
  The outcome of an operation that produces a value: the value, one of the codes, or a memory
  access outside the object it was meant for, after which the C program has no defined behaviour.
\<close>

datatype 'a res = Ok 'a | Err prx_error | Crash

end
