(* ===== verification/Util_String.thy ===== *)
theory Util_String
  imports Prelude Prx_Err
begin

text \<open>
  The string utilities of \<open>src/util_string.c\<close>. A string is the list of its bytes before the terminating
  NUL, a null pointer is \<^const>\<open>None\<close>, and a pointer into a string is the offset or the rest of the
  string. Functions that write to memory whose size they computed themselves can end in \<^const>\<open>Crash\<close>.
\<close>

section \<open>Characters\<close>

definition str :: "string \<Rightarrow> cstr" where
  "str s = map of_char s"

definition to_lower :: "u8 \<Rightarrow> u8" where
  "to_lower b = (if 65 \<le> b \<and> b \<le> 90 then b + 32 else b)"

section \<open>Comparison and search\<close>

definition string_is_equal :: "u8 list option \<Rightarrow> nat \<Rightarrow> cstr option \<Rightarrow> bool" where
  "string_is_equal val len to = (case val of
     None \<Rightarrow> to = None
   | Some v \<Rightarrow> (case to of None \<Rightarrow> False | Some t \<Rightarrow> len = length t \<and> take len v = t))"

definition string_is_equal_nocase :: "u8 list option \<Rightarrow> nat \<Rightarrow> cstr option \<Rightarrow> bool" where
  "string_is_equal_nocase val len to = (case val of
     None \<Rightarrow> to = None
   | Some v \<Rightarrow> (case to of None \<Rightarrow> False
       | Some t \<Rightarrow> len = length t \<and> map to_lower (take len v) = map to_lower t))"

definition string_starts_with_nocase :: "cstr option \<Rightarrow> cstr option \<Rightarrow> bool" where
  "string_starts_with_nocase val to_find = (case (val, to_find) of
     (Some v, Some f) \<Rightarrow>
       if length v < length f then False else string_is_equal_nocase val (length f) to_find
   | _ \<Rightarrow> False)"

text \<open>\<open>strcmp\<close> and \<open>strcasecmp\<close>: the sign of the first difference, a prefix being smaller.\<close>

fun c_strcmp :: "cstr \<Rightarrow> cstr \<Rightarrow> int" where
  "c_strcmp [] [] = 0"
| "c_strcmp [] (b # bs) = -1"
| "c_strcmp (a # as) [] = 1"
| "c_strcmp (a # as) (b # bs) = (if a = b then c_strcmp as bs else if a < b then -1 else 1)"

definition string_compare :: "cstr option \<Rightarrow> cstr option \<Rightarrow> int" where
  "string_compare val to = (case val of
     None \<Rightarrow> -1
   | Some v \<Rightarrow> (case to of None \<Rightarrow> 1 | Some t \<Rightarrow> c_strcmp v t))"

definition string_compare_nocase :: "cstr option \<Rightarrow> cstr option \<Rightarrow> int" where
  "string_compare_nocase val to = (case val of
     None \<Rightarrow> -1
   | Some v \<Rightarrow> (case to of None \<Rightarrow> 1 | Some t \<Rightarrow> c_strcmp (map to_lower v) (map to_lower t)))"

text \<open>The search loop: the offset of the first match from \<open>pos\<close> on.\<close>

fun find_loop :: "(u8 list \<Rightarrow> bool) \<Rightarrow> nat \<Rightarrow> nat \<Rightarrow> cstr \<Rightarrow> nat option" where
  "find_loop match find_len pos s = (
     if find_len \<le> length s
     then if match s then Some pos
          else (case s of [] \<Rightarrow> None | _ # rest \<Rightarrow> find_loop match find_len (pos + 1) rest)
     else None)"

declare find_loop.simps [simp del]

definition string_find :: "cstr option \<Rightarrow> cstr option \<Rightarrow> nat option" where
  "string_find value to_find = (case (value, to_find) of
     (Some v, Some f) \<Rightarrow>
       if v = [] \<or> f = [] then None
       else find_loop (\<lambda>s. string_is_equal (Some s) (length f) (Some f)) (length f) 0 v
   | _ \<Rightarrow> None)"

definition string_find_nocase :: "cstr option \<Rightarrow> cstr option \<Rightarrow> nat option" where
  "string_find_nocase value to_find = (case (value, to_find) of
     (Some v, Some f) \<Rightarrow>
       if v = [] \<or> f = [] then None
       else find_loop (\<lambda>s. string_is_equal_nocase (Some s) (length f) (Some f)) (length f) 0 v
   | _ \<Rightarrow> None)"

section \<open>Removal and trimming\<close>

text \<open>
  \<open>string_remove_nocase\<close> works on the memory of the string with its terminator. The moved block is
  \<open>val_len\<close> bytes long wherever the match is, so it can reach beyond the memory.
\<close>

function remove_loop :: "cstr \<Rightarrow> nat \<Rightarrow> nat \<Rightarrow> nat \<Rightarrow> u8 list \<Rightarrow> (nat \<times> u8 list) res" where
  "remove_loop to_find remain next val_len mem = (
     if 0 < length to_find \<and> length to_find \<le> remain
     then if string_is_equal_nocase (Some (drop next mem)) (length to_find) (Some to_find)
          then let val_len = size_sub val_len (length to_find)
               in if length mem < next + length to_find + val_len then Crash
                  else remove_loop to_find (remain - 1) next val_len
                         (mem_put mem next (mem_get mem (next + length to_find) val_len) val_len)
          else remove_loop to_find (remain - 1) (next + 1) val_len mem
     else Ok (val_len, mem))"
  by pat_completeness auto
termination by (relation "measure (\<lambda>(to_find, remain, next, val_len, mem). remain)") (auto simp del: length_greater_0_conv)

declare remove_loop.simps [simp del]

definition string_remove_nocase :: "u8 list option \<Rightarrow> cstr option \<Rightarrow> u8 list option res" where
  "string_remove_nocase value to_find = (case (value, to_find) of
     (Some mem, Some f) \<Rightarrow>
       let val_len = length (takeWhile (\<lambda>b. b \<noteq> 0) mem)
       in if val_len = 0 \<or> f = [] then Ok value
          else (case remove_loop f val_len 0 val_len mem of
             Ok (val_len, mem) \<Rightarrow> if val_len < length mem then Ok (Some (mem[val_len := 0])) else Crash
           | Err e \<Rightarrow> Err e
           | Crash \<Rightarrow> Crash)
   | _ \<Rightarrow> Ok value)"

text \<open>
  \<open>sizeof(delim)\<close> is the size of a pointer. Result: the offset of the returned pointer and \<open>*name_len\<close>.
\<close>

definition SIZEOF_POINTER :: nat where
  "SIZEOF_POINTER = 8"

function trim_scheme_loop :: "u8 list \<Rightarrow> nat \<Rightarrow> nat \<Rightarrow> nat \<times> nat" where
  "trim_scheme_loop host_name name_len i = (
     if i < name_len - SIZEOF_POINTER
     then if host_name ! i = 58 \<and> host_name ! (i + 1) = 47 \<and> host_name ! (i + 2) = 47
          then (i + 3, name_len - (i + 3))
          else trim_scheme_loop host_name name_len (i + 1)
     else (0, name_len))"
  by pat_completeness auto
termination by (relation "measure (\<lambda>(h, n, i). n - i)") auto

declare trim_scheme_loop.simps [simp del]

definition string_trim_scheme :: "u8 list option \<Rightarrow> nat option \<Rightarrow> (nat \<times> nat) option" where
  "string_trim_scheme host_name name_len = (case host_name of
     None \<Rightarrow> None
   | Some h \<Rightarrow> (
       let len = (case name_len of None \<Rightarrow> length h | Some n \<Rightarrow> n)
       in if len < SIZEOF_POINTER then Some (0, len) else Some (trim_scheme_loop h len 0)))"

text \<open>The inner loop over the characters to trim is the search for the character in them.\<close>

fun trim_back_loop :: "u8 list \<Rightarrow> nat \<Rightarrow> cstr \<Rightarrow> nat" where
  "trim_back_loop v 0 t = 0"
| "trim_back_loop v (Suc n) t = (if v ! n \<in> set t then trim_back_loop v n t else Suc n)"

definition string_trim_back_len :: "u8 list option \<Rightarrow> nat \<Rightarrow> cstr option \<Rightarrow> nat" where
  "string_trim_back_len val len trim_chars = (case val of
     None \<Rightarrow> 0
   | Some v \<Rightarrow> (case trim_chars of None \<Rightarrow> len | Some t \<Rightarrow> trim_back_loop v len t))"

definition string_trim_front :: "cstr option \<Rightarrow> cstr option \<Rightarrow> cstr option" where
  "string_trim_front val trim_chars = (case (val, trim_chars) of
     (Some v, Some t) \<Rightarrow> Some (dropWhile (\<lambda>b. b \<in> set t) v)
   | _ \<Rightarrow> val)"

definition string_trim_back :: "cstr option \<Rightarrow> cstr option \<Rightarrow> cstr option" where
  "string_trim_back val trim_chars = (case (val, trim_chars) of
     (Some v, Some t) \<Rightarrow>
       if v = [] then val else Some (take (string_trim_back_len val (length v) trim_chars) v)
   | _ \<Rightarrow> val)"

definition string_trim :: "cstr option \<Rightarrow> cstr option \<Rightarrow> cstr option" where
  "string_trim val trim_chars = string_trim_back (string_trim_front val trim_chars) trim_chars"

section \<open>Key value parser\<close>

text \<open>The visitor gets the key and the value and works on its context.\<close>

function key_value_loop ::
  "('c \<Rightarrow> cstr \<Rightarrow> cstr \<Rightarrow> prx_error \<times> 'c) \<Rightarrow> u8 \<Rightarrow> cstr \<Rightarrow> 'c \<Rightarrow> prx_error \<times> 'c" where
  "key_value_loop visitor delim s c = (
     let key = takeWhile (\<lambda>b. b \<noteq> 61) s; rest = dropWhile (\<lambda>b. b \<noteq> 61) s
     in if rest = [] \<or> tl rest = [] then visitor c key []
        else let val = takeWhile (\<lambda>b. b \<noteq> delim) (tl rest); rest = dropWhile (\<lambda>b. b \<noteq> delim) (tl rest);
                 (result, c) = visitor c key val
             in if result \<noteq> er_ok then (result, c)
                else if rest = [] \<or> tl rest = [] then (result, c)
                else key_value_loop visitor delim (tl rest) c)"
  by pat_completeness auto
termination
proof (relation "measure (\<lambda>(v, d, s, c). length s)", goal_cases)
  case 1
  then show ?case by simp
next
  case (2 visitor delim s c key rest val rest' r result c')
  have "length rest \<le> length s"
    using 2(2) by (simp add: length_dropWhile_le)
  moreover have "length rest' \<le> length (tl rest)"
    using 2(5) length_dropWhile_le [of _ "tl rest"] by blast
  moreover have "rest \<noteq> []"
    using 2(3) by blast
  ultimately have "length (tl rest') < length s"
    by (cases rest) auto
  then show ?case by simp
qed

declare key_value_loop.simps [simp del]

definition string_key_value_parser ::
  "cstr option \<Rightarrow> ('c \<Rightarrow> cstr \<Rightarrow> cstr \<Rightarrow> prx_error \<times> 'c) option \<Rightarrow> u8 \<Rightarrow> 'c \<Rightarrow> prx_error \<times> 'c" where
  "string_key_value_parser s visitor delim c = (case (s, visitor) of
     (Some s, Some visitor) \<Rightarrow> key_value_loop visitor delim s c
   | _ \<Rightarrow> (er_fault, c))"

section \<open>Base 16 and uuids\<close>

definition hex_digit :: "u8 \<Rightarrow> u8" where
  "hex_digit c = (if c < 10 then 48 + c else (97 + c) - 10)"

definition hex_value :: "u8 \<Rightarrow> u8 option" where
  "hex_value c = (
     if 48 \<le> c \<and> c \<le> 57 then Some (c - 48)
     else if 97 \<le> c \<and> c \<le> 102 then Some (10 + (c - 97))
     else if 65 \<le> c \<and> c \<le> 70 then Some (10 + (c - 65))
     else None)"

definition byte_to_string :: "u8 \<Rightarrow> u8 list" where
  "byte_to_string b = [hex_digit (drop_bit 4 (b AND 0xf0)), hex_digit (b AND 0x0f)]"

definition string_from_buf :: "u8 list \<Rightarrow> nat \<Rightarrow> bool \<Rightarrow> u8 list" where
  "string_from_buf buf len swap = (
     let len = len div 2
     in concat (map (\<lambda>i. byte_to_string (buf ! i)) (if swap then rev [0..<len] else [0..<len])))"

text \<open>
  The bytes are stored as they are parsed, so a failure leaves the buffer partly written. The
  terminating NUL is no digit.
\<close>

fun string_to_bytes :: "nat list \<Rightarrow> cstr \<Rightarrow> u8 list \<Rightarrow> prx_error \<times> u8 list" where
  "string_to_bytes [] s buf = (er_ok, buf)"
| "string_to_bytes (i # is) s buf = (case s of
     [] \<Rightarrow> (er_invalid_format, buf)
   | c # s \<Rightarrow> (case hex_value c of
       None \<Rightarrow> (er_invalid_format, buf)
     | Some h \<Rightarrow> (
         let buf = buf[i := push_bit 4 h]
         in case s of
              [] \<Rightarrow> (er_invalid_format, buf)
            | c # s \<Rightarrow> (case hex_value c of
                None \<Rightarrow> (er_invalid_format, buf)
              | Some l \<Rightarrow> string_to_bytes is s (buf[i := (buf ! i) OR l])))))"

definition string_to_buf :: "cstr \<Rightarrow> u8 list \<Rightarrow> nat \<Rightarrow> bool \<Rightarrow> prx_error \<times> u8 list" where
  "string_to_buf s buf len swap = string_to_bytes (if swap then rev [0..<len] else [0..<len]) s buf"

text \<open>
  \<open>string_base16_to_byte_array\<close>: \<open>buffer\<close> is the caller's buffer or null, \<open>alloc_ok\<close> whether the allocation
  succeeds. The last component tells whether the buffer handed back was freed.
\<close>

definition string_base16_to_byte_array ::
  "bool \<Rightarrow> cstr option \<Rightarrow> u8 list option \<Rightarrow> nat \<Rightarrow> prx_error \<times> u8 list option \<times> nat \<times> bool" where
  "string_base16_to_byte_array alloc_ok val buffer len = (case val of
     None \<Rightarrow> (er_fault, buffer, len, False)
   | Some v \<Rightarrow> (
       let min_len = length v div 2
       in if min_len = 0 then (er_arg, buffer, len, False)
          else if len \<noteq> 0 \<and> len < min_len then (er_fault, buffer, len, False)
          else let buffer = (if buffer = None \<or> len = 0
                             then (if alloc_ok then Some (replicate min_len 0) else None) else buffer)
               in case buffer of
                    None \<Rightarrow> (er_out_of_memory, None, min_len, False)
                  | Some buf \<Rightarrow> (
                      let (result, buf) = string_to_buf v buf min_len False
                      in if result = er_ok then (er_ok, Some buf, min_len, False)
                         else (result, Some buf, min_len, True))))"

definition UUID_PRINTABLE_STRING_LENGTH :: nat where
  "UUID_PRINTABLE_STRING_LENGTH = 37"

text \<open>A section of a uuid at offset \<open>at\<close>, followed by the dash unless it is the last one.\<close>

definition uuid_section :: "nat \<Rightarrow> nat \<Rightarrow> bool \<Rightarrow> bool \<Rightarrow> cstr \<Rightarrow> u8 list \<Rightarrow> prx_error \<times> cstr \<times> u8 list" where
  "uuid_section at n swap dash s uuid = (
     let (result, part) = string_to_buf s (drop at uuid) n swap;
         uuid = take at uuid @ part; s' = drop (2 * n) s
     in if result \<noteq> er_ok then (result, s, uuid)
        else if dash then (if s' = [] \<or> hd s' \<noteq> 45 then (er_invalid_format, s, uuid) else (er_ok, tl s', uuid))
        else (er_ok, s', uuid))"

definition string_to_uuid :: "cstr option \<Rightarrow> u8 list option \<Rightarrow> prx_error \<times> u8 list option" where
  "string_to_uuid string uuid = (case (string, uuid) of
     (Some s, Some u) \<Rightarrow>
       if length s + 1 < UUID_PRINTABLE_STRING_LENGTH then (er_arg, uuid)
       else let (r, s, u) = uuid_section 0 4 True True s u in if r \<noteq> er_ok then (r, Some u)
       else let (r, s, u) = uuid_section 4 2 True True s u in if r \<noteq> er_ok then (r, Some u)
       else let (r, s, u) = uuid_section 6 2 True True s u in if r \<noteq> er_ok then (r, Some u)
       else let (r, s, u) = uuid_section 8 2 False True s u in if r \<noteq> er_ok then (r, Some u)
       else let (r, s, u) = uuid_section 10 6 False False s u in (r, Some u)
   | _ \<Rightarrow> (er_fault, uuid))"

text \<open>The string written to a buffer of \<open>len\<close> bytes; it takes one more for the NUL.\<close>

definition string_from_uuid :: "u8 list option \<Rightarrow> bool \<Rightarrow> nat \<Rightarrow> prx_error \<times> cstr option" where
  "string_from_uuid uuid string_given len = (case uuid of
     None \<Rightarrow> (er_fault, None)
   | Some u \<Rightarrow>
       if \<not> string_given then (er_fault, None)
       else if len < UUID_PRINTABLE_STRING_LENGTH then (er_arg, None)
       else (er_ok, Some (
         string_from_buf u 8 True @ [45] @
         string_from_buf (drop 4 u) 4 True @ [45] @
         string_from_buf (drop 6 u) 4 True @ [45] @
         string_from_buf (drop 8 u) 4 False @ [45] @
         string_from_buf (drop 10 u) 12 False)))"

text \<open>\<open>STRING_construct_base16\<close> and \<open>STRING_construct_utf8\<close>, up to the allocation.\<close>

definition STRING_construct_base16 :: "bool \<Rightarrow> u8 list option \<Rightarrow> nat \<Rightarrow> cstr option" where
  "STRING_construct_base16 alloc_ok buf len = (case buf of
     None \<Rightarrow> None
   | Some b \<Rightarrow> if len = 0 \<or> \<not> alloc_ok then None else Some (string_from_buf b (2 * len) False))"

definition utf8_char :: "u8 \<Rightarrow> u8 list" where
  "utf8_char b = (if b \<le> 0x7f then [b] else [push_bit 6 0xff OR drop_bit 6 b, 0x80 OR (b AND 0x3f)])"

definition STRING_construct_utf8 :: "bool \<Rightarrow> u8 list option \<Rightarrow> nat \<Rightarrow> cstr option" where
  "STRING_construct_utf8 alloc_ok buf buf_len = (case buf of
     None \<Rightarrow> None
   | Some b \<Rightarrow> if buf_len = 0 \<or> \<not> alloc_ok then None else Some (concat (map utf8_char (take buf_len b))))"

section \<open>Range lists\<close>

text \<open>
  \<open>strtol\<close> in base 10: the value, saturated to \<open>long\<close>, and the number of characters consumed, which
  is 0 when there is no number.
\<close>

definition is_space :: "u8 \<Rightarrow> bool" where
  "is_space b \<longleftrightarrow> b = 32 \<or> (9 \<le> b \<and> b \<le> 13)"

definition is_digit :: "u8 \<Rightarrow> bool" where
  "is_digit b \<longleftrightarrow> 48 \<le> b \<and> b \<le> 57"

definition digits_value :: "u8 list \<Rightarrow> int" where
  "digits_value ds = foldl (\<lambda>v d. 10 * v + (uint d - 48)) 0 ds"

definition c_strtol :: "cstr \<Rightarrow> int \<times> nat" where
  "c_strtol s = (
     let ws = takeWhile is_space s; s1 = drop (length ws) s;
         sign = (if s1 \<noteq> [] \<and> (hd s1 = 45 \<or> hd s1 = 43) then 1 else 0);
         ds = takeWhile is_digit (drop sign s1);
         v = (if sign = 1 \<and> hd s1 = 45 then - digits_value ds else digits_value ds)
     in if ds = [] then (0, 0)
        else (max (- (2 ^ 63)) (min (2 ^ 63 - 1) v), length ws + sign + length ds))"

definition int32_of :: "int \<Rightarrow> int" where
  "int32_of v = (v + 2 ^ 31) mod 2 ^ 32 - 2 ^ 31"

text \<open>
  One item: \<open>low\<close>, \<open>high\<close>, whether a number was found, and the rest of the string from \<open>ptr\<close> on;
  \<^const>\<open>None\<close> when a dash has no number behind it.
\<close>

definition range_one :: "cstr \<Rightarrow> (int \<times> int \<times> bool \<times> cstr) option" where
  "range_one s = (
     let (v, n) = c_strtol s; low = int32_of v; ptr = drop n s
     in if ptr \<noteq> [] \<and> hd ptr = 45
        then let (w, k) = c_strtol (tl ptr)
             in if k = 0 then None else Some (low, int32_of w, True, drop k (tl ptr))
        else Some (low, low, 0 < n, ptr))"

text \<open>
  One pass over the list. \<open>cap\<close> is the number of pairs allocated when the pass fills the list; the first
  pass only counts. A pair that does not fit the allocation is written out of bounds.
\<close>

function range_pass :: "nat option \<Rightarrow> cstr \<Rightarrow> nat \<Rightarrow> (int \<times> int) list \<Rightarrow> (nat \<times> (int \<times> int) list) res" where
  "range_pass cap s index tuples = (case range_one s of
     None \<Rightarrow> Err er_invalid_format
   | Some (low, high, found, ptr) \<Rightarrow>
       if cap \<noteq> None \<and> the cap \<le> length tuples then Crash
       else let tuples = (if cap = None then tuples
                          else tuples @ [(if high > low then low else high, if high > low then high else low)]);
                index = (if found then index + 1 else index)
            in if ptr = [] then Ok (index, tuples)
               else if hd ptr = 32
               then (if dropWhile (\<lambda>b. b = 32) ptr = [] then Ok (index, tuples) else Err er_invalid_format)
               else if hd ptr \<noteq> 59 \<or> \<not> found then Err er_invalid_format
               else range_pass cap (tl ptr) index tuples)"
  by pat_completeness auto
termination
proof (relation "measure (\<lambda>(cap, s, index, tuples). length s)", goal_cases)
  case 1
  then show ?case by simp
next
  case (2 cap s index tuples a low b high c found ptr)
  have "length ptr \<le> length s"
    using 2 by (auto simp: range_one_def Let_def split: prod.splits if_splits)
  then show ?case
    using 2 by (cases ptr) auto
qed

declare range_pass.simps [simp del]

text \<open>Without \<open>tuples\<close> and \<open>len\<close> the list is only validated; \<open>alloc_ok\<close> says whether the allocation succeeds.\<close>

definition string_parse_range_list ::
  "bool \<Rightarrow> cstr option \<Rightarrow> bool \<Rightarrow> bool \<Rightarrow> (int \<times> int) list option res" where
  "string_parse_range_list alloc_ok range_string tuples_given len_given = (case range_string of
     None \<Rightarrow> Err er_fault
   | Some s \<Rightarrow>
       if tuples_given \<noteq> len_given then Err er_fault
       else (case range_pass None s 0 [] of
          Err e \<Rightarrow> Err e
        | Crash \<Rightarrow> Crash
        | Ok (index, _) \<Rightarrow>
            if \<not> tuples_given then Ok None
            else if index = 0 then Ok (Some [])
            else if \<not> alloc_ok then Err er_out_of_memory
            else (case range_pass (Some index) s 0 [] of
               Err e \<Rightarrow> Err e
             | Crash \<Rightarrow> Crash
             | Ok (_, tuples) \<Rightarrow> Ok (Some tuples))))"

section \<open>Service names\<close>

text \<open>Characters go to the buffer as long as one byte stays free for the NUL.\<close>

fun put_chars :: "cstr \<Rightarrow> cstr \<times> nat \<Rightarrow> (cstr \<times> nat) option" where
  "put_chars [] st = Some st"
| "put_chars (c # cs) (out, full_size) = (if full_size - 1 = 0 then None else put_chars cs (out @ [c], full_size - 1))"

definition put_if :: "bool \<Rightarrow> cstr \<Rightarrow> cstr \<times> nat \<Rightarrow> (cstr \<times> nat) option" where
  "put_if b cs st = (if b then put_chars cs st else Some st)"

definition ends_with_dot :: "cstr \<Rightarrow> bool" where
  "ends_with_dot s \<longleftrightarrow> s \<noteq> [] \<and> last s = 46"

definition given :: "cstr option \<Rightarrow> bool" where
  "given s \<longleftrightarrow> s \<noteq> None \<and> s \<noteq> Some []"

definition string_copy_service_full_name ::
  "cstr option \<Rightarrow> cstr option \<Rightarrow> cstr option \<Rightarrow> bool \<Rightarrow> nat \<Rightarrow> prx_error \<times> cstr option" where
  "string_copy_service_full_name service_name service_type domain full_name_given full_size = (
     if \<not> full_name_given then (er_fault, None)
     else if service_name \<noteq> None \<and> domain \<noteq> None \<and> service_type = None then (er_arg, None)
     else if full_size \<le> 1 then (er_arg, None)
     else let domain = (if (service_name \<noteq> None \<or> service_type \<noteq> None) \<and> domain = None then Some (str ''local'') else domain)
     in case put_if (given service_name) (the service_name @ [46]) ([], full_size) of
          None \<Rightarrow> (er_fault, None)
        | Some st \<Rightarrow> (case put_if (given service_type)
              (the service_type @ (if ends_with_dot (the service_type) then [] else [46])) st of
            None \<Rightarrow> (er_fault, None)
          | Some st \<Rightarrow> (case put_if (given domain) (the domain) st of
              None \<Rightarrow> (er_fault, None)
            | Some (out, _) \<Rightarrow>
                let trailing_dot = (if given domain then ends_with_dot (the domain) else given service_name \<or> given service_type)
                in (er_ok, Some (if trailing_dot then butlast out else out)))))"

text \<open>The first dot from offset \<open>i\<close> on whose successor satisfies \<open>p\<close>.\<close>

fun dot_before :: "(u8 \<Rightarrow> bool) \<Rightarrow> nat \<Rightarrow> cstr \<Rightarrow> nat option" where
  "dot_before p i (a # b # rest) = (if a = 46 \<and> p b then Some i else dot_before p (i + 1) (b # rest))"
| "dot_before p i s = None"

definition string_parse_service_full_name ::
  "cstr option \<Rightarrow> prx_error \<times> cstr option \<times> cstr option \<times> cstr option" where
  "string_parse_service_full_name full_name = (case full_name of
     None \<Rightarrow> (er_fault, None, None, None)
   | Some f \<Rightarrow> (
       let s = the (string_trim_back (Some f) (Some [46]));
           parse_type = (\<lambda>name t. case dot_before (\<lambda>b. b \<noteq> 95) 1 (tl t) of
               Some j \<Rightarrow> (er_ok, name, Some (take j t), Some (drop (j + 1) t))
             | None \<Rightarrow> (er_ok, name, Some t, Some (str ''local'')))
       in if s = [] then (er_ok, None, None, None)
          else if hd s = 95 then parse_type None s
          else case dot_before (\<lambda>b. b = 95) 1 (tl s) of
                 None \<Rightarrow> (er_ok, None, None, Some s)
               | Some i \<Rightarrow> parse_type (Some (take i s)) (drop (i + 1) s)))"

section \<open>Trimming\<close>

lemma trim_back_loop_take:
  "n \<le> length v \<Longrightarrow> take (trim_back_loop v n t) v = rev (dropWhile (\<lambda>b. b \<in> set t) (rev (take n v)))"
  by (induction n) (simp_all add: take_Suc_conv_app_nth)

text \<open>Trimming the back is trimming the front of the reversed string.\<close>

lemma string_trim_back_rev:
  "string_trim_back (Some v) (Some t) = Some (rev (dropWhile (\<lambda>b. b \<in> set t) (rev v)))"
  by (simp add: string_trim_back_def string_trim_back_len_def trim_back_loop_take)

lemma dropWhile_rev_last: "v \<noteq> [] \<Longrightarrow> last v \<notin> set t \<Longrightarrow> rev (dropWhile (\<lambda>b. b \<in> set t) (rev v)) = v"
  by (cases v rule: rev_cases) auto

section \<open>Uuids: printing and parsing\<close>

lemma hex_value_digit:
  assumes "k < 16"
  shows "hex_value (hex_digit (of_nat k)) = Some (of_nat k)"
proof -
  have "k = 0 \<or> k = 1 \<or> k = 2 \<or> k = 3 \<or> k = 4 \<or> k = 5 \<or> k = 6 \<or> k = 7 \<or> k = 8 \<or> k = 9 \<or>
    k = 10 \<or> k = 11 \<or> k = 12 \<or> k = 13 \<or> k = 14 \<or> k = 15"
    using assms by presburger
  then show ?thesis
    by (elim disjE) (simp_all add: hex_value_def hex_digit_def)
qed

lemma nibble_of_nat: "\<exists>k < 16. take_bit 4 (b :: u8) = of_nat k"
proof -
  have "unat (take_bit 4 b) = take_bit 4 (unat b)"
    by (simp add: unsigned_take_bit_eq)
  then have "unat (take_bit 4 b) < 16"
    by (simp add: take_bit_nat_less_exp [of 4, simplified])
  then show ?thesis
    by (metis of_nat_unat ucast_id)
qed

lemma print_byte:
  obtains c d h l where "byte_to_string b = [c, d]" "hex_value c = Some h" "hex_value d = Some l" "push_bit 4 h OR l = b"
proof -
  have lo: "b AND 0x0f = take_bit 4 b"
    by (simp add: take_bit_eq_mask mask_eq_exp_minus_1)
  have m: "(0xf0 :: u8) = push_bit 4 (mask 4)"
    by (simp add: mask_eq_exp_minus_1)
  have hi: "drop_bit 4 (b AND 0xf0) = take_bit 4 (drop_bit 4 b)"
    unfolding m by (rule bit_word_eqI) (auto simp: bit_simps)
  obtain k where k: "k < 16" "take_bit 4 (drop_bit 4 b) = of_nat k"
    using nibble_of_nat by blast
  obtain j where j: "j < 16" "take_bit 4 b = of_nat j"
    using nibble_of_nat by blast
  have "push_bit 4 (take_bit 4 (drop_bit 4 b)) OR take_bit 4 b = b"
    by (rule bit_word_eqI) (auto simp: bit_simps)
  then show ?thesis
    using that [of "hex_digit (of_nat k)" "hex_digit (of_nat j)" "of_nat k" "of_nat j"]
      hex_value_digit [OF k(1)] hex_value_digit [OF j(1)] hi lo k j
    unfolding byte_to_string_def by (metis (no_types))
qed

text \<open>Parsing the printed bytes stores them at the given places.\<close>

lemma string_to_bytes_print:
  assumes "\<forall>i \<in> set is. i < length buf"
  shows "string_to_bytes is (concat (map (\<lambda>i. byte_to_string (bs ! i)) is) @ rest) buf
    = (er_ok, fold (\<lambda>i buf. buf[i := bs ! i]) is buf)"
  using assms
proof (induction "is" arbitrary: buf)
  case (Cons i "is")
  obtain c d h l where "byte_to_string (bs ! i) = [c, d]" "hex_value c = Some h" "hex_value d = Some l"
    "push_bit 4 h OR l = bs ! i"
    by (rule print_byte)
  then show ?case
    using Cons by (simp add: Let_def)
qed simp

lemma fold_update_nth:
  "length (fold (\<lambda>i buf. buf[i := bs ! i]) is buf) = length buf \<and>
   (j < length buf \<longrightarrow> fold (\<lambda>i buf. buf[i := bs ! i]) is buf ! j = (if j \<in> set is then bs ! j else buf ! j))"
  by (induction "is" arbitrary: buf) (auto simp: nth_list_update)

lemma fold_update_prefix:
  assumes "set is = {0..<n}" "n \<le> length bs" "n \<le> length buf"
  shows "fold (\<lambda>i buf. buf[i := bs ! i]) is buf = take n bs @ drop n buf"
  using assms fold_update_nth [of bs "is" buf]
  by (intro nth_equalityI) (auto simp: nth_append min_def)

lemma length_string_from_buf [simp]: "length (string_from_buf buf (2 * n) swap) = 2 * n"
proof -
  have "length (concat (map (\<lambda>i. byte_to_string (buf ! i)) is)) = 2 * length is" for "is"
    by (induction "is") (simp_all add: byte_to_string_def)
  then show ?thesis
    by (simp add: string_from_buf_def Let_def)
qed

lemma string_to_buf_print:
  assumes "n \<le> length bs" "n \<le> length buf"
  shows "string_to_buf (string_from_buf bs (2 * n) swap @ rest) buf n swap = (er_ok, take n bs @ drop n buf)"
proof -
  let ?is = "if swap then rev [0..<n] else [0..<n]"
  have "set ?is = {0..<n}" by simp
  then show ?thesis
    using string_to_bytes_print [of ?is buf bs rest] fold_update_prefix [OF _ assms, of ?is] assms(2)
    by (simp add: string_to_buf_def string_from_buf_def Let_def)
qed

text \<open>A section read back into a uuid whose earlier part is already there.\<close>

lemma uuid_section_print:
  assumes "length u = 16" "length x = 16" "at + n \<le> 16" "take at x = take at u"
  shows "uuid_section at n swap True (string_from_buf (drop at u) (2 * n) swap @ [45] @ rest) x
      = (er_ok, rest, take (at + n) u @ drop (at + n) x)"
    and "uuid_section at n swap False (string_from_buf (drop at u) (2 * n) swap) x
      = (er_ok, [], take (at + n) u @ drop (at + n) x)"
proof -
  have j: "take at x @ take n (drop at u) @ drop n (drop at x) = take (at + n) u @ drop (at + n) x"
    using assms by (simp add: take_add add.commute)
  show "uuid_section at n swap True (string_from_buf (drop at u) (2 * n) swap @ [45] @ rest) x
      = (er_ok, rest, take (at + n) u @ drop (at + n) x)"
    using assms j string_to_buf_print [of n "drop at u" "drop at x" swap "[45] @ rest"]
    by (simp add: uuid_section_def)
  show "uuid_section at n swap False (string_from_buf (drop at u) (2 * n) swap) x
      = (er_ok, [], take (at + n) u @ drop (at + n) x)"
    using assms j string_to_buf_print [of n "drop at u" "drop at x" swap "[]"]
    by (simp add: uuid_section_def)
qed

lemma string_from_uuid_sections:
  assumes "UUID_PRINTABLE_STRING_LENGTH \<le> len"
  shows "string_from_uuid (Some u) True len = (er_ok, Some (
    string_from_buf (drop 0 u) (2 * 4) True @ [45] @ string_from_buf (drop 4 u) (2 * 2) True @ [45] @
    string_from_buf (drop 6 u) (2 * 2) True @ [45] @ string_from_buf (drop 8 u) (2 * 2) False @ [45] @
    string_from_buf (drop 10 u) (2 * 6) False))"
  using assms by (simp add: string_from_uuid_def)

lemma uuid_print_parse:
  assumes u: "length u = 16" and x: "length x = 16" and len: "UUID_PRINTABLE_STRING_LENGTH \<le> len"
  shows "\<exists>s. string_from_uuid (Some u) True len = (er_ok, Some s) \<and> length s = 36 \<and>
    string_to_uuid (Some s) (Some x) = (er_ok, Some u)"
proof -
  let ?s = "\<lambda>at n swap. string_from_buf (drop at u) (2 * n) swap"
  let ?all = "?s 0 4 True @ [45] @ ?s 4 2 True @ [45] @ ?s 6 2 True @ [45] @ ?s 8 2 False @ [45] @ ?s 10 6 False"
  have length: "length ?all = 36"
    by (simp del: mult_numeral_1 numeral_times_numeral)
  have "string_to_uuid (Some ?all) (Some x) = (er_ok, Some u)"
    using length u x
      uuid_section_print(1) [OF u x, of 0 4 True]
      uuid_section_print(1) [OF u, of "take 4 u @ drop 4 x" 4 2 True]
      uuid_section_print(1) [OF u, of "take 6 u @ drop 6 x" 6 2 True]
      uuid_section_print(1) [OF u, of "take 8 u @ drop 8 x" 8 2 False]
      uuid_section_print(2) [OF u, of "take 10 u @ drop 10 x" 10 6 False]
    by (simp add: string_to_uuid_def UUID_PRINTABLE_STRING_LENGTH_def del: mult_numeral_1 numeral_times_numeral)
  then show ?thesis
    using string_from_uuid_sections [OF len] length by blast
qed

lemma string_from_buf_chars: "c \<in> set (string_from_buf buf len swap) \<Longrightarrow> hex_value c \<noteq> None"
proof -
  have "c \<in> set (byte_to_string b) \<Longrightarrow> hex_value c \<noteq> None" for b
    by (rule print_byte [of b]) auto
  then show "c \<in> set (string_from_buf buf len swap) \<Longrightarrow> hex_value c \<noteq> None"
    by (auto simp: string_from_buf_def Let_def split: if_splits)
qed

lemma string_from_uuid_chars:
  "string_from_uuid (Some u) True len = (er_ok, Some s) \<Longrightarrow> c \<in> set s \<Longrightarrow> c = 45 \<or> hex_value c \<noteq> None"
  by (auto simp: string_from_uuid_def split: if_splits dest: string_from_buf_chars)

text \<open>
  C20. A uuid printed by \<open>string_from_uuid\<close> has 36 characters and \<open>string_to_uuid\<close> reads the same 16 bytes
  back from it, whatever the target buffer held before.
\<close>

theorem uuid_roundtrip:
  assumes "length u = 16" and "length x = 16" and "UUID_PRINTABLE_STRING_LENGTH \<le> len"
  shows "\<exists>s. string_from_uuid (Some u) True len = (er_ok, Some s) \<and> length s = 36 \<and>
    string_to_uuid (Some s) (Some x) = (er_ok, Some u)"
  using assms by (rule uuid_print_parse)

theorem uuid_roundtrip_witness:
  "\<exists>s. string_from_uuid (Some [1, 2, 3, 4, 5, 6, 7, 8, 9, 10, 11, 12, 13, 14, 15, 16]) True 37 = (er_ok, Some s) \<and>
     length s = 36 \<and>
     string_to_uuid (Some s) (Some (replicate 16 0)) = (er_ok, Some [1, 2, 3, 4, 5, 6, 7, 8, 9, 10, 11, 12, 13, 14, 15, 16])"
  by (rule uuid_roundtrip) (simp_all add: UUID_PRINTABLE_STRING_LENGTH_def)

section \<open>Range lists: printing and parsing\<close>

fun dec :: "nat \<Rightarrow> u8 list" where
  "dec n = (if n < 10 then [48 + of_nat n] else dec (n div 10) @ [48 + of_nat (n mod 10)])"

declare dec.simps [simp del]

lemma digit_word:
  assumes "k < 10"
  shows "is_digit (48 + of_nat k)" "uint (48 + of_nat k :: u8) - 48 = int k"
    "\<not> is_space (48 + of_nat k)" "(48 + of_nat k :: u8) \<noteq> 45" "(48 + of_nat k :: u8) \<noteq> 43"
proof -
  have "k = 0 \<or> k = 1 \<or> k = 2 \<or> k = 3 \<or> k = 4 \<or> k = 5 \<or> k = 6 \<or> k = 7 \<or> k = 8 \<or> k = 9"
    using assms by presburger
  then show "is_digit (48 + of_nat k)" "uint (48 + of_nat k :: u8) - 48 = int k"
    "\<not> is_space (48 + of_nat k)" "(48 + of_nat k :: u8) \<noteq> 45" "(48 + of_nat k :: u8) \<noteq> 43"
    by (elim disjE; simp add: is_digit_def is_space_def)+
qed

lemma dec_digits: "list_all is_digit (dec n) \<and> dec n \<noteq> [] \<and> digits_value (dec n) = int n"
proof (induction n rule: dec.induct)
  case (1 n)
  show ?case
  proof (cases "n < 10")
    case True
    then show ?thesis
      using digit_word [of n] by (simp add: dec.simps digits_value_def)
  next
    case False
    have "int n = 10 * int (n div 10) + int (n mod 10)"
      by presburger
    moreover have "digits_value (dec (n div 10) @ [48 + of_nat (n mod 10)]) =
        10 * digits_value (dec (n div 10)) + (uint (48 + of_nat (n mod 10) :: u8) - 48)"
      by (simp add: digits_value_def)
    ultimately show ?thesis
      using 1 False digit_word [of "n mod 10"] by (simp add: dec.simps [of n])
  qed
qed

lemma digit_not_sign: "is_digit b \<Longrightarrow> \<not> is_space b \<and> b \<noteq> 45 \<and> b \<noteq> 43"
  by (auto simp: is_digit_def is_space_def word_le_nat_alt)

lemma c_strtol_dec:
  assumes "n < 2 ^ 63" "rest = [] \<or> \<not> is_digit (hd rest)"
  shows "c_strtol (dec n @ rest) = (int n, length (dec n))"
proof -
  obtain d ds where dec: "dec n = d # ds"
    using dec_digits [of n] by (cases "dec n") auto
  have d: "\<not> is_space d" "d \<noteq> 45" "d \<noteq> 43"
    using dec_digits [of n] dec digit_not_sign [of d] by simp_all
  have "takeWhile is_digit (dec n @ rest) = dec n @ takeWhile is_digit rest"
    using dec_digits [of n] by (intro takeWhile_append2) (auto simp: list_all_iff)
  moreover have "takeWhile is_digit rest = []"
    using assms(2) by (cases rest) auto
  ultimately have t: "takeWhile is_digit (d # ds @ rest) = d # ds"
    using dec by simp
  show ?thesis
    using dec d t dec_digits [of n] assms(1) by (simp add: c_strtol_def Let_def)
qed

lemma int32_of_small: "n < 2 ^ 31 \<Longrightarrow> int32_of (int n) = int n"
  by (simp add: int32_of_def)

text \<open>Items of a list are a number or a range.\<close>

type_synonym range_item = "nat \<times> nat option"

definition item_ok :: "range_item \<Rightarrow> bool" where
  "item_ok it \<longleftrightarrow> fst it < 2 ^ 31 \<and> (\<forall>b. snd it = Some b \<longrightarrow> b < 2 ^ 31)"

definition item_text :: "range_item \<Rightarrow> cstr" where
  "item_text it = dec (fst it) @ (case snd it of None \<Rightarrow> [] | Some b \<Rightarrow> 45 # dec b)"

definition item_range :: "range_item \<Rightarrow> int \<times> int" where
  "item_range it = (case snd it of
     None \<Rightarrow> (int (fst it), int (fst it))
   | Some b \<Rightarrow> (int (min (fst it) b), int (max (fst it) b)))"

fun range_text :: "range_item list \<Rightarrow> cstr" where
  "range_text [] = []"
| "range_text [it] = item_text it"
| "range_text (it # its) = item_text it @ 59 # range_text its"

lemma range_one_item:
  assumes ok: "item_ok it" and rest: "rest = [] \<or> hd rest = 59"
  shows "\<exists>low high. range_one (item_text it @ rest) = Some (low, high, True, rest) \<and>
    item_range it = (if high > low then low else high, if high > low then high else low)"
proof -
  obtain a bo where it: "it = (a, bo)" by (cases it)
  have digit: "rest = [] \<or> \<not> is_digit (hd rest)" "\<not> is_digit 45"
    using rest by (auto simp: is_digit_def)
  have a: "a < 2 ^ 63" "int32_of (int a) = int a" "dec a \<noteq> []"
    using ok it dec_digits [of a] int32_of_small [of a] by (auto simp: item_ok_def)
  show ?thesis
  proof (cases bo)
    case None
    then show ?thesis
      using it rest c_strtol_dec [OF a(1) digit(1)] a(2,3)
      by (intro exI [of _ "int a"]) (auto simp: range_one_def item_text_def item_range_def Let_def)
  next
    case (Some b)
    have b: "b < 2 ^ 63" "int32_of (int b) = int b" "dec b \<noteq> []"
      using ok it Some dec_digits [of b] int32_of_small [of b] by (auto simp: item_ok_def)
    have "c_strtol (dec a @ 45 # dec b @ rest) = (int a, length (dec a))"
      using c_strtol_dec [OF a(1), of "45 # dec b @ rest"] digit(2) by simp
    then show ?thesis
      using it Some c_strtol_dec [OF b(1) digit(1)] a(2) b(2,3)
      by (simp add: range_one_def item_text_def item_range_def)
  qed
qed

lemma range_pass_item:
  assumes ok: "item_ok it" and rest: "rest = [] \<or> hd rest = 59"
    and cap: "\<And>n. cap = Some n \<Longrightarrow> length tuples < n"
  shows "range_pass cap (item_text it @ rest) index tuples = (
    let tuples = (if cap = None then tuples else tuples @ [item_range it])
    in if rest = [] then Ok (index + 1, tuples) else range_pass cap (tl rest) (index + 1) tuples)"
proof -
  obtain low high where one: "range_one (item_text it @ rest) = Some (low, high, True, rest)"
    and r: "item_range it = (if high > low then low else high, if high > low then high else low)"
    using range_one_item [OF ok rest] by blast
  have c: "(cap \<noteq> None \<and> the cap \<le> length tuples) = False"
    using cap by auto
  show ?thesis
    unfolding range_pass.simps [of cap "item_text it @ rest"] one option.case prod.case c if_False r Let_def
    using rest by (cases rest) simp_all
qed

text \<open>A whole list, followed by nothing or by one more semicolon.\<close>

lemma range_pass_text:
  assumes "its \<noteq> []" "list_all item_ok its" "rest = [] \<or> hd rest = 59"
    and "\<And>n. cap = Some n \<Longrightarrow> length tuples + length its \<le> n"
  shows "range_pass cap (range_text its @ rest) index tuples = (
    let tuples = (if cap = None then tuples else tuples @ map item_range its)
    in if rest = [] then Ok (index + length its, tuples) else range_pass cap (tl rest) (index + length its) tuples)"
  using assms
proof (induction its arbitrary: index tuples rule: range_text.induct)
  case (2 it)
  then show ?case
    using range_pass_item [of it rest cap tuples index] by (simp add: Let_def Suc_le_eq)
next
  case (3 it it' its)
  let ?t = "if cap = None then tuples else tuples @ [item_range it]"
  have "range_pass cap (item_text it @ 59 # range_text (it' # its) @ rest) index tuples =
      range_pass cap (range_text (it' # its) @ rest) (index + 1) ?t"
    using range_pass_item [of it "59 # range_text (it' # its) @ rest" cap tuples index] 3 by (fastforce simp: Let_def)
  moreover have "range_pass cap (range_text (it' # its) @ rest) (index + 1) ?t = (
    let tuples = (if cap = None then ?t else ?t @ map item_range (it' # its))
    in if rest = [] then Ok (index + 1 + length (it' # its), tuples)
       else range_pass cap (tl rest) (index + 1 + length (it' # its)) tuples)"
    using 3 by (intro "3.IH") auto
  ultimately show ?case
    by (simp add: Let_def)
qed simp

lemma range_pass_empty:
  "range_pass None [] index tuples = Ok (index, tuples)"
  "range_pass (Some n) [] index tuples = (if n \<le> length tuples then Crash else Ok (index, tuples @ [(0, 0)]))"
  by (simp_all add: range_pass.simps [of _ "[]"] range_one_def c_strtol_def int32_of_def Let_def)

text \<open>
  C21. A list of numbers and ranges below \<open>2 ^ 31\<close>, printed with semicolons between the items, parses to
  exactly its ranges in order, each with its bounds in order, and the allocation the first pass sizes is
  filled exactly.
\<close>

theorem range_list_roundtrip:
  assumes "its \<noteq> []" "list_all item_ok its"
  shows "string_parse_range_list True (Some (range_text its)) True True = Ok (Some (map item_range its))"
proof -
  have "range_pass None (range_text its) 0 [] = Ok (length its, [])"
    using range_pass_text [of its "[]" None "[]" 0] assms by simp
  moreover have "range_pass (Some (length its)) (range_text its) 0 [] = Ok (length its, map item_range its)"
    using range_pass_text [of its "[]" "Some (length its)" "[]" 0] assms by simp
  ultimately show ?thesis
    using assms(1) by (simp add: string_parse_range_list_def)
qed

theorem range_list_roundtrip_witness:
  "string_parse_range_list True (Some (range_text [(5, None), (9, Some 4), (10, None)])) True True
     = Ok (Some [(5, 5), (4, 9), (10, 10)])"
  using range_list_roundtrip [of "[(5, None), (9, Some 4), (10, None)]"] by (simp add: item_ok_def item_range_def)

text \<open>
  C25. One semicolon at the end of such a list is accepted by the validating pass, which does not count the
  empty item behind it, but the filling pass stores a pair for that item as well, beyond the allocation.
\<close>

theorem range_list_trailing_semicolon_overflow:
  assumes "its \<noteq> []" "list_all item_ok its"
  shows "string_parse_range_list True (Some (range_text its @ [59])) False False = Ok None \<and>
    string_parse_range_list True (Some (range_text its @ [59])) True True = Crash"
proof -
  have "range_pass None (range_text its @ [59]) 0 [] = Ok (length its, [])"
    using range_pass_text [of its "[59]" None "[]" 0] assms by (simp add: range_pass_empty)
  moreover have "range_pass (Some (length its)) (range_text its @ [59]) 0 [] = Crash"
    using range_pass_text [of its "[59]" "Some (length its)" "[]" 0] assms by (simp add: range_pass_empty)
  ultimately show ?thesis
    using assms(1) by (simp add: string_parse_range_list_def)
qed

theorem range_list_trailing_semicolon_witness:
  "string_parse_range_list True (Some (range_text [(22, None)] @ [59])) True True = Crash"
  using range_list_trailing_semicolon_overflow [of "[(22, None)]"] by (simp add: item_ok_def)

section \<open>Key value lists\<close>

fun key_value_text :: "u8 \<Rightarrow> (cstr \<times> cstr) list \<Rightarrow> cstr" where
  "key_value_text delim [] = []"
| "key_value_text delim [(k, v)] = k @ 61 # v"
| "key_value_text delim ((k, v) # kvs) = k @ 61 # v @ delim # key_value_text delim kvs"

fun visit_all :: "('c \<Rightarrow> cstr \<Rightarrow> cstr \<Rightarrow> prx_error \<times> 'c) \<Rightarrow> (cstr \<times> cstr) list \<Rightarrow> 'c \<Rightarrow> prx_error \<times> 'c" where
  "visit_all visitor [] c = (er_ok, c)"
| "visit_all visitor ((k, v) # kvs) c = (
     let (result, c) = visitor c k v in if result \<noteq> er_ok then (result, c) else visit_all visitor kvs c)"

definition key_value_ok :: "u8 \<Rightarrow> cstr \<times> cstr \<Rightarrow> bool" where
  "key_value_ok delim kv \<longleftrightarrow> 61 \<notin> set (fst kv) \<and> delim \<notin> set (snd kv)"

lemma takeWhile_neq_append: "x \<notin> set xs \<Longrightarrow> takeWhile (\<lambda>b. b \<noteq> x) (xs @ x # ys) = xs"
  by (induction xs) auto

lemma dropWhile_neq_append: "x \<notin> set xs \<Longrightarrow> dropWhile (\<lambda>b. b \<noteq> x) (xs @ x # ys) = x # ys"
  by (induction xs) auto

lemma takeWhile_neq_all: "x \<notin> set xs \<Longrightarrow> takeWhile (\<lambda>b. b \<noteq> x) xs = xs"
  by (induction xs) auto

lemma dropWhile_neq_all: "x \<notin> set xs \<Longrightarrow> dropWhile (\<lambda>b. b \<noteq> x) xs = []"
  by (induction xs) auto

lemmas while_neq = takeWhile_neq_append dropWhile_neq_append takeWhile_neq_all dropWhile_neq_all

lemma key_value_text_nonempty: "kvs \<noteq> [] \<Longrightarrow> key_value_text delim kvs \<noteq> []"
  by (cases "(delim, kvs)" rule: key_value_text.cases) auto

lemma key_value_loop_text:
  "kvs \<noteq> [] \<Longrightarrow> list_all (key_value_ok delim) kvs \<Longrightarrow>
     key_value_loop visitor delim (key_value_text delim kvs) c = visit_all visitor kvs c"
proof (induction delim kvs arbitrary: c rule: key_value_text.induct)
  case (2 delim k v)
  then have k: "61 \<notin> set k" and v: "delim \<notin> set v"
    by (simp_all add: key_value_ok_def)
  show ?case
    using k v
    by (subst key_value_loop.simps) (auto simp: while_neq Let_def split: prod.splits)
next
  case (3 delim k v kv kvs)
  then have k: "61 \<notin> set k" and v: "delim \<notin> set v" and ok: "list_all (key_value_ok delim) (kv # kvs)"
    by (simp_all add: key_value_ok_def list_all_iff)
  obtain r c' where r: "visitor c k v = (r, c')" by (cases "visitor c k v")
  have ne: "key_value_text delim (kv # kvs) \<noteq> []"
    by (rule key_value_text_nonempty) simp
  have "key_value_loop visitor delim (k @ 61 # v @ delim # key_value_text delim (kv # kvs)) c =
      (if r \<noteq> er_ok then (r, c') else key_value_loop visitor delim (key_value_text delim (kv # kvs)) c')"
    using k v r ne by (subst key_value_loop.simps) (simp add: while_neq Let_def)
  then show ?case
    using 3(1) ok r by simp
qed simp

text \<open>
  C22. The key value parser visits exactly the pairs of a connection string, in order and up to the first
  one the visitor rejects, and returns the visitor's last result.
\<close>

theorem string_key_value_parser_correct:
  assumes "kvs \<noteq> []" "list_all (key_value_ok delim) kvs"
  shows "string_key_value_parser (Some (key_value_text delim kvs)) (Some visitor) delim c = visit_all visitor kvs c"
  using key_value_loop_text [OF assms] by (simp add: string_key_value_parser_def)

theorem string_key_value_parser_witness:
  "string_key_value_parser (Some (str ''HostName=h;DeviceId=''))
     (Some (\<lambda>c k v. (er_ok, c @ [(k, v)]))) 59 [] = (er_ok, [(str ''HostName'', str ''h''), (str ''DeviceId'', [])])"
proof -
  have "list_all (key_value_ok 59) [(str ''HostName'', str ''h''), (str ''DeviceId'', [])]"
    by code_simp
  moreover have "key_value_text 59 [(str ''HostName'', str ''h''), (str ''DeviceId'', [])] = str ''HostName=h;DeviceId=''"
    by code_simp
  ultimately show ?thesis
    using string_key_value_parser_correct [of "[(str ''HostName'', str ''h''), (str ''DeviceId'', [])]" 59
        "\<lambda>c k v. (er_ok, c @ [(k, v)])" "[]"]
    by simp
qed

section \<open>Removing a substring\<close>

lemma remove_loop_skip:
  assumes "mem = pre @ rest" "f \<noteq> []" "to_lower (hd f) \<notin> to_lower ` set pre" "length f + length pre \<le> remain"
  shows "remove_loop f remain 0 n mem = remove_loop f (remain - length pre) (length pre) n mem"
proof -
  have "k \<le> length pre \<Longrightarrow> remove_loop f remain 0 n mem = remove_loop f (remain - k) k n mem" for k
  proof (induction k)
    case (Suc k)
    have "to_lower (pre ! k) \<noteq> to_lower (hd f)"
      using assms(3) Suc.prems by (metis Suc_le_lessD imageI nth_mem)
    moreover have "drop k mem = pre ! k # drop (Suc k) mem"
      using assms(1) Suc.prems by (simp add: Cons_nth_drop_Suc [symmetric] nth_append)
    ultimately have "\<not> string_is_equal_nocase (Some (drop k mem)) (length f) (Some f)"
      using assms(2) by (cases f) (auto simp: string_is_equal_nocase_def)
    then have "remove_loop f (remain - k) k n mem = remove_loop f (remain - k - 1) (k + 1) n mem"
      using assms(2,4) Suc.prems by (subst remove_loop.simps) auto
    then show ?case
      using Suc by simp
  qed simp
  then show ?thesis by simp
qed



section \<open>Service names\<close>

lemma put_chars_fits: "length cs < n \<Longrightarrow> put_chars cs (out, n) = Some (out @ cs, n - length cs)"
  by (induction cs arbitrary: out n) auto

lemma dot_before_found:
  "dot_before p j (xs @ [46]) = None \<Longrightarrow> p b \<Longrightarrow> dot_before p i (xs @ 46 # b # rest) = Some (i + length xs)"
proof (induction xs arbitrary: i j)
  case (Cons x xs)
  then show ?case
    by (cases xs) (auto split: if_splits)
qed simp

text \<open>
  A name does not look like a type, labels of a type start with an underscore, and a domain does not.
\<close>

definition service_name_ok :: "cstr \<Rightarrow> bool" where
  "service_name_ok n \<longleftrightarrow> n \<noteq> [] \<and> hd n \<noteq> 95 \<and> dot_before (\<lambda>b. b = 95) 0 (tl n @ [46]) = None"

definition service_type_ok :: "cstr \<Rightarrow> bool" where
  "service_type_ok t \<longleftrightarrow> t \<noteq> [] \<and> hd t = 95 \<and> last t \<noteq> 46 \<and> dot_before (\<lambda>b. b \<noteq> 95) 0 (tl t @ [46]) = None"

definition domain_ok :: "cstr \<Rightarrow> bool" where
  "domain_ok d \<longleftrightarrow> d \<noteq> [] \<and> hd d \<noteq> 95 \<and> last d \<noteq> 46"

text \<open>
  C23. A service full name built from a name, a type and a domain by \<open>string_copy_service_full_name\<close> is taken
  apart into the same three components by \<open>string_parse_service_full_name\<close>.
\<close>

theorem service_full_name_roundtrip:
  assumes n: "service_name_ok n" and t: "service_type_ok t" and d: "domain_ok d"
    and sz: "length n + length t + length d + 2 < full_size"
  shows "\<exists>f. string_copy_service_full_name (Some n) (Some t) (Some d) True full_size = (er_ok, Some f) \<and>
    string_parse_service_full_name (Some f) = (er_ok, Some n, Some t, Some d)"
proof -
  let ?f = "n @ 46 # t @ 46 # d"
  have ne: "n \<noteq> []" "t \<noteq> []" "d \<noteq> []" "last d \<noteq> 46" "last t \<noteq> 46"
    using n t d by (simp_all add: service_name_ok_def service_type_ok_def domain_ok_def)
  have "string_copy_service_full_name (Some n) (Some t) (Some d) True full_size = (er_ok, Some ?f)"
    using ne sz by (simp add: string_copy_service_full_name_def put_if_def given_def put_chars_fits ends_with_dot_def)
  moreover have "string_parse_service_full_name (Some ?f) = (er_ok, Some n, Some t, Some d)"
  proof -
    obtain a n' where n': "n = a # n'" "a \<noteq> 95" using n by (cases n) (auto simp: service_name_ok_def)
    obtain t' where t': "t = 95 # t'" using t by (cases t) (auto simp: service_type_ok_def)
    obtain c d' where d': "d = c # d'" "c \<noteq> 95" using d by (cases d) (auto simp: domain_ok_def)
    have "last ?f = last d"
      using ne by simp
    then have trim: "string_trim_back (Some ?f) (Some [46]) = Some ?f"
      using ne dropWhile_rev_last [of ?f "[46]"] by (simp add: string_trim_back_rev)
    have "dot_before (\<lambda>b. b = 95) 1 (n' @ 46 # t @ 46 # d) = Some (1 + length n')"
      unfolding t' append_Cons using n n' by (intro dot_before_found [of _ 0]) (auto simp: service_name_ok_def)
    moreover have "dot_before (\<lambda>b. b \<noteq> 95) 1 (t' @ 46 # d) = Some (1 + length t')"
      unfolding d'(1) append_Cons using t t' d'(2) by (intro dot_before_found [of _ 0]) (auto simp: service_type_ok_def)
    ultimately show ?thesis
      using n' t' trim by (simp add: string_parse_service_full_name_def Let_def)
  qed
  ultimately show ?thesis by blast
qed

theorem service_full_name_roundtrip_witness:
  "\<exists>f. string_copy_service_full_name (Some (str ''My Printer'')) (Some (str ''_ipp._tcp'')) (Some (str ''local'')) True 64 = (er_ok, Some f) \<and>
    string_parse_service_full_name (Some f) = (er_ok, Some (str ''My Printer''), Some (str ''_ipp._tcp''), Some (str ''local''))"
proof -
  have "service_name_ok (str ''My Printer'') \<and> service_type_ok (str ''_ipp._tcp'') \<and> domain_ok (str ''local'') \<and>
      length (str ''My Printer'') + length (str ''_ipp._tcp'') + length (str ''local'') + 2 < 64"
    by code_simp
  then show ?thesis
    by (intro service_full_name_roundtrip) simp_all
qed

end
