(* ===== verification/String_Handles.thy ===== *)
theory String_Handles
  imports Util_String
begin

text \<open>
  The functions of \<open>src/util_string.c\<close> on \<open>STRING_HANDLE\<close>s. A handle is the content of the string it refers
  to, a null handle is \<^const>\<open>None\<close>; that the string library can allocate is a Boolean argument of the
  functions that make it allocate. \<open>STRING_construct\<close>, \<open>STRING_clone\<close> and \<open>STRING_concat\<close> belong to that
  library: they copy, or fail with the allocation.
\<close>

section \<open>Construction\<close>

definition STRING_construct :: "bool \<Rightarrow> cstr option \<Rightarrow> cstr option" where
  "STRING_construct ok val = (if ok then val else None)"

text \<open>\<open>ok_copy\<close> is the allocation of the copy, \<open>ok_handle\<close> the one of \<open>STRING_new_with_memory\<close>.\<close>

definition STRING_safe_construct_n :: "bool \<Rightarrow> bool \<Rightarrow> u8 list option \<Rightarrow> nat \<Rightarrow> cstr option" where
  "STRING_safe_construct_n ok_copy ok_handle buffer len = (case buffer of
     None \<Rightarrow> None
   | Some b \<Rightarrow> if \<not> ok_copy then None else if ok_handle then Some (take len b) else None)"

definition STRING_construct_trim :: "bool \<Rightarrow> cstr option \<Rightarrow> cstr option \<Rightarrow> cstr option" where
  "STRING_construct_trim ok val trim_chars = (
     if val = None then None
     else if trim_chars = None \<or> trim_chars = Some [] then STRING_construct ok val
     else (case STRING_construct ok (string_trim_front val trim_chars) of
         None \<Rightarrow> None
       | Some result \<Rightarrow> string_trim_back (Some result) trim_chars))"

text \<open>\<open>STRING_concat\<close> returns zero on success and otherwise leaves the string as it is.\<close>

definition STRING_concat :: "bool \<Rightarrow> cstr \<Rightarrow> cstr \<Rightarrow> bool \<times> cstr" where
  "STRING_concat ok string val = (if ok then (True, string @ val) else (False, string))"

definition STRING_concat_n :: "bool \<Rightarrow> bool \<Rightarrow> bool \<Rightarrow> cstr option \<Rightarrow> u8 list option \<Rightarrow> nat \<Rightarrow> prx_error \<times> cstr option" where
  "STRING_concat_n ok_copy ok_handle ok string buffer len = (case (string, buffer) of
     (Some s, Some b) \<Rightarrow> (case STRING_safe_construct_n ok_copy ok_handle buffer len of
         None \<Rightarrow> (er_out_of_memory, string)
       | Some tmp \<Rightarrow> (case STRING_concat ok s tmp of
             (True, s) \<Rightarrow> (er_ok, Some s)
           | (False, s) \<Rightarrow> (er_out_of_memory, Some s)))
   | _ \<Rightarrow> (er_fault, string))"

section \<open>Integers\<close>

text \<open>\<open>snprintf\<close> with \<open>%d\<close> and \<open>%x\<close> of an \<open>int32_t\<close>.\<close>

definition print_d :: "int \<Rightarrow> cstr" where
  "print_d v = (if v < 0 then 45 # dec (nat (- v)) else dec (nat v))"

fun print_hex :: "nat \<Rightarrow> cstr" where
  "print_hex n = (if n < 16 then [hex_digit (of_nat n)] else print_hex (n div 16) @ [hex_digit (of_nat (n mod 16))])"

declare print_hex.simps [simp del]

definition print_x :: "int \<Rightarrow> cstr" where
  "print_x v = print_hex (nat (v mod 2 ^ 32))"

text \<open>Result: the error and the text in the buffer, which is cut to the \<open>len\<close> bytes it has with the NUL.\<close>

definition string_from_int :: "int \<Rightarrow> int \<Rightarrow> bool \<Rightarrow> nat \<Rightarrow> prx_error \<times> cstr" where
  "string_from_int value radix has_buffer len = (
     if \<not> has_buffer then (er_fault, [])
     else if len = 0 then (er_arg, [])
     else if radix \<noteq> 10 \<and> radix \<noteq> 16 then (er_arg, [])
     else let text = (if radix = 10 then print_d value else print_x value)
          in (if 0 < length text then er_ok else er_arg, take (len - 1) text))"

definition STRING_concat_int :: "bool \<Rightarrow> cstr option \<Rightarrow> int \<Rightarrow> int \<Rightarrow> prx_error \<times> cstr option" where
  "STRING_concat_int ok string value radix = (case string of
     None \<Rightarrow> (er_fault, None)
   | Some s \<Rightarrow> (case string_from_int value radix True 32 of (result, buffer) \<Rightarrow>
       if result = er_ok
       then (case STRING_concat ok s buffer of
           (True, s) \<Rightarrow> (er_ok, Some s)
         | (False, s) \<Rightarrow> (er_out_of_memory, Some s))
       else (result, Some s)))"

section \<open>Comparison, search and update\<close>

text \<open>A null handle makes the comparisons return \<open>er_fault\<close> as if it were their result.\<close>

definition STRING_compare_c_str :: "cstr option \<Rightarrow> cstr option \<Rightarrow> int" where
  "STRING_compare_c_str string compare_to = (case string of
     None \<Rightarrow> prx_error_code er_fault | Some _ \<Rightarrow> string_compare string compare_to)"

definition STRING_compare_c_str_nocase :: "cstr option \<Rightarrow> cstr option \<Rightarrow> int" where
  "STRING_compare_c_str_nocase string compare_to = (case string of
     None \<Rightarrow> prx_error_code er_fault | Some _ \<Rightarrow> string_compare_nocase string compare_to)"

definition STRING_compare_nocase :: "cstr option \<Rightarrow> cstr option \<Rightarrow> int" where
  "STRING_compare_nocase string compare_to = (case compare_to of
     None \<Rightarrow> prx_error_code er_fault | Some _ \<Rightarrow> STRING_compare_c_str_nocase string compare_to)"

definition STRING_find_c_str :: "cstr option \<Rightarrow> cstr option \<Rightarrow> nat option" where
  "STRING_find_c_str string to_find = (case string of None \<Rightarrow> None | Some _ \<Rightarrow> string_find string to_find)"

definition STRING_find_c_str_nocase :: "cstr option \<Rightarrow> cstr option \<Rightarrow> nat option" where
  "STRING_find_c_str_nocase string to_find = (case string of None \<Rightarrow> None | Some _ \<Rightarrow> string_find_nocase string to_find)"

definition STRING_update :: "bool \<Rightarrow> bool \<Rightarrow> cstr option \<Rightarrow> cstr option \<Rightarrow> prx_error \<times> cstr option" where
  "STRING_update ok_empty ok string val = (case (string, val) of
     (Some s, Some v) \<Rightarrow>
       if STRING_compare_c_str string val = 0 then (er_ok, string)
       else if \<not> ok_empty then (er_out_of_memory, string)
       else (case STRING_concat ok [] v of
           (True, s) \<Rightarrow> (er_ok, Some s)
         | (False, s) \<Rightarrow> (er_out_of_memory, Some s))
   | _ \<Rightarrow> (er_fault, string))"

section \<open>Base 64\<close>

text \<open>The decoder is the one of the shared utility library; \<open>ok\<close> is the allocation of the byte array.\<close>

definition string_base64_to_byte_array :: "(cstr \<Rightarrow> u8 list option) \<Rightarrow> bool \<Rightarrow> cstr option \<Rightarrow> prx_error \<times> u8 list option" where
  "string_base64_to_byte_array Base64_Decoder ok val = (case val of
     None \<Rightarrow> (er_fault, None)
   | Some v \<Rightarrow> (case Base64_Decoder v of
         None \<Rightarrow> (er_out_of_memory, None)
       | Some bytes \<Rightarrow> if ok then (er_ok, Some bytes) else (er_out_of_memory, None)))"

section \<open>Facts\<close>

lemma c_strcmp_0_iff [simp]: "c_strcmp a b = 0 \<longleftrightarrow> a = b"
  by (induction a b rule: c_strcmp.induct) auto

lemma STRING_compare_nocase_refl [simp]: "STRING_compare_nocase (Some a) (Some a) = 0"
  by (simp add: STRING_compare_nocase_def STRING_compare_c_str_nocase_def string_compare_nocase_def)

lemma STRING_update_ok: "STRING_update True True (Some s) (Some v) = (er_ok, Some v)"
  by (simp add: STRING_update_def STRING_compare_c_str_def string_compare_def STRING_concat_def)

text \<open>An \<open>int32_t\<close> is read back from its decimal text.\<close>

lemma c_strtol_neg:
  assumes "0 < n" "n < 2 ^ 63"
  shows "c_strtol (45 # dec n) = (- int n, Suc (length (dec n)))"
proof -
  have all: "takeWhile is_digit (dec n) = dec n"
    using dec_digits [of n] by (simp add: takeWhile_eq_all_conv list_all_iff)
  have "\<not> is_space 45"
    by (simp add: is_space_def)
  then show ?thesis
    using dec_digits [of n] assms by (simp add: c_strtol_def Let_def all)
qed

lemma c_strtol_print_d:
  assumes "- (2 ^ 31) \<le> v" "v < 2 ^ 31"
  shows "c_strtol (print_d v) = (v, length (print_d v))"
  using assms c_strtol_dec [of "nat v" "[]"] c_strtol_neg [of "nat (- v)"] by (auto simp: print_d_def)

end
