(* ===== verification/Io_Token.thy ===== *)
theory Io_Token
  imports String_Handles "HOL-Library.Monad_Syntax"
begin

text \<open>
  Token providers, \<open>src/io_token.c\<close> and \<open>inc/io_token.h\<close>: the provider that signs tokens with the shared
  access key and the one that passes a given token through. Providers are counted objects, so they live in a
  store from addresses to objects, and \<^const>\<open>None\<close> as the result of an operation is the use of an object
  that has been freed. The signature, the encodings, the time and the configured time to live are arguments.
\<close>

section \<open>State\<close>

datatype io_token_impl =
    io_sas_token_provider cstr cstr cstr int \<comment> \<open>scope, policy, shared access key, time to live in seconds\<close>
  | io_passthru_token_provider cstr

record io_token_provider =
  tp_refs :: nat
  tp_impl :: io_token_impl

type_synonym tp_store = "nat \<Rightarrow> io_token_provider option"

datatype io_token_property_id = io_token_property_type | io_token_property_scope | io_token_property_policy

section \<open>Tokens\<close>

text \<open>
  \<open>hmac\<close> is \<open>pal_cred_hmac_sha256\<close>, \<open>b64\<close> and \<open>url_encode\<close> the encoders of the shared utility library;
  \<open>ok\<close> says which concatenations succeed.
\<close>

fun concat_all :: "(nat \<Rightarrow> bool) \<Rightarrow> nat \<Rightarrow> cstr list \<Rightarrow> cstr \<Rightarrow> bool \<times> cstr" where
  "concat_all ok n [] s = (True, s)"
| "concat_all ok n (v # vs) s = (case STRING_concat (ok n) s v of
     (False, s) \<Rightarrow> (False, s) | (True, s) \<Rightarrow> concat_all ok (n + 1) vs s)"

record token_env =
  te_alloc :: "nat \<Rightarrow> bool"
  te_hmac :: "cstr \<Rightarrow> cstr \<Rightarrow> prx_error \<times> u8 list"
  te_base64 :: "u8 list \<Rightarrow> cstr option"
  te_url_encode :: "cstr \<Rightarrow> cstr option"
  te_now :: int

definition expiry_text :: "int \<Rightarrow> cstr" where
  "expiry_text expiry = take 31 (print_d (int32_of expiry))"

definition io_sas_token_create :: "token_env \<Rightarrow> cstr \<Rightarrow> cstr \<Rightarrow> cstr \<Rightarrow> int \<Rightarrow> prx_error \<times> cstr option" where
  "io_sas_token_create E key_or_handle scope keyname expiry = (
     if \<not> te_alloc E 0 then (er_out_of_memory, None)
     else (case concat_all (te_alloc E) 1 [scope, [10], expiry_text expiry] [] of
         (False, _) \<Rightarrow> (er_out_of_memory, None)
       | (True, hash_string) \<Rightarrow> (case te_hmac E key_or_handle hash_string of (result, hmac) \<Rightarrow>
           if result \<noteq> er_ok then (result, None)
           else (case te_base64 E hmac of
               None \<Rightarrow> (er_out_of_memory, None)
             | Some signature \<Rightarrow> (case te_url_encode E signature of
                 None \<Rightarrow> (er_out_of_memory, None)
               | Some url_encode \<Rightarrow>
                   if \<not> te_alloc E 4 then (er_out_of_memory, None)
                   else (case concat_all (te_alloc E) 5
                             [scope, str ''&sig='', url_encode, str ''&se='', expiry_text expiry, str ''&skn='', keyname]
                             (str ''SharedAccessSignature sr='') of
                       (False, _) \<Rightarrow> (er_out_of_memory, None)
                     | (True, token) \<Rightarrow> (er_ok, Some token)))))))"

text \<open>The expiry is computed with \<open>int32_t\<close>, as is the time to live in milliseconds.\<close>

definition io_token_provider_on_new_iothub_token ::
  "token_env \<Rightarrow> cstr \<Rightarrow> cstr \<Rightarrow> cstr \<Rightarrow> int \<Rightarrow> prx_error \<times> cstr option \<times> int option" where
  "io_token_provider_on_new_iothub_token E scope policy key ttl_in_seconds = (
     case io_sas_token_create E key scope policy (int32_of (int32_of (te_now E) + ttl_in_seconds)) of (result, token) \<Rightarrow>
       (result, token, if result = er_ok then Some (int32_of (ttl_in_seconds * 800)) else None))"

definition io_passthru_token_provider_on_new_token :: "token_env \<Rightarrow> cstr \<Rightarrow> prx_error \<times> cstr option \<times> int option" where
  "io_passthru_token_provider_on_new_token E shared_access_token = (
     if te_alloc E 0 then (er_ok, Some shared_access_token, Some 0x0ffffff) else (er_out_of_memory, None, None))"

definition io_token_provider_new_token :: "token_env \<Rightarrow> tp_store \<Rightarrow> nat \<Rightarrow> (prx_error \<times> cstr option \<times> int option) option" where
  "io_token_provider_new_token E h p = do {
     provider \<leftarrow> h p;
     Some (case tp_impl provider of
         io_sas_token_provider scope policy key ttl \<Rightarrow> io_token_provider_on_new_iothub_token E scope policy key ttl
       | io_passthru_token_provider token \<Rightarrow> io_passthru_token_provider_on_new_token E token)
   }"

section \<open>Properties and comparison\<close>

definition io_sas_token_provider_on_get_property :: "cstr \<Rightarrow> cstr \<Rightarrow> io_token_property_id \<Rightarrow> cstr option" where
  "io_sas_token_provider_on_get_property scope policy pid = (case pid of
     io_token_property_type \<Rightarrow> Some (str ''servicebus.windows.net:sastoken'')
   | io_token_property_scope \<Rightarrow> Some scope
   | io_token_property_policy \<Rightarrow> Some policy)"

definition io_passthru_token_provider_on_get_property :: "io_token_property_id \<Rightarrow> cstr option" where
  "io_passthru_token_provider_on_get_property pid = None"

definition io_token_provider_get_property :: "io_token_provider \<Rightarrow> io_token_property_id \<Rightarrow> cstr option" where
  "io_token_provider_get_property provider pid = (case tp_impl provider of
     io_sas_token_provider scope policy key ttl \<Rightarrow> io_sas_token_provider_on_get_property scope policy pid
   | io_passthru_token_provider token \<Rightarrow> io_passthru_token_provider_on_get_property pid)"

definition io_token_provider_is_equivalent :: "tp_store \<Rightarrow> nat option \<Rightarrow> nat option \<Rightarrow> bool option" where
  "io_token_provider_is_equivalent h that other = (
     if that = other then Some True
     else case (that, other) of
       (Some a, Some b) \<Rightarrow> do {
         that \<leftarrow> h a;
         other \<leftarrow> h b;
         Some (list_all (\<lambda>i.
             let that_prop = io_token_provider_get_property that i; other_prop = io_token_provider_get_property other i
             in that_prop = None \<and> other_prop = None \<or> string_compare_nocase that_prop other_prop = 0)
           [io_token_property_type, io_token_property_scope, io_token_property_policy])
       }
     | _ \<Rightarrow> Some False)"

section \<open>Creation and references\<close>

definition io_token_provider_clone :: "tp_store \<Rightarrow> nat \<Rightarrow> (nat \<times> tp_store) option" where
  "io_token_provider_clone h p = do {
     provider \<leftarrow> h p;
     Some (p, h(p := Some (provider\<lparr>tp_refs := tp_refs provider + 1\<rparr>)))
   }"

definition io_token_provider_release :: "tp_store \<Rightarrow> nat \<Rightarrow> tp_store option" where
  "io_token_provider_release h p = do {
     provider \<leftarrow> h p;
     Some (if tp_refs provider - 1 = 0 then h(p := None)
           else h(p := Some (provider\<lparr>tp_refs := tp_refs provider - 1\<rparr>)))
   }"

text \<open>
  \<open>fresh\<close> is the address of the new object; the \<open>ok\<close> arguments are its allocation and those of its strings.
  A provider whose strings cannot all be made is released again.
\<close>

definition io_passthru_token_provider_create ::
  "bool \<Rightarrow> bool \<Rightarrow> nat \<Rightarrow> cstr \<Rightarrow> tp_store \<Rightarrow> prx_error \<times> nat option \<times> tp_store" where
  "io_passthru_token_provider_create ok ok_token fresh shared_access_token h = (
     if \<not> ok then (er_out_of_memory, None, h)
     else case STRING_construct ok_token (Some shared_access_token) of
         None \<Rightarrow> (er_out_of_memory, None, h)
       | Some t \<Rightarrow> (er_ok, Some fresh, h(fresh \<mapsto> \<lparr>tp_refs = 1, tp_impl = io_passthru_token_provider t\<rparr>)))"

definition io_iothub_token_provider_create ::
  "bool \<Rightarrow> bool \<Rightarrow> bool \<Rightarrow> bool \<Rightarrow> int \<Rightarrow> nat \<Rightarrow> cstr option \<Rightarrow> cstr \<Rightarrow> cstr \<Rightarrow> tp_store \<Rightarrow> prx_error \<times> nat option \<times> tp_store" where
  "io_iothub_token_provider_create ok ok_scope ok_policy ok_key token_ttl fresh policy key_or_handle scope h = (
     if \<not> ok then (er_out_of_memory, None, h)
     else case (STRING_construct ok_scope (Some scope),
                STRING_construct ok_policy (case policy of Some p \<Rightarrow> Some p | None \<Rightarrow> Some []),
                STRING_construct ok_key (Some key_or_handle)) of
         (Some s, Some p, Some k) \<Rightarrow>
           (er_ok, Some fresh, h(fresh \<mapsto> \<lparr>tp_refs = 1, tp_impl = io_sas_token_provider s p k token_ttl\<rparr>))
       | _ \<Rightarrow> (er_out_of_memory, None, h))"

section \<open>Facts\<close>

lemma clone_release [simp]:
  "h p = Some provider \<Longrightarrow> 0 < tp_refs provider \<Longrightarrow>
     io_token_provider_clone h p = Some (p, h') \<Longrightarrow> io_token_provider_release h' p = Some h"
  by (auto simp: io_token_provider_clone_def io_token_provider_release_def bind_eq_Some_conv fun_upd_idem)

lemma is_equivalent_refl: "io_token_provider_is_equivalent h p p = Some True"
  by (simp add: io_token_provider_is_equivalent_def)

end
