(* ===== verification/Io_Url.thy ===== *)
theory Io_Url
  imports Io_Token
begin

text \<open>
  Urls of brokers, \<open>src/io_url.c\<close> and \<open>inc/io_url.h\<close>: creation with the default ports of the schemes, copies
  that share the token provider, and comparison. A string of a url is its content. The function \<open>ok\<close> says
  which of the allocations, counted in the order of the code, succeed.
\<close>

section \<open>State and operations\<close>

record io_url =
  url_scheme :: "cstr option"
  url_host_name :: "cstr option"
  url_port :: u16
  url_path :: "cstr option"
  url_user_name :: "cstr option"
  url_password :: "cstr option"
  url_token_provider :: "nat option"

text \<open>
  Two strings that are both present are compared without case, otherwise the handles are, which then are equal
  only when both are null.
\<close>

definition url_strings_equal :: "cstr option \<Rightarrow> cstr option \<Rightarrow> bool" where
  "url_strings_equal that other = (
     if that \<noteq> None \<and> other \<noteq> None then STRING_compare_nocase that other = 0 else that = None \<and> other = None)"

definition io_url_equals :: "tp_store \<Rightarrow> io_url option \<Rightarrow> io_url option \<Rightarrow> bool option" where
  "io_url_equals h that other = (case (that, other) of
     (None, None) \<Rightarrow> Some True
   | (Some a, Some b) \<Rightarrow>
       if url_port a \<noteq> url_port b then Some False
       else if \<not> url_strings_equal (url_scheme a) (url_scheme b) then Some False
       else if \<not> url_strings_equal (url_host_name a) (url_host_name b) then Some False
       else if \<not> url_strings_equal (url_path a) (url_path b) then Some False
       else if \<not> url_strings_equal (url_user_name a) (url_user_name b) then Some False
       else if \<not> url_strings_equal (url_password a) (url_password b) then Some False
       else io_token_provider_is_equivalent h (url_token_provider a) (url_token_provider b)
   | _ \<Rightarrow> Some False)"

text \<open>What remains of a freed url is the reference to its token provider, which is given back.\<close>

definition io_url_free :: "io_url option \<Rightarrow> tp_store \<Rightarrow> tp_store option" where
  "io_url_free address h = (case address of
     None \<Rightarrow> Some h
   | Some a \<Rightarrow> (case url_token_provider a of None \<Rightarrow> Some h | Some p \<Rightarrow> io_token_provider_release h p))"

definition scheme_port :: "cstr \<Rightarrow> u16 option" where
  "scheme_port scheme = (
     if string_compare_nocase (Some scheme) (Some (str ''wss'')) = 0 then Some 443
     else if string_compare_nocase (Some scheme) (Some (str ''amqps'')) = 0 then Some 5671
     else if string_compare_nocase (Some scheme) (Some (str ''https'')) = 0 then Some 443
     else if string_compare_nocase (Some scheme) (Some (str ''mqtts'')) = 0 then Some 8883
     else None)"

definition io_url_create ::
  "(nat \<Rightarrow> bool) \<Rightarrow> cstr option \<Rightarrow> cstr option \<Rightarrow> u16 \<Rightarrow> cstr option \<Rightarrow> cstr option \<Rightarrow> cstr option \<Rightarrow> prx_error \<times> io_url option" where
  "io_url_create ok scheme host_name port path user_name password = (case host_name of
     None \<Rightarrow> (er_fault, None)
   | Some host \<Rightarrow>
       if \<not> ok 0 \<or> \<not> ok 1 then (er_out_of_memory, None)
       else let port = (case scheme of None \<Rightarrow> Some port | Some s \<Rightarrow> if port = 0 then scheme_port s else Some port)
            in case port of
                None \<Rightarrow> (er_invalid_format, None)
              | Some port \<Rightarrow>
                  if (scheme \<noteq> None \<and> \<not> ok 2) \<or> (path \<noteq> None \<and> \<not> ok 3) \<or> (user_name \<noteq> None \<and> \<not> ok 4) \<or> (password \<noteq> None \<and> \<not> ok 5)
                  then (er_out_of_memory, None)
                  else (er_ok, Some \<lparr>url_scheme = scheme, url_host_name = Some host, url_port = port, url_path = path,
                          url_user_name = user_name, url_password = password, url_token_provider = None\<rparr>))"

text \<open>A string that cannot be cloned makes the clone fail before the token provider is touched.\<close>

definition io_url_clone :: "(nat \<Rightarrow> bool) \<Rightarrow> io_url option \<Rightarrow> tp_store \<Rightarrow> (prx_error \<times> io_url option \<times> tp_store) option" where
  "io_url_clone ok address h = (case address of
     None \<Rightarrow> Some (er_fault, None, h)
   | Some a \<Rightarrow>
       if \<not> ok 0 then Some (er_out_of_memory, None, h)
       else let copy = \<lparr>url_scheme = STRING_construct (ok 1) (url_scheme a), url_host_name = STRING_construct (ok 2) (url_host_name a),
                   url_port = url_port a, url_path = STRING_construct (ok 3) (url_path a),
                   url_user_name = STRING_construct (ok 4) (url_user_name a), url_password = STRING_construct (ok 5) (url_password a),
                   url_token_provider = None\<rparr>
            in if (url_scheme a \<noteq> None \<and> url_scheme copy = None) \<or> (url_host_name a \<noteq> None \<and> url_host_name copy = None) \<or>
                  (url_path a \<noteq> None \<and> url_path copy = None) \<or> (url_user_name a \<noteq> None \<and> url_user_name copy = None) \<or>
                  (url_password a \<noteq> None \<and> url_password copy = None)
               then do {
                 h \<leftarrow> io_url_free (Some copy) h;
                 Some (er_out_of_memory, None, h)
               }
               else (case url_token_provider a of
                   None \<Rightarrow> Some (er_ok, Some copy, h)
                 | Some p \<Rightarrow> do {
                     (p, h) \<leftarrow> io_token_provider_clone h p;
                     Some (er_ok, Some (copy\<lparr>url_token_provider := Some p\<rparr>), h)
                   }))"

section \<open>Copies\<close>

definition url_provider_live :: "io_url \<Rightarrow> tp_store \<Rightarrow> bool" where
  "url_provider_live a h \<longleftrightarrow> (case url_token_provider a of
     None \<Rightarrow> True | Some p \<Rightarrow> (case h p of None \<Rightarrow> False | Some t \<Rightarrow> 0 < tp_refs t))"

lemma url_strings_equal_refl [simp]: "url_strings_equal s s"
  by (auto simp: url_strings_equal_def)

lemma url_string_cloned: "s \<noteq> None \<and> STRING_construct ok s = None \<longleftrightarrow> s \<noteq> None \<and> \<not> ok"
  by (auto simp: STRING_construct_def)

lemma conj_not_none: "(s \<noteq> None \<and> s = None) = False"
  by blast

lemma url_string_copy: "s = None \<or> ok \<Longrightarrow> STRING_construct ok s = s"
  by (auto simp: STRING_construct_def)

definition url_clone_allocs :: "(nat \<Rightarrow> bool) \<Rightarrow> io_url \<Rightarrow> bool" where
  "url_clone_allocs ok a \<longleftrightarrow> \<not> (\<not> ok 0 \<or> (url_scheme a \<noteq> None \<and> \<not> ok 1) \<or> (url_host_name a \<noteq> None \<and> \<not> ok 2) \<or>
     (url_path a \<noteq> None \<and> \<not> ok 3) \<or> (url_user_name a \<noteq> None \<and> \<not> ok 4) \<or> (url_password a \<noteq> None \<and> \<not> ok 5))"

lemma io_url_clone_fails:
  assumes "\<not> url_clone_allocs ok a"
  shows "io_url_clone ok (Some a) h = Some (er_out_of_memory, None, h)"
proof (cases "ok 0")
  case True
  with assms have "(url_scheme a \<noteq> None \<and> \<not> ok 1) \<or> (url_host_name a \<noteq> None \<and> \<not> ok 2) \<or>
      (url_path a \<noteq> None \<and> \<not> ok 3) \<or> (url_user_name a \<noteq> None \<and> \<not> ok 4) \<or> (url_password a \<noteq> None \<and> \<not> ok 5)"
    unfolding url_clone_allocs_def by blast
  then show ?thesis
    using True unfolding io_url_clone_def option.case Let_def io_url.simps url_string_cloned
    by (simp only: if_True not_True_eq_False if_False) (simp add: io_url_free_def)
qed (simp add: io_url_clone_def)

lemma io_url_clone_succeeds:
  assumes "url_clone_allocs ok a"
  shows "io_url_clone ok (Some a) h = (case url_token_provider a of
     None \<Rightarrow> Some (er_ok, Some a, h)
   | Some p \<Rightarrow> map_option (\<lambda>(p, h). (er_ok, Some (a\<lparr>url_token_provider := Some p\<rparr>), h)) (io_token_provider_clone h p))"
proof -
  have "\<lparr>url_scheme = url_scheme a, url_host_name = url_host_name a, url_port = url_port a, url_path = url_path a,
      url_user_name = url_user_name a, url_password = url_password a, url_token_provider = p\<rparr> = a\<lparr>url_token_provider := p\<rparr>" for p
    by (cases a) simp
  moreover have "url_token_provider a = None \<Longrightarrow> a\<lparr>url_token_provider := None\<rparr> = a"
    by (cases a) simp
  moreover have "ok 0" and allocs: "url_scheme a = None \<or> ok 1" "url_host_name a = None \<or> ok 2" "url_path a = None \<or> ok 3"
      "url_user_name a = None \<or> ok 4" "url_password a = None \<or> ok 5"
    using assms unfolding url_clone_allocs_def by blast+
  ultimately show ?thesis
    unfolding io_url_clone_def option.case Let_def io_url.simps url_string_copy [OF allocs(1)]
      url_string_copy [OF allocs(2)] url_string_copy [OF allocs(3)] url_string_copy [OF allocs(4)] url_string_copy [OF allocs(5)]
    by (simp only: conj_not_none simp_thms if_False) (auto split: option.split bind_splits)
qed

text \<open>
  C17. A copy of a url is equal to the url it was made from, and it owns its own reference to the token provider:
  whatever allocations succeed, copying a url whose provider is alive either fails with \<open>er_out_of_memory\<close> and
  leaves the providers as they were, or returns a url that compares equal and whose release brings every
  reference count back to what it was.
\<close>

theorem io_url_clone_equal:
  assumes "url_provider_live a h"
  shows "\<exists>result copy h'. io_url_clone ok (Some a) h = Some (result, copy, h') \<and>
    (if result = er_ok then copy = Some a \<and> io_url_equals h' copy (Some a) = Some True \<and> io_url_free copy h' = Some h
     else result = er_out_of_memory \<and> copy = None \<and> h' = h)"
proof (cases "url_clone_allocs ok a")
  case True
  show ?thesis
  proof (cases "url_token_provider a")
    case None
    then show ?thesis
      by (simp add: io_url_clone_succeeds [OF True] io_url_equals_def io_url_free_def is_equivalent_refl)
  next
    case (Some p)
    then obtain t where t: "h p = Some t" "0 < tp_refs t"
      using assms by (auto simp: url_provider_live_def split: option.splits)
    obtain h' where h': "io_token_provider_clone h p = Some (p, h')"
      using t(1) by (simp add: io_token_provider_clone_def)
    have "a\<lparr>url_token_provider := Some p\<rparr> = a"
      using Some by (cases a) simp
    then show ?thesis
      using Some clone_release [OF t h']
      by (simp add: io_url_clone_succeeds [OF True] h' io_url_equals_def io_url_free_def is_equivalent_refl)
  qed
next
  case False
  then show ?thesis
    by (simp add: io_url_clone_fails)
qed

definition url_demo :: io_url where
  "url_demo = \<lparr>url_scheme = Some (str ''wss''), url_host_name = Some (str ''hub.net''), url_port = 443, url_path = None,
     url_user_name = None, url_password = None, url_token_provider = Some 7\<rparr>"

definition tp_store_demo :: tp_store where
  "tp_store_demo = [7 \<mapsto> \<lparr>tp_refs = 1, tp_impl = io_passthru_token_provider (str ''token'')\<rparr>]"

theorem io_url_clone_equal_witness:
  "url_provider_live url_demo tp_store_demo \<and>
   (\<exists>h'. io_url_clone (\<lambda>_. True) (Some url_demo) tp_store_demo = Some (er_ok, Some url_demo, h') \<and>
      h' 7 = Some \<lparr>tp_refs = 2, tp_impl = io_passthru_token_provider (str ''token'')\<rparr> \<and>
      io_url_free (Some url_demo) h' = Some tp_store_demo)"
proof -
  have live: "url_provider_live url_demo tp_store_demo"
    by (simp add: url_provider_live_def url_demo_def tp_store_demo_def)
  have run: "io_url_clone (\<lambda>_. True) (Some url_demo) tp_store_demo = Some (er_ok, Some url_demo,
      tp_store_demo(7 := Some \<lparr>tp_refs = 2, tp_impl = io_passthru_token_provider (str ''token'')\<rparr>))"
    by (simp add: io_url_clone_def url_demo_def tp_store_demo_def STRING_construct_def io_token_provider_clone_def Let_def
        numeral_2_eq_2)
  show ?thesis
    using live run io_url_clone_equal [OF live, of "\<lambda>_. True"] by simp
qed

end
