(* ===== verification/Prx_Buffer.thy ===== *)
theory Prx_Buffer
  imports Prelude Prx_Err
begin

text \<open>
  The reference counted buffer pools of \<open>src/prx_buffer.c\<close> behind the factory interface of
  \<open>inc/prx_buffer.h\<close>: the dynamic pool, whose buffers are single allocations and can be
  resized, and the fixed pool, whose buffers are carved out of blocks. The intrusive
  \<open>DLIST_ENTRY\<close> heads are the lists of the buffers linked behind them, in order. A buffer
  address is the number of the allocation it lies in and its index there. The C heap is
  explicit: \<open>pool_heap\<close> holds the buffers, \<open>pool_allocs\<close> counts the calls of the allocator so
  far, and the allocator itself (which calls succeed, what fresh memory contains) is an
  argument. \<open>pool_signals\<close> records the calls of \<open>config.cb\<close>, newest first. An address without a
  buffer behind it stands for an invalid pointer; the operations leave the pool as it is there.
\<close>

section \<open>The allocator of the C library\<close>

record allocator =
  al_ok :: "nat \<Rightarrow> nat \<Rightarrow> bool"
  al_fill :: "nat \<Rightarrow> nat \<Rightarrow> u8"

definition mem_alloc :: "allocator \<Rightarrow> nat \<Rightarrow> nat \<Rightarrow> u8 list option" where
  "mem_alloc A n sz = (if al_ok A n sz then Some (map (al_fill A n) [0..<sz]) else None)"

definition mem_realloc :: "allocator \<Rightarrow> nat \<Rightarrow> u8 list \<Rightarrow> nat \<Rightarrow> u8 list option" where
  "mem_realloc A n old sz =
     (if al_ok A n sz then Some (take sz old @ map (al_fill A n) [length old..<sz]) else None)"

section \<open>Buffers and pools\<close>

type_synonym addr = "nat \<times> nat"

record prx_buffer =
  pb_length :: nat
  pb_refs :: int
  pb_data :: "u8 list"

record prx_pool_config =
  initial_count :: nat
  max_count :: nat
  low_watermark :: nat
  high_watermark :: nat

record prx_buffer_pool =
  pool_free_list :: "addr list"
  pool_free_count :: nat
  pool_checked_out :: "addr list"
  pool_item_size :: nat
  pool_config :: prx_pool_config
  pool_count :: nat
  pool_empty :: bool
  pool_blocks :: "addr list"
  pool_heap :: "addr \<rightharpoonup> prx_buffer"
  pool_allocs :: nat
  pool_signals :: "bool list"

text \<open>\<open>sizeof(prx_buffer_t)\<close> with a 64 bit \<open>size_t\<close> and \<open>long\<close> and two link pointers.\<close>

definition SIZEOF_PRX_BUFFER :: nat where
  "SIZEOF_PRX_BUFFER = 32"

definition prx_pool_zero :: prx_buffer_pool where
  "prx_pool_zero = \<lparr>pool_free_list = [], pool_free_count = 0, pool_checked_out = [], pool_item_size = 0,
     pool_config = \<lparr>initial_count = 0, max_count = 0, low_watermark = 0, high_watermark = 0\<rparr>,
     pool_count = 0, pool_empty = False, pool_blocks = [], pool_heap = Map.empty, pool_allocs = 0,
     pool_signals = []\<rparr>"

text \<open>
  The configuration defaults of \<open>prx_buffer_pool_init\<close>. A missing callback is replaced there by
  a dummy, so the calls in \<open>pool_signals\<close> are made in every case.
\<close>

definition prx_pool_config_init :: "prx_pool_config option \<Rightarrow> prx_pool_config" where
  "prx_pool_config_init config = (
     let c0 = (case config of
                 Some c \<Rightarrow> c
               | None \<Rightarrow> \<lparr>initial_count = 0, max_count = 0, low_watermark = 0, high_watermark = 0\<rparr>);
         c1 = (if initial_count c0 = 0 then c0\<lparr>initial_count := 10\<rparr> else c0);
         c2 = (if high_watermark c1 < low_watermark c1 then c1\<lparr>low_watermark := 0\<rparr> else c1)
     in if max_count c2 \<noteq> 0 \<and> max_count c2 < high_watermark c2
        then c2\<lparr>high_watermark := max_count c2\<rparr> else c2)"

definition prx_buffer_pool_init ::
  "prx_error \<Rightarrow> prx_buffer_pool \<Rightarrow> nat \<Rightarrow> prx_pool_config option \<Rightarrow> prx_error \<times> prx_buffer_pool" where
  "prx_buffer_pool_init lock_result pool item_size config = (
     let pool = pool\<lparr>pool_checked_out := [], pool_free_list := []\<rparr>
     in if lock_result \<noteq> er_ok then (lock_result, pool)
        else (er_ok, pool\<lparr>pool_item_size := item_size, pool_count := 0,
                          pool_config := prx_pool_config_init config\<rparr>))"

text \<open>The number of buffers the grow policies try to add.\<close>

definition pool_grow_items :: "prx_buffer_pool \<Rightarrow> nat" where
  "pool_grow_items pool = (
     let items = initial_count (pool_config pool)
     in if max_count (pool_config pool) \<noteq> 0
        then min (size_sub (max_count (pool_config pool)) (pool_count pool)) items else items)"

text \<open>A fresh buffer at the tail of the free list, as both grow loops append it.\<close>

definition pool_add_free :: "addr \<Rightarrow> u8 list \<Rightarrow> prx_buffer_pool \<Rightarrow> prx_buffer_pool" where
  "pool_add_free a mem pool = pool\<lparr>
     pool_heap := (pool_heap pool)(a \<mapsto> \<lparr>pb_length = pool_item_size pool, pb_refs = 0, pb_data = mem\<rparr>),
     pool_free_list := pool_free_list pool @ [a],
     pool_count := pool_count pool + 1,
     pool_free_count := pool_free_count pool + 1\<rparr>"

fun prx_dynamic_pool_grow_loop :: "allocator \<Rightarrow> nat \<Rightarrow> prx_buffer_pool \<Rightarrow> prx_buffer_pool" where
  "prx_dynamic_pool_grow_loop A 0 pool = pool"
| "prx_dynamic_pool_grow_loop A (Suc i) pool = (
     let n = pool_allocs pool; pool = pool\<lparr>pool_allocs := n + 1\<rparr>
     in case mem_alloc A n (size_add SIZEOF_PRX_BUFFER (pool_item_size pool)) of
          None \<Rightarrow> pool
        | Some mem \<Rightarrow> prx_dynamic_pool_grow_loop A i
                       (pool_add_free (n, 0) (drop SIZEOF_PRX_BUFFER mem) pool))"

definition prx_dynamic_pool_grow_no_lock ::
  "allocator \<Rightarrow> prx_buffer_pool \<Rightarrow> prx_error \<times> prx_buffer_pool" where
  "prx_dynamic_pool_grow_no_lock A pool = (
     let pool = prx_dynamic_pool_grow_loop A (pool_grow_items pool) pool
     in (if pool_free_count pool \<noteq> 0 then er_ok else er_out_of_memory, pool))"

text \<open>
  The fixed pool takes one block for all its new buffers; buffer \<open>i\<close> of the block starts
  \<open>i\<close> strides behind the block header.
\<close>

fun prx_fixed_pool_grow_loop :: "nat \<Rightarrow> u8 list \<Rightarrow> nat \<Rightarrow> nat \<Rightarrow> prx_buffer_pool \<Rightarrow> prx_buffer_pool" where
  "prx_fixed_pool_grow_loop n mem i 0 pool = pool"
| "prx_fixed_pool_grow_loop n mem i (Suc items) pool = (
     let stride = size_add SIZEOF_PRX_BUFFER (pool_item_size pool);
         raw = take (pool_item_size pool) (drop (i * stride + SIZEOF_PRX_BUFFER) mem)
     in prx_fixed_pool_grow_loop n mem (i + 1) items (pool_add_free (n, i) raw pool))"

definition prx_fixed_pool_grow_no_lock ::
  "allocator \<Rightarrow> prx_buffer_pool \<Rightarrow> prx_error \<times> prx_buffer_pool" where
  "prx_fixed_pool_grow_no_lock A pool = (
     let items = pool_grow_items pool
     in if items = 0 then (er_out_of_memory, pool)
        else let n = pool_allocs pool; pool = pool\<lparr>pool_allocs := n + 1\<rparr>;
                 sz = size_add SIZEOF_PRX_BUFFER (pool_item_size pool)
             in case mem_alloc A n ((SIZEOF_PRX_BUFFER + items * sz) mod SIZE_MOD) of
                  None \<Rightarrow> (er_out_of_memory, pool)
                | Some mem \<Rightarrow> (er_ok, prx_fixed_pool_grow_loop n (drop SIZEOF_PRX_BUFFER mem) 0 items
                               (pool\<lparr>pool_blocks := pool_blocks pool @ [(n, 0)]\<rparr>)))"

section \<open>Checking buffers out and in\<close>

definition pool_set_refs :: "addr \<Rightarrow> int \<Rightarrow> prx_buffer_pool \<Rightarrow> prx_buffer_pool" where
  "pool_set_refs a d pool = (case pool_heap pool a of
     None \<Rightarrow> pool
   | Some b \<Rightarrow> pool\<lparr>pool_heap := (pool_heap pool)(a \<mapsto> b\<lparr>pb_refs := pb_refs b + d\<rparr>)\<rparr>)"

definition prx_buffer_pool_alloc_buffer ::
  "(prx_buffer_pool \<Rightarrow> prx_error \<times> prx_buffer_pool) \<Rightarrow> prx_buffer_pool \<Rightarrow> addr option
     \<Rightarrow> addr option \<times> prx_buffer_pool" where
  "prx_buffer_pool_alloc_buffer grow pool original = (case original of
     Some a \<Rightarrow> (Some a, pool_set_refs a 1 pool)
   | None \<Rightarrow> (case pool_free_list pool of
       [] \<Rightarrow> (None, pool)
     | out # rest \<Rightarrow> (
         let pool = pool\<lparr>pool_free_list := rest, pool_free_count := size_sub (pool_free_count pool) 1\<rparr>;
             pool = (if pool_free_count pool = 0 then snd (grow pool) else pool);
             signal = (pool_free_count pool \<le> low_watermark (pool_config pool) \<and> \<not> pool_empty pool);
             pool = (if signal then pool\<lparr>pool_empty := True\<rparr> else pool);
             pool = pool_set_refs out 1 pool;
             pool = pool\<lparr>pool_checked_out := pool_checked_out pool @ [out]\<rparr>;
             pool = (if signal then pool\<lparr>pool_signals := True # pool_signals pool\<rparr> else pool)
         in (Some out, pool))))"

text \<open>
  Taking an entry off whichever list it is linked in, which is what
  \<open>DList_RemoveEntryList\<close> does without naming the list.
\<close>

definition pool_unlink :: "addr \<Rightarrow> prx_buffer_pool \<Rightarrow> prx_buffer_pool" where
  "pool_unlink a pool = pool\<lparr>pool_free_list := remove1 a (pool_free_list pool),
                             pool_checked_out := remove1 a (pool_checked_out pool)\<rparr>"

definition pool_refs :: "prx_buffer_pool \<Rightarrow> addr \<Rightarrow> int" where
  "pool_refs pool a = (case pool_heap pool a of None \<Rightarrow> 0 | Some b \<Rightarrow> pb_refs b)"

definition prx_buffer_pool_free_buffer :: "prx_buffer_pool \<Rightarrow> addr \<Rightarrow> prx_buffer_pool" where
  "prx_buffer_pool_free_buffer pool a = (
     let pool = pool_set_refs a (- 1) pool
     in if pool_refs pool a \<noteq> 0 then pool
        else let pool = pool_unlink a pool;
                 pool = pool\<lparr>pool_free_list := pool_free_list pool @ [a],
                             pool_free_count := pool_free_count pool + 1\<rparr>
             in if high_watermark (pool_config pool) < pool_free_count pool \<and> pool_empty pool
                then pool\<lparr>pool_empty := False, pool_signals := False # pool_signals pool\<rparr>
                else pool)"

section \<open>The two factories\<close>

definition prx_dynamic_buffer_set_size ::
  "allocator \<Rightarrow> prx_buffer_pool \<Rightarrow> addr option \<Rightarrow> nat \<Rightarrow> prx_error \<times> addr option \<times> prx_buffer_pool" where
  "prx_dynamic_buffer_set_size A pool buffer sz = (case buffer of
     None \<Rightarrow> (er_fault, None, pool)
   | Some a \<Rightarrow> (case pool_heap pool a of
       None \<Rightarrow> (er_fault, Some a, pool)
     | Some b \<Rightarrow> (
         let pool = pool_unlink a pool; n = pool_allocs pool; pool = pool\<lparr>pool_allocs := n + 1\<rparr>
         in case mem_realloc A n (replicate SIZEOF_PRX_BUFFER 0 @ pb_data b) (size_add SIZEOF_PRX_BUFFER sz) of
              Some mem \<Rightarrow> (er_ok, Some (n, 0), pool\<lparr>
                pool_heap := (pool_heap pool)(a := None,
                   (n, 0) \<mapsto> b\<lparr>pb_length := sz, pb_data := drop SIZEOF_PRX_BUFFER mem\<rparr>),
                pool_checked_out := pool_checked_out pool @ [(n, 0)]\<rparr>)
            | None \<Rightarrow> (er_out_of_memory, Some a,
                pool\<lparr>pool_checked_out := pool_checked_out pool @ [a]\<rparr>))))"

definition prx_dynamic_buffer_get_size :: "prx_buffer_pool \<Rightarrow> addr \<Rightarrow> nat" where
  "prx_dynamic_buffer_get_size pool a = (case pool_heap pool a of None \<Rightarrow> 0 | Some b \<Rightarrow> pb_length b)"

definition prx_fixed_buffer_get_size :: "prx_buffer_pool \<Rightarrow> addr \<Rightarrow> nat" where
  "prx_fixed_buffer_get_size pool a = pool_item_size pool"

definition prx_fixed_buffer_set_size ::
  "prx_buffer_pool \<Rightarrow> addr option \<Rightarrow> nat \<Rightarrow> prx_error \<times> addr option \<times> prx_buffer_pool" where
  "prx_fixed_buffer_set_size pool buffer sz = (er_not_supported, buffer, pool)"

text \<open>
  Releasing a pool frees the buffers on its free list (dynamic) or its blocks (fixed); what is
  still checked out of a dynamic pool stays allocated.
\<close>

definition prx_dynamic_pool_free :: "prx_buffer_pool \<Rightarrow> prx_buffer_pool" where
  "prx_dynamic_pool_free pool = pool\<lparr>
     pool_heap := pool_heap pool |` (- set (pool_free_list pool)), pool_free_list := []\<rparr>"

definition prx_fixed_pool_free :: "prx_buffer_pool \<Rightarrow> prx_buffer_pool" where
  "prx_fixed_pool_free pool = pool\<lparr>
     pool_checked_out := [], pool_free_list := [],
     pool_heap := pool_heap pool |` {a. fst a \<notin> fst ` set (pool_blocks pool)},
     pool_blocks := []\<rparr>"

definition prx_dynamic_pool_create ::
  "allocator \<Rightarrow> bool \<Rightarrow> prx_error \<Rightarrow> nat \<Rightarrow> prx_pool_config option \<Rightarrow> prx_error \<times> prx_buffer_pool option" where
  "prx_dynamic_pool_create A zalloc_ok lock_result item_size config = (
     if \<not> zalloc_ok then (er_out_of_memory, None)
     else let (result, pool) = prx_buffer_pool_init lock_result prx_pool_zero item_size config
          in if result \<noteq> er_ok then (result, None)
             else let (result, pool) = prx_dynamic_pool_grow_no_lock A pool
                  in if result \<noteq> er_ok then (result, None) else (er_ok, Some pool))"

definition prx_fixed_pool_create ::
  "allocator \<Rightarrow> bool \<Rightarrow> prx_error \<Rightarrow> nat \<Rightarrow> prx_pool_config option \<Rightarrow> prx_error \<times> prx_buffer_pool option" where
  "prx_fixed_pool_create A zalloc_ok lock_result item_size config = (
     if \<not> zalloc_ok then (er_out_of_memory, None)
     else let (result, pool) = prx_buffer_pool_init lock_result prx_pool_zero item_size config
          in if result \<noteq> er_ok then (result, None)
             else let (result, pool) = prx_fixed_pool_grow_no_lock A pool
                  in if result \<noteq> er_ok then (result, None) else (er_ok, Some pool))"

text \<open>
  The function table \<open>prx_buffer_factory_t\<close> has these two implementations; the inline wrappers
  of the header dispatch over it.
\<close>

datatype prx_buffer_factory = dynamic_pool | fixed_pool

definition prx_buffer_alloc ::
  "allocator \<Rightarrow> prx_buffer_factory \<Rightarrow> prx_buffer_pool \<Rightarrow> addr option \<Rightarrow> addr option \<times> prx_buffer_pool" where
  "prx_buffer_alloc A factory pool original = (case factory of
     dynamic_pool \<Rightarrow> prx_buffer_pool_alloc_buffer (prx_dynamic_pool_grow_no_lock A) pool original
   | fixed_pool \<Rightarrow> prx_buffer_pool_alloc_buffer (prx_fixed_pool_grow_no_lock A) pool original)"

definition prx_buffer_get_size :: "prx_buffer_factory \<Rightarrow> prx_buffer_pool \<Rightarrow> addr \<Rightarrow> nat" where
  "prx_buffer_get_size factory pool a = (case factory of
     dynamic_pool \<Rightarrow> prx_dynamic_buffer_get_size pool a
   | fixed_pool \<Rightarrow> prx_fixed_buffer_get_size pool a)"

definition prx_buffer_set_size ::
  "allocator \<Rightarrow> prx_buffer_factory \<Rightarrow> prx_buffer_pool \<Rightarrow> addr option \<Rightarrow> nat
     \<Rightarrow> prx_error \<times> addr option \<times> prx_buffer_pool" where
  "prx_buffer_set_size A factory pool buffer sz = (case factory of
     dynamic_pool \<Rightarrow> prx_dynamic_buffer_set_size A pool buffer sz
   | fixed_pool \<Rightarrow> prx_fixed_buffer_set_size pool buffer sz)"

definition prx_buffer_release :: "prx_buffer_factory \<Rightarrow> prx_buffer_pool \<Rightarrow> addr \<Rightarrow> prx_buffer_pool" where
  "prx_buffer_release factory pool a = prx_buffer_pool_free_buffer pool a"

definition prx_buffer_factory_get_available :: "prx_buffer_pool \<Rightarrow> nat" where
  "prx_buffer_factory_get_available pool = pool_free_count pool"

definition prx_buffer_new ::
  "allocator \<Rightarrow> prx_buffer_factory \<Rightarrow> prx_buffer_pool \<Rightarrow> nat \<Rightarrow> addr option \<times> prx_buffer_pool" where
  "prx_buffer_new A factory pool len = (
     let (buffer, pool) = prx_buffer_alloc A factory pool None
     in case buffer of
          None \<Rightarrow> (None, pool)
        | Some a \<Rightarrow> (let (result, buffer, pool) = prx_buffer_set_size A factory pool (Some a) len
             in if result = er_ok then (buffer, pool)
                else (None, prx_buffer_release factory pool (the buffer))))"

section \<open>The pool invariant\<close>

text \<open>
  The lists partition the allocated buffers, the counters are their lengths, a free buffer has
  no reference and a checked out one has at least one, the configured maximum is respected, and
  the callback has been told \<open>true\<close> and \<open>false\<close> in turn, beginning with \<open>true\<close>, the last one being
  the current \<open>empty\<close> flag.
\<close>

fun flow_ok :: "bool list \<Rightarrow> bool \<Rightarrow> bool" where
  "flow_ok [] e = (\<not> e)"
| "flow_ok (s # ss) e = (s = e \<and> flow_ok ss (\<not> s))"

definition pool_lists_ok :: "prx_buffer_pool \<Rightarrow> bool" where
  "pool_lists_ok p \<longleftrightarrow>
     pool_free_count p = length (pool_free_list p) \<and>
     pool_count p = length (pool_free_list p) + length (pool_checked_out p) \<and>
     distinct (pool_free_list p @ pool_checked_out p) \<and>
     (max_count (pool_config p) \<noteq> 0 \<longrightarrow> pool_count p \<le> max_count (pool_config p))"

definition pool_heap_ok :: "prx_buffer_pool \<Rightarrow> bool" where
  "pool_heap_ok p \<longleftrightarrow>
     dom (pool_heap p) = set (pool_free_list p) \<union> set (pool_checked_out p) \<and>
     (\<forall>a \<in> set (pool_free_list p). pool_refs p a = 0) \<and>
     (\<forall>a \<in> set (pool_checked_out p). 0 < pool_refs p a) \<and>
     (\<forall>a \<in> dom (pool_heap p). fst a < pool_allocs p)"

text \<open>
  A pool with its high watermark at the maximum or above never calls back with \<open>false\<close>; in any
  other pool the low state does not outlast the return of all buffers.
\<close>

definition pool_signals_ok :: "prx_buffer_pool \<Rightarrow> bool" where
  "pool_signals_ok p \<longleftrightarrow>
     flow_ok (pool_signals p) (pool_empty p) \<and>
     (max_count (pool_config p) \<noteq> 0 \<and> max_count (pool_config p) \<le> high_watermark (pool_config p)
        \<longrightarrow> False \<notin> set (pool_signals p))"

definition pool_resumed :: "prx_buffer_pool \<Rightarrow> bool" where
  "pool_resumed p \<longleftrightarrow>
     (pool_checked_out p = [] \<and> pool_empty p \<longrightarrow> pool_count p \<le> high_watermark (pool_config p))"

definition pool_inv :: "prx_buffer_pool \<Rightarrow> bool" where
  "pool_inv p \<longleftrightarrow> pool_lists_ok p \<and> pool_heap_ok p \<and> pool_signals_ok p \<and> pool_resumed p"

lemmas pool_inv_defs = pool_inv_def pool_lists_ok_def pool_heap_ok_def

lemma pool_set_refs_sel [simp]:
  "pool_free_list (pool_set_refs a d p) = pool_free_list p"
  "pool_free_count (pool_set_refs a d p) = pool_free_count p"
  "pool_checked_out (pool_set_refs a d p) = pool_checked_out p"
  "pool_count (pool_set_refs a d p) = pool_count p"
  "pool_config (pool_set_refs a d p) = pool_config p"
  "pool_empty (pool_set_refs a d p) = pool_empty p"
  "pool_signals (pool_set_refs a d p) = pool_signals p"
  "pool_allocs (pool_set_refs a d p) = pool_allocs p"
  "dom (pool_heap (pool_set_refs a d p)) = dom (pool_heap p)"
  by (auto simp: pool_set_refs_def split: option.splits)

lemma pool_refs_set_refs [simp]:
  "pool_refs (pool_set_refs a d p) b =
     (if a = b \<and> a \<in> dom (pool_heap p) then pool_refs p a + d else pool_refs p b)"
  by (auto simp: pool_set_refs_def pool_refs_def split: option.splits)

lemma pool_refs_update [simp]:
  "pool_refs (p\<lparr>pool_free_list := x\<rparr>) a = pool_refs p a"
  "pool_refs (p\<lparr>pool_free_count := n\<rparr>) a = pool_refs p a"
  "pool_refs (p\<lparr>pool_checked_out := x\<rparr>) a = pool_refs p a"
  "pool_refs (p\<lparr>pool_empty := e\<rparr>) a = pool_refs p a"
  "pool_refs (p\<lparr>pool_signals := s\<rparr>) a = pool_refs p a"
  "pool_refs (p\<lparr>pool_allocs := n\<rparr>) a = pool_refs p a"
  "pool_refs (p\<lparr>pool_blocks := x\<rparr>) a = pool_refs p a"
  by (simp_all add: pool_refs_def)

text \<open>
  What a client owns: the references it holds on the buffers that are checked out. A client
  cannot see the lists, only this map.
\<close>

definition pool_live :: "prx_buffer_pool \<Rightarrow> addr \<Rightarrow> nat" where
  "pool_live p a = nat (pool_refs p a)"

lemma pool_refs_outside: "a \<notin> dom (pool_heap p) \<Longrightarrow> pool_refs p a = 0"
  by (simp add: pool_refs_def domIff)

lemma pool_live_checked_out:
  assumes "pool_inv p"
  shows "(0 < pool_live p a) = (a \<in> set (pool_checked_out p))"
proof (cases "a \<in> dom (pool_heap p)")
  case True
  then have "a \<in> set (pool_free_list p) \<or> a \<in> set (pool_checked_out p)"
    using assms unfolding pool_inv_def pool_heap_ok_def by simp
  then show ?thesis
    using assms unfolding pool_inv_defs pool_live_def by (elim conjE disjE; fastforce)
next
  case False
  then show ?thesis
    using assms unfolding pool_inv_defs pool_live_def by (simp add: pool_refs_outside)
qed

section \<open>Growing keeps the invariant\<close>

text \<open>
  The grow policies run in the middle of a checkout, when the buffer being handed out is on
  neither list. \<open>pool_pre\<close> is the invariant with such a set \<open>F\<close> of buffers in flight.
\<close>

definition pool_pre :: "addr list \<Rightarrow> prx_buffer_pool \<Rightarrow> bool" where
  "pool_pre F p \<longleftrightarrow>
     pool_free_count p = length (pool_free_list p) \<and>
     pool_count p = length (pool_free_list p) + length F + length (pool_checked_out p) \<and>
     distinct (pool_free_list p @ F @ pool_checked_out p) \<and>
     (max_count (pool_config p) \<noteq> 0 \<longrightarrow> pool_count p \<le> max_count (pool_config p)) \<and>
     dom (pool_heap p) = set (pool_free_list p) \<union> set F \<union> set (pool_checked_out p) \<and>
     (\<forall>a \<in> set (pool_free_list p) \<union> set F. pool_refs p a = 0) \<and>
     (\<forall>a \<in> set (pool_checked_out p). 0 < pool_refs p a) \<and>
     (\<forall>a \<in> dom (pool_heap p). fst a < pool_allocs p) \<and>
     pool_signals_ok p"

lemma pool_pre_Nil: "pool_inv p \<Longrightarrow> pool_pre [] p"
  by (auto simp: pool_pre_def pool_inv_defs)

lemma pool_pre_NilD: "pool_pre [] p \<Longrightarrow> \<not> pool_empty p \<Longrightarrow> pool_inv p"
  by (auto simp: pool_pre_def pool_inv_defs pool_resumed_def)

lemma pool_signals_ok_update [simp]:
  "pool_signals_ok (p\<lparr>pool_free_list := x\<rparr>) = pool_signals_ok p"
  "pool_signals_ok (p\<lparr>pool_free_count := n\<rparr>) = pool_signals_ok p"
  "pool_signals_ok (p\<lparr>pool_checked_out := x\<rparr>) = pool_signals_ok p"
  "pool_signals_ok (p\<lparr>pool_allocs := n\<rparr>) = pool_signals_ok p"
  "pool_signals_ok (p\<lparr>pool_blocks := x\<rparr>) = pool_signals_ok p"
  "pool_signals_ok (p\<lparr>pool_heap := h\<rparr>) = pool_signals_ok p"
  "pool_signals_ok (pool_set_refs a d p) = pool_signals_ok p"
  "pool_signals_ok (pool_add_free a mem p) = pool_signals_ok p"
  by (simp_all add: pool_signals_ok_def pool_add_free_def)

definition pool_room :: "prx_buffer_pool \<Rightarrow> nat \<Rightarrow> bool" where
  "pool_room p n \<longleftrightarrow> (max_count (pool_config p) \<noteq> 0 \<longrightarrow> pool_count p + n \<le> max_count (pool_config p))"

lemma pool_grow_items_room:
  "pool_pre F p \<Longrightarrow> pool_room p (pool_grow_items p)"
  by (auto simp: pool_room_def pool_grow_items_def pool_pre_def Let_def size_simps)

text \<open>A growth step changes neither the checked out buffers nor anybody's references.\<close>

definition pool_grown :: "prx_buffer_pool \<Rightarrow> prx_buffer_pool \<Rightarrow> bool" where
  "pool_grown p q \<longleftrightarrow>
     pool_checked_out q = pool_checked_out p \<and> pool_config q = pool_config p \<and>
     pool_empty q = pool_empty p \<and> pool_signals q = pool_signals p \<and>
     (\<forall>a. pool_refs q a = pool_refs p a) \<and> pool_count p \<le> pool_count q \<and>
     dom (pool_heap p) \<subseteq> dom (pool_heap q)"

lemma pool_grown_refl [simp]: "pool_grown p p"
  by (simp add: pool_grown_def)

lemma pool_grown_trans: "pool_grown p q \<Longrightarrow> pool_grown q r \<Longrightarrow> pool_grown p r"
  by (simp add: pool_grown_def) (meson le_trans subset_trans)

lemma pool_refs_add_free:
  "pool_heap p a = None \<Longrightarrow> pool_refs (pool_add_free a mem p) b = pool_refs p b"
  by (auto simp: pool_refs_def pool_add_free_def)

lemma pool_add_free_sel [simp]:
  "pool_free_list (pool_add_free a mem p) = pool_free_list p @ [a]"
  "pool_free_count (pool_add_free a mem p) = pool_free_count p + 1"
  "pool_checked_out (pool_add_free a mem p) = pool_checked_out p"
  "pool_count (pool_add_free a mem p) = pool_count p + 1"
  "pool_config (pool_add_free a mem p) = pool_config p"
  "pool_empty (pool_add_free a mem p) = pool_empty p"
  "pool_signals (pool_add_free a mem p) = pool_signals p"
  "pool_allocs (pool_add_free a mem p) = pool_allocs p"
  "pool_item_size (pool_add_free a mem p) = pool_item_size p"
  "dom (pool_heap (pool_add_free a mem p)) = insert a (dom (pool_heap p))"
  by (auto simp: pool_add_free_def)

lemma pool_add_free_pre:
  assumes "pool_pre F p" "a \<notin> dom (pool_heap p)" "fst a < pool_allocs p" "pool_room p (Suc n)"
  shows "pool_pre F (pool_add_free a mem p)" "pool_room (pool_add_free a mem p) n"
    "pool_grown p (pool_add_free a mem p)"
proof -
  have r: "pool_refs (pool_add_free a mem p) b = pool_refs p b" for b
    using assms(2) by (intro pool_refs_add_free) auto
  show "pool_pre F (pool_add_free a mem p)"
    using assms pool_refs_outside [OF assms(2)] unfolding pool_pre_def pool_room_def r by auto
  show "pool_room (pool_add_free a mem p) n"
    using assms(4) by (simp add: pool_room_def)
  show "pool_grown p (pool_add_free a mem p)"
    by (auto simp: pool_grown_def r)
qed

lemma pool_allocs_pre:
  assumes "pool_pre F p"
  shows "pool_pre F (p\<lparr>pool_allocs := pool_allocs p + 1\<rparr>)"
proof -
  have "\<forall>a \<in> dom (pool_heap p). fst a < Suc (pool_allocs p)"
    using assms unfolding pool_pre_def by (meson less_SucI)
  then show ?thesis
    using assms unfolding pool_pre_def by (elim conjE, intro conjI) simp_all
qed

lemma pool_allocs_grown [simp]:
  "pool_grown p (p\<lparr>pool_allocs := n\<rparr>)"
  "pool_room (p\<lparr>pool_allocs := n\<rparr>) k = pool_room p k"
  by (simp_all add: pool_grown_def pool_room_def)

lemma pool_blocks_pre [simp]:
  "pool_pre F (p\<lparr>pool_blocks := x\<rparr>) = pool_pre F p"
  "pool_grown q (p\<lparr>pool_blocks := x\<rparr>) = pool_grown q p"
  "pool_room (p\<lparr>pool_blocks := x\<rparr>) n = pool_room p n"
  by (auto simp: pool_pre_def pool_grown_def pool_room_def)

lemma pool_pre_fresh:
  assumes "pool_pre F p" "pool_allocs p \<le> n"
  shows "(n, i) \<notin> dom (pool_heap p)"
proof
  assume "(n, i) \<in> dom (pool_heap p)"
  then have "fst (n, i) < pool_allocs p"
    using assms(1) unfolding pool_pre_def by (elim conjE) (rule bspec)
  then show False
    using assms(2) by simp
qed

lemma prx_dynamic_pool_grow_loop_pre:
  "pool_pre F p \<Longrightarrow> pool_room p n \<Longrightarrow>
     pool_pre F (prx_dynamic_pool_grow_loop A n p) \<and> pool_grown p (prx_dynamic_pool_grow_loop A n p)"
proof (induction n arbitrary: p)
  case (Suc i)
  define q where "q = p\<lparr>pool_allocs := pool_allocs p + 1\<rparr>"
  have q: "pool_pre F q" "pool_room q (Suc i)" "pool_grown p q" "pool_item_size q = pool_item_size p"
    and aq: "pool_allocs p < pool_allocs q"
    using Suc.prems pool_allocs_pre [OF Suc.prems(1)] by (simp_all add: q_def)
  have fresh: "(pool_allocs p, 0) \<notin> dom (pool_heap q)"
    using pool_pre_fresh [OF Suc.prems(1), of "pool_allocs p"] by (simp add: q_def)
  show ?case
  proof (cases "mem_alloc A (pool_allocs p) (size_add SIZEOF_PRX_BUFFER (pool_item_size p))")
    case None
    then have "prx_dynamic_pool_grow_loop A (Suc i) p = q"
      by (simp add: Let_def q_def)
    then show ?thesis using q by simp
  next
    case (Some mem)
    define r where "r = pool_add_free (pool_allocs p, 0) (drop SIZEOF_PRX_BUFFER mem) q"
    have r: "pool_pre F r" "pool_room r i" "pool_grown q r"
      using pool_add_free_pre [OF q(1) fresh _ q(2)] aq unfolding r_def by simp_all
    have "prx_dynamic_pool_grow_loop A (Suc i) p = prx_dynamic_pool_grow_loop A i r"
      using Some by (simp add: Let_def q_def r_def)
    then show ?thesis
      using Suc.IH [OF r(1,2)] pool_grown_trans [OF q(3) pool_grown_trans [OF r(3)]] by simp
  qed
qed simp

lemma prx_fixed_pool_grow_loop_pre:
  assumes "pool_pre F p" "pool_room p k" "\<forall>j. i \<le> j \<longrightarrow> (n, j) \<notin> dom (pool_heap p)" "n < pool_allocs p"
  shows "pool_pre F (prx_fixed_pool_grow_loop n mem i k p) \<and> pool_grown p (prx_fixed_pool_grow_loop n mem i k p)"
  using assms
proof (induction k arbitrary: p i)
  case (Suc k)
  define r where "r = pool_add_free (n, i)
     (take (pool_item_size p) (drop (i * size_add SIZEOF_PRX_BUFFER (pool_item_size p) + SIZEOF_PRX_BUFFER) mem)) p"
  have r: "pool_pre F r" "pool_room r k" "pool_grown p r"
    using pool_add_free_pre [OF Suc.prems(1) _ _ Suc.prems(2)] Suc.prems(3,4) unfolding r_def by simp_all
  have fresh: "\<forall>j. Suc i \<le> j \<longrightarrow> (n, j) \<notin> dom (pool_heap r)" "n < pool_allocs r"
    using Suc.prems(3,4) unfolding r_def by simp_all
  have "prx_fixed_pool_grow_loop n mem i (Suc k) p = prx_fixed_pool_grow_loop n mem (Suc i) k r"
    by (simp add: Let_def r_def)
  then show ?case
    using Suc.IH [OF r(1,2) fresh] pool_grown_trans [OF r(3)] by simp
qed simp

lemma prx_dynamic_pool_grow_pre:
  assumes "pool_pre F p"
  shows "pool_pre F (snd (prx_dynamic_pool_grow_no_lock A p))"
    "pool_grown p (snd (prx_dynamic_pool_grow_no_lock A p))"
  using prx_dynamic_pool_grow_loop_pre [OF assms pool_grow_items_room [OF assms]]
  by (simp_all add: prx_dynamic_pool_grow_no_lock_def Let_def)

lemma prx_fixed_pool_grow_pre:
  assumes "pool_pre F p"
  shows "pool_pre F (snd (prx_fixed_pool_grow_no_lock A p)) \<and>
         pool_grown p (snd (prx_fixed_pool_grow_no_lock A p))"
proof -
  define q where "q = p\<lparr>pool_allocs := pool_allocs p + 1\<rparr>"
  have q: "pool_pre F q" "pool_room q (pool_grow_items p)" "pool_grown p q"
    and aq: "pool_allocs p < pool_allocs q"
    using pool_grow_items_room [OF assms] pool_allocs_pre [OF assms] by (simp_all add: q_def)
  have fresh: "\<forall>j. 0 \<le> j \<longrightarrow> (pool_allocs p, j) \<notin> dom (pool_heap q)"
    using pool_pre_fresh [OF assms, of "pool_allocs p"] by (simp add: q_def)
  define r where "r = q\<lparr>pool_blocks := pool_blocks q @ [(pool_allocs p, 0)]\<rparr>"
  have r: "pool_pre F r" "pool_room r (pool_grow_items p)" "pool_grown p r" "pool_allocs p < pool_allocs r"
      "\<forall>j. 0 \<le> j \<longrightarrow> (pool_allocs p, j) \<notin> dom (pool_heap r)"
    using q aq fresh by (simp_all add: r_def)
  consider "prx_fixed_pool_grow_no_lock A p = (er_out_of_memory, p)"
    | "prx_fixed_pool_grow_no_lock A p = (er_out_of_memory, q)"
    | mem where "prx_fixed_pool_grow_no_lock A p =
        (er_ok, prx_fixed_pool_grow_loop (pool_allocs p) mem 0 (pool_grow_items p) r)"
    unfolding prx_fixed_pool_grow_no_lock_def Let_def r_def q_def
    by (cases "pool_grow_items p = 0"; cases "mem_alloc A (pool_allocs p) ((SIZEOF_PRX_BUFFER +
          pool_grow_items p * size_add SIZEOF_PRX_BUFFER (pool_item_size p)) mod SIZE_MOD)") simp_all
  then show ?thesis
    using assms q r prx_fixed_pool_grow_loop_pre [OF r(1,2,5,4)] pool_grown_trans [OF r(3)]
    by cases simp_all
qed

section \<open>Every operation keeps the invariant\<close>

text \<open>The last steps of a checkout, after a growth that may have happened.\<close>

definition pool_checkout :: "addr \<Rightarrow> prx_buffer_pool \<Rightarrow> prx_buffer_pool" where
  "pool_checkout out pool = (
     let signal = (pool_free_count pool \<le> low_watermark (pool_config pool) \<and> \<not> pool_empty pool);
         pool = (if signal then pool\<lparr>pool_empty := True\<rparr> else pool);
         pool = pool_set_refs out 1 pool;
         pool = pool\<lparr>pool_checked_out := pool_checked_out pool @ [out]\<rparr>
     in if signal then pool\<lparr>pool_signals := True # pool_signals pool\<rparr> else pool)"

lemma prx_buffer_pool_alloc_None:
  "prx_buffer_pool_alloc_buffer grow p None = (case pool_free_list p of
     [] \<Rightarrow> (None, p)
   | out # rest \<Rightarrow> (
       let p1 = p\<lparr>pool_free_list := rest, pool_free_count := size_sub (pool_free_count p) 1\<rparr>;
           p2 = (if pool_free_count p1 = 0 then snd (grow p1) else p1)
       in (Some out, pool_checkout out p2)))"
  by (simp add: prx_buffer_pool_alloc_buffer_def pool_checkout_def Let_def split: list.splits)

lemma pool_checkout_sel:
  "pool_free_list (pool_checkout out p) = pool_free_list p"
  "pool_free_count (pool_checkout out p) = pool_free_count p"
  "pool_checked_out (pool_checkout out p) = pool_checked_out p @ [out]"
  "pool_count (pool_checkout out p) = pool_count p"
  "pool_config (pool_checkout out p) = pool_config p"
  "pool_allocs (pool_checkout out p) = pool_allocs p"
  "dom (pool_heap (pool_checkout out p)) = dom (pool_heap p)"
  "pool_signals_ok (pool_checkout out p) = pool_signals_ok p"
  "pool_refs (pool_checkout out p) a =
     (if out = a \<and> out \<in> dom (pool_heap p) then pool_refs p out + 1 else pool_refs p a)"
  by (auto simp: pool_checkout_def Let_def pool_signals_ok_def)

lemma pool_checkout_inv:
  assumes "pool_pre [out] p"
  shows "pool_inv (pool_checkout out p)" "pool_live (pool_checkout out p) = (pool_live p)(out := 1)"
proof -
  have out: "out \<in> dom (pool_heap p)" "pool_refs p out = 0" "out \<notin> set (pool_free_list p)"
    "out \<notin> set (pool_checked_out p)"
    using assms unfolding pool_pre_def by auto
  show "pool_inv (pool_checkout out p)"
    using assms out unfolding pool_pre_def pool_inv_defs pool_resumed_def pool_checkout_sel by auto
  show "pool_live (pool_checkout out p) = (pool_live p)(out := 1)"
    using out by (auto simp: pool_live_def pool_checkout_sel fun_eq_iff)
qed

lemma pool_take_pre:
  assumes "pool_inv p" "pool_free_list p = out # rest"
  shows "pool_pre [out] (p\<lparr>pool_free_list := rest, pool_free_count := size_sub (pool_free_count p) 1\<rparr>)"
  using assms unfolding pool_pre_def pool_inv_defs by (auto simp: size_simps)

lemma pool_live_grown: "pool_grown p q \<Longrightarrow> pool_live q = pool_live p"
  by (auto simp: pool_grown_def pool_live_def)

lemma prx_buffer_pool_alloc_new:
  assumes inv: "pool_inv p"
    and grow: "\<And>F p. pool_pre F p \<Longrightarrow> pool_pre F (snd (grow p)) \<and> pool_grown p (snd (grow p))"
    and eq: "prx_buffer_pool_alloc_buffer grow p None = (r, q)"
  shows "pool_inv q \<and> pool_config q = pool_config p \<and>
         (case r of None \<Rightarrow> q = p \<and> pool_free_list p = []
           | Some a \<Rightarrow> pool_live p a = 0 \<and> pool_live q = (pool_live p)(a := 1))"
proof (cases "pool_free_list p")
  case Nil
  then show ?thesis
    using inv eq by (auto simp: prx_buffer_pool_alloc_None)
next
  case (Cons out rest)
  define p1 where "p1 = p\<lparr>pool_free_list := rest, pool_free_count := size_sub (pool_free_count p) 1\<rparr>"
  define p2 where "p2 = (if pool_free_count p1 = 0 then snd (grow p1) else p1)"
  have p1: "pool_pre [out] p1" "pool_live p1 = pool_live p"
    using pool_take_pre [OF inv Cons] by (simp_all add: p1_def pool_live_def fun_eq_iff)
  have p2: "pool_pre [out] p2" "pool_live p2 = pool_live p" "pool_config p2 = pool_config p"
    using grow [OF p1(1)] p1 pool_live_grown by (auto simp: p2_def p1_def pool_grown_def)
  have "pool_live p out = 0"
    using inv Cons by (auto simp: pool_inv_defs pool_live_def)
  moreover have "r = Some out" "q = pool_checkout out p2"
    using eq Cons by (auto simp: prx_buffer_pool_alloc_None Let_def p1_def p2_def)
  ultimately show ?thesis
    using pool_checkout_inv [OF p2(1)] p2(2,3) by (simp add: pool_checkout_sel)
qed

lemma prx_buffer_pool_alloc_original:
  assumes "pool_inv p" "0 < pool_live p a" "prx_buffer_pool_alloc_buffer grow p (Some a) = (r, q)"
  shows "pool_inv q \<and> pool_config q = pool_config p \<and> r = Some a \<and>
         pool_live q = (pool_live p)(a := pool_live p a + 1)"
proof -
  have a: "a \<in> set (pool_checked_out p)" "a \<in> dom (pool_heap p)" "a \<notin> set (pool_free_list p)" "0 < pool_refs p a"
    using assms(1,2) pool_live_checked_out [OF assms(1)] by (auto simp: pool_inv_defs)
  have q: "r = Some a" "q = pool_set_refs a 1 p"
    using assms(3) by (simp_all add: prx_buffer_pool_alloc_buffer_def)
  have "pool_inv q"
    using assms(1) a unfolding q pool_inv_defs pool_resumed_def by auto
  moreover have "pool_live q = (pool_live p)(a := pool_live p a + 1)"
    using a unfolding q pool_live_def by (auto simp: fun_eq_iff)
  ultimately show ?thesis using q by simp
qed

lemma pool_unlink_sel [simp]:
  "pool_free_list (pool_unlink a p) = remove1 a (pool_free_list p)"
  "pool_checked_out (pool_unlink a p) = remove1 a (pool_checked_out p)"
  "pool_free_count (pool_unlink a p) = pool_free_count p"
  "pool_count (pool_unlink a p) = pool_count p"
  "pool_config (pool_unlink a p) = pool_config p"
  "pool_empty (pool_unlink a p) = pool_empty p"
  "pool_signals (pool_unlink a p) = pool_signals p"
  "pool_allocs (pool_unlink a p) = pool_allocs p"
  "pool_heap (pool_unlink a p) = pool_heap p"
  "pool_refs (pool_unlink a p) b = pool_refs p b"
  by (simp_all add: pool_unlink_def)

text \<open>The return of a buffer nobody references any more to the free list.\<close>

definition pool_return :: "addr \<Rightarrow> prx_buffer_pool \<Rightarrow> prx_buffer_pool" where
  "pool_return a pool = (
     let pool = pool_unlink a pool;
         pool = pool\<lparr>pool_free_list := pool_free_list pool @ [a], pool_free_count := pool_free_count pool + 1\<rparr>
     in if high_watermark (pool_config pool) < pool_free_count pool \<and> pool_empty pool
        then pool\<lparr>pool_empty := False, pool_signals := False # pool_signals pool\<rparr> else pool)"

lemma prx_buffer_pool_free_buffer_eq:
  "prx_buffer_pool_free_buffer p a = (
     let q = pool_set_refs a (- 1) p in if pool_refs q a \<noteq> 0 then q else pool_return a q)"
  by (simp add: prx_buffer_pool_free_buffer_def pool_return_def Let_def)

lemma pool_return_sel:
  "pool_free_list (pool_return a p) = remove1 a (pool_free_list p) @ [a]"
  "pool_free_count (pool_return a p) = pool_free_count p + 1"
  "pool_checked_out (pool_return a p) = remove1 a (pool_checked_out p)"
  "pool_count (pool_return a p) = pool_count p"
  "pool_config (pool_return a p) = pool_config p"
  "pool_allocs (pool_return a p) = pool_allocs p"
  "dom (pool_heap (pool_return a p)) = dom (pool_heap p)"
  "pool_refs (pool_return a p) b = pool_refs p b"
  by (auto simp: pool_return_def Let_def)

lemma pool_return_empty:
  "pool_empty (pool_return a p) =
     (pool_empty p \<and> pool_free_count p + 1 \<le> high_watermark (pool_config p))"
  by (auto simp: pool_return_def Let_def)

lemma pool_return_signals:
  assumes "pool_signals_ok p" "max_count (pool_config p) \<noteq> 0 \<longrightarrow> pool_free_count p < max_count (pool_config p)"
  shows "pool_signals_ok (pool_return a p)"
  using assms by (auto simp: pool_return_def pool_signals_ok_def Let_def)

lemma pool_checked_out_facts:
  assumes "pool_inv p" "a \<in> set (pool_checked_out p)"
  shows "a \<in> dom (pool_heap p)" "a \<notin> set (pool_free_list p)" "0 < pool_refs p a"
    "length (pool_checked_out p) = Suc (length (remove1 a (pool_checked_out p)))"
    "distinct (remove1 a (pool_checked_out p))"
    "set (remove1 a (pool_checked_out p)) = set (pool_checked_out p) - {a}"
  using assms length_pos_if_in_set [OF assms(2)]
  unfolding pool_inv_defs by (auto simp: length_remove1)

lemma pool_return_inv:
  assumes inv: "pool_inv p" and a: "a \<in> set (pool_checked_out p)" and one: "pool_refs p a = 1"
  shows "pool_inv (pool_return a (pool_set_refs a (- 1) p))"
proof -
  note f = pool_checked_out_facts [OF inv a]
  have free: "remove1 a (pool_free_list p) = pool_free_list p"
    using f(2) by (simp add: remove1_idem)
  let ?q = "pool_set_refs a (- 1) p"
  have "pool_lists_ok (pool_return a ?q)"
    using inv f unfolding pool_inv_defs pool_return_sel by (auto simp: free)
  moreover have "pool_heap_ok (pool_return a ?q)"
    using inv a one f unfolding pool_inv_defs pool_return_sel by (auto simp: free)
  moreover have "pool_signals_ok (pool_return a ?q)"
    using inv f by (intro pool_return_signals) (auto simp: pool_inv_defs)
  moreover have "pool_resumed (pool_return a ?q)"
    using inv f unfolding pool_inv_defs pool_resumed_def pool_return_sel pool_return_empty by auto
  ultimately show ?thesis
    by (simp add: pool_inv_def)
qed

lemma prx_buffer_pool_free_buffer_inv:
  assumes inv: "pool_inv p" and a: "0 < pool_live p a"
  shows "pool_inv (prx_buffer_pool_free_buffer p a)"
    "pool_config (prx_buffer_pool_free_buffer p a) = pool_config p"
    "pool_live (prx_buffer_pool_free_buffer p a) = (pool_live p)(a := pool_live p a - 1)"
proof -
  have c: "a \<in> set (pool_checked_out p)"
    using a pool_live_checked_out [OF inv] by simp
  note f = pool_checked_out_facts [OF inv c]
  define q where "q = pool_set_refs a (- 1) p"
  have q: "pool_refs q b = (if b = a then pool_refs p a - 1 else pool_refs p b)" for b
    using f(1) by (auto simp: q_def)
  have e: "prx_buffer_pool_free_buffer p a = (if pool_refs p a = 1 then pool_return a q else q)"
    using q by (simp add: prx_buffer_pool_free_buffer_eq Let_def q_def [symmetric])
  have "pool_inv q" if "pool_refs p a \<noteq> 1"
    using inv c f that unfolding pool_inv_defs pool_resumed_def q by (auto simp: q_def)
  then show "pool_inv (prx_buffer_pool_free_buffer p a)"
    using pool_return_inv [OF inv c] e by (simp add: q_def)
  show "pool_config (prx_buffer_pool_free_buffer p a) = pool_config p"
    by (simp add: e q_def pool_return_sel)
  show "pool_live (prx_buffer_pool_free_buffer p a) = (pool_live p)(a := pool_live p a - 1)"
    using f(3) unfolding e by (auto simp: pool_live_def pool_return_sel q fun_eq_iff)
qed

text \<open>
  A resize either moves the buffer, with all its references, to a fresh address or leaves it
  where it is; in both cases it goes to the tail of the checked out list.
\<close>

definition pool_move :: "addr \<Rightarrow> addr \<Rightarrow> (addr \<rightharpoonup> prx_buffer) \<Rightarrow> prx_buffer_pool \<Rightarrow> prx_buffer_pool" where
  "pool_move a b h p = (pool_unlink a p)\<lparr>pool_allocs := pool_allocs p + 1, pool_heap := h,
     pool_checked_out := remove1 a (pool_checked_out p) @ [b]\<rparr>"

lemma pool_move_sel:
  "pool_free_list (pool_move a b h p) = remove1 a (pool_free_list p)"
  "pool_checked_out (pool_move a b h p) = remove1 a (pool_checked_out p) @ [b]"
  "pool_free_count (pool_move a b h p) = pool_free_count p" "pool_count (pool_move a b h p) = pool_count p"
  "pool_config (pool_move a b h p) = pool_config p" "pool_allocs (pool_move a b h p) = pool_allocs p + 1"
  "pool_signals (pool_move a b h p) = pool_signals p" "pool_empty (pool_move a b h p) = pool_empty p"
  "pool_heap (pool_move a b h p) = h"
  by (simp_all add: pool_move_def)

lemma pool_move_inv:
  assumes inv: "pool_inv p" and c: "a \<in> set (pool_checked_out p)"
    and b: "b = a \<or> b \<notin> dom (pool_heap p)" "fst b \<le> pool_allocs p"
    and h: "dom h = insert b (dom (pool_heap p) - {a})"
    and refs: "\<And>x. pool_refs (pool_move a b h p) x =
                 (if x = b then pool_refs p a else if x = a then 0 else pool_refs p x)"
  shows "pool_inv (pool_move a b h p)"
proof -
  note f = pool_checked_out_facts [OF inv c]
  have free: "remove1 a (pool_free_list p) = pool_free_list p"
    using f(2) by (simp add: remove1_idem)
  have b': "b \<notin> set (pool_free_list p)" "b \<notin> set (remove1 a (pool_checked_out p))"
    using b f inv by (auto simp: pool_inv_defs)
  have dom_n: "\<forall>x \<in> dom (pool_heap p). fst x < Suc (pool_allocs p)"
    using inv unfolding pool_inv_defs by (meson less_SucI)
  have "pool_lists_ok (pool_move a b h p)"
    using inv f b' unfolding pool_inv_def pool_lists_ok_def pool_move_sel free by auto
  moreover have "pool_heap_ok (pool_move a b h p)"
    using inv f b b' c dom_n h
    unfolding pool_inv_def pool_heap_ok_def pool_lists_ok_def pool_move_sel free refs by auto
  moreover have "pool_signals_ok (pool_move a b h p)"
    using inv by (simp add: pool_inv_def pool_signals_ok_def pool_move_sel)
  ultimately show ?thesis
    by (simp add: pool_inv_def pool_resumed_def pool_move_sel)
qed

definition pool_resized ::
  "prx_buffer_pool \<Rightarrow> addr \<Rightarrow> prx_error \<Rightarrow> addr option \<Rightarrow> prx_buffer_pool \<Rightarrow> bool" where
  "pool_resized p a res b q \<longleftrightarrow>
     (if res = er_ok
      then \<exists>b'. b = Some b' \<and> pool_live p b' = 0 \<and> pool_live q = (pool_live p)(a := 0, b' := pool_live p a)
      else b = Some a \<and> pool_live q = pool_live p)"

lemma prx_dynamic_buffer_set_size_cases:
  assumes "pool_heap p a = Some hb" "prx_dynamic_buffer_set_size A p (Some a) sz = (res, b, q)"
  obtains mem where "res = er_ok" "b = Some (pool_allocs p, 0)"
      "q = pool_move a (pool_allocs p, 0) ((pool_heap p)(a := None,
             (pool_allocs p, 0) \<mapsto> hb\<lparr>pb_length := sz, pb_data := mem\<rparr>)) p"
    | "res = er_out_of_memory" "b = Some a" "q = pool_move a a (pool_heap p) p"
  using assms unfolding prx_dynamic_buffer_set_size_def pool_move_def
  by (auto simp: Let_def split: option.splits)

lemma prx_dynamic_buffer_set_size_inv:
  assumes inv: "pool_inv p" and a: "0 < pool_live p a"
    and eq: "prx_dynamic_buffer_set_size A p (Some a) sz = (res, b, q)"
  shows "pool_inv q \<and> pool_config q = pool_config p \<and> pool_resized p a res b q \<and>
         (res = er_ok \<longrightarrow> prx_dynamic_buffer_get_size q (the b) = sz)"
proof -
  have c: "a \<in> set (pool_checked_out p)"
    using a pool_live_checked_out [OF inv] by simp
  obtain hb where hb: "pool_heap p a = Some hb"
    using pool_checked_out_facts(1) [OF inv c] by auto
  have fresh: "(pool_allocs p, 0) \<notin> dom (pool_heap p)"
    using pool_pre_fresh [of "[]" p "pool_allocs p" 0] inv by (simp add: pool_pre_Nil)
  from hb eq show ?thesis
  proof (cases rule: prx_dynamic_buffer_set_size_cases)
    case (1 mem)
    define b' where "b' = (pool_allocs p, 0 :: nat)"
    have ne: "b' \<noteq> a" "pool_refs p b' = 0"
      using fresh hb pool_refs_outside by (auto simp: b'_def)
    have refs: "\<forall>x. pool_refs q x = (if x = b' then pool_refs p a else if x = a then 0 else pool_refs p x)"
      using ne hb unfolding 1 b'_def by (auto simp: pool_refs_def pool_move_sel)
    have "pool_inv q"
      unfolding 1 b'_def [symmetric]
      by (rule pool_move_inv [OF inv c]) (use fresh refs 1 in \<open>auto simp: b'_def\<close>)
    moreover have "pool_live q = (pool_live p)(a := 0, b' := pool_live p a)" "pool_live p b' = 0"
      using ne refs by (auto simp: pool_live_def fun_eq_iff)
    moreover have "prx_dynamic_buffer_get_size q b' = sz"
      unfolding 1 b'_def by (simp add: prx_dynamic_buffer_get_size_def pool_move_sel)
    ultimately show ?thesis
      using 1 by (auto simp: pool_resized_def b'_def pool_move_sel)
  next
    case 2
    have refs: "\<forall>x. pool_refs q x = pool_refs p x"
      unfolding 2 by (simp add: pool_refs_def pool_move_sel)
    have "pool_inv q"
      unfolding 2
      by (rule pool_move_inv [OF inv c]) (use hb inv c refs 2 in \<open>auto simp: pool_inv_defs less_imp_le\<close>)
    then show ?thesis
      using 2 refs by (auto simp: pool_resized_def pool_live_def pool_move_sel fun_eq_iff)
  qed
qed

section \<open>The contract of a buffer factory\<close>

text \<open>
  What the users of \<open>prx_buffer_factory_t\<close> rely on, over the references they hold. A client
  sequence is a list of calls; a call is admissible when the client names only buffers it
  holds a reference on.
\<close>

datatype pool_op = pool_new | pool_clone addr | pool_drop addr | pool_resize addr nat

fun pool_op_ok :: "(addr \<Rightarrow> nat) \<Rightarrow> pool_op \<Rightarrow> bool" where
  "pool_op_ok held pool_new = True"
| "pool_op_ok held (pool_clone a) = (0 < held a)"
| "pool_op_ok held (pool_drop a) = (0 < held a)"
| "pool_op_ok held (pool_resize a sz) = (0 < held a)"

fun pool_step ::
  "('p \<Rightarrow> addr option \<Rightarrow> addr option \<times> 'p) \<Rightarrow> ('p \<Rightarrow> addr \<Rightarrow> 'p)
     \<Rightarrow> ('p \<Rightarrow> addr option \<Rightarrow> nat \<Rightarrow> prx_error \<times> addr option \<times> 'p)
     \<Rightarrow> pool_op \<Rightarrow> 'p \<times> (addr \<Rightarrow> nat) \<Rightarrow> 'p \<times> (addr \<Rightarrow> nat)" where
  "pool_step alloc release resize pool_new (p, held) = (case alloc p None of
     (None, q) \<Rightarrow> (q, held)
   | (Some a, q) \<Rightarrow> (q, held(a := held a + 1)))"
| "pool_step alloc release resize (pool_clone a) (p, held) =
     (snd (alloc p (Some a)), held(a := held a + 1))"
| "pool_step alloc release resize (pool_drop a) (p, held) = (release p a, held(a := held a - 1))"
| "pool_step alloc release resize (pool_resize a sz) (p, held) = (case resize p (Some a) sz of
     (res, b, q) \<Rightarrow> (q, if res = er_ok then held(a := 0, the b := held a) else held))"

fun pool_run ::
  "('p \<Rightarrow> addr option \<Rightarrow> addr option \<times> 'p) \<Rightarrow> ('p \<Rightarrow> addr \<Rightarrow> 'p)
     \<Rightarrow> ('p \<Rightarrow> addr option \<Rightarrow> nat \<Rightarrow> prx_error \<times> addr option \<times> 'p)
     \<Rightarrow> pool_op list \<Rightarrow> 'p \<times> (addr \<Rightarrow> nat) \<Rightarrow> ('p \<times> (addr \<Rightarrow> nat)) option" where
  "pool_run alloc release resize [] st = Some st"
| "pool_run alloc release resize (op # ops) st =
     (if pool_op_ok (snd st) op
      then pool_run alloc release resize ops (pool_step alloc release resize op st) else None)"

locale buffer_factory =
  fixes inv :: "'p \<Rightarrow> bool"
    and conf :: "'p \<Rightarrow> 'c"
    and live :: "'p \<Rightarrow> addr \<Rightarrow> nat"
    and alloc :: "'p \<Rightarrow> addr option \<Rightarrow> addr option \<times> 'p"
    and release :: "'p \<Rightarrow> addr \<Rightarrow> 'p"
    and resize :: "'p \<Rightarrow> addr option \<Rightarrow> nat \<Rightarrow> prx_error \<times> addr option \<times> 'p"
  assumes alloc_new: "inv p \<Longrightarrow> alloc p None = (r, q) \<Longrightarrow>
      inv q \<and> conf q = conf p \<and>
      (case r of None \<Rightarrow> live q = live p | Some a \<Rightarrow> live p a = 0 \<and> live q = (live p)(a := 1))"
    and alloc_original: "inv p \<Longrightarrow> 0 < live p a \<Longrightarrow> alloc p (Some a) = (r, q) \<Longrightarrow>
      inv q \<and> conf q = conf p \<and> r = Some a \<and> live q = (live p)(a := live p a + 1)"
    and release_one: "inv p \<Longrightarrow> 0 < live p a \<Longrightarrow>
      inv (release p a) \<and> conf (release p a) = conf p \<and> live (release p a) = (live p)(a := live p a - 1)"
    and resize_one: "inv p \<Longrightarrow> 0 < live p a \<Longrightarrow> resize p (Some a) sz = (res, b, q) \<Longrightarrow>
      inv q \<and> conf q = conf p \<and>
      (if res = er_ok
       then \<exists>b'. b = Some b' \<and> live p b' = 0 \<and> live q = (live p)(a := 0, b' := live p a)
       else b = Some a \<and> live q = live p)"
begin

lemma step_sound:
  assumes "inv p" "pool_op_ok (live p) op" "pool_step alloc release resize op (p, live p) = (q, held)"
  shows "inv q \<and> conf q = conf p \<and> held = live q"
proof (cases op)
  case pool_new
  obtain r q' where e: "alloc p None = (r, q')"
    by (cases "alloc p None")
  then show ?thesis
    using assms(3) alloc_new [OF assms(1) e] by (cases r) (auto simp: pool_new)
next
  case (pool_clone a)
  then show ?thesis
    using assms alloc_original [OF assms(1), of a "fst (alloc p (Some a))" "snd (alloc p (Some a))"] by auto
next
  case (pool_drop a)
  then show ?thesis
    using assms release_one [OF assms(1), of a] by auto
next
  case (pool_resize a sz)
  obtain res b q' where e: "resize p (Some a) sz = (res, b, q')"
    by (cases "resize p (Some a) sz")
  show ?thesis
    using assms(2,3) resize_one [OF assms(1) _ e] by (auto simp: pool_resize e split: if_splits)
qed

lemma run_sound:
  "inv p \<Longrightarrow> pool_run alloc release resize ops (p, live p) = Some (q, held) \<Longrightarrow>
     inv q \<and> conf q = conf p \<and> held = live q"
proof (induction ops arbitrary: p)
  case (Cons op ops)
  obtain p' h' where s: "pool_step alloc release resize op (p, live p) = (p', h')"
    by (cases "pool_step alloc release resize op (p, live p)")
  have ok: "pool_op_ok (live p) op"
    using Cons.prems(2) by (simp split: if_splits)
  show ?case
    using Cons.IH [of p'] Cons.prems step_sound [OF Cons.prems(1) ok s] s ok by simp
qed simp

lemma new_sound:
  assumes inv: "inv p"
    and new: "(case alloc p None of (None, p1) \<Rightarrow> (None, p1)
       | (Some a, p1) \<Rightarrow> (case resize p1 (Some a) len of
           (res, b, p2) \<Rightarrow> if res = er_ok then (b, p2) else (None, release p2 (the b)))) = (r, q)"
  shows "inv q \<and> conf q = conf p \<and>
    (case r of None \<Rightarrow> live q = live p | Some a \<Rightarrow> live p a = 0 \<and> live q = (live p)(a := 1))"
proof -
  obtain r1 p1 where al: "alloc p None = (r1, p1)"
    by (cases "alloc p None")
  note p1 = alloc_new [OF inv al]
  show ?thesis
  proof (cases r1)
    case None
    then show ?thesis using p1 new al by simp
  next
    case (Some a)
    obtain res b p2 where rs: "resize p1 (Some a) len = (res, b, p2)"
      by (cases "resize p1 (Some a) len")
    have a: "live p a = 0" "live p1 = (live p)(a := 1)" "inv p1" "conf p1 = conf p"
      using p1 Some by simp_all
    have pos: "0 < live p1 a"
      using a(2) by simp
    have p2: "inv p2" "conf p2 = conf p"
      "if res = er_ok then \<exists>b'. b = Some b' \<and> live p1 b' = 0 \<and> live p2 = (live p1)(a := 0, b' := live p1 a)
       else b = Some a \<and> live p2 = live p1"
      using resize_one [OF a(3) pos rs] a(4) by (auto simp only:)
    show ?thesis
    proof (cases "res = er_ok")
      case True
      then obtain b' where b': "b = Some b'" "live p1 b' = 0" "live p2 = (live p1)(a := 0, b' := live p1 a)"
        using p2(3) by auto
      then have "b' \<noteq> a"
        using a(2) by auto
      then have "live p b' = 0" "live p2 = (live p)(b' := 1)"
        using b' a(1,2) by auto
      then show ?thesis
        using True b'(1) new al Some rs p2 by auto
    next
      case False
      then have "b = Some a" "live p2 = (live p)(a := 1)"
        using p2(3) a(2) by simp_all
      moreover have "(live p)(a := 0) = live p"
        using a(1) by auto
      ultimately show ?thesis
        using False new al Some rs release_one [of p2 a] p2(1,2) by auto
    qed
  qed
qed

end

text \<open>Both pools are such factories.\<close>

lemma prx_buffer_alloc_grow:
  obtains grow where "prx_buffer_alloc A factory = prx_buffer_pool_alloc_buffer grow"
    "\<And>F p. pool_pre F p \<Longrightarrow> pool_pre F (snd (grow p)) \<and> pool_grown p (snd (grow p))"
proof (cases factory)
  case dynamic_pool
  then show ?thesis
    using that [of "prx_dynamic_pool_grow_no_lock A"] prx_dynamic_pool_grow_pre
    by (simp add: prx_buffer_alloc_def fun_eq_iff)
next
  case fixed_pool
  then show ?thesis
    using that [of "prx_fixed_pool_grow_no_lock A"] prx_fixed_pool_grow_pre
    by (simp add: prx_buffer_alloc_def fun_eq_iff)
qed

lemma prx_buffer_alloc_new_inv:
  assumes "pool_inv p" "prx_buffer_alloc A factory p None = (r, q)"
  shows "pool_inv q \<and> pool_config q = pool_config p \<and>
      (case r of None \<Rightarrow> q = p \<and> pool_free_list p = []
       | Some a \<Rightarrow> pool_live p a = 0 \<and> pool_live q = (pool_live p)(a := 1))"
proof (rule prx_buffer_alloc_grow [of A factory])
  fix grow
  assume g: "prx_buffer_alloc A factory = prx_buffer_pool_alloc_buffer grow"
    and "\<And>F p. pool_pre F p \<Longrightarrow> pool_pre F (snd (grow p)) \<and> pool_grown p (snd (grow p))"
  then show ?thesis
    using assms prx_buffer_pool_alloc_new [of p grow r q] by simp
qed

lemma prx_buffer_alloc_original_inv:
  assumes "pool_inv p" "0 < pool_live p a" "prx_buffer_alloc A factory p (Some a) = (r, q)"
  shows "pool_inv q \<and> pool_config q = pool_config p \<and> r = Some a \<and>
         pool_live q = (pool_live p)(a := pool_live p a + 1)"
  using assms prx_buffer_pool_alloc_original [OF assms(1,2)]
  by (cases factory) (simp_all add: prx_buffer_alloc_def)

lemma prx_buffer_set_size_inv:
  "pool_inv p \<Longrightarrow> 0 < pool_live p a \<Longrightarrow> prx_buffer_set_size A factory p (Some a) sz = (res, b, q) \<Longrightarrow>
     pool_inv q \<and> pool_config q = pool_config p \<and> pool_resized p a res b q"
  by (cases factory)
     (auto simp: prx_buffer_set_size_def prx_fixed_buffer_set_size_def pool_resized_def
       dest: prx_dynamic_buffer_set_size_inv)

interpretation pool_factory: buffer_factory pool_inv pool_config pool_live
  "prx_buffer_alloc A factory" "prx_buffer_release factory" "prx_buffer_set_size A factory"
  for A factory
proof unfold_locales
  fix p r q
  assume "pool_inv p" "prx_buffer_alloc A factory p None = (r, q)"
  then show "pool_inv q \<and> pool_config q = pool_config p \<and> (case r of None \<Rightarrow> pool_live q = pool_live p
      | Some a \<Rightarrow> pool_live p a = 0 \<and> pool_live q = (pool_live p)(a := 1))"
    using prx_buffer_alloc_new_inv [of p A factory r q] by (auto split: option.splits)
next
  fix p a sz res b q
  assume "pool_inv p" "0 < pool_live p a" "prx_buffer_set_size A factory p (Some a) sz = (res, b, q)"
  then show "pool_inv q \<and> pool_config q = pool_config p \<and> (if res = er_ok
      then \<exists>b'. b = Some b' \<and> pool_live p b' = 0 \<and> pool_live q = (pool_live p)(a := 0, b' := pool_live p a)
      else b = Some a \<and> pool_live q = pool_live p)"
    using prx_buffer_set_size_inv [of p a A factory sz res b q] by (auto simp: pool_resized_def split: if_splits)
next
  fix p a r q
  assume "pool_inv p" "0 < pool_live p a" "prx_buffer_alloc A factory p (Some a) = (r, q)"
  then show "pool_inv q \<and> pool_config q = pool_config p \<and> r = Some a \<and>
      pool_live q = (pool_live p)(a := pool_live p a + 1)"
    by (rule prx_buffer_alloc_original_inv)
next
  fix p a
  assume "pool_inv p" "0 < pool_live p a"
  then show "pool_inv (prx_buffer_release factory p a) \<and>
      pool_config (prx_buffer_release factory p a) = pool_config p \<and>
      pool_live (prx_buffer_release factory p a) = (pool_live p)(a := pool_live p a - 1)"
    by (simp add: prx_buffer_release_def prx_buffer_pool_free_buffer_inv)
qed

lemma prx_buffer_new_inv:
  assumes "pool_inv p" "prx_buffer_new A factory p len = (r, q)"
  shows "pool_inv q \<and> pool_config q = pool_config p \<and>
    (case r of None \<Rightarrow> pool_live q = pool_live p
     | Some a \<Rightarrow> pool_live p a = 0 \<and> pool_live q = (pool_live p)(a := 1))"
  using assms(2) unfolding prx_buffer_new_def
  by (intro pool_factory.new_sound [OF assms(1), where A = A and factory = factory and len = len])
     (auto split: prod.splits option.splits)

lemma prx_buffer_new_data:
  assumes "prx_buffer_new A dynamic_pool p len = (Some a, q)" "SIZEOF_PRX_BUFFER + len < SIZE_MOD"
  shows "\<exists>pb. pool_heap q a = Some pb \<and> length (pb_data pb) = len \<and> pb_length pb = len"
proof -
  obtain a1 p1 where "prx_buffer_set_size A dynamic_pool p1 (Some a1) len = (er_ok, Some a, q)"
    using assms(1) by (auto simp: prx_buffer_new_def split: prod.splits option.splits if_splits)
  then show ?thesis
    using assms(2)
    by (auto simp: prx_buffer_set_size_def prx_dynamic_buffer_set_size_def mem_realloc_def size_simps Let_def
        split: option.splits if_splits)
qed

section \<open>Properties of the pools\<close>

text \<open>A pool as one of the two constructors returns it.\<close>

definition pool_created :: "allocator \<Rightarrow> prx_buffer_factory \<Rightarrow> nat \<Rightarrow> prx_pool_config option \<Rightarrow> prx_buffer_pool \<Rightarrow> bool" where
  "pool_created A factory item_size config p = (case factory of
     dynamic_pool \<Rightarrow> prx_dynamic_pool_create A True er_ok item_size config = (er_ok, Some p)
   | fixed_pool \<Rightarrow> prx_fixed_pool_create A True er_ok item_size config = (er_ok, Some p))"

definition pool_client :: "allocator \<Rightarrow> prx_buffer_factory \<Rightarrow> pool_op list \<Rightarrow> prx_buffer_pool
    \<Rightarrow> (prx_buffer_pool \<times> (addr \<Rightarrow> nat)) option" where
  "pool_client A factory ops p =
     pool_run (prx_buffer_alloc A factory) (prx_buffer_release factory) (prx_buffer_set_size A factory)
       ops (p, \<lambda>_. 0)"

lemma prx_buffer_pool_init_pre:
  "pool_pre [] (snd (prx_buffer_pool_init er_ok prx_pool_zero item_size config))"
  "pool_refs (snd (prx_buffer_pool_init er_ok prx_pool_zero item_size config)) a = 0"
  "\<not> pool_empty (snd (prx_buffer_pool_init er_ok prx_pool_zero item_size config))"
  by (simp_all add: prx_buffer_pool_init_def prx_pool_zero_def pool_pre_def pool_refs_def
      pool_signals_ok_def Let_def)

lemma pool_created_inv:
  assumes "pool_created A factory item_size config p"
  shows "pool_inv p \<and> pool_config p = prx_pool_config_init config \<and> pool_live p = (\<lambda>_. 0)"
proof -
  define z where "z = snd (prx_buffer_pool_init er_ok prx_pool_zero item_size config)"
  note z = prx_buffer_pool_init_pre [of item_size config, folded z_def]
  have "prx_buffer_pool_init er_ok prx_pool_zero item_size config = (er_ok, z)"
    by (simp add: z_def prx_buffer_pool_init_def Let_def)
  moreover have "pool_config z = prx_pool_config_init config"
    by (simp add: z_def prx_buffer_pool_init_def Let_def)
  ultimately have "pool_config z = prx_pool_config_init config"
    and "p = snd (prx_dynamic_pool_grow_no_lock A z) \<or> p = snd (prx_fixed_pool_grow_no_lock A z)"
    using assms unfolding pool_created_def prx_dynamic_pool_create_def prx_fixed_pool_create_def
    by (auto split: prx_buffer_factory.splits prod.splits if_splits)
  then have "pool_pre [] p" "pool_grown z p" "pool_config z = prx_pool_config_init config"
    using prx_dynamic_pool_grow_pre [OF z(1)] prx_fixed_pool_grow_pre [OF z(1)] by auto
  then show ?thesis
    using z pool_pre_NilD by (auto simp: pool_grown_def pool_live_def fun_eq_iff)
qed

lemma pool_client_inv:
  assumes "pool_created A factory item_size config p" "pool_client A factory ops p = Some (q, held)"
  shows "pool_inv q \<and> pool_config q = prx_pool_config_init config \<and> held = pool_live q"
  using pool_created_inv [OF assms(1)] assms(2) pool_factory.run_sound [of p A factory ops q held]
  by (simp add: pool_client_def)

text \<open>
  C30. For every sequence of checkouts, clones, releases and resizes a client makes on a pool of
  either kind, as long as it names only buffers it holds: the references the pool counts are
  exactly those the client holds, no buffer is on two lists, the pool never exceeds its configured
  maximum, its free counter is the number of free buffers, and once the client holds nothing every
  buffer is free again.
\<close>
theorem pool_references_balanced:
  assumes "pool_created A factory item_size config p"
    and "pool_client A factory ops p = Some (q, held)"
  shows "held = pool_live q \<and>
    distinct (pool_free_list q @ pool_checked_out q) \<and>
    dom (pool_heap q) = set (pool_free_list q @ pool_checked_out q) \<and>
    prx_buffer_factory_get_available q = length (pool_free_list q) \<and>
    (max_count (pool_config q) \<noteq> 0 \<longrightarrow> pool_count q \<le> max_count (pool_config q)) \<and>
    ((\<forall>a. held a = 0) \<longrightarrow>
       pool_checked_out q = [] \<and> prx_buffer_factory_get_available q = pool_count q)"
proof -
  have inv: "pool_inv q" and h: "held = pool_live q"
    using pool_client_inv [OF assms] by simp_all
  have "pool_checked_out q = []" if "\<forall>a. held a = 0"
    using pool_live_checked_out [OF inv] that h by (metis list.set_intros(1) neq_Nil_conv not_gr_zero)
  then show ?thesis
    using inv h by (auto simp: pool_inv_defs prx_buffer_factory_get_available_def)
qed

definition pool_demo_allocator :: allocator where
  "pool_demo_allocator = \<lparr>al_ok = \<lambda>n sz. True, al_fill = \<lambda>n i. 0\<rparr>"

definition pool_demo_config :: "nat \<Rightarrow> prx_pool_config" where
  "pool_demo_config high = \<lparr>initial_count = 2, max_count = 2, low_watermark = 0, high_watermark = high\<rparr>"

definition pool_demo :: "nat \<Rightarrow> prx_buffer_pool" where
  "pool_demo high = the (snd (prx_dynamic_pool_create pool_demo_allocator True er_ok 1 (Some (pool_demo_config high))))"

definition pool_demo_ops :: "pool_op list" where
  "pool_demo_ops = [pool_new, pool_clone (0, 0), pool_new, pool_resize (1, 0) 3, pool_drop (0, 0),
     pool_drop (0, 0), pool_drop (2, 0)]"

lemma pool_demo_created:
  "pool_created pool_demo_allocator dynamic_pool 1 (Some (pool_demo_config 1)) (pool_demo 1)"
  "pool_created pool_demo_allocator dynamic_pool 1 (Some (pool_demo_config 2)) (pool_demo 2)"
proof -
  have *: "r = (er_ok, Some (the (snd r)))" if "fst r = er_ok \<and> (case snd r of None \<Rightarrow> False | Some p \<Rightarrow> True)"
    for r :: "prx_error \<times> prx_buffer_pool option"
    using that by (cases r) (auto split: option.splits)
  show "pool_created pool_demo_allocator dynamic_pool 1 (Some (pool_demo_config 1)) (pool_demo 1)"
    unfolding pool_created_def pool_demo_def prx_buffer_factory.case by (rule *) code_simp
  show "pool_created pool_demo_allocator dynamic_pool 1 (Some (pool_demo_config 2)) (pool_demo 2)"
    unfolding pool_created_def pool_demo_def prx_buffer_factory.case by (rule *) code_simp
qed

lemma pool_demo_run:
  "\<exists>q held. pool_client pool_demo_allocator dynamic_pool pool_demo_ops (pool_demo 1) = Some (q, held) \<and>
     pool_signals q = [False, True] \<and> pool_count q = 2 \<and> high_watermark (pool_config q) = 1 \<and>
     held (0, 0) = 0 \<and> held (1, 0) = 0 \<and> held (2, 0) = 0"
proof -
  have "case pool_client pool_demo_allocator dynamic_pool pool_demo_ops (pool_demo 1) of
      None \<Rightarrow> False
    | Some (q, held) \<Rightarrow> pool_signals q = [False, True] \<and> pool_count q = 2 \<and> high_watermark (pool_config q) = 1 \<and>
     held (0, 0) = 0 \<and> held (1, 0) = 0 \<and> held (2, 0) = 0"
    by code_simp
  then show ?thesis
    by (auto split: option.splits)
qed

theorem pool_references_balanced_witness:
  "\<exists>q held. pool_client pool_demo_allocator dynamic_pool pool_demo_ops (pool_demo 1) = Some (q, held) \<and>
     held = pool_live q \<and> distinct (pool_free_list q @ pool_checked_out q)"
  using pool_demo_run pool_references_balanced [OF pool_demo_created(1)] by metis

text \<open>
  C31. The flow control callback of a pool is told \<open>true\<close> (low) and \<open>false\<close> (resumed) strictly in
  turn, beginning with \<open>true\<close>; and a client that has returned all its buffers to a pool with more
  buffers than the high watermark is not left in the low state.
\<close>
theorem pool_flow_control:
  assumes "pool_created A factory item_size config p"
    and "pool_client A factory ops p = Some (q, held)"
  shows "flow_ok (pool_signals q) (pool_empty q) \<and>
    ((\<forall>a. held a = 0) \<and> high_watermark (pool_config q) < pool_count q \<longrightarrow> \<not> pool_empty q)"
proof -
  have inv: "pool_inv q" and h: "held = pool_live q"
    using pool_client_inv [OF assms] by simp_all
  have "pool_checked_out q = []" if "\<forall>a. held a = 0"
    using pool_live_checked_out [OF inv] that h by (metis list.set_intros(1) neq_Nil_conv not_gr_zero)
  then show ?thesis
    using inv by (auto simp: pool_inv_def pool_signals_ok_def pool_resumed_def)
qed

theorem pool_flow_control_witness:
  "\<exists>q held. pool_client pool_demo_allocator dynamic_pool pool_demo_ops (pool_demo 1) = Some (q, held) \<and>
     pool_signals q = [False, True] \<and> flow_ok [False, True] (pool_empty q)"
  using pool_demo_run pool_flow_control [OF pool_demo_created(1)] by metis

text \<open>
  C40. A pool configured with a maximum and a high watermark at or above it never calls back with
  \<open>false\<close>, whatever its client does: once it has signalled low memory, it stays there.
\<close>
theorem pool_high_watermark_at_max:
  assumes "pool_created A factory item_size (Some config) p"
    and "max_count config \<noteq> 0" "max_count config \<le> high_watermark config"
    and "pool_client A factory ops p = Some (q, held)"
  shows "False \<notin> set (pool_signals q)"
proof -
  have "pool_inv q" "pool_config q = prx_pool_config_init (Some config)"
    using pool_client_inv [OF assms(1,4)] by simp_all
  moreover have "max_count (prx_pool_config_init (Some config)) = max_count config"
    "max_count config \<le> high_watermark (prx_pool_config_init (Some config))"
    using assms(3) by (auto simp: prx_pool_config_init_def Let_def)
  ultimately show ?thesis
    using assms(2) by (simp add: pool_inv_def pool_signals_ok_def)
qed

theorem pool_high_watermark_at_max_witness:
  "case pool_client pool_demo_allocator dynamic_pool pool_demo_ops (pool_demo 2) of
     None \<Rightarrow> False
   | Some (q, held) \<Rightarrow> False \<notin> set (pool_signals q)"
proof -
  have "case pool_client pool_demo_allocator dynamic_pool pool_demo_ops (pool_demo 2) of
     None \<Rightarrow> False | Some (q, held) \<Rightarrow> True"
    by code_simp
  then show ?thesis
    using pool_high_watermark_at_max [OF pool_demo_created(2)]
    by (auto simp: pool_demo_config_def split: option.splits)
qed

end
