(* ===== verification/Io_Queue.thy ===== *)
theory Io_Queue
  imports Prelude Prx_Err Prx_Buffer
begin

text \<open>
  The tristate I/O queue of \<open>src/io_queue.c\<close>: buffers of a dynamic pool that are ready, in progress
  or done. The three list heads are lists of buffer addresses; the header every buffer starts with
  is a record, held in \<open>q_bufs\<close> while the buffer exists. Callbacks and contexts are pointers, 0
  being \<open>NULL\<close>; \<open>q_calls\<close> records the calls \<open>cb(ctx, er_aborted)\<close> in order.
\<close>

section \<open>State\<close>

record io_queue_buffer =
  qb_queue :: bool
  qb_cb_ptr :: nat
  qb_ctx :: nat
  qb_flags :: i32
  qb_code :: prx_error
  qb_write_offset :: nat
  qb_read_offset :: nat
  qb_length :: nat
  qb_data :: "u8 list"

record io_queue =
  q_factory :: prx_buffer_pool
  q_ready :: "addr list"
  q_inprogress :: "addr list"
  q_done :: "addr list"
  q_bufs :: "addr \<rightharpoonup> io_queue_buffer"
  q_calls :: "(nat \<times> nat) list"

datatype io_queue_state = qs_ready | qs_inprogress | qs_done

fun q_list :: "io_queue_state \<Rightarrow> io_queue \<Rightarrow> addr list" where
  "q_list qs_ready q = q_ready q"
| "q_list qs_inprogress q = q_inprogress q"
| "q_list qs_done q = q_done q"

fun q_set_list :: "io_queue_state \<Rightarrow> addr list \<Rightarrow> io_queue \<Rightarrow> io_queue" where
  "q_set_list qs_ready xs q = q\<lparr>q_ready := xs\<rparr>"
| "q_set_list qs_inprogress xs q = q\<lparr>q_inprogress := xs\<rparr>"
| "q_set_list qs_done xs q = q\<lparr>q_done := xs\<rparr>"

text \<open>\<open>sizeof(io_queue_buffer_t)\<close>: twelve pointers, two 32 bit and three 64 bit integers.\<close>

definition SIZEOF_IO_QUEUE_BUFFER :: nat where
  "SIZEOF_IO_QUEUE_BUFFER = 128"

section \<open>The stream of one buffer\<close>

definition io_queue_buffer_stream_writer ::
  "io_queue_buffer \<Rightarrow> u8 list option \<Rightarrow> nat \<Rightarrow> prx_error \<times> io_queue_buffer" where
  "io_queue_buffer_stream_writer b buf len = (
     if len = 0 then (er_ok, b)
     else case buf of
       None \<Rightarrow> (er_fault, b)
     | Some data \<Rightarrow> (
         let write = min (size_sub (qb_length b) (qb_write_offset b)) len
         in if 0 < write
            then (er_ok, b\<lparr>qb_data := mem_put (qb_data b) (qb_write_offset b) data write,
                           qb_write_offset := qb_write_offset b + write\<rparr>)
            else (er_ok, b)))"

text \<open>The reader leaves \<open>*read\<close> untouched when asked for nothing, which is the value \<open>None\<close>.\<close>

definition io_queue_buffer_stream_reader ::
  "io_queue_buffer \<Rightarrow> nat \<Rightarrow> prx_error \<times> u8 list \<times> nat option \<times> io_queue_buffer" where
  "io_queue_buffer_stream_reader b len = (
     if len = 0 then (er_ok, [], None, b)
     else let available = size_sub (qb_length b) (qb_read_offset b); read = min available len
          in if 0 < read
             then (er_ok, mem_get (qb_data b) (qb_read_offset b) read, Some read,
                   b\<lparr>qb_read_offset := qb_read_offset b + read\<rparr>)
             else (er_ok, [], Some 0, b))"

definition io_queue_buffer_stream_readable :: "io_queue_buffer \<Rightarrow> nat" where
  "io_queue_buffer_stream_readable b = size_sub (qb_length b) (qb_read_offset b)"

definition io_queue_buffer_stream_writeable :: "io_queue_buffer \<Rightarrow> nat" where
  "io_queue_buffer_stream_writeable b = size_sub (qb_length b) (qb_write_offset b)"

definition io_queue_buffer_stream_reset :: "io_queue_buffer \<Rightarrow> prx_error \<times> io_queue_buffer" where
  "io_queue_buffer_stream_reset b = (er_ok, b\<lparr>qb_write_offset := 0, qb_read_offset := 0\<rparr>)"

section \<open>Queue operations\<close>

definition io_queue_buffer_abort_callback :: "io_queue \<Rightarrow> addr \<Rightarrow> io_queue" where
  "io_queue_buffer_abort_callback q a = (case q_bufs q a of
     None \<Rightarrow> q
   | Some b \<Rightarrow> (
       let q' = q\<lparr>q_bufs := (q_bufs q)(a \<mapsto> b\<lparr>qb_cb_ptr := 0, qb_ctx := 0\<rparr>)\<rparr>
       in if qb_cb_ptr b \<noteq> 0 then q'\<lparr>q_calls := q_calls q @ [(qb_cb_ptr b, qb_ctx b)]\<rparr> else q'))"

definition q_unlink :: "addr \<Rightarrow> io_queue \<Rightarrow> io_queue" where
  "q_unlink a q = q\<lparr>q_ready := remove1 a (q_ready q), q_inprogress := remove1 a (q_inprogress q),
                   q_done := remove1 a (q_done q)\<rparr>"

definition io_queue_release_buffer_no_lock :: "io_queue \<Rightarrow> addr \<Rightarrow> io_queue" where
  "io_queue_release_buffer_no_lock q a = (
     let q = io_queue_buffer_abort_callback (q_unlink a q) a
     in q\<lparr>q_factory := prx_buffer_release dynamic_pool (q_factory q) a, q_bufs := (q_bufs q)(a := None)\<rparr>)"

definition io_queue_state_push :: "io_queue_state \<Rightarrow> io_queue \<Rightarrow> addr \<Rightarrow> io_queue" where
  "io_queue_state_push st q a = (let q = q_unlink a q in q_set_list st (q_list st q @ [a]) q)"

definition io_queue_state_peek :: "io_queue_state \<Rightarrow> io_queue \<Rightarrow> bool" where
  "io_queue_state_peek st q = (q_list st q \<noteq> [])"

definition io_queue_state_pop :: "io_queue_state \<Rightarrow> io_queue \<Rightarrow> addr option \<times> io_queue" where
  "io_queue_state_pop st q = (case q_list st q of
     [] \<Rightarrow> (None, q)
   | a # rest \<Rightarrow> (Some a, q_set_list st rest q))"

text \<open>The loop over a list that shrinks by its head in every turn.\<close>

fun q_release_loop :: "io_queue_state \<Rightarrow> addr list \<Rightarrow> io_queue \<Rightarrow> io_queue" where
  "q_release_loop st [] q = q_set_list st [] q"
| "q_release_loop st (a # rest) q =
     q_release_loop st rest (io_queue_release_buffer_no_lock (q_set_list st rest q) a)"

definition io_queue_state_release_no_lock :: "io_queue_state \<Rightarrow> io_queue \<Rightarrow> io_queue" where
  "io_queue_state_release_no_lock st q = q_release_loop st (q_list st q) q"

definition io_queue_release_all_buffers :: "io_queue \<Rightarrow> io_queue" where
  "io_queue_release_all_buffers q =
     io_queue_state_release_no_lock qs_ready
       (io_queue_state_release_no_lock qs_inprogress (io_queue_state_release_no_lock qs_done q))"

definition io_queue_state_abort_no_lock :: "io_queue_state \<Rightarrow> io_queue \<Rightarrow> io_queue" where
  "io_queue_state_abort_no_lock st q = fold (\<lambda>a q. io_queue_buffer_abort_callback q a) (q_list st q) q"

definition io_queue_abort :: "io_queue \<Rightarrow> io_queue" where
  "io_queue_abort q =
     io_queue_state_abort_no_lock qs_ready
       (io_queue_state_abort_no_lock qs_inprogress (io_queue_state_abort_no_lock qs_done q))"

text \<open>
  The header is written over the first bytes of the pool buffer; the payload area is the rest of
  it, with whatever the memory held before.
\<close>

definition io_queue_create_buffer ::
  "allocator \<Rightarrow> io_queue \<Rightarrow> u8 list option \<Rightarrow> nat \<Rightarrow> prx_error \<times> addr option \<times> io_queue" where
  "io_queue_create_buffer A q payload len = (
     let (buf, pool) = prx_buffer_new A dynamic_pool (q_factory q) (size_add len SIZEOF_IO_QUEUE_BUFFER);
         q = q\<lparr>q_factory := pool\<rparr>
     in case buf of
          None \<Rightarrow> (er_out_of_memory, None, q)
        | Some a \<Rightarrow> (
            let raw = (case pool_heap pool a of None \<Rightarrow> [] | Some pb \<Rightarrow> drop SIZEOF_IO_QUEUE_BUFFER (pb_data pb));
                b = \<lparr>qb_queue = True, qb_cb_ptr = 0, qb_ctx = 0, qb_flags = 0, qb_code = er_ok, qb_write_offset = 0,
                     qb_read_offset = 0, qb_length = len, qb_data = raw\<rparr>;
                (result, b) = (if payload \<noteq> None \<and> 0 < len
                               then io_queue_buffer_stream_writer b payload len else (er_ok, b));
                q = q\<lparr>q_bufs := (q_bufs q)(a \<mapsto> b)\<rparr>
            in if result \<noteq> er_ok then (result, None, io_queue_release_buffer_no_lock q a)
               else (er_ok, Some a, q)))"

definition io_queue_buffer_release :: "io_queue \<Rightarrow> addr \<Rightarrow> io_queue" where
  "io_queue_buffer_release q a = (case q_bufs q a of
     None \<Rightarrow> q
   | Some b \<Rightarrow> if \<not> qb_queue b then q
      else io_queue_release_buffer_no_lock
             (io_queue_buffer_abort_callback (q\<lparr>q_bufs := (q_bufs q)(a \<mapsto> b\<lparr>qb_queue := False\<rparr>)\<rparr>) a) a)"

definition q_set_state :: "io_queue_state \<Rightarrow> io_queue \<Rightarrow> addr \<Rightarrow> io_queue" where
  "q_set_state st q a = (case q_bufs q a of
     None \<Rightarrow> q
   | Some b \<Rightarrow> if \<not> qb_queue b then q else io_queue_state_push st q a)"

definition io_queue_buffer_set_inprogress :: "io_queue \<Rightarrow> addr \<Rightarrow> io_queue" where
  "io_queue_buffer_set_inprogress q a = q_set_state qs_inprogress q a"

definition io_queue_buffer_set_ready :: "io_queue \<Rightarrow> addr \<Rightarrow> io_queue" where
  "io_queue_buffer_set_ready q a = q_set_state qs_ready q a"

definition io_queue_buffer_set_done :: "io_queue \<Rightarrow> addr \<Rightarrow> io_queue" where
  "io_queue_buffer_set_done q a = q_set_state qs_done q a"

definition io_queue_has_ready :: "io_queue \<Rightarrow> bool" where
  "io_queue_has_ready q = io_queue_state_peek qs_ready q"

definition io_queue_has_inprogress :: "io_queue \<Rightarrow> bool" where
  "io_queue_has_inprogress q = io_queue_state_peek qs_inprogress q"

definition io_queue_has_done :: "io_queue \<Rightarrow> bool" where
  "io_queue_has_done q = io_queue_state_peek qs_done q"

definition io_queue_pop_ready :: "io_queue \<Rightarrow> addr option \<times> io_queue" where
  "io_queue_pop_ready q = io_queue_state_pop qs_ready q"

definition io_queue_pop_inprogress :: "io_queue \<Rightarrow> addr option \<times> io_queue" where
  "io_queue_pop_inprogress q = io_queue_state_pop qs_inprogress q"

definition io_queue_pop_done :: "io_queue \<Rightarrow> addr option \<times> io_queue" where
  "io_queue_pop_done q = io_queue_state_pop qs_done q"

text \<open>
  The ring of the in-progress head is spliced in before the first ready entry (before the ready
  head itself when there is none), and the head is then taken out of the ring: the in-progress
  buffers come to stand in front of the ready ones.
\<close>

definition io_queue_rollback :: "io_queue \<Rightarrow> io_queue" where
  "io_queue_rollback q = q\<lparr>q_ready := q_inprogress q @ q_ready q, q_inprogress := []\<rparr>"

text \<open>A callback stored in a buffer by the code that queues it.\<close>

definition io_queue_buffer_set_cb :: "io_queue \<Rightarrow> addr \<Rightarrow> nat \<Rightarrow> nat \<Rightarrow> io_queue" where
  "io_queue_buffer_set_cb q a cb ctx = (case q_bufs q a of
     None \<Rightarrow> q
   | Some b \<Rightarrow> q\<lparr>q_bufs := (q_bufs q)(a \<mapsto> b\<lparr>qb_cb_ptr := cb, qb_ctx := ctx\<rparr>)\<rparr>)"

definition io_queue_create ::
  "allocator \<Rightarrow> bool \<Rightarrow> prx_error \<Rightarrow> bool \<Rightarrow> prx_error \<Rightarrow> prx_error \<times> io_queue option" where
  "io_queue_create A zalloc_ok lock_result pool_zalloc_ok pool_lock = (
     if \<not> zalloc_ok then (er_out_of_memory, None)
     else if lock_result \<noteq> er_ok then (lock_result, None)
     else case prx_dynamic_pool_create A pool_zalloc_ok pool_lock 0 None of
       (result, None) \<Rightarrow> (result, None)
     | (result, Some pool) \<Rightarrow> (er_ok, Some \<lparr>q_factory = pool, q_ready = [], q_inprogress = [], q_done = [],
                                          q_bufs = Map.empty, q_calls = []\<rparr>))"

definition io_queue_free :: "io_queue \<Rightarrow> io_queue" where
  "io_queue_free q = (
     let q = io_queue_release_all_buffers q in q\<lparr>q_factory := prx_dynamic_pool_free (q_factory q)\<rparr>)"

section \<open>Invariant\<close>

text \<open>
  A buffer is in at most one list and only once, the buffers that exist are exactly those checked out
  of the queue's pool, each with one reference and attached to the queue, and the offsets of a
  buffer stay within it.
\<close>

definition qb_ok :: "io_queue_buffer \<Rightarrow> bool" where
  "qb_ok b \<longleftrightarrow> qb_queue b \<and> qb_length b \<le> length (qb_data b) \<and> qb_write_offset b \<le> qb_length b \<and>
     qb_read_offset b \<le> qb_length b"

definition q_linked :: "io_queue \<Rightarrow> addr list" where
  "q_linked q = q_ready q @ q_inprogress q @ q_done q"

definition q_owns :: "prx_buffer_pool \<Rightarrow> addr set \<Rightarrow> bool" where
  "q_owns pool S \<longleftrightarrow> pool_inv pool \<and> pool_live pool = (\<lambda>a. if a \<in> S then 1 else 0)"

definition q_inv :: "io_queue \<Rightarrow> bool" where
  "q_inv q \<longleftrightarrow> distinct (q_linked q) \<and> set (q_linked q) \<subseteq> dom (q_bufs q) \<and>
     q_owns (q_factory q) (dom (q_bufs q)) \<and> (\<forall>b \<in> ran (q_bufs q). qb_ok b)"

lemma q_owns_new:
  assumes "q_owns pool S" "prx_buffer_new A dynamic_pool pool len = (Some a, pool')"
  shows "a \<notin> S" "q_owns pool' (insert a S)"
proof -
  have p: "pool_inv pool'" "pool_live pool a = 0" "pool_live pool' = (pool_live pool)(a := 1)"
    using assms(1) prx_buffer_new_inv [OF _ assms(2)] by (simp_all add: q_owns_def)
  then show "a \<notin> S" "q_owns pool' (insert a S)"
    using assms(1) by (auto simp: q_owns_def fun_upd_def split: if_splits)
qed

lemma q_owns_new_fail:
  "q_owns pool S \<Longrightarrow> prx_buffer_new A dynamic_pool pool len = (None, pool') \<Longrightarrow> q_owns pool' S"
  using prx_buffer_new_inv [of pool A dynamic_pool len None pool'] by (simp add: q_owns_def)

lemma q_owns_release:
  assumes "q_owns pool S" "a \<in> S"
  shows "q_owns (prx_buffer_release dynamic_pool pool a) (S - {a})"
proof -
  have "pool_inv pool" "0 < pool_live pool a"
    using assms by (simp_all add: q_owns_def)
  then show ?thesis
    using pool_factory.release_one [of pool a dynamic_pool] assms by (auto simp: q_owns_def fun_upd_def)
qed

lemma q_bufs_update_inv:
  assumes "q_inv q" "q_bufs q a = Some b" "qb_ok b'"
  shows "q_inv (q\<lparr>q_bufs := (q_bufs q)(a \<mapsto> b')\<rparr>)"
  using assms by (auto simp: q_inv_def q_linked_def insert_absorb domI ran_def split: if_splits)

lemma q_inv_calls [simp]: "q_inv (q\<lparr>q_calls := c\<rparr>) = q_inv q"
  by (simp add: q_inv_def q_linked_def)

lemma q_inv_buf_ok: "q_inv q \<Longrightarrow> q_bufs q a = Some b \<Longrightarrow> qb_ok b"
  by (auto simp: q_inv_def ran_def)

lemma io_queue_buffer_abort_callback_inv:
  "q_inv q \<Longrightarrow> q_inv (io_queue_buffer_abort_callback q a)"
  using q_inv_buf_ok [of q a]
  by (auto simp: io_queue_buffer_abort_callback_def Let_def qb_ok_def intro: q_bufs_update_inv split: option.splits)

lemma io_queue_buffer_abort_callback_sel [simp]:
  "q_ready (io_queue_buffer_abort_callback q a) = q_ready q"
  "q_inprogress (io_queue_buffer_abort_callback q a) = q_inprogress q"
  "q_done (io_queue_buffer_abort_callback q a) = q_done q"
  "q_factory (io_queue_buffer_abort_callback q a) = q_factory q"
  "dom (q_bufs (io_queue_buffer_abort_callback q a)) = dom (q_bufs q)"
  by (auto simp: io_queue_buffer_abort_callback_def Let_def split: option.splits)

lemma q_list_abort [simp]: "q_list st (io_queue_buffer_abort_callback q a) = q_list st q"
  by (cases st) simp_all

lemma q_unlink_sel [simp]:
  "q_bufs (q_unlink a q) = q_bufs q" "q_factory (q_unlink a q) = q_factory q"
  "q_calls (q_unlink a q) = q_calls q"
  by (simp_all add: q_unlink_def)

lemma set_q_unlink:
  "distinct (q_linked q) \<Longrightarrow> set (q_linked (q_unlink a q)) = set (q_linked q) - {a} \<and> distinct (q_linked (q_unlink a q))"
  by (auto simp: q_linked_def q_unlink_def)

lemma q_unlink_inv: "q_inv q \<Longrightarrow> q_inv (q_unlink a q) \<and> a \<notin> set (q_linked (q_unlink a q))"
  using set_q_unlink [of q a] unfolding q_inv_def by auto

lemma io_queue_release_buffer_inv:
  assumes "q_inv q" "a \<in> dom (q_bufs q)"
  shows "q_inv (io_queue_release_buffer_no_lock q a)"
proof -
  define q1 where "q1 = io_queue_buffer_abort_callback (q_unlink a q) a"
  have q1: "q_inv q1" "a \<notin> set (q_linked q1)" "dom (q_bufs q1) = dom (q_bufs q)"
    using q_unlink_inv [OF assms(1), of a] io_queue_buffer_abort_callback_inv
    by (auto simp: q1_def q_linked_def q_unlink_def)
  have "q_owns (prx_buffer_release dynamic_pool (q_factory q1) a) (dom (q_bufs q1) - {a})"
    using q1 assms(2) by (intro q_owns_release) (auto simp: q_inv_def)
  moreover have "io_queue_release_buffer_no_lock q a =
      q1\<lparr>q_factory := prx_buffer_release dynamic_pool (q_factory q1) a, q_bufs := (q_bufs q1)(a := None)\<rparr>"
    by (simp add: io_queue_release_buffer_no_lock_def q1_def Let_def)
  ultimately show ?thesis
    using q1 by (auto simp: q_inv_def q_linked_def ran_def)
qed

lemma io_queue_state_push_inv:
  assumes "q_inv q" "a \<in> dom (q_bufs q)"
  shows "q_inv (io_queue_state_push st q a)"
  using q_unlink_inv [OF assms(1), of a] assms(2)
  by (cases st) (auto simp: io_queue_state_push_def Let_def q_inv_def q_linked_def q_unlink_def)

lemma io_queue_state_pop_inv: "q_inv q \<Longrightarrow> q_inv (snd (io_queue_state_pop st q))"
  by (cases st) (auto simp: io_queue_state_pop_def q_inv_def q_linked_def split: list.splits)

lemma q_set_state_inv: "q_inv q \<Longrightarrow> q_inv (q_set_state st q a)"
  by (auto simp: q_set_state_def io_queue_state_push_inv domI split: option.splits)

lemma q_set_list_inv:
  "q_inv q \<Longrightarrow> q_list st q = a # rest \<Longrightarrow> q_inv (q_set_list st rest q) \<and> a \<in> dom (q_bufs (q_set_list st rest q)) \<and>
     a \<notin> set (q_linked (q_set_list st rest q))"
  by (cases st) (auto simp: q_inv_def q_linked_def)

lemma io_queue_release_buffer_lists:
  assumes "a \<notin> set (q_linked q)"
  shows "q_list st (io_queue_release_buffer_no_lock q a) = q_list st q"
  using assms
  by (cases st) (auto simp: io_queue_release_buffer_no_lock_def Let_def q_unlink_def q_linked_def remove1_idem)

lemma q_list_set_list: "q_list st (q_set_list st' xs q) = (if st = st' then xs else q_list st q)"
  by (cases st; cases st') simp_all

lemma q_release_loop_inv:
  "q_inv q \<Longrightarrow> q_list st q = xs \<Longrightarrow>
     q_inv (q_release_loop st xs q) \<and> (\<forall>st'. q_list st' (q_release_loop st xs q) = (if st' = st then [] else q_list st' q))"
proof (induction xs arbitrary: q)
  case Nil
  then have "q_set_list st [] q = q" by (cases st) simp_all
  then show ?case using Nil by auto
next
  case (Cons a xs)
  define q1 where "q1 = q_set_list st xs q"
  have q1: "q_inv q1" "a \<in> dom (q_bufs q1)" "a \<notin> set (q_linked q1)"
    using q_set_list_inv [OF Cons.prems] by (simp_all add: q1_def)
  note r = io_queue_release_buffer_inv [OF q1(1,2)] io_queue_release_buffer_lists [OF q1(3)]
  show ?case
    using Cons.IH [OF r(1)] r(2) by (simp add: q1_def [symmetric]) (simp add: q1_def q_list_set_list)
qed

lemma io_queue_state_release_inv:
  assumes "q_inv q"
  shows "q_inv (io_queue_state_release_no_lock st q)"
    "q_list st' (io_queue_state_release_no_lock st q) = (if st' = st then [] else q_list st' q)"
  using q_release_loop_inv [OF assms refl, of st] by (simp_all add: io_queue_state_release_no_lock_def)

lemma io_queue_release_all_inv:
  assumes "q_inv q"
  shows "q_inv (io_queue_release_all_buffers q)" "q_linked (io_queue_release_all_buffers q) = []"
proof -
  note r = io_queue_state_release_inv
  show "q_inv (io_queue_release_all_buffers q)"
    unfolding io_queue_release_all_buffers_def by (intro r(1) assms)
  have "q_list st (io_queue_release_all_buffers q) = []" for st
    unfolding io_queue_release_all_buffers_def using assms by (cases st) (simp_all only: r, simp_all)
  from this [of qs_ready] this [of qs_inprogress] this [of qs_done]
  show "q_linked (io_queue_release_all_buffers q) = []"
    by (simp add: q_linked_def)
qed

lemma io_queue_buffer_release_eq:
  assumes "q_bufs q a = Some b" "qb_queue b"
  shows "io_queue_buffer_release q a = io_queue_release_buffer_no_lock q a"
  using assms
  by (simp add: io_queue_buffer_release_def io_queue_release_buffer_no_lock_def
      io_queue_buffer_abort_callback_def q_unlink_def Let_def)

lemma io_queue_buffer_release_inv: "q_inv q \<Longrightarrow> q_inv (io_queue_buffer_release q a)"
proof (cases "q_bufs q a")
  case (Some b)
  moreover assume "q_inv q"
  ultimately show ?thesis
    using q_inv_buf_ok [of q a b] io_queue_release_buffer_inv [of q a]
    by (simp add: io_queue_buffer_release_eq qb_ok_def domI)
qed (simp add: io_queue_buffer_release_def)

lemma fold_abort_inv: "q_inv q \<Longrightarrow> q_inv (fold (\<lambda>a q. io_queue_buffer_abort_callback q a) xs q)"
  by (induction xs arbitrary: q) (simp_all add: io_queue_buffer_abort_callback_inv)

lemma io_queue_abort_inv: "q_inv q \<Longrightarrow> q_inv (io_queue_abort q)"
  by (simp add: io_queue_abort_def io_queue_state_abort_no_lock_def fold_abort_inv)

lemma io_queue_rollback_inv: "q_inv q \<Longrightarrow> q_inv (io_queue_rollback q)"
  by (auto simp: io_queue_rollback_def q_inv_def q_linked_def)

lemma io_queue_buffer_set_cb_inv: "q_inv q \<Longrightarrow> q_inv (io_queue_buffer_set_cb q a cb ctx)"
  using q_inv_buf_ok [of q a]
  by (auto simp: io_queue_buffer_set_cb_def qb_ok_def intro: q_bufs_update_inv split: option.splits)

lemma io_queue_buffer_stream_writer_ok:
  assumes "qb_ok b" "length data = len"
  shows "fst (io_queue_buffer_stream_writer b (Some data) len) = er_ok"
    "qb_ok (snd (io_queue_buffer_stream_writer b (Some data) len))"
  using assms by (auto simp: io_queue_buffer_stream_writer_def qb_ok_def size_simps buf_simps Let_def)

lemma io_queue_buffer_stream_reader_ok:
  "qb_ok b \<Longrightarrow> io_queue_buffer_stream_reader b len = (r, data, read, b') \<Longrightarrow> qb_ok b'"
  by (auto simp: io_queue_buffer_stream_reader_def qb_ok_def size_simps Let_def split: if_splits)

lemma io_queue_create_buffer_inv:
  assumes inv: "q_inv q"
    and len: "len + SIZEOF_IO_QUEUE_BUFFER + SIZEOF_PRX_BUFFER < SIZE_MOD"
    and payload: "\<forall>data. payload = Some data \<longrightarrow> length data = len"
    and create: "io_queue_create_buffer A q payload len = (result, r, q')"
  shows "q_inv q' \<and>
    (case r of
       None \<Rightarrow> result = er_out_of_memory \<and> dom (q_bufs q') = dom (q_bufs q)
     | Some a \<Rightarrow> result = er_ok \<and> q_bufs q a = None \<and> q_linked q' = q_linked q \<and>
         (\<exists>b. q_bufs q' = (q_bufs q)(a \<mapsto> b) \<and> qb_length b = len \<and> qb_read_offset b = 0 \<and>
              (\<forall>data. payload = Some data \<longrightarrow> qb_data b = data)))"
proof -
  obtain buf pool where new: "prx_buffer_new A dynamic_pool (q_factory q) (len + SIZEOF_IO_QUEUE_BUFFER) = (buf, pool)"
    by (cases "prx_buffer_new A dynamic_pool (q_factory q) (len + SIZEOF_IO_QUEUE_BUFFER)")
  have sz: "size_add len SIZEOF_IO_QUEUE_BUFFER = len + SIZEOF_IO_QUEUE_BUFFER"
    using len by (simp add: size_simps)
  have owns: "q_owns (q_factory q) (dom (q_bufs q))"
    using inv by (simp add: q_inv_def)
  show ?thesis
  proof (cases buf)
    case None
    then have "q_owns pool (dom (q_bufs q))"
      using q_owns_new_fail [OF owns] new by simp
    then show ?thesis
      using create new None inv by (auto simp: io_queue_create_buffer_def sz q_inv_def q_linked_def)
  next
    case (Some a)
    note fresh = q_owns_new [OF owns, of A _ a pool] new Some
    obtain pb where pb: "pool_heap pool a = Some pb" "length (pb_data pb) = len + SIZEOF_IO_QUEUE_BUFFER"
      using prx_buffer_new_data [of A "q_factory q" "len + SIZEOF_IO_QUEUE_BUFFER" a pool] new Some len by auto
    define b0 where "b0 = \<lparr>qb_queue = True, qb_cb_ptr = 0, qb_ctx = 0, qb_flags = 0, qb_code = er_ok, qb_write_offset = 0,
      qb_read_offset = 0, qb_length = len, qb_data = drop SIZEOF_IO_QUEUE_BUFFER (pb_data pb)\<rparr>"
    define w where "w = (if payload \<noteq> None \<and> 0 < len then io_queue_buffer_stream_writer b0 payload len else (er_ok, b0))"
    have b0: "qb_ok b0"
      using pb(2) by (simp add: b0_def qb_ok_def)
    have w: "fst w = er_ok" "qb_ok (snd w)"
      using b0 payload io_queue_buffer_stream_writer_ok [OF b0] by (auto simp: w_def)
    have w': "qb_length (snd w) = len" "qb_read_offset (snd w) = 0"
      "\<forall>data. payload = Some data \<longrightarrow> qb_data (snd w) = data"
      using payload pb(2) by (auto simp: w_def io_queue_buffer_stream_writer_def b0_def mem_put_def Let_def)
    have c: "(result, r, q') = (er_ok, Some a, q\<lparr>q_factory := pool, q_bufs := (q_bufs q)(a \<mapsto> snd w)\<rparr>)"
      using create w(1) by (auto simp: io_queue_create_buffer_def sz new Some pb b0_def [symmetric]
          w_def Let_def split: prod.splits cong: if_cong)
    have "q_inv q'"
      using c inv fresh w(2) by (auto simp: q_inv_def q_linked_def ran_def)
    then show ?thesis
      using c fresh w' by (auto simp: q_linked_def)
  qed
qed

section \<open>Runs of the queue\<close>

text \<open>
  Buffers are created with a payload of the stated length or none; the lengths are those a 64 bit
  process can allocate. Every other operation may come at any time, on any address.
\<close>

inductive q_step :: "allocator \<Rightarrow> io_queue \<Rightarrow> io_queue \<Rightarrow> bool" for A where
  q_create_buffer: "len + SIZEOF_IO_QUEUE_BUFFER + SIZEOF_PRX_BUFFER < SIZE_MOD \<Longrightarrow>
     \<forall>data. payload = Some data \<longrightarrow> length data = len \<Longrightarrow>
     q_step A q (snd (snd (io_queue_create_buffer A q payload len)))"
| q_set_cb: "q_step A q (io_queue_buffer_set_cb q a cb ctx)"
| q_set_ready: "q_step A q (io_queue_buffer_set_ready q a)"
| q_set_inprogress: "q_step A q (io_queue_buffer_set_inprogress q a)"
| q_set_done: "q_step A q (io_queue_buffer_set_done q a)"
| q_pop_ready: "q_step A q (snd (io_queue_pop_ready q))"
| q_pop_inprogress: "q_step A q (snd (io_queue_pop_inprogress q))"
| q_pop_done: "q_step A q (snd (io_queue_pop_done q))"
| q_release: "q_step A q (io_queue_buffer_release q a)"
| q_release_all: "q_step A q (io_queue_release_all_buffers q)"
| q_abort: "q_step A q (io_queue_abort q)"
| q_rollback: "q_step A q (io_queue_rollback q)"

inductive q_reachable :: "allocator \<Rightarrow> io_queue \<Rightarrow> bool" for A where
  q_init: "io_queue_create A True er_ok True er_ok = (er_ok, Some q) \<Longrightarrow> q_reachable A q"
| q_next: "q_reachable A q \<Longrightarrow> q_step A q q' \<Longrightarrow> q_reachable A q'"

lemma io_queue_create_inv:
  assumes "io_queue_create A True er_ok True er_ok = (er_ok, Some q)"
  shows "q_inv q"
proof -
  obtain r p where p: "prx_dynamic_pool_create A True er_ok 0 None = (r, Some p)"
    and q: "q = \<lparr>q_factory = p, q_ready = [], q_inprogress = [], q_done = [], q_bufs = Map.empty, q_calls = []\<rparr>"
    using assms by (auto simp: io_queue_create_def split: prod.splits option.splits)
  have "r = er_ok"
    using p by (auto simp: prx_dynamic_pool_create_def split: if_splits prod.splits)
  then have "pool_created A dynamic_pool 0 None p"
    using p by (simp add: pool_created_def)
  from pool_created_inv [OF this] show ?thesis
    by (simp add: q q_inv_def q_linked_def q_owns_def)
qed

lemma q_step_inv: "q_step A q q' \<Longrightarrow> q_inv q \<Longrightarrow> q_inv q'"
proof (induction rule: q_step.induct)
  case (q_create_buffer len payload q)
  obtain result r q' where c: "io_queue_create_buffer A q payload len = (result, r, q')"
    by (cases "io_queue_create_buffer A q payload len")
  show ?case
    using io_queue_create_buffer_inv [OF q_create_buffer(3,1,2) c] c by simp
qed (simp_all add: io_queue_buffer_set_cb_inv io_queue_buffer_set_ready_def io_queue_buffer_set_inprogress_def
    io_queue_buffer_set_done_def q_set_state_inv io_queue_pop_ready_def io_queue_pop_inprogress_def
    io_queue_pop_done_def io_queue_state_pop_inv io_queue_buffer_release_inv io_queue_release_all_inv
    io_queue_abort_inv io_queue_rollback_inv)

lemma q_reachable_inv: "q_reachable A q \<Longrightarrow> q_inv q"
  by (induction rule: q_reachable.induct) (auto intro: io_queue_create_inv q_step_inv)

lemma q_owns_checked_out: "q_owns pool S \<Longrightarrow> set (pool_checked_out pool) = S"
proof -
  assume o: "q_owns pool S"
  have "a \<in> set (pool_checked_out pool) \<longleftrightarrow> a \<in> S" for a
    using o pool_live_checked_out [of pool a] by (simp add: q_owns_def split: if_splits)
  then show ?thesis by blast
qed

text \<open>A queue with two ready buffers, the first with a callback, for the witnesses.\<close>

definition q_demo0 :: io_queue where
  "q_demo0 = the (snd (io_queue_create pool_demo_allocator True er_ok True er_ok))"

definition q_demo :: io_queue where
  "q_demo = (
     let q = snd (snd (io_queue_create_buffer pool_demo_allocator q_demo0 (Some [1, 2]) 2));
         q = io_queue_buffer_set_cb q (10, 0) 5 6;
         q = io_queue_buffer_set_ready q (10, 0);
         q = snd (snd (io_queue_create_buffer pool_demo_allocator q (Some [3]) 1))
     in io_queue_buffer_set_ready q (11, 0))"

lemma q_demo0_created: "io_queue_create pool_demo_allocator True er_ok True er_ok = (er_ok, Some q_demo0)"
proof -
  have "fst r = er_ok \<and> (case snd r of None \<Rightarrow> False | Some q \<Rightarrow> True) \<Longrightarrow> r = (er_ok, Some (the (snd r)))"
    for r :: "prx_error \<times> io_queue option"
    by (cases r) (auto split: option.splits)
  then show ?thesis
    unfolding q_demo0_def by this code_simp
qed

lemma SIZE_MOD_big: "SIZEOF_IO_QUEUE_BUFFER + SIZEOF_PRX_BUFFER + 2 < SIZE_MOD"
  by code_simp

lemma q_demo_reachable: "q_reachable pool_demo_allocator q_demo"
  unfolding q_demo_def Let_def
  by (intro q_next [OF _ q_set_ready] q_next [OF _ q_set_cb] q_next [OF _ q_create_buffer] q_init q_demo0_created)
     (use SIZE_MOD_big in simp_all)

lemma q_demo_lists: "q_ready q_demo = [(10, 0), (11, 0)] \<and> q_inprogress q_demo = [] \<and> q_done q_demo = []"
  by code_simp

text \<open>
  C32. In every state the queue can reach, a buffer is in at most one of the ready, in-progress and
  done lists and only once, every listed buffer exists, and the buffers that exist are exactly those
  checked out of the queue's pool: none leaks and none is used after its release.
\<close>
theorem io_queue_invariant:
  assumes "q_reachable A q"
  shows "distinct (q_ready q @ q_inprogress q @ q_done q) \<and>
    set (q_ready q @ q_inprogress q @ q_done q) \<subseteq> dom (q_bufs q) \<and>
    set (pool_checked_out (q_factory q)) = dom (q_bufs q)"
  using q_reachable_inv [OF assms] q_owns_checked_out
  by (simp add: q_inv_def q_linked_def)

theorem io_queue_invariant_witness:
  "q_ready q_demo = [(10, 0), (11, 0)] \<and> set (pool_checked_out (q_factory q_demo)) = dom (q_bufs q_demo)"
  using io_queue_invariant [OF q_demo_reachable] q_demo_lists by blast

text \<open>Taking the oldest ready buffer and marking it in progress, \<open>n\<close> times.\<close>

fun q_start :: "nat \<Rightarrow> io_queue \<Rightarrow> io_queue" where
  "q_start 0 q = q"
| "q_start (Suc n) q = (case io_queue_pop_ready q of
     (None, q) \<Rightarrow> q
   | (Some a, q) \<Rightarrow> q_start n (io_queue_buffer_set_inprogress q a))"

lemma q_start_lists:
  "q_inv q \<Longrightarrow> q_inv (q_start n q) \<and> q_ready (q_start n q) = drop n (q_ready q) \<and>
     q_inprogress (q_start n q) = q_inprogress q @ take n (q_ready q)"
proof (induction n arbitrary: q)
  case (Suc n)
  show ?case
  proof (cases "q_ready q")
    case Nil
    then show ?thesis using Suc.prems by (simp add: io_queue_pop_ready_def io_queue_state_pop_def)
  next
    case (Cons a rest)
    define q1 where "q1 = io_queue_buffer_set_inprogress (q\<lparr>q_ready := rest\<rparr>) a"
    have inv1: "q_inv (q\<lparr>q_ready := rest\<rparr>)"
      using Suc.prems Cons by (auto simp: q_inv_def q_linked_def)
    obtain b where b: "q_bufs q a = Some b" "qb_queue b"
      using Suc.prems Cons q_inv_buf_ok [of q a] by (auto simp: q_inv_def q_linked_def qb_ok_def)
    have a: "a \<notin> set rest" "a \<notin> set (q_inprogress q)" "a \<notin> set (q_done q)"
      using Suc.prems Cons by (auto simp: q_inv_def q_linked_def)
    have "q_inv q1"
      using q_set_state_inv [OF inv1] by (simp add: q1_def io_queue_buffer_set_inprogress_def)
    moreover have "q_ready q1 = rest" "q_inprogress q1 = q_inprogress q @ [a]"
      using a b by (simp_all add: q1_def io_queue_buffer_set_inprogress_def q_set_state_def
          io_queue_state_push_def q_unlink_def Let_def remove1_idem)
    ultimately show ?thesis
      using Suc.IH [of q1] Cons by (simp add: io_queue_pop_ready_def io_queue_state_pop_def q1_def)
  qed
qed simp

text \<open>
  C33. A rollback undoes any number of started transfers: however many ready buffers have been taken
  and put in progress, afterwards they stand in front of the remaining ready ones again, in their
  original order, behind those that were in progress before.
\<close>
theorem io_queue_rollback_restores:
  assumes "q_reachable A q"
  shows "q_ready (io_queue_rollback (q_start n q)) = q_inprogress q @ q_ready q \<and>
    q_inprogress (io_queue_rollback (q_start n q)) = []"
  using q_start_lists [OF q_reachable_inv [OF assms], of n] by (simp add: io_queue_rollback_def)

theorem io_queue_rollback_restores_witness:
  "q_inprogress (q_start 1 q_demo) = [(10, 0)] \<and>
   q_ready (io_queue_rollback (q_start 1 q_demo)) = [(10, 0), (11, 0)]"
  using io_queue_rollback_restores [OF q_demo_reachable, of 1] q_demo_lists
    q_start_lists [OF q_reachable_inv [OF q_demo_reachable], of 1] by simp

text \<open>The callbacks pending in a list of buffers.\<close>

definition q_pending :: "io_queue \<Rightarrow> addr list \<Rightarrow> (nat \<times> nat) list" where
  "q_pending q xs = [(qb_cb_ptr b, qb_ctx b). b \<leftarrow> map (\<lambda>a. the (q_bufs q a)) xs, qb_cb_ptr b \<noteq> 0]"

lemma q_pending_append: "q_pending q (xs @ ys) = q_pending q xs @ q_pending q ys"
  by (simp add: q_pending_def)

lemma q_pending_cong: "(\<And>a. a \<in> set xs \<Longrightarrow> q_bufs q a = q_bufs q' a) \<Longrightarrow> q_pending q xs = q_pending q' xs"
  unfolding q_pending_def by (induction xs) auto

lemma io_queue_release_buffer_effect:
  assumes "a \<in> dom (q_bufs q)"
  shows "q_calls (io_queue_release_buffer_no_lock q a) = q_calls q @ q_pending q [a]"
    "q_bufs (io_queue_release_buffer_no_lock q a) = (q_bufs q)(a := None)"
  using assms by (auto simp: io_queue_release_buffer_no_lock_def io_queue_buffer_abort_callback_def
      q_unlink_def q_pending_def Let_def fun_upd_def)

lemma q_release_loop_effect:
  "q_inv q \<Longrightarrow> q_list st q = xs \<Longrightarrow>
     q_calls (q_release_loop st xs q) = q_calls q @ q_pending q xs \<and>
     q_bufs (q_release_loop st xs q) = q_bufs q |` (- set xs)"
proof (induction xs arbitrary: q)
  case Nil
  then show ?case by (cases st) (simp_all add: q_pending_def)
next
  case (Cons a xs)
  define q1 where "q1 = q_set_list st xs q"
  have q1: "q_inv q1" "a \<in> dom (q_bufs q1)" "a \<notin> set (q_linked q1)" "q_bufs q1 = q_bufs q" "q_calls q1 = q_calls q"
    using q_set_list_inv [OF Cons.prems] by (cases st; simp add: q1_def)+
  define q2 where "q2 = io_queue_release_buffer_no_lock q1 a"
  have q2: "q_inv q2" "q_list st q2 = xs" "q_calls q2 = q_calls q @ q_pending q1 [a]" "q_bufs q2 = (q_bufs q)(a := None)"
    using io_queue_release_buffer_inv [OF q1(1,2)] io_queue_release_buffer_lists [OF q1(3), of st]
      io_queue_release_buffer_effect [OF q1(2)] q1(4,5)
    by (simp_all add: q2_def q1_def q_list_set_list)
  have "a \<notin> set xs"
    using Cons.prems by (cases st) (auto simp: q_inv_def q_linked_def)
  then have "q_pending q2 xs = q_pending q xs"
    using q2(4) by (intro q_pending_cong) auto
  moreover have "q_pending q1 [a] = q_pending q [a]"
    using q1(4) by (intro q_pending_cong) simp
  moreover have "q_bufs q2 |` (- set xs) = q_bufs q |` (- set (a # xs))"
    by (auto simp: q2(4) restrict_map_def)
  ultimately show ?case
    using Cons.IH [OF q2(1,2)] q2(3) q_pending_append [of q "[a]" xs]
    by (simp add: q1_def [symmetric] q2_def [symmetric])
qed

lemma io_queue_state_release_effect:
  "q_inv q \<Longrightarrow> q_calls (io_queue_state_release_no_lock st q) = q_calls q @ q_pending q (q_list st q) \<and>
     q_bufs (io_queue_state_release_no_lock st q) = q_bufs q |` (- set (q_list st q))"
  using q_release_loop_effect [of q st] by (simp add: io_queue_state_release_no_lock_def)

text \<open>
  C34. Releasing all buffers calls every pending callback of a queued buffer exactly once with
  \<open>er_aborted\<close>, in the order done, in progress, ready, empties the three lists and gives exactly the
  queued buffers back to the pool; buffers a caller has popped stay alive.
\<close>
theorem io_queue_release_all_correct:
  assumes "q_reachable A q" and q': "q' = io_queue_release_all_buffers q"
  shows "q_ready q' = [] \<and> q_inprogress q' = [] \<and> q_done q' = [] \<and>
    q_calls q' = q_calls q @ q_pending q (q_done q @ q_inprogress q @ q_ready q) \<and>
    q_bufs q' = q_bufs q |` (- set (q_done q @ q_inprogress q @ q_ready q)) \<and>
    set (pool_checked_out (q_factory q')) = dom (q_bufs q')"
proof -
  have inv: "q_inv q"
    using q_reachable_inv [OF assms(1)] .
  define q1 where "q1 = io_queue_state_release_no_lock qs_done q"
  define q2 where "q2 = io_queue_state_release_no_lock qs_inprogress q1"
  have q'': "q' = io_queue_state_release_no_lock qs_ready q2"
    by (simp add: q' io_queue_release_all_buffers_def q1_def q2_def)
  have i1: "q_inv q1" and i2: "q_inv q2"
    using io_queue_state_release_inv(1) inv by (simp_all add: q1_def q2_def)
  have l1: "q_inprogress q1 = q_inprogress q" "q_ready q2 = q_ready q"
    using io_queue_state_release_inv(2) [OF inv, of qs_inprogress qs_done]
      io_queue_state_release_inv(2) [OF inv, of qs_ready qs_done]
      io_queue_state_release_inv(2) [OF i1, of qs_ready qs_inprogress] by (simp_all add: q1_def q2_def)
  note e = io_queue_state_release_effect [OF inv, of qs_done] io_queue_state_release_effect [OF i1, of qs_inprogress]
    io_queue_state_release_effect [OF i2, of qs_ready]
  have d: "set (q_done q) \<inter> set (q_inprogress q) = {}" "set (q_done q) \<inter> set (q_ready q) = {}"
    "set (q_inprogress q) \<inter> set (q_ready q) = {}"
    using inv by (auto simp: q_inv_def q_linked_def)
  have b1: "q_bufs q1 = q_bufs q |` (- set (q_done q))" and c1: "q_calls q1 = q_calls q @ q_pending q (q_done q)"
    using e(1) by (simp_all add: q1_def)
  have b2: "q_bufs q2 = q_bufs q1 |` (- set (q_inprogress q))"
    and c2: "q_calls q2 = q_calls q1 @ q_pending q1 (q_inprogress q)"
    using e(2) l1 by (simp_all add: q2_def)
  have p: "q_pending q1 (q_inprogress q) = q_pending q (q_inprogress q)"
    "q_pending q2 (q_ready q) = q_pending q (q_ready q)"
    using d by (auto intro!: q_pending_cong simp: b1 b2 restrict_map_def)
  have "q_calls q' = q_calls q @ q_pending q (q_done q @ q_inprogress q @ q_ready q)"
    "q_bufs q' = q_bufs q |` (- set (q_done q @ q_inprogress q @ q_ready q))"
    using e(3) l1 p by (simp_all add: q'' [symmetric] b1 b2 c1 c2 q_pending_append Int_assoc)
  moreover have "q_linked q' = []" "q_inv q'"
    using io_queue_release_all_inv [OF inv] by (simp_all add: q')
  ultimately show ?thesis
    using q_owns_checked_out by (simp add: q_linked_def q_inv_def)
qed

theorem io_queue_release_all_correct_witness:
  "q_calls (io_queue_release_all_buffers q_demo) = q_calls q_demo @ [(5, 6)]"
proof -
  have "q_pending q_demo (q_done q_demo @ q_inprogress q_demo @ q_ready q_demo) = [(5, 6)]"
    by code_simp
  then show ?thesis
    using io_queue_release_all_correct [OF q_demo_reachable refl] by simp
qed

end
