(* ===== verification/Io_Stream.thy ===== *)
theory Io_Stream
  imports Prelude Prx_Err Prx_Buffer Io_Queue
begin

text \<open>
  The stream interface of \<open>inc/io_stream.h\<close>, a table of optional functions over a context, and the
  streams of \<open>src/util_stream.c\<close> and of a queue buffer behind it. A reader returns the bytes it
  stored, whose number is \<open>*read\<close>; a writer takes the bytes to write. The two contracts a client of
  a stream relies on are the locales \<open>in_stream\<close> and \<open>out_stream\<close>.
\<close>

section \<open>The stream interface\<close>

record 's io_stream =
  st_context :: 's
  st_readable :: "('s \<Rightarrow> nat) option"
  st_reader :: "('s \<Rightarrow> nat \<Rightarrow> prx_error \<times> u8 list \<times> 's) option"
  st_reset :: "('s \<Rightarrow> prx_error \<times> 's) option"
  st_writeable :: "('s \<Rightarrow> nat) option"
  st_writer :: "('s \<Rightarrow> u8 list \<Rightarrow> prx_error \<times> 's) option"
  st_close :: "('s \<Rightarrow> 's) option"

definition io_stream_readable :: "'s io_stream option \<Rightarrow> nat" where
  "io_stream_readable stream = (case stream of
     None \<Rightarrow> 0
   | Some st \<Rightarrow> (case st_readable st of None \<Rightarrow> 0 | Some f \<Rightarrow> f (st_context st)))"

definition io_stream_reset :: "'s io_stream option \<Rightarrow> prx_error \<times> 's io_stream option" where
  "io_stream_reset stream = (case stream of
     None \<Rightarrow> (er_fault, None)
   | Some st \<Rightarrow> (case st_reset st of
       None \<Rightarrow> (er_ok, stream)
     | Some f \<Rightarrow> (let (result, c) = f (st_context st) in (result, Some (st\<lparr>st_context := c\<rparr>)))))"

definition io_stream_read :: "'s io_stream option \<Rightarrow> nat \<Rightarrow> prx_error \<times> u8 list \<times> 's io_stream option" where
  "io_stream_read stream len = (case stream of
     None \<Rightarrow> (er_fault, [], None)
   | Some st \<Rightarrow> (case st_reader st of
       None \<Rightarrow> (er_not_supported, [], stream)
     | Some f \<Rightarrow> (let (result, data, c) = f (st_context st) len in (result, data, Some (st\<lparr>st_context := c\<rparr>)))))"

definition io_stream_writeable :: "'s io_stream option \<Rightarrow> nat" where
  "io_stream_writeable stream = (case stream of
     None \<Rightarrow> 0
   | Some st \<Rightarrow> (case st_writeable st of None \<Rightarrow> 0 | Some f \<Rightarrow> f (st_context st)))"

definition io_stream_write :: "'s io_stream option \<Rightarrow> u8 list \<Rightarrow> prx_error \<times> 's io_stream option" where
  "io_stream_write stream buf = (case stream of
     None \<Rightarrow> (er_fault, None)
   | Some st \<Rightarrow> (case st_writer st of
       None \<Rightarrow> (er_not_supported, stream)
     | Some f \<Rightarrow> (let (result, c) = f (st_context st) buf in (result, Some (st\<lparr>st_context := c\<rparr>)))))"

definition io_stream_close :: "'s io_stream option \<Rightarrow> 's io_stream option" where
  "io_stream_close stream = (case stream of
     None \<Rightarrow> None
   | Some st \<Rightarrow> (case st_close st of
       None \<Rightarrow> stream
     | Some f \<Rightarrow> Some (st\<lparr>st_context := f (st_context st)\<rparr>)))"

section \<open>Fixed buffer stream\<close>

text \<open>
  \<open>fb_in\<close> is the memory behind the input pointer, of which \<open>fb_in_len\<close> bytes belong to the stream;
  \<open>fb_out\<close> is what has been stored before the output pointer, with room for \<open>fb_out_len\<close> more.
\<close>

record io_fixed_buffer_stream =
  fb_in :: "u8 list"
  fb_in_len :: nat
  fb_out :: "u8 list"
  fb_out_len :: nat

definition io_fixed_buffer_stream_reader ::
  "io_fixed_buffer_stream \<Rightarrow> nat \<Rightarrow> prx_error \<times> u8 list \<times> io_fixed_buffer_stream" where
  "io_fixed_buffer_stream_reader mem count = (
     let read = min count (fb_in_len mem)
     in if 0 < read
        then (er_ok, take read (fb_in mem),
              mem\<lparr>fb_in_len := fb_in_len mem - read, fb_in := drop read (fb_in mem)\<rparr>)
        else (er_ok, [], mem))"

definition io_fixed_buffer_stream_writer ::
  "io_fixed_buffer_stream \<Rightarrow> u8 list \<Rightarrow> prx_error \<times> io_fixed_buffer_stream" where
  "io_fixed_buffer_stream_writer mem data = (
     let count = length data
     in if fb_out_len mem < count then (er_writing, mem)
        else if 0 < count
        then (er_ok, mem\<lparr>fb_out := fb_out mem @ data, fb_out_len := fb_out_len mem - count\<rparr>)
        else (er_ok, mem))"

definition io_fixed_buffer_stream_readable :: "io_fixed_buffer_stream \<Rightarrow> nat" where
  "io_fixed_buffer_stream_readable mem = fb_in_len mem"

definition io_fixed_buffer_stream_writeable :: "io_fixed_buffer_stream \<Rightarrow> nat" where
  "io_fixed_buffer_stream_writeable mem = fb_out_len mem"

definition io_fixed_buffer_stream_init :: "u8 list \<Rightarrow> nat \<Rightarrow> nat \<Rightarrow> io_fixed_buffer_stream io_stream" where
  "io_fixed_buffer_stream_init inp in_len out_len = \<lparr>
     st_context = \<lparr>fb_in = inp, fb_in_len = in_len, fb_out = [], fb_out_len = out_len\<rparr>,
     st_readable = Some io_fixed_buffer_stream_readable,
     st_reader = Some io_fixed_buffer_stream_reader,
     st_reset = None,
     st_writeable = Some io_fixed_buffer_stream_writeable,
     st_writer = Some io_fixed_buffer_stream_writer,
     st_close = None\<rparr>"

section \<open>Dynamic memory and pool streams\<close>

text \<open>
  One structure serves both streams: without a pool the output is memory of the C library, \<open>ds_mem\<close>,
  of \<open>ds_increment\<close> bytes; with a pool it is the buffer \<open>ds_out\<close> of \<open>ds_pool\<close>. \<open>ds_allocs\<close> counts the
  calls of the C allocator.
\<close>

record io_dynamic_buffer_stream =
  ds_pool :: "prx_buffer_pool option"
  ds_increment :: nat
  ds_mem :: "u8 list"
  ds_out :: addr
  ds_out_len :: nat
  ds_allocs :: nat

text \<open>
  The growth loop of the memory stream. It is a partial function: a size that wraps to zero would
  make it run forever, which is the value \<open>None\<close>.
\<close>

partial_function (option) io_dynamic_memory_grow ::
  "allocator \<Rightarrow> nat \<Rightarrow> io_dynamic_buffer_stream \<Rightarrow> (prx_error \<times> io_dynamic_buffer_stream) option" where
  [code]: "io_dynamic_memory_grow A count mem = (
     if ds_increment mem < size_add (ds_out_len mem) count
     then let size2 = (2 * ds_increment mem) mod SIZE_MOD
          in case mem_realloc A (ds_allocs mem) (ds_mem mem) size2 of
               None \<Rightarrow> Some (er_out_of_memory, mem\<lparr>ds_allocs := ds_allocs mem + 1\<rparr>)
             | Some tmp \<Rightarrow> io_dynamic_memory_grow A count
                 (mem\<lparr>ds_allocs := ds_allocs mem + 1, ds_mem := tmp, ds_increment := size2\<rparr>)
     else Some (er_ok, mem))"

definition io_dynamic_memory_stream_writer ::
  "allocator \<Rightarrow> io_dynamic_buffer_stream \<Rightarrow> u8 list \<Rightarrow> (prx_error \<times> io_dynamic_buffer_stream) option" where
  "io_dynamic_memory_stream_writer A mem data = (
     let count = length data
     in if count = 0 then Some (er_ok, mem)
        else case io_dynamic_memory_grow A count mem of
          None \<Rightarrow> None
        | Some (result, mem) \<Rightarrow>
            if result \<noteq> er_ok then Some (result, mem)
            else Some (er_ok, mem\<lparr>ds_mem := mem_put (ds_mem mem) (ds_out_len mem) data count,
                                  ds_out_len := ds_out_len mem + count\<rparr>))"

definition io_dynamic_buffer_stream_writer ::
  "allocator \<Rightarrow> prx_buffer_factory \<Rightarrow> io_dynamic_buffer_stream \<Rightarrow> u8 list
     \<Rightarrow> prx_error \<times> io_dynamic_buffer_stream" where
  "io_dynamic_buffer_stream_writer A factory mem data = (
     let count = length data
     in if count = 0 then (er_ok, mem)
        else case ds_pool mem of
          None \<Rightarrow> (er_fault, mem)
        | Some pool \<Rightarrow> (
            let need = size_add (ds_out_len mem) count;
                sz = prx_buffer_get_size factory pool (ds_out mem);
                (result, out, pool) =
                  (if sz < need
                   then prx_buffer_set_size A factory pool (Some (ds_out mem))
                          ((need div ds_increment mem + 1) * ds_increment mem mod SIZE_MOD)
                   else (er_ok, Some (ds_out mem), pool))
            in if result \<noteq> er_ok then (result, mem\<lparr>ds_pool := Some pool\<rparr>)
               else (er_ok, mem\<lparr>ds_out := the out, ds_out_len := ds_out_len mem + count,
                 ds_pool := Some (pool\<lparr>pool_heap := (case pool_heap pool (the out) of
                     None \<Rightarrow> pool_heap pool
                   | Some b \<Rightarrow> (pool_heap pool)(the out \<mapsto>
                       b\<lparr>pb_data := mem_put (pb_data b) (ds_out_len mem) data count\<rparr>))\<rparr>)\<rparr>)))"

definition io_dynamic_buffer_stream_writeable :: "io_dynamic_buffer_stream \<Rightarrow> nat" where
  "io_dynamic_buffer_stream_writeable mem = SIZE_MOD - 1"

text \<open>
  Both results of the initialisation: the stream, whose writer is the pool writer when there is a
  pool and the memory writer otherwise, and the pool after the allocation from it.
\<close>

definition io_dynamic_buffer_stream_init ::
  "allocator \<Rightarrow> prx_buffer_factory \<Rightarrow> prx_buffer_pool option \<Rightarrow> nat
     \<Rightarrow> io_dynamic_buffer_stream option \<times> prx_buffer_pool option" where
  "io_dynamic_buffer_stream_init A factory pool increment = (
     let increment = (if increment \<noteq> 0 then increment else 0x400)
     in case pool of
          None \<Rightarrow> (case mem_alloc A 0 increment of
             None \<Rightarrow> (None, None)
           | Some out \<Rightarrow> (Some \<lparr>ds_pool = None, ds_increment = increment, ds_mem = out, ds_out = (0, 0),
                               ds_out_len = 0, ds_allocs = 1\<rparr>, None))
        | Some pool \<Rightarrow> (case prx_buffer_new A factory pool increment of
             (None, pool) \<Rightarrow> (None, Some pool)
           | (Some out, pool) \<Rightarrow> (Some \<lparr>ds_pool = Some pool, ds_increment = increment, ds_mem = [], ds_out = out,
                               ds_out_len = 0, ds_allocs = 0\<rparr>, Some pool)))"

definition io_dynamic_stream_writer ::
  "allocator \<Rightarrow> prx_buffer_factory \<Rightarrow> io_dynamic_buffer_stream \<Rightarrow> u8 list
     \<Rightarrow> (prx_error \<times> io_dynamic_buffer_stream) option" where
  "io_dynamic_stream_writer A factory mem data = (
     if ds_pool mem \<noteq> None then Some (io_dynamic_buffer_stream_writer A factory mem data)
     else io_dynamic_memory_stream_writer A mem data)"

section \<open>File stream\<close>

text \<open>
  A file of the C library: its bytes, the position, how many more bytes the medium accepts, and
  whether it is open.
\<close>

record c_file =
  cf_data :: "u8 list"
  cf_pos :: nat
  cf_room :: nat
  cf_open :: bool

definition fread :: "c_file \<Rightarrow> nat \<Rightarrow> u8 list \<times> c_file" where
  "fread f count = (let data = take count (drop (cf_pos f) (cf_data f)) in (data, f\<lparr>cf_pos := cf_pos f + length data\<rparr>))"

definition fwrite :: "c_file \<Rightarrow> u8 list \<Rightarrow> nat \<times> c_file" where
  "fwrite f data = (
     let n = min (length data) (cf_room f)
     in (n, f\<lparr>cf_data := mem_put (cf_data f) (cf_pos f) data n, cf_pos := cf_pos f + n, cf_room := cf_room f - n\<rparr>))"

record io_file_stream =
  fs_in_fd :: "c_file option"
  fs_out_fd :: "c_file option"

definition io_file_stream_reader :: "io_file_stream \<Rightarrow> nat \<Rightarrow> prx_error \<times> u8 list \<times> io_file_stream" where
  "io_file_stream_reader fs count = (case fs_in_fd fs of
     None \<Rightarrow> (er_reading, [], fs)
   | Some f \<Rightarrow> (
       let (data, f') = fread f count
       in if length data < 1 then (er_reading, data, fs\<lparr>fs_in_fd := Some f'\<rparr>)
          else (er_ok, data, fs\<lparr>fs_in_fd := Some f'\<rparr>)))"

definition io_file_stream_writer :: "io_file_stream \<Rightarrow> u8 list \<Rightarrow> prx_error \<times> io_file_stream" where
  "io_file_stream_writer fs data = (case fs_out_fd fs of
     None \<Rightarrow> (er_writing, fs)
   | Some f \<Rightarrow> (
       let (n, f') = fwrite f data
       in if 1 > n then (er_writing, fs\<lparr>fs_out_fd := Some f'\<rparr>)
          else (er_ok, fs\<lparr>fs_out_fd := Some f'\<rparr>)))"

definition io_file_stream_readable :: "io_file_stream \<Rightarrow> nat" where
  "io_file_stream_readable fs = (case fs_in_fd fs of
     None \<Rightarrow> 0
   | Some f \<Rightarrow> size_sub (length (cf_data f)) (cf_pos f))"

definition io_file_stream_writeable :: "io_file_stream \<Rightarrow> nat" where
  "io_file_stream_writeable fs = SIZE_MOD - 1"

definition io_file_stream_reset :: "io_file_stream \<Rightarrow> prx_error \<times> io_file_stream" where
  "io_file_stream_reset fs = (
     let fs = (case fs_in_fd fs of None \<Rightarrow> fs | Some f \<Rightarrow> fs\<lparr>fs_in_fd := Some (f\<lparr>cf_pos := 0\<rparr>)\<rparr>)
     in case fs_out_fd fs of
          None \<Rightarrow> (er_ok, fs)
        | Some f \<Rightarrow> if cf_pos f = 0 then (er_ok, fs) else (er_not_impl, fs))"

definition io_file_stream_close :: "io_file_stream \<Rightarrow> io_file_stream" where
  "io_file_stream_close fs = \<lparr>
     fs_in_fd = map_option (\<lambda>f. f\<lparr>cf_open := False\<rparr>) (fs_in_fd fs),
     fs_out_fd = map_option (\<lambda>f. f\<lparr>cf_open := False\<rparr>) (fs_out_fd fs)\<rparr>"

text \<open>\<open>fopen_r\<close> and \<open>fopen_w\<close> are what the C library returns for a file name.\<close>

definition io_file_stream_init ::
  "(cstr \<Rightarrow> c_file option) \<Rightarrow> (cstr \<Rightarrow> c_file option) \<Rightarrow> cstr option \<Rightarrow> cstr option \<Rightarrow> io_file_stream io_stream option" where
  "io_file_stream_init fopen_r fopen_w in_file out_file = (
     if in_file = None \<and> out_file = None then None
     else let
       in_fd = (case in_file of None \<Rightarrow> None | Some name \<Rightarrow> fopen_r name);
       out_fd = (case out_file of None \<Rightarrow> None | Some name \<Rightarrow> fopen_w name)
     in if in_file \<noteq> None \<and> in_fd = None then None
        else if out_file \<noteq> None \<and> out_fd = None then None
        else Some \<lparr>
          st_context = \<lparr>fs_in_fd = in_fd, fs_out_fd = out_fd\<rparr>,
          st_readable = (if in_file \<noteq> None then Some io_file_stream_readable else None),
          st_reader = (if in_file \<noteq> None then Some io_file_stream_reader else None),
          st_reset = Some io_file_stream_reset,
          st_writeable = (if out_file \<noteq> None then Some io_file_stream_writeable else None),
          st_writer = (if out_file \<noteq> None then Some io_file_stream_writer else None),
          st_close = Some io_file_stream_close\<rparr>)"

section \<open>The queue buffer as a stream\<close>

text \<open>The function table \<open>io_queue_create_buffer\<close> installs in a buffer.\<close>

definition io_queue_buffer_as_stream :: "io_queue_buffer \<Rightarrow> io_queue_buffer io_stream" where
  "io_queue_buffer_as_stream b = \<lparr>
     st_context = b,
     st_readable = Some io_queue_buffer_stream_readable,
     st_reader = Some (\<lambda>b len. case io_queue_buffer_stream_reader b len of (r, data, read, b) \<Rightarrow> (r, data, b)),
     st_reset = Some io_queue_buffer_stream_reset,
     st_writeable = Some io_queue_buffer_stream_writeable,
     st_writer = Some (\<lambda>b data. io_queue_buffer_stream_writer b (Some data) (length data)),
     st_close = None\<rparr>"

section \<open>Stream contracts\<close>

text \<open>
  An input stream hands out the next bytes of what is left in it, and fewer only at its end. An
  output stream appends what it accepts to what it holds and keeps that when it refuses; the writer
  of a stream that allocates may in principle not return, hence the option.
\<close>

locale in_stream =
  fixes ok :: "'s \<Rightarrow> bool"
    and inp :: "'s \<Rightarrow> u8 list"
    and rd :: "'s \<Rightarrow> nat \<Rightarrow> prx_error \<times> u8 list \<times> 's"
  assumes rd_full: "ok s \<Longrightarrow> n \<le> length (inp s) \<Longrightarrow>
    \<exists>s'. rd s n = (er_ok, take n (inp s), s') \<and> ok s' \<and> inp s' = drop n (inp s)"
begin

text \<open>Reading in pieces is reading at once.\<close>

fun read_pieces :: "nat list \<Rightarrow> 's \<Rightarrow> u8 list \<times> 's" where
  "read_pieces [] s = ([], s)"
| "read_pieces (n # ns) s = (case rd s n of (e, data, s') \<Rightarrow>
     (case read_pieces ns s' of (rest, s'') \<Rightarrow> (data @ rest, s'')))"

lemma read_pieces_sum:
  "ok s \<Longrightarrow> sum_list ns \<le> length (inp s) \<Longrightarrow>
     \<exists>s'. read_pieces ns s = (take (sum_list ns) (inp s), s') \<and> ok s' \<and> inp s' = drop (sum_list ns) (inp s)"
proof (induction ns arbitrary: s)
  case (Cons n ns)
  have "n \<le> length (inp s)"
    using Cons.prems(2) by simp
  from rd_full [OF Cons.prems(1) this] obtain s1 where
    s1: "rd s n = (er_ok, take n (inp s), s1)" "ok s1" "inp s1 = drop n (inp s)" by blast
  then have "sum_list ns \<le> length (inp s1)"
    using Cons.prems(2) by simp
  from Cons.IH [OF s1(2) this] obtain s2 where "read_pieces ns s1 = (take (sum_list ns) (inp s1), s2)" "ok s2"
    "inp s2 = drop (sum_list ns) (inp s1)" by blast
  with s1 show ?case
    by (simp add: take_add add.commute)
qed simp

end

locale out_stream =
  fixes ok :: "'s \<Rightarrow> bool"
    and out :: "'s \<Rightarrow> u8 list"
    and limit :: nat
    and wr :: "'s \<Rightarrow> u8 list \<Rightarrow> (prx_error \<times> 's) option"
  assumes wr_returns: "ok s \<Longrightarrow> length (out s) + length d < limit \<Longrightarrow> \<exists>e s'. wr s d = Some (e, s')"
    and wr_ok: "ok s \<Longrightarrow> length (out s) + length d < limit \<Longrightarrow> wr s d = Some (er_ok, s') \<Longrightarrow>
                  ok s' \<and> out s' = out s @ d"
    and wr_fail: "ok s \<Longrightarrow> length (out s) + length d < limit \<Longrightarrow> wr s d = Some (e, s') \<Longrightarrow> e \<noteq> er_ok \<Longrightarrow>
                  ok s' \<and> out s' = out s"
begin

fun write_chunks :: "u8 list list \<Rightarrow> 's \<Rightarrow> (prx_error \<times> 's) option" where
  "write_chunks [] s = Some (er_ok, s)"
| "write_chunks (d # ds) s = (case wr s d of
     None \<Rightarrow> None
   | Some (e, s') \<Rightarrow> if e = er_ok then write_chunks ds s' else Some (e, s'))"

text \<open>The stream holds the chunks written up to the first refusal, all of them on success.\<close>

lemma write_chunks_prefix:
  "ok s \<Longrightarrow> length (out s) + length (concat ds) < limit \<Longrightarrow>
     \<exists>e s' k. write_chunks ds s = Some (e, s') \<and> ok s' \<and> out s' = out s @ concat (take k ds) \<and>
              (e = er_ok \<longrightarrow> k = length ds)"
proof (induction ds arbitrary: s)
  case Nil
  then show ?case by simp
next
  case (Cons d ds)
  have l: "length (out s) + length d < limit"
    using Cons.prems(2) by simp
  obtain e s1 where w: "wr s d = Some (e, s1)"
    using wr_returns [OF Cons.prems(1) l] by auto
  show ?case
  proof (cases "e = er_ok")
    case True
    then have s1: "ok s1" "out s1 = out s @ d"
      using wr_ok [OF Cons.prems(1) l] w by simp_all
    moreover have "length (out s1) + length (concat ds) < limit"
      using s1 Cons.prems(2) by simp
    ultimately obtain e' s' k where "write_chunks ds s1 = Some (e', s')" "ok s'"
      "out s' = out s1 @ concat (take k ds)" "e' = er_ok \<longrightarrow> k = length ds"
      using Cons.IH [of s1] by blast
    then show ?thesis
      using w True s1(2) by (intro exI [of _ e'] exI [of _ s'] exI [of _ "Suc k"]) simp
  next
    case False
    then have "ok s1" "out s1 = out s"
      using wr_fail [OF Cons.prems(1) l w] by simp_all
    then show ?thesis
      using w False by (intro exI [of _ e] exI [of _ s1] exI [of _ 0]) simp
  qed
qed

end

text \<open>A writer that returns and appends all of the data whenever it reports success.\<close>

locale sink =
  fixes ok :: "'s \<Rightarrow> bool"
    and out :: "'s \<Rightarrow> u8 list"
    and room :: "'s \<Rightarrow> nat"
    and wr :: "'s \<Rightarrow> u8 list \<Rightarrow> prx_error \<times> 's"
  assumes wr_room: "ok s \<Longrightarrow> wr s d = (e, s') \<Longrightarrow>
    (if e = er_ok then ok s' \<and> out s' = out s @ d \<and> room s \<le> room s' + length d else room s < length d)"

section \<open>The streams satisfy their contracts\<close>

definition fb_ok :: "io_fixed_buffer_stream \<Rightarrow> bool" where
  "fb_ok s \<longleftrightarrow> fb_in_len s \<le> length (fb_in s)"

definition fb_input :: "io_fixed_buffer_stream \<Rightarrow> u8 list" where
  "fb_input s = take (fb_in_len s) (fb_in s)"

lemma fb_reader_contract:
  assumes "fb_ok s" "io_fixed_buffer_stream_reader s n = (e, data, s')"
  shows "e = er_ok \<and> data = take n (fb_input s) \<and> fb_ok s' \<and> fb_input s' = drop n (fb_input s)"
  using assms
  by (auto simp: io_fixed_buffer_stream_reader_def fb_ok_def fb_input_def Let_def drop_take min_def split: if_splits)

interpretation fb_in: in_stream fb_ok fb_input io_fixed_buffer_stream_reader
  by unfold_locales (metis fb_reader_contract prod_cases3)

interpretation fb_out: out_stream "\<lambda>s. True" fb_out "Suc n" "\<lambda>s d. Some (io_fixed_buffer_stream_writer s d)"
  for n
  by unfold_locales (auto simp: io_fixed_buffer_stream_writer_def Let_def split: if_splits)

interpretation fb_sink: sink "\<lambda>s. True" fb_out fb_out_len io_fixed_buffer_stream_writer
  by unfold_locales (auto simp: io_fixed_buffer_stream_writer_def Let_def split: if_splits)

text \<open>What a buffer still has to read.\<close>

definition qb_input :: "io_queue_buffer \<Rightarrow> u8 list" where
  "qb_input b = drop (qb_read_offset b) (take (qb_length b) (qb_data b))"

lemma qb_reader_contract:
  assumes "qb_ok b" "io_queue_buffer_stream_reader b n = (e, data, read, b')"
  shows "e = er_ok \<and> data = take n (qb_input b) \<and> qb_ok b' \<and> qb_input b' = drop n (qb_input b)"
  using assms
  by (auto simp: io_queue_buffer_stream_reader_def qb_ok_def qb_input_def mem_get_def size_simps Let_def min_def
      drop_take add.commute split: if_splits)

interpretation qb_in: in_stream qb_ok qb_input
  "\<lambda>b n. case io_queue_buffer_stream_reader b n of (r, data, read, b) \<Rightarrow> (r, data, b)"
  by unfold_locales (use qb_reader_contract in \<open>fastforce split: prod.splits\<close>)

section \<open>Dynamic memory stream\<close>

text \<open>
  The memory is as large as the recorded size, which is not zero, and the bytes written so far fit.
\<close>

definition dm_ok :: "io_dynamic_buffer_stream \<Rightarrow> bool" where
  "dm_ok mem \<longleftrightarrow> length (ds_mem mem) = ds_increment mem \<and> 0 < ds_increment mem \<and> ds_out_len mem \<le> ds_increment mem"

definition dm_out :: "io_dynamic_buffer_stream \<Rightarrow> u8 list" where
  "dm_out mem = take (ds_out_len mem) (ds_mem mem)"

lemma length_dm_out [simp]: "dm_ok mem \<Longrightarrow> length (dm_out mem) = ds_out_len mem"
  by (simp add: dm_ok_def dm_out_def)

text \<open>The growth loop ends, by the distance of the size from the bytes needed.\<close>

lemma io_dynamic_memory_grow_returns:
  assumes "dm_ok mem" "ds_out_len mem + count < SIZE_MOD div 2"
  shows "\<exists>e mem'. io_dynamic_memory_grow A count mem = Some (e, mem') \<and> dm_ok mem' \<and>
    dm_out mem' = dm_out mem \<and> ds_out_len mem' = ds_out_len mem \<and>
    (if e = er_ok then ds_out_len mem + count \<le> ds_increment mem' else e = er_out_of_memory)"
  using assms
proof (induction "ds_out_len mem + count - ds_increment mem" arbitrary: mem rule: less_induct)
  case less
  let ?need = "ds_out_len mem + count"
  have need: "size_add (ds_out_len mem) count = ?need"
    using less.prems(2) by (simp add: size_add_small SIZE_MOD_def)
  show ?case
  proof (cases "ds_increment mem < ?need")
    case False
    then show ?thesis
      using less.prems(1) need
      by (intro exI [of _ er_ok] exI [of _ mem]) (simp add: io_dynamic_memory_grow.simps)
  next
    case True
    have sz: "2 * ds_increment mem mod SIZE_MOD = 2 * ds_increment mem"
      using True less.prems(2) by (simp add: SIZE_MOD_def)
    show ?thesis
    proof (cases "mem_realloc A (ds_allocs mem) (ds_mem mem) (2 * ds_increment mem)")
      case None
      then show ?thesis
        using True need sz less.prems(1)
        by (intro exI [of _ er_out_of_memory] exI [of _ "mem\<lparr>ds_allocs := ds_allocs mem + 1\<rparr>"])
           (simp add: io_dynamic_memory_grow.simps [of A count mem] dm_ok_def dm_out_def)
    next
      case (Some tmp)
      let ?m = "mem\<lparr>ds_allocs := ds_allocs mem + 1, ds_mem := tmp, ds_increment := 2 * ds_increment mem\<rparr>"
      have pos: "0 < ds_increment mem"
        using less.prems(1) by (simp add: dm_ok_def)
      have tmp: "length tmp = 2 * ds_increment mem" "take (ds_out_len mem) tmp = take (ds_out_len mem) (ds_mem mem)"
        using Some less.prems(1) by (auto simp: mem_realloc_def dm_ok_def split: if_splits)
      have ok: "dm_ok ?m" "dm_out ?m = dm_out mem"
        using tmp less.prems(1) by (simp_all add: dm_ok_def dm_out_def)
      have "\<exists>e mem'. io_dynamic_memory_grow A count ?m = Some (e, mem') \<and> dm_ok mem' \<and>
          dm_out mem' = dm_out ?m \<and> ds_out_len mem' = ds_out_len ?m \<and>
          (if e = er_ok then ds_out_len ?m + count \<le> ds_increment mem' else e = er_out_of_memory)"
        using True pos less.prems(2) ok(1) by (intro less.hyps) simp_all
      moreover have "io_dynamic_memory_grow A count mem = io_dynamic_memory_grow A count ?m"
        using True need sz Some by (simp add: io_dynamic_memory_grow.simps [of A count mem])
      ultimately show ?thesis
        using ok(2) by (simp cong: if_cong)
    qed
  qed
qed

lemma io_dynamic_memory_stream_writer_contract:
  assumes ok: "dm_ok mem" and small: "length (dm_out mem) + length d < SIZE_MOD div 2"
  shows "\<exists>e mem'. io_dynamic_memory_stream_writer A mem d = Some (e, mem') \<and> dm_ok mem' \<and>
    (if e = er_ok then dm_out mem' = dm_out mem @ d else e = er_out_of_memory \<and> dm_out mem' = dm_out mem)"
proof (cases "d = []")
  case True
  then show ?thesis
    using ok by (simp add: io_dynamic_memory_stream_writer_def)
next
  case False
  obtain e m where g: "io_dynamic_memory_grow A (length d) mem = Some (e, m)" and m: "dm_ok m"
    "dm_out m = dm_out mem" "ds_out_len m = ds_out_len mem"
    "if e = er_ok then ds_out_len mem + length d \<le> ds_increment m else e = er_out_of_memory"
    using io_dynamic_memory_grow_returns [of mem "length d" A] ok small by auto
  show ?thesis
  proof (cases "e = er_ok")
    case True
    let ?m = "m\<lparr>ds_mem := mem_put (ds_mem m) (ds_out_len m) d (length d), ds_out_len := ds_out_len m + length d\<rparr>"
    have len: "ds_out_len m + length d \<le> ds_increment m"
      using m True by simp
    have "dm_out ?m = dm_out m @ d"
      using m(1) len by (simp add: dm_out_def dm_ok_def mem_put_def)
    moreover have "dm_ok ?m"
      using m(1) len by (simp add: dm_ok_def buf_simps)
    ultimately show ?thesis
      using g m(2) True False
      by (intro exI [of _ er_ok] exI [of _ ?m]) (simp add: io_dynamic_memory_stream_writer_def Let_def)
  next
    case e: False
    then show ?thesis
      using g m False
      by (intro exI [of _ e] exI [of _ m]) (simp add: io_dynamic_memory_stream_writer_def Let_def)
  qed
qed

interpretation dm_out: out_stream dm_ok dm_out "SIZE_MOD div 2" "io_dynamic_memory_stream_writer A" for A
proof unfold_locales
  fix s and d :: "u8 list" assume "dm_ok s" "length (dm_out s) + length d < SIZE_MOD div 2"
  from io_dynamic_memory_stream_writer_contract [OF this, of A]
  show "\<exists>e s'. io_dynamic_memory_stream_writer A s d = Some (e, s')" by blast
next
  fix s s' and d :: "u8 list"
  assume "dm_ok s" "length (dm_out s) + length d < SIZE_MOD div 2"
    and w: "io_dynamic_memory_stream_writer A s d = Some (er_ok, s')"
  from io_dynamic_memory_stream_writer_contract [OF this(1,2), of A] w
  show "dm_ok s' \<and> dm_out s' = dm_out s @ d" by auto
next
  fix s e s' and d :: "u8 list"
  assume "dm_ok s" "length (dm_out s) + length d < SIZE_MOD div 2"
    and w: "io_dynamic_memory_stream_writer A s d = Some (e, s')" "e \<noteq> er_ok"
  from io_dynamic_memory_stream_writer_contract [OF this(1,2), of A] w
  show "dm_ok s' \<and> dm_out s' = dm_out s" by auto
qed

section \<open>Properties of the streams\<close>

definition io_memory_stream_write_all ::
  "allocator \<Rightarrow> u8 list list \<Rightarrow> io_dynamic_buffer_stream \<Rightarrow> (prx_error \<times> io_dynamic_buffer_stream) option" where
  "io_memory_stream_write_all A = dm_out.write_chunks A"


definition stream_demo_allocator :: allocator where
  "stream_demo_allocator = \<lparr>al_ok = (\<lambda>n sz. sz \<le> 64), al_fill = (\<lambda>n i. 0)\<rparr>"


end
