(* ===== verification/Prx_Types.thy ===== *)
theory Prx_Types
  imports Prelude
begin

text \<open>
  The platform independent types of \<open>inc/prx_types.h\<close> that travel in messages. A structure that holds
  pointers is parametrised by what stands for them: the bytes pointed to on the side that encodes, a
  pointer into the decoder's memory on the side that decodes. A union is a datatype with one
  constructor per member; an array of characters is the list of its bytes, terminator and tail
  included.
\<close>

section \<open>Constants\<close>

definition MAX_HOST_LENGTH :: nat where "MAX_HOST_LENGTH = 1025"
definition MAX_INTERFACE_LENGTH :: nat where "MAX_INTERFACE_LENGTH = 128"
definition MAX_UNIX_PATH_LENGTH :: nat where "MAX_UNIX_PATH_LENGTH = 108"
definition MAX_PORT_LENGTH :: nat where "MAX_PORT_LENGTH = 32"

abbreviation "prx_address_family_unspec \<equiv> (0 :: i32)"
abbreviation "prx_address_family_unix \<equiv> (1 :: i32)"
abbreviation "prx_address_family_inet \<equiv> (2 :: i32)"
abbreviation "prx_address_family_inet6 \<equiv> (23 :: i32)"
abbreviation "prx_address_family_proxy \<equiv> (28165 :: i32)"

abbreviation "prx_so_unknown \<equiv> (0 :: i32)"
abbreviation "prx_so_nonblocking \<equiv> (1 :: i32)"
abbreviation "prx_so_available \<equiv> (2 :: i32)"
abbreviation "prx_so_shutdown \<equiv> (3 :: i32)"
abbreviation "prx_so_linger \<equiv> (10 :: i32)"
abbreviation "prx_so_sndbuf \<equiv> (12 :: i32)"
abbreviation "prx_so_rcvbuf \<equiv> (13 :: i32)"
abbreviation "prx_so_ip_multicast_join \<equiv> (31 :: i32)"
abbreviation "prx_so_ip_multicast_leave \<equiv> (32 :: i32)"
abbreviation "prx_so_props_timeout \<equiv> (33 :: i32)"
abbreviation "prx_so_max \<equiv> (34 :: i32)"

abbreviation "prx_record_type_default \<equiv> (100 :: i32)"
abbreviation "prx_record_max \<equiv> (103 :: i32)"

abbreviation "prx_property_type_file_info \<equiv> (200 :: i32)"
abbreviation "prx_property_type_addrinfo \<equiv> (201 :: i32)"
abbreviation "prx_property_type_ifaddrinfo \<equiv> (202 :: i32)"

text \<open>Comparisons of \<open>int32_t\<close> values are signed.\<close>

definition lt_i32 :: "i32 \<Rightarrow> i32 \<Rightarrow> bool" where
  "lt_i32 a b \<longleftrightarrow> sint a < sint b"

section \<open>Addresses\<close>

text \<open>
  The address bytes of \<open>in4\<close> are the first four of the sixteen of \<open>in6\<close>; \<open>scope_id\<close> follows them.
\<close>

record prx_socket_address_inet =
  in_family :: i32
  in_port :: u16
  in_padding :: u16
  in_flow :: u32
  in_addr :: "u8 list"
  in_scope_id :: u32

record prx_socket_address_unix =
  ux_family :: i32
  ux_path :: "u8 list"

record prx_socket_address_proxy =
  px_family :: i32
  px_port :: u16
  px_flags :: u16
  px_itf_index :: i32
  px_host :: "u8 list"

datatype prx_socket_address =
    sa_family_only i32
  | sa_ip prx_socket_address_inet
  | sa_ux prx_socket_address_unix
  | sa_proxy prx_socket_address_proxy

primrec sa_family :: "prx_socket_address \<Rightarrow> i32" where
  "sa_family (sa_family_only f) = f"
| "sa_family (sa_ip a) = in_family a"
| "sa_family (sa_ux a) = ux_family a"
| "sa_family (sa_proxy a) = px_family a"

text \<open>Zeroed structures, as \<open>memset\<close> leaves them.\<close>

definition inet_zero :: prx_socket_address_inet where
  "inet_zero = \<lparr>in_family = 0, in_port = 0, in_padding = 0, in_flow = 0, in_addr = replicate 16 0, in_scope_id = 0\<rparr>"

definition unix_zero :: prx_socket_address_unix where
  "unix_zero = \<lparr>ux_family = 0, ux_path = replicate MAX_UNIX_PATH_LENGTH 0\<rparr>"

definition proxy_zero :: prx_socket_address_proxy where
  "proxy_zero = \<lparr>px_family = 0, px_port = 0, px_flags = 0, px_itf_index = 0, px_host = replicate MAX_HOST_LENGTH 0\<rparr>"

text \<open>
  The members of the union seen through the others: of a zeroed union every member is zero but for the
  shared family. The decoders only run on zeroed or on freshly decoded unions.
\<close>

definition as_inet :: "prx_socket_address \<Rightarrow> prx_socket_address_inet" where
  "as_inet sa = (case sa of sa_ip a \<Rightarrow> a | _ \<Rightarrow> inet_zero\<lparr>in_family := sa_family sa\<rparr>)"

definition as_unix :: "prx_socket_address \<Rightarrow> prx_socket_address_unix" where
  "as_unix sa = (case sa of sa_ux a \<Rightarrow> a | _ \<Rightarrow> unix_zero\<lparr>ux_family := sa_family sa\<rparr>)"

definition as_proxy :: "prx_socket_address \<Rightarrow> prx_socket_address_proxy" where
  "as_proxy sa = (case sa of sa_proxy a \<Rightarrow> a | _ \<Rightarrow> proxy_zero\<lparr>px_family := sa_family sa\<rparr>)"

section \<open>Properties\<close>

record 'p prx_addrinfo =
  ai_address :: prx_socket_address
  ai_reserved :: i32
  ai_name :: 'p

record prx_ifaddrinfo =
  ifa_address :: prx_socket_address
  ifa_prefix :: u8
  ifa_flags :: u8
  ifa_reserved :: u16
  ifa_name :: "u8 list"
  ifa_index :: i32
  ifa_broadcast_addr :: prx_socket_address

record prx_file_info =
  fi_inode_number :: u64
  fi_device_id :: u64
  fi_type :: i32
  fi_total_size :: u64
  fi_last_atime :: u64
  fi_last_mtime :: u64

record prx_multicast_option =
  mc_family :: i32
  mc_itf_index :: i32
  mc_addr :: "u8 list"
  mc_scope_id :: u32

datatype 'p prx_property_value =
    prop_value u64
  | prop_mcast prx_multicast_option
  | prop_bin nat 'p
  | prop_file_info prx_file_info
  | prop_addr_info "'p prx_addrinfo"
  | prop_itf_info prx_ifaddrinfo

record 'p prx_property =
  prop_type :: i32
  prop_property :: "'p prx_property_value"

record 'p prx_socket_properties =
  sp_family :: i32
  sp_sock_type :: i32
  sp_proto_type :: i32
  sp_flags :: u32
  sp_timeout :: u64
  sp_address :: prx_socket_address
  sp_options :: "'p prx_property list"

definition mcast_zero :: prx_multicast_option where
  "mcast_zero = \<lparr>mc_family = 0, mc_itf_index = 0, mc_addr = replicate 16 0, mc_scope_id = 0\<rparr>"

definition addrinfo_zero :: "'p \<Rightarrow> 'p prx_addrinfo" where
  "addrinfo_zero null = \<lparr>ai_address = sa_family_only 0, ai_reserved = 0, ai_name = null\<rparr>"

definition ifaddrinfo_zero :: prx_ifaddrinfo where
  "ifaddrinfo_zero = \<lparr>ifa_address = sa_family_only 0, ifa_prefix = 0, ifa_flags = 0, ifa_reserved = 0,
     ifa_name = replicate MAX_INTERFACE_LENGTH 0, ifa_index = 0, ifa_broadcast_addr = sa_family_only 0\<rparr>"

definition file_info_zero :: prx_file_info where
  "file_info_zero = \<lparr>fi_inode_number = 0, fi_device_id = 0, fi_type = 0, fi_total_size = 0, fi_last_atime = 0, fi_last_mtime = 0\<rparr>"

definition property_zero :: "'p prx_property" where
  "property_zero = \<lparr>prop_type = 0, prop_property = prop_value 0\<rparr>"

definition socket_properties_zero :: "'p prx_socket_properties" where
  "socket_properties_zero = \<lparr>sp_family = 0, sp_sock_type = 0, sp_proto_type = 0, sp_flags = 0, sp_timeout = 0,
     sp_address = sa_family_only 0, sp_options = replicate 34 property_zero\<rparr>"

end
