(* ===== verification/Io_Codec.thy ===== *)
theory Io_Codec
  imports Prelude Prx_Err Prx_Buffer Io_Stream
begin

text \<open>
  The document codec interface of \<open>inc/io_codec.h\<close> and its MessagePack implementation in
  \<open>src/io_codec.c\<close>. A codec is a table of functions on a codec context and a store. The store holds
  what the context pointer refers to and the memory that decoding allocates: the C heap, the fixed
  array a decoder was handed, and the pool buffer of the message being decoded. A decoder that
  accesses memory out of bounds ends in \<^const>\<open>Crash\<close>.

  The MessagePack library \<open>cmp\<close> is a parameter: the chunks it passes to the write callback for an
  item, and for each of its readers the sequence of reads it asks the read callback for.
\<close>

section \<open>Memory behind a decoder\<close>

datatype heap_kind = mem_heap | crt_heap

datatype mem_ptr = null_ptr | heap_ptr nat | field_ptr | pool_ptr addr nat

text \<open>
  \<open>mm_pool\<close> is the pool \<open>owner->buffers\<close> and \<open>mm_buffer\<close> the member \<open>buffer\<close> of the message that is the
  user context of the codec context.
\<close>

record dec_mem =
  mm_alloc :: allocator
  mm_count :: nat
  mm_heap :: "nat \<Rightarrow> (heap_kind \<times> u8 list) option"
  mm_field :: "u8 list"
  mm_pool :: prx_buffer_pool
  mm_buffer :: "addr option"

text \<open>A write of \<open>data\<close> at offset \<open>off\<close> of a pointer; \<^const>\<open>None\<close> when it is out of bounds.\<close>

definition mem_store :: "dec_mem \<Rightarrow> mem_ptr \<Rightarrow> nat \<Rightarrow> u8 list \<Rightarrow> dec_mem option" where
  "mem_store m p off data = (
     if data = [] then Some m
     else case p of
       null_ptr \<Rightarrow> None
     | heap_ptr n \<Rightarrow> (case mm_heap m n of
         None \<Rightarrow> None
       | Some (k, bytes) \<Rightarrow> if off + length data \<le> length bytes
           then Some (m\<lparr>mm_heap := (mm_heap m)(n \<mapsto> (k, mem_put bytes off data (length data)))\<rparr>) else None)
     | field_ptr \<Rightarrow> if off + length data \<le> length (mm_field m)
         then Some (m\<lparr>mm_field := mem_put (mm_field m) off data (length data)\<rparr>) else None
     | pool_ptr a base \<Rightarrow> (case pool_heap (mm_pool m) a of
         None \<Rightarrow> None
       | Some b \<Rightarrow> if base + off + length data \<le> length (pb_data b)
           then Some (m\<lparr>mm_pool := (mm_pool m)\<lparr>pool_heap := (pool_heap (mm_pool m))
                  (a \<mapsto> b\<lparr>pb_data := mem_put (pb_data b) (base + off) data (length data)\<rparr>)\<rparr>\<rparr>) else None))"

text \<open>The \<open>n\<close> bytes a pointer refers to, if they are there.\<close>

definition mem_load :: "dec_mem \<Rightarrow> mem_ptr \<Rightarrow> nat \<Rightarrow> u8 list option" where
  "mem_load m p n = (
     if n = 0 then Some []
     else case p of
       null_ptr \<Rightarrow> None
     | heap_ptr k \<Rightarrow> (case mm_heap m k of
         None \<Rightarrow> None | Some (kd, bytes) \<Rightarrow> if n \<le> length bytes then Some (take n bytes) else None)
     | field_ptr \<Rightarrow> if n \<le> length (mm_field m) then Some (take n (mm_field m)) else None
     | pool_ptr a base \<Rightarrow> (case pool_heap (mm_pool m) a of
         None \<Rightarrow> None
       | Some b \<Rightarrow> if base + n \<le> length (pb_data b) then Some (mem_get (pb_data b) base n) else None))"

definition heap_new :: "heap_kind \<Rightarrow> nat \<Rightarrow> dec_mem \<Rightarrow> mem_ptr \<times> dec_mem" where
  "heap_new k sz m = (
     let m' = m\<lparr>mm_count := mm_count m + 1\<rparr>
     in case mem_alloc (mm_alloc m) (mm_count m) sz of
          None \<Rightarrow> (null_ptr, m')
        | Some bytes \<Rightarrow> (heap_ptr (mm_count m), m'\<lparr>mm_heap := (mm_heap m)(mm_count m \<mapsto> (k, bytes))\<rparr>))"

text \<open>\<open>free\<close> of a pointer that is not a live allocation of its own allocator has no meaning.\<close>

definition heap_free :: "heap_kind \<Rightarrow> mem_ptr \<Rightarrow> dec_mem \<Rightarrow> dec_mem option" where
  "heap_free k p m = (case p of
     null_ptr \<Rightarrow> Some m
   | heap_ptr n \<Rightarrow> (case mm_heap m n of
       Some (k', bytes) \<Rightarrow> if k' = k then Some (m\<lparr>mm_heap := (mm_heap m)(n := None)\<rparr>) else None
     | None \<Rightarrow> None)
   | _ \<Rightarrow> None)"

section \<open>Decode allocators\<close>

text \<open>
  Result, \<open>*mem\<close>, \<open>*mem_size\<close> and the memory afterwards; \<^const>\<open>None\<close> when a free has no meaning.
\<close>

type_synonym alloc_result = "(prx_error \<times> mem_ptr \<times> nat \<times> dec_mem) option"

definition mem_allocator :: "nat \<Rightarrow> mem_ptr \<Rightarrow> nat \<Rightarrow> dec_mem \<Rightarrow> alloc_result" where
  "mem_allocator sz p psize m = (
     if 0 < sz
     then let (q, m) = heap_new mem_heap sz m
          in if q = null_ptr then Some (er_out_of_memory, q, psize, m) else Some (er_ok, q, sz, m)
     else case heap_free mem_heap p m of
            None \<Rightarrow> None
          | Some m \<Rightarrow> Some (er_ok, null_ptr, sz, m))"

definition crt_allocator :: "nat \<Rightarrow> mem_ptr \<Rightarrow> nat \<Rightarrow> dec_mem \<Rightarrow> alloc_result" where
  "crt_allocator sz p psize m = (
     if 0 < sz
     then let (q, m) = heap_new crt_heap sz m
          in if q = null_ptr then Some (er_out_of_memory, q, psize, m) else Some (er_ok, q, sz, m)
     else case heap_free crt_heap p m of
            None \<Rightarrow> None
          | Some m \<Rightarrow> Some (er_ok, null_ptr, sz, m))"

definition fixed_validator :: "nat \<Rightarrow> mem_ptr \<Rightarrow> nat \<Rightarrow> dec_mem \<Rightarrow> alloc_result" where
  "fixed_validator sz p psize m = (
     if sz \<le> psize then Some (er_ok, p, sz, m) else Some (er_out_of_memory, p, psize, m))"

text \<open>
  \<open>io_message_allocate_buffer\<close> and \<open>io_message_allocator\<close> of \<open>src/io_proto.c\<close>, the default allocator
  while the content of a message is decoded: every allocation extends the one buffer of the message.
\<close>

definition io_message_allocate_buffer :: "nat \<Rightarrow> mem_ptr \<Rightarrow> dec_mem \<Rightarrow> prx_error \<times> mem_ptr \<times> dec_mem" where
  "io_message_allocate_buffer sz p m = (
     if sz = 0 then (er_ok, null_ptr, m)
     else case mm_buffer m of
       None \<Rightarrow> (case prx_buffer_new (mm_alloc m) dynamic_pool (mm_pool m) sz of
           (None, pool) \<Rightarrow> (er_out_of_memory, p, m\<lparr>mm_pool := pool\<rparr>)
         | (Some a, pool) \<Rightarrow> (er_ok, pool_ptr a 0, m\<lparr>mm_pool := pool, mm_buffer := Some a\<rparr>))
     | Some a \<Rightarrow> (
         let current_size = prx_buffer_get_size dynamic_pool (mm_pool m) a;
             (result, out, pool) = prx_buffer_set_size (mm_alloc m) dynamic_pool (mm_pool m) (Some a)
                                     (size_add current_size sz);
             m = m\<lparr>mm_pool := pool, mm_buffer := out\<rparr>
         in if result \<noteq> er_ok then (result, p, m)
            else (er_ok, (case out of None \<Rightarrow> null_ptr | Some b \<Rightarrow> pool_ptr b current_size), m)))"

definition io_message_allocator :: "nat \<Rightarrow> mem_ptr \<Rightarrow> nat \<Rightarrow> dec_mem \<Rightarrow> alloc_result" where
  "io_message_allocator sz p psize m = (
     let (result, q, m) = io_message_allocate_buffer sz p m
     in if result = er_ok then Some (result, q, sz, m) else Some (result, q, 0, m))"

datatype io_decode_allocator = use_mem | use_crt | use_fixed | use_message

primrec io_decode_allocate :: "io_decode_allocator \<Rightarrow> nat \<Rightarrow> mem_ptr \<Rightarrow> nat \<Rightarrow> dec_mem \<Rightarrow> alloc_result" where
  "io_decode_allocate use_mem = mem_allocator"
| "io_decode_allocate use_crt = crt_allocator"
| "io_decode_allocate use_fixed = fixed_validator"
| "io_decode_allocate use_message = io_message_allocator"

section \<open>Codec contexts and actions\<close>

record 'k io_codec_ctx =
  ctx_context :: 'k
  ctx_index :: nat
  ctx_default_allocator :: "io_decode_allocator option"

record 'x codec_store =
  cs_state :: 'x
  cs_mem :: dec_mem

text \<open>
  An action runs on a context and the store. A context is a local variable of its function, so a
  sub-context has its own index while the store is shared.
\<close>

type_synonym ('k, 'x, 'a) act = "'k io_codec_ctx \<times> 'x codec_store \<Rightarrow> 'a res \<times> 'k io_codec_ctx \<times> 'x codec_store"

definition act_return :: "'a \<Rightarrow> ('k, 'x, 'a) act" where
  "act_return v s = (Ok v, s)"

definition act_fail :: "prx_error \<Rightarrow> ('k, 'x, 'a) act" where
  "act_fail e s = (Err e, s)"

definition act_crash :: "('k, 'x, 'a) act" where
  "act_crash s = (Crash, s)"

definition act_bind :: "('k, 'x, 'a) act \<Rightarrow> ('a \<Rightarrow> ('k, 'x, 'b) act) \<Rightarrow> ('k, 'x, 'b) act" where
  "act_bind a f s = (case a s of
     (Ok v, s') \<Rightarrow> f v s'
   | (Err e, s') \<Rightarrow> (Err e, s')
   | (Crash, s') \<Rightarrow> (Crash, s'))"

fun act_seq :: "('k, 'x, unit) act list \<Rightarrow> ('k, 'x, unit) act" where
  "act_seq [] s = act_return () s"
| "act_seq (a # acts) s = act_bind a (\<lambda>_. act_seq acts) s"

definition act_in :: "'k io_codec_ctx \<Rightarrow> ('k, 'x, 'a) act \<Rightarrow> ('k, 'x, 'a) act" where
  "act_in obj a s = (case a (obj, snd s) of (r, obj', m) \<Rightarrow> (r, fst s, m))"

section \<open>The codec interface\<close>

datatype io_codec_id = io_codec_unknown | io_codec_mpack | io_codec_json

text \<open>Names are for codecs that store them; \<^const>\<open>None\<close> is a null name. A decimal is its bit pattern.\<close>

type_synonym pname = "string option"
type_synonym double = u64

text \<open>
  String and binary readers return the result code together with the pointer and the size, since
  their callers look at both after a failure.
\<close>

record ('k, 'x, 's) io_codec =
  codec_id :: io_codec_id
  enc_int :: "pname \<Rightarrow> i64 \<Rightarrow> ('k, 'x, unit) act"
  enc_uint :: "pname \<Rightarrow> u64 \<Rightarrow> ('k, 'x, unit) act"
  enc_decimal :: "pname \<Rightarrow> double \<Rightarrow> ('k, 'x, unit) act"
  enc_bool :: "pname \<Rightarrow> bool \<Rightarrow> ('k, 'x, unit) act"
  enc_string :: "pname \<Rightarrow> u8 list option \<Rightarrow> ('k, 'x, unit) act"
  enc_bin :: "pname \<Rightarrow> u8 list option \<Rightarrow> nat \<Rightarrow> ('k, 'x, unit) act"
  enc_object :: "pname \<Rightarrow> bool \<Rightarrow> ('k, 'x, 'k io_codec_ctx) act"
  enc_tbegin :: "nat \<Rightarrow> ('k, 'x, unit) act"
  enc_tend :: "('k, 'x, unit) act"
  enc_array :: "pname \<Rightarrow> nat \<Rightarrow> ('k, 'x, 'k io_codec_ctx) act"
  dec_int :: "pname \<Rightarrow> ('k, 'x, i64) act"
  dec_uint :: "pname \<Rightarrow> ('k, 'x, u64) act"
  dec_double :: "pname \<Rightarrow> ('k, 'x, double) act"
  dec_bool :: "pname \<Rightarrow> ('k, 'x, bool) act"
  dec_string :: "pname \<Rightarrow> io_decode_allocator option \<Rightarrow> mem_ptr \<Rightarrow> nat \<Rightarrow> ('k, 'x, prx_error \<times> mem_ptr \<times> nat) act"
  dec_bin :: "pname \<Rightarrow> io_decode_allocator option \<Rightarrow> mem_ptr \<Rightarrow> nat \<Rightarrow> ('k, 'x, prx_error \<times> mem_ptr \<times> nat) act"
  dec_object :: "pname \<Rightarrow> ('k, 'x, bool \<times> 'k io_codec_ctx) act"
  dec_tbegin :: "('k, 'x, unit) act"
  dec_tend :: "('k, 'x, unit) act"
  dec_array :: "pname \<Rightarrow> ('k, 'x, nat \<times> 'k io_codec_ctx) act"
  init_ctx :: "'s io_stream option \<Rightarrow> bool \<Rightarrow> dec_mem \<Rightarrow> ('k io_codec_ctx \<times> 'x codec_store) res \<times> dec_mem"
  fini_ctx :: "'s io_stream option \<Rightarrow> bool \<Rightarrow> ('k, 'x, unit) act"

definition io_codec_ctx_init ::
  "('k, 'x, 's) io_codec \<Rightarrow> 's io_stream option \<Rightarrow> bool \<Rightarrow> dec_mem \<Rightarrow> ('k io_codec_ctx \<times> 'x codec_store) res \<times> dec_mem" where
  "io_codec_ctx_init C stream init_from_stream m = init_ctx C stream init_from_stream m"

definition io_codec_ctx_get_codec_id :: "('k, 'x, 's) io_codec \<Rightarrow> io_codec_id" where
  "io_codec_ctx_get_codec_id C = codec_id C"

definition io_codec_ctx_fini :: "('k, 'x, 's) io_codec \<Rightarrow> 's io_stream option \<Rightarrow> bool \<Rightarrow> ('k, 'x, unit) act" where
  "io_codec_ctx_fini C stream flush = fini_ctx C stream flush"

definition io_encode_int64 :: "('k, 'x, 's) io_codec \<Rightarrow> pname \<Rightarrow> i64 \<Rightarrow> ('k, 'x, unit) act" where
  "io_encode_int64 C name value = enc_int C name value"

definition io_encode_uint64 :: "('k, 'x, 's) io_codec \<Rightarrow> pname \<Rightarrow> u64 \<Rightarrow> ('k, 'x, unit) act" where
  "io_encode_uint64 C name value = enc_uint C name value"

text \<open>
  The narrower encoders are the 64 bit ones on the converted value: sign extension for the signed
  types, zero extension for the unsigned ones.
\<close>

definition io_encode_int32 :: "('k, 'x, 's) io_codec \<Rightarrow> pname \<Rightarrow> i32 \<Rightarrow> ('k, 'x, unit) act" where
  "io_encode_int32 C name value = io_encode_int64 C name (scast value)"

definition io_encode_uint32 :: "('k, 'x, 's) io_codec \<Rightarrow> pname \<Rightarrow> u32 \<Rightarrow> ('k, 'x, unit) act" where
  "io_encode_uint32 C name value = io_encode_uint64 C name (ucast value)"

definition io_encode_uint16 :: "('k, 'x, 's) io_codec \<Rightarrow> pname \<Rightarrow> u16 \<Rightarrow> ('k, 'x, unit) act" where
  "io_encode_uint16 C name value = io_encode_uint64 C name (ucast value)"

definition io_encode_uint8 :: "('k, 'x, 's) io_codec \<Rightarrow> pname \<Rightarrow> u8 \<Rightarrow> ('k, 'x, unit) act" where
  "io_encode_uint8 C name value = io_encode_uint64 C name (ucast value)"

definition io_encode_double :: "('k, 'x, 's) io_codec \<Rightarrow> pname \<Rightarrow> double \<Rightarrow> ('k, 'x, unit) act" where
  "io_encode_double C name value = enc_decimal C name value"

definition io_encode_bool :: "('k, 'x, 's) io_codec \<Rightarrow> pname \<Rightarrow> bool \<Rightarrow> ('k, 'x, unit) act" where
  "io_encode_bool C name value = enc_bool C name value"

text \<open>A string argument is the memory behind the pointer, \<^const>\<open>None\<close> for a null pointer.\<close>

definition io_encode_string :: "('k, 'x, 's) io_codec \<Rightarrow> pname \<Rightarrow> u8 list option \<Rightarrow> ('k, 'x, unit) act" where
  "io_encode_string C name value = enc_string C name value"

definition io_encode_bin :: "('k, 'x, 's) io_codec \<Rightarrow> pname \<Rightarrow> u8 list option \<Rightarrow> nat \<Rightarrow> ('k, 'x, unit) act" where
  "io_encode_bin C name value sz = enc_bin C name value sz"

definition io_encode_type_begin :: "('k, 'x, 's) io_codec \<Rightarrow> nat \<Rightarrow> ('k, 'x, unit) act" where
  "io_encode_type_begin C members = enc_tbegin C members"

definition io_encode_type_end :: "('k, 'x, 's) io_codec \<Rightarrow> ('k, 'x, unit) act" where
  "io_encode_type_end C = enc_tend C"

definition io_encode_object :: "('k, 'x, 's) io_codec \<Rightarrow> pname \<Rightarrow> bool \<Rightarrow> ('k, 'x, 'k io_codec_ctx) act" where
  "io_encode_object C name is_null = enc_object C name is_null"

definition io_encode_array :: "('k, 'x, 's) io_codec \<Rightarrow> pname \<Rightarrow> nat \<Rightarrow> ('k, 'x, 'k io_codec_ctx) act" where
  "io_encode_array C name sz = enc_array C name sz"

definition io_encode_STRING_HANDLE :: "('k, 'x, 's) io_codec \<Rightarrow> pname \<Rightarrow> u8 list option \<Rightarrow> ('k, 'x, unit) act" where
  "io_encode_STRING_HANDLE C name value = io_encode_string C name value"

definition io_decode_int64 :: "('k, 'x, 's) io_codec \<Rightarrow> pname \<Rightarrow> ('k, 'x, i64) act" where
  "io_decode_int64 C name = dec_int C name"

definition io_decode_uint64 :: "('k, 'x, 's) io_codec \<Rightarrow> pname \<Rightarrow> ('k, 'x, u64) act" where
  "io_decode_uint64 C name = dec_uint C name"

definition io_decode_uint32 :: "('k, 'x, 's) io_codec \<Rightarrow> pname \<Rightarrow> ('k, 'x, u32) act" where
  "io_decode_uint32 C name = act_bind (io_decode_uint64 C name) (\<lambda>u64.
     let val = (ucast u64 :: u32) in if ucast val = u64 then act_return val else act_fail er_invalid_format)"

definition io_decode_uint16 :: "('k, 'x, 's) io_codec \<Rightarrow> pname \<Rightarrow> ('k, 'x, u16) act" where
  "io_decode_uint16 C name = act_bind (io_decode_uint64 C name) (\<lambda>u64.
     let val = (ucast u64 :: u16) in if ucast val = u64 then act_return val else act_fail er_invalid_format)"

definition io_decode_uint8 :: "('k, 'x, 's) io_codec \<Rightarrow> pname \<Rightarrow> ('k, 'x, u8) act" where
  "io_decode_uint8 C name = act_bind (io_decode_uint64 C name) (\<lambda>u64.
     let val = (ucast u64 :: u8) in if ucast val = u64 then act_return val else act_fail er_invalid_format)"

definition io_decode_int32 :: "('k, 'x, 's) io_codec \<Rightarrow> pname \<Rightarrow> ('k, 'x, i32) act" where
  "io_decode_int32 C name = act_bind (io_decode_int64 C name) (\<lambda>i64.
     let val = (ucast i64 :: i32) in if scast val = i64 then act_return val else act_fail er_invalid_format)"

definition io_decode_int16 :: "('k, 'x, 's) io_codec \<Rightarrow> pname \<Rightarrow> ('k, 'x, 16 word) act" where
  "io_decode_int16 C name = act_bind (io_decode_int64 C name) (\<lambda>i64.
     let val = (ucast i64 :: 16 word) in if scast val = i64 then act_return val else act_fail er_invalid_format)"

definition io_decode_int8 :: "('k, 'x, 's) io_codec \<Rightarrow> pname \<Rightarrow> ('k, 'x, 8 word) act" where
  "io_decode_int8 C name = act_bind (io_decode_int64 C name) (\<lambda>i64.
     let val = (ucast i64 :: 8 word) in if scast val = i64 then act_return val else act_fail er_invalid_format)"

definition io_decode_double :: "('k, 'x, 's) io_codec \<Rightarrow> pname \<Rightarrow> ('k, 'x, double) act" where
  "io_decode_double C name = dec_double C name"

definition io_decode_bool :: "('k, 'x, 's) io_codec \<Rightarrow> pname \<Rightarrow> ('k, 'x, bool) act" where
  "io_decode_bool C name = dec_bool C name"

definition io_decode_string ::
  "('k, 'x, 's) io_codec \<Rightarrow> pname \<Rightarrow> io_decode_allocator option \<Rightarrow> mem_ptr \<Rightarrow> nat \<Rightarrow> ('k, 'x, prx_error \<times> mem_ptr \<times> nat) act" where
  "io_decode_string C name alloc value sz s = (
     let alloc = (case alloc of None \<Rightarrow> ctx_default_allocator (fst s) | Some a \<Rightarrow> Some a)
     in dec_string C name alloc value sz s)"

definition io_decode_bin ::
  "('k, 'x, 's) io_codec \<Rightarrow> pname \<Rightarrow> io_decode_allocator option \<Rightarrow> mem_ptr \<Rightarrow> nat \<Rightarrow> ('k, 'x, prx_error \<times> mem_ptr \<times> nat) act" where
  "io_decode_bin C name alloc value sz s = (
     let alloc = (case alloc of None \<Rightarrow> ctx_default_allocator (fst s) | Some a \<Rightarrow> Some a)
     in dec_bin C name alloc value sz s)"

definition io_decode_type_begin :: "('k, 'x, 's) io_codec \<Rightarrow> ('k, 'x, unit) act" where
  "io_decode_type_begin C = dec_tbegin C"

definition io_decode_type_end :: "('k, 'x, 's) io_codec \<Rightarrow> ('k, 'x, unit) act" where
  "io_decode_type_end C = dec_tend C"

definition io_decode_object :: "('k, 'x, 's) io_codec \<Rightarrow> pname \<Rightarrow> ('k, 'x, bool \<times> 'k io_codec_ctx) act" where
  "io_decode_object C name = dec_object C name"

definition io_decode_array :: "('k, 'x, 's) io_codec \<Rightarrow> pname \<Rightarrow> ('k, 'x, nat \<times> 'k io_codec_ctx) act" where
  "io_decode_array C name = dec_array C name"

text \<open>
  The macros \<open>__io_encode_object\<close> and \<open>__io_decode_object\<close>: a member that is an object, encoded by its own
  function. A null object leaves the member of the structure as it is.
\<close>

definition encode_member :: "('k, 'x, 's) io_codec \<Rightarrow> pname \<Rightarrow> ('k, 'x, unit) act \<Rightarrow> ('k, 'x, unit) act" where
  "encode_member C name a = act_bind (io_encode_object C name False) (\<lambda>obj. act_in obj a)"

definition decode_member :: "('k, 'x, 's) io_codec \<Rightarrow> pname \<Rightarrow> ('a \<Rightarrow> ('k, 'x, 'a) act) \<Rightarrow> 'a \<Rightarrow> ('k, 'x, 'a) act" where
  "decode_member C name a old = act_bind (io_decode_object C name) (\<lambda>(is_null, obj).
     if is_null then act_return old else act_in obj (a old))"

section \<open>String and binary decoding into memory\<close>

definition act_mem :: "(dec_mem \<Rightarrow> ('a \<times> dec_mem) option) \<Rightarrow> ('k, 'x, 'a) act" where
  "act_mem f s = (case f (cs_mem (snd s)) of
     None \<Rightarrow> (Crash, s)
   | Some (v, m) \<Rightarrow> (Ok v, fst s, (snd s)\<lparr>cs_mem := m\<rparr>))"

definition act_free :: "heap_kind \<Rightarrow> mem_ptr \<Rightarrow> ('k, 'x, unit) act" where
  "act_free k p = act_mem (\<lambda>m. map_option (Pair ()) (heap_free k p m))"

definition act_allocate :: "io_decode_allocator \<Rightarrow> nat \<Rightarrow> mem_ptr \<Rightarrow> nat \<Rightarrow> ('k, 'x, prx_error \<times> mem_ptr \<times> nat) act" where
  "act_allocate a sz p psize = act_mem (\<lambda>m. map_option (\<lambda>(r, q, n, m). ((r, q, n), m)) (io_decode_allocate a sz p psize m))"

text \<open>The pair stands for \<open>*value\<close> and \<open>*size\<close>.\<close>

definition io_decode_bin_malloc :: "('k, 'x, 's) io_codec \<Rightarrow> pname \<Rightarrow> nat \<Rightarrow> ('k, 'x, mem_ptr \<times> nat) act" where
  "io_decode_bin_malloc C name sz = act_bind (io_decode_bin C name (Some use_mem) null_ptr sz) (\<lambda>(result, alloc, sz).
     if result \<noteq> er_ok
     then act_bind (act_free mem_heap alloc) (\<lambda>_. act_fail result)
     else act_return (alloc, sz))"

definition io_decode_bin_default :: "('k, 'x, 's) io_codec \<Rightarrow> pname \<Rightarrow> nat \<Rightarrow> ('k, 'x, mem_ptr \<times> nat) act" where
  "io_decode_bin_default C name sz s = (case ctx_default_allocator (fst s) of
     None \<Rightarrow> io_decode_bin_malloc C name sz s
   | Some allocator \<Rightarrow> act_bind (io_decode_bin C name (Some allocator) null_ptr sz) (\<lambda>(result, alloc, sz).
       if result \<noteq> er_ok
       then act_bind (if alloc \<noteq> null_ptr then act_allocate allocator 0 alloc sz else act_return (er_ok, alloc, sz))
              (\<lambda>_. act_fail result)
       else act_return (alloc, sz)) s)"

text \<open>
  The fixed decoders write to an array of the caller. The array is \<open>mm_field\<close> for the time of the call
  and the result is the array afterwards, with the size for binary data.
\<close>

definition io_decode_bin_fixed :: "('k, 'x, 's) io_codec \<Rightarrow> pname \<Rightarrow> u8 list \<Rightarrow> nat \<Rightarrow> ('k, 'x, u8 list \<times> nat) act" where
  "io_decode_bin_fixed C name val len =
     act_bind (act_mem (\<lambda>m. Some ((), m\<lparr>mm_field := val\<rparr>))) (\<lambda>_.
     act_bind (io_decode_bin C name (Some use_fixed) field_ptr len) (\<lambda>(result, p, len).
     if result \<noteq> er_ok then act_fail result
     else act_mem (\<lambda>m. Some ((mm_field m, len), m\<lparr>mm_field := []\<rparr>))))"

definition io_decode_string_malloc :: "('k, 'x, 's) io_codec \<Rightarrow> pname \<Rightarrow> ('k, 'x, mem_ptr) act" where
  "io_decode_string_malloc C name = act_bind (io_decode_string C name (Some use_crt) null_ptr 0) (\<lambda>(result, alloc, sz).
     if result \<noteq> er_ok
     then act_bind (act_free crt_heap alloc) (\<lambda>_. act_fail result)
     else act_return alloc)"

text \<open>\<open>string_new\<close> says whether \<open>STRING_new_with_memory\<close> of the shared utility library succeeds.\<close>

definition io_decode_STRING_HANDLE :: "('k, 'x, 's) io_codec \<Rightarrow> bool \<Rightarrow> pname \<Rightarrow> ('k, 'x, mem_ptr) act" where
  "io_decode_STRING_HANDLE C string_new name = act_bind (io_decode_string_malloc C name) (\<lambda>string_mem.
     if \<not> string_new
     then act_bind (act_free crt_heap string_mem) (\<lambda>_. act_fail er_out_of_memory)
     else act_return string_mem)"

definition io_decode_string_default :: "('k, 'x, 's) io_codec \<Rightarrow> pname \<Rightarrow> ('k, 'x, mem_ptr) act" where
  "io_decode_string_default C name s = (case ctx_default_allocator (fst s) of
     None \<Rightarrow> io_decode_string_malloc C name s
   | Some allocator \<Rightarrow> act_bind (io_decode_string C name (Some allocator) null_ptr 0) (\<lambda>(result, alloc, sz).
       if result \<noteq> er_ok
       then act_bind (if alloc \<noteq> null_ptr then act_allocate allocator 0 alloc sz else act_return (er_ok, alloc, sz))
              (\<lambda>_. act_fail result)
       else act_return alloc) s)"

definition io_decode_string_fixed :: "('k, 'x, 's) io_codec \<Rightarrow> pname \<Rightarrow> u8 list \<Rightarrow> nat \<Rightarrow> ('k, 'x, u8 list) act" where
  "io_decode_string_fixed C name string len =
     act_bind (act_mem (\<lambda>m. Some ((), m\<lparr>mm_field := string\<rparr>))) (\<lambda>_.
     act_bind (io_decode_string C name (Some use_fixed) field_ptr len) (\<lambda>(result, p, len).
     if result \<noteq> er_ok then act_fail result
     else act_mem (\<lambda>m. Some (mm_field m, m\<lparr>mm_field := []\<rparr>))))"

end
