(* ===== verification/Io_Ref.thy ===== *)
theory Io_Ref
  imports Prelude Prx_Err Prx_Types Util_String Io_Codec
begin

text \<open>
  The 128 bit references of \<open>src/io_ref.c\<close> that address proxies, links and streams. A reference is its two
  64 bit lanes; the bytes of the union are their little endian representation.
\<close>

section \<open>References\<close>

record io_ref =
  ref_0 :: u64
  ref_1 :: u64

definition le64 :: "u64 \<Rightarrow> u8 list" where
  "le64 w = map (\<lambda>i. ucast (drop_bit (8 * i) w)) [0..<8]"

definition of_le :: "u8 list \<Rightarrow> u64" where
  "of_le bs = foldr (\<lambda>b w. ucast b OR push_bit 8 w) bs 0"

definition ref_u8 :: "io_ref \<Rightarrow> u8 list" where
  "ref_u8 r = le64 (ref_0 r) @ le64 (ref_1 r)"

definition ref_of_u8 :: "u8 list \<Rightarrow> io_ref" where
  "ref_of_u8 bs = \<lparr>ref_0 = of_le (take 8 bs), ref_1 = of_le (drop 8 bs)\<rparr>"

text \<open>\<open>u32[i]\<close> for \<open>i < 4\<close>.\<close>

definition ref_u32 :: "io_ref \<Rightarrow> nat \<Rightarrow> u32" where
  "ref_u32 r i = ucast (drop_bit (32 * (i mod 2)) (if i < 2 then ref_0 r else ref_1 r))"

definition io_ref_null :: io_ref where
  "io_ref_null = \<lparr>ref_0 = 0, ref_1 = 0\<rparr>"

definition io_ref_bcast :: io_ref where
  "io_ref_bcast = \<lparr>ref_0 = NOT 0, ref_1 = NOT 0\<rparr>"

text \<open>\<open>rand_fill\<close> is what \<open>pal_rand_fill\<close> delivers: a result and 16 bytes.\<close>

definition io_ref_new :: "(nat \<Rightarrow> prx_error \<times> u8 list) \<Rightarrow> io_ref option \<Rightarrow> prx_error \<times> io_ref option" where
  "io_ref_new rand_fill ref = (case ref of
     None \<Rightarrow> (er_fault, None)
   | Some r \<Rightarrow> (let (result, bytes) = rand_fill 16 in (result, Some (ref_of_u8 bytes))))"

definition io_ref_clear :: "io_ref option \<Rightarrow> io_ref option" where
  "io_ref_clear ref = (case ref of None \<Rightarrow> None | Some r \<Rightarrow> Some (r\<lparr>ref_0 := 0, ref_1 := 0\<rparr>))"

definition io_ref_to_string :: "io_ref option \<Rightarrow> bool \<Rightarrow> nat \<Rightarrow> prx_error \<times> cstr option" where
  "io_ref_to_string ref string_given len = (case ref of
     None \<Rightarrow> (er_fault, None)
   | Some r \<Rightarrow> string_from_uuid (Some (ref_u8 r)) string_given len)"

definition io_ref_from_prx_socket_address :: "prx_socket_address option \<Rightarrow> io_ref option \<Rightarrow> prx_error \<times> io_ref option" where
  "io_ref_from_prx_socket_address sa ref = (case ref of
     None \<Rightarrow> (er_fault, None)
   | Some r \<Rightarrow> (case sa of
       None \<Rightarrow> (er_fault, ref)
     | Some a \<Rightarrow> (er_ok, Some (ref_of_u8 (take 16 (in_addr (as_inet a)))))))"

definition io_ref_to_prx_socket_address :: "io_ref option \<Rightarrow> prx_socket_address option \<Rightarrow> prx_error \<times> prx_socket_address option" where
  "io_ref_to_prx_socket_address ref sa = (case ref of
     None \<Rightarrow> (er_fault, sa)
   | Some r \<Rightarrow> (case sa of
       None \<Rightarrow> (er_fault, None)
     | Some a \<Rightarrow> (er_ok, Some (sa_ip ((as_inet a)\<lparr>in_family := prx_address_family_inet6, in_addr := ref_u8 r\<rparr>)))))"

text \<open>
  Outside of the sources under consideration: \<open>se_pton\<close> is \<open>pal_pton\<close> of the platform, \<open>se_alloc\<close> whether
  the string functions of the shared utility library get memory.
\<close>

record string_env =
  se_alloc :: bool
  se_pton :: "cstr \<Rightarrow> prx_error \<times> prx_socket_address"

definition io_ref_from_string :: "string_env \<Rightarrow> cstr option \<Rightarrow> io_ref option \<Rightarrow> prx_error \<times> io_ref option" where
  "io_ref_from_string E string ref = (case string of
     None \<Rightarrow> (er_fault, ref)
   | Some s \<Rightarrow> (case ref of
       None \<Rightarrow> (er_fault, None)
     | Some r \<Rightarrow>
         if 64 - 1 \<le> length s then (er_arg, ref)
         else let ptr = (if s \<noteq> [] \<and> hd s = 123 then tl (the (string_trim_back (Some s) (Some [125]))) else s);
                  (result, u8) = string_to_uuid (Some ptr) (Some (ref_u8 r));
                  r' = ref_of_u8 (the u8)
              in if result = er_ok then (result, Some r')
                 else let (result, sa) = se_pton E ptr
                      in if result = er_ok then io_ref_from_prx_socket_address (Some sa) (Some r')
                         else (result, Some r')))"

definition io_ref_append_to_STRING :: "string_env \<Rightarrow> io_ref option \<Rightarrow> cstr option \<Rightarrow> prx_error \<times> cstr option" where
  "io_ref_append_to_STRING E ref string = (case ref of
     None \<Rightarrow> (er_fault, string)
   | Some r \<Rightarrow> (case string of
       None \<Rightarrow> (er_fault, None)
     | Some s \<Rightarrow> (
         let (result, tmp) = io_ref_to_string ref True UUID_PRINTABLE_STRING_LENGTH
         in if result \<noteq> er_ok then (result, string)
            else if \<not> se_alloc E then (er_out_of_memory, string)
            else (er_ok, Some (s @ the tmp)))))"

definition io_ref_to_STRING :: "string_env \<Rightarrow> io_ref option \<Rightarrow> cstr option" where
  "io_ref_to_STRING E ref = (
     if \<not> se_alloc E then None
     else let (result, s) = io_ref_append_to_STRING E ref (Some []) in if result = er_ok then s else None)"

definition io_ref_equals :: "io_ref option \<Rightarrow> io_ref option \<Rightarrow> bool" where
  "io_ref_equals ref1 ref2 = (case (ref1, ref2) of
     (None, None) \<Rightarrow> True
   | (Some a, Some b) \<Rightarrow> ref_0 a = ref_0 b \<and> ref_1 a = ref_1 b
   | _ \<Rightarrow> False)"

definition io_ref_copy :: "io_ref option \<Rightarrow> io_ref option \<Rightarrow> io_ref option" where
  "io_ref_copy src dst = (case (src, dst) of
     (Some s, Some d) \<Rightarrow> Some (d\<lparr>ref_0 := ref_0 s, ref_1 := ref_1 s\<rparr>)
   | _ \<Rightarrow> dst)"

definition io_ref_swap :: "io_ref option \<Rightarrow> io_ref option \<Rightarrow> io_ref option \<times> io_ref option" where
  "io_ref_swap ref1 ref2 = (case (ref1, ref2) of
     (Some a, Some b) \<Rightarrow>
       (Some (a\<lparr>ref_0 := ref_0 b, ref_1 := ref_1 b\<rparr>), Some (b\<lparr>ref_0 := ref_0 a, ref_1 := ref_1 a\<rparr>))
   | _ \<Rightarrow> (ref1, ref2))"

definition io_ref_hash :: "io_ref \<Rightarrow> u32" where
  "io_ref_hash ref = (ref_u32 ref 0 XOR (push_bit 16 (ref_u32 ref 1) OR push_bit 24 (ref_u32 ref 2))) OR ref_u32 ref 3"

section \<open>Encoding\<close>

definition io_encode_ref :: "('k, 'x, 's) io_codec \<Rightarrow> string_env \<Rightarrow> io_ref \<Rightarrow> ('k, 'x, unit) act" where
  "io_encode_ref C E ref = act_seq [
     io_encode_type_begin C 1,
     (if io_codec_ctx_get_codec_id C = io_codec_json
      then (case io_ref_to_STRING E (Some ref) of
              None \<Rightarrow> act_fail er_out_of_memory
            | Some s \<Rightarrow> io_encode_STRING_HANDLE C (Some ''id'') (Some (s @ [0])))
      else io_encode_bin C (Some ''id'') (Some (ref_u8 ref)) 16),
     io_encode_type_end C]"

text \<open>The string behind a pointer to memory of the C library.\<close>

definition mem_string :: "dec_mem \<Rightarrow> mem_ptr \<Rightarrow> cstr option" where
  "mem_string m p = (case p of
     heap_ptr n \<Rightarrow> (case mm_heap m n of
         Some (k, bytes) \<Rightarrow> if 0 \<in> set bytes then Some (takeWhile (\<lambda>b. b \<noteq> 0) bytes) else None
       | None \<Rightarrow> None)
   | _ \<Rightarrow> None)"

definition io_decode_ref :: "('k, 'x, 's) io_codec \<Rightarrow> string_env \<Rightarrow> io_ref \<Rightarrow> ('k, 'x, io_ref) act" where
  "io_decode_ref C E ref = act_bind (io_decode_type_begin C) (\<lambda>_.
     act_bind (
       if io_codec_ctx_get_codec_id C = io_codec_json
       then act_bind (io_decode_STRING_HANDLE C (se_alloc E) (Some ''id'')) (\<lambda>p.
            act_bind (act_mem (\<lambda>m. map_option (\<lambda>s. (s, m)) (mem_string m p))) (\<lambda>s.
            act_bind (act_free crt_heap p) (\<lambda>_.
            let (result, r) = io_ref_from_string E (Some s) (Some ref)
            in if result \<noteq> er_ok then act_fail result else act_return (the r))))
       else act_bind (io_decode_bin_fixed C (Some ''id'') (ref_u8 ref) 16) (\<lambda>(u8, sz). act_return (ref_of_u8 u8))) (\<lambda>r.
     act_bind (io_decode_type_end C) (\<lambda>_. act_return r)))"

section \<open>Bytes of a reference\<close>

lemma bit_of_le: "bit (of_le bs) n \<longleftrightarrow> n < 64 \<and> n < 8 * length bs \<and> bit (bs ! (n div 8)) (n mod 8)"
proof (induction bs arbitrary: n)
  case (Cons b bs)
  have step: "bit (of_le (b # bs)) n \<longleftrightarrow> n < 64 \<and> (n < 8 \<and> bit b n \<or> 8 \<le> n \<and> bit (of_le bs) (n - 8))"
    using bit_imp_le_length [of b n] by (auto simp: of_le_def bit_simps)
  show ?case
  proof (cases "n < 8")
    case False
    then have "n div 8 = Suc ((n - 8) div 8)" "n mod 8 = (n - 8) mod 8"
      by (simp_all add: le_div_geq le_mod_geq)
    then show ?thesis
      using step Cons.IH [of "n - 8"] False by auto
  qed (use step in auto)
qed (simp add: of_le_def)

lemma of_le_le64 [simp]: "of_le (le64 w) = w"
proof (rule bit_word_eqI)
  fix n assume n: "n < LENGTH(64)"
  then have "n div 8 < 8" "n mod 8 < 8" "8 * (n div 8) + n mod 8 = n"
    by auto
  then show "bit (of_le (le64 w)) n = bit w n"
    using n by (simp add: bit_of_le le64_def bit_simps)
qed

lemma length_le64 [simp]: "length (le64 w) = 8"
  by (simp add: le64_def)

lemma length_ref_u8 [simp]: "length (ref_u8 r) = 16"
  by (simp add: ref_u8_def)

lemma ref_of_u8_ref_u8 [simp]: "ref_of_u8 (ref_u8 r) = r"
  by (simp add: ref_of_u8_def ref_u8_def)

text \<open>
  C24. A reference printed as a string, with or without curly braces around it, is read back unchanged by
  \<open>io_ref_from_string\<close>, which never consults the platform's address parser for it.
\<close>

theorem io_ref_string_roundtrip:
  "\<exists>s. io_ref_to_string (Some r) True UUID_PRINTABLE_STRING_LENGTH = (er_ok, Some s) \<and>
     io_ref_from_string E (Some s) (Some old) = (er_ok, Some r) \<and>
     io_ref_from_string E (Some ([123] @ s @ [125])) (Some old) = (er_ok, Some r)"
proof -
  obtain s where s: "string_from_uuid (Some (ref_u8 r)) True UUID_PRINTABLE_STRING_LENGTH = (er_ok, Some s)"
    "length s = 36" "string_to_uuid (Some s) (Some (ref_u8 old)) = (er_ok, Some (ref_u8 r))"
    using uuid_print_parse [of "ref_u8 r" "ref_u8 old" UUID_PRINTABLE_STRING_LENGTH] by auto
  have "hex_value 123 = None" "hex_value 125 = None"
    by (simp_all add: hex_value_def)
  then have c: "123 \<notin> set s" "125 \<notin> set s"
    using string_from_uuid_chars [OF s(1)] by fastforce+
  have ne: "s \<noteq> []"
    using s(2) by auto
  have "string_trim_back (Some ([123] @ s @ [125])) (Some [125]) = Some (123 # s)"
    using c(2) ne by (cases s rule: rev_cases) (auto simp: string_trim_back_rev)
  moreover have "hd s \<noteq> 123"
    using c(1) ne hd_in_set by metis
  ultimately show ?thesis
    using s by (auto simp: io_ref_to_string_def io_ref_from_string_def)
qed

end
