(* ===== verification/Io_Cs.thy ===== *)
theory Io_Cs
  imports Io_Token Io_Stream Io_Ref
begin

text \<open>
  Connection strings, \<open>src/io_cs.c\<close>: parsing, validation, the import of the key into the credential store of
  the platform, printing, and the getters and setters. A connection string is the array of its entries, indexed
  by the enumeration. Getters that cache what they derive return the changed connection string. The record
  \<open>cs_env\<close> holds what the platform and the shared utility library return: the credential store, the base 64
  decoder, the validation of tokens, one configuration value, and for every allocation whether it succeeds.
\<close>

section \<open>State\<close>

datatype io_cs_entry =
    io_cs_entry_host_name
  | io_cs_entry_hub_name
  | io_cs_entry_device_id
  | io_cs_entry_shared_access_key_name
  | io_cs_entry_shared_access_key
  | io_cs_entry_endpoint
  | io_cs_entry_consumer_group
  | io_cs_entry_partition_count
  | io_cs_entry_entity
  | io_cs_entry_endpoint_name
  | io_cs_entry_shared_access_token
  | io_cs_entry_shared_access_key_handle
  | io_cs_entry_max

type_synonym io_cs = "io_cs_entry \<Rightarrow> cstr option"

text \<open>The places that allocate. The host name can be derived more than once, so each caller has its own.\<close>

datatype cs_site =
    site_cs
  | site_entry io_cs_entry
  | site_entry_handle io_cs_entry
  | site_concat io_cs_entry nat
  | site_host_name nat
  | site_hub_name
  | site_key_name nat
  | site_key
  | site_scope nat
  | site_provider nat

record cs_env =
  cse_cred :: bool
  cse_import :: "cstr \<Rightarrow> u8 list \<Rightarrow> bool \<Rightarrow> prx_error \<times> cstr"
  cse_base64 :: "cstr \<Rightarrow> u8 list option"
  cse_policy_import :: int
  cse_sas_valid :: "cstr \<Rightarrow> bool"
  cse_alloc :: "cs_site \<Rightarrow> bool"

section \<open>Getters\<close>

definition io_cs_get_entry :: "io_cs option \<Rightarrow> io_cs_entry \<Rightarrow> cstr option" where
  "io_cs_get_entry cs eid = (case cs of None \<Rightarrow> None | Some c \<Rightarrow> if eid = io_cs_entry_max then None else c eid)"

definition io_cs_get_device_id :: "io_cs \<Rightarrow> cstr option" where
  "io_cs_get_device_id cs = io_cs_get_entry (Some cs) io_cs_entry_device_id"

definition io_cs_get_entity :: "io_cs \<Rightarrow> cstr option" where
  "io_cs_get_entity cs = io_cs_get_entry (Some cs) io_cs_entry_entity"

definition io_cs_get_endpoint :: "io_cs \<Rightarrow> cstr option" where
  "io_cs_get_endpoint cs = io_cs_get_entry (Some cs) io_cs_entry_endpoint"

definition io_cs_get_shared_access_token :: "io_cs \<Rightarrow> cstr option" where
  "io_cs_get_shared_access_token cs = io_cs_get_entry (Some cs) io_cs_entry_shared_access_token"

definition io_cs_get_shared_access_key_name :: "io_cs \<Rightarrow> cstr option" where
  "io_cs_get_shared_access_key_name cs = io_cs_get_entry (Some cs) io_cs_entry_shared_access_key_name"

text \<open>The loop looks for the first slash among the \<open>len\<close> characters; the NUL is never one of them.\<close>

definition io_cs_get_host_name :: "bool \<Rightarrow> io_cs \<Rightarrow> cstr option \<times> io_cs" where
  "io_cs_get_host_name ok cs = (
     let cs = (if cs io_cs_entry_host_name = None
               then (case io_cs_get_endpoint cs of
                   None \<Rightarrow> cs
                 | Some val \<Rightarrow> (case string_trim_scheme (Some val) (Some (length val)) of
                       None \<Rightarrow> cs
                     | Some (off, len) \<Rightarrow>
                         let val = take len (drop off val); i = length (takeWhile (\<lambda>c. c \<noteq> 47) val)
                         in if i < length val then cs(io_cs_entry_host_name := STRING_safe_construct_n ok ok (Some val) i)
                            else cs))
               else cs)
     in (io_cs_get_entry (Some cs) io_cs_entry_host_name, cs))"

text \<open>Without a host name \<open>strlen\<close> gets a null pointer.\<close>

definition io_cs_get_hub_name :: "bool \<Rightarrow> bool \<Rightarrow> io_cs \<Rightarrow> (cstr option \<times> io_cs) res" where
  "io_cs_get_hub_name ok_host ok cs = (
     if cs io_cs_entry_hub_name = None
     then (case io_cs_get_host_name ok_host cs of
         (None, cs) \<Rightarrow> Crash
       | (Some val, cs) \<Rightarrow>
           let i = length (takeWhile (\<lambda>c. c \<noteq> 46) val);
               cs = (if i < length val then cs(io_cs_entry_hub_name := STRING_safe_construct_n ok ok (Some val) i) else cs)
           in Ok (io_cs_get_entry (Some cs) io_cs_entry_hub_name, cs))
     else Ok (io_cs_get_entry (Some cs) io_cs_entry_hub_name, cs))"

definition io_cs_get_endpoint_name :: "bool \<Rightarrow> bool \<Rightarrow> io_cs \<Rightarrow> (cstr option \<times> io_cs) res" where
  "io_cs_get_endpoint_name ok_host ok cs = (case io_cs_get_entry (Some cs) io_cs_entry_endpoint_name of
     None \<Rightarrow> io_cs_get_hub_name ok_host ok cs
   | Some v \<Rightarrow> Ok (Some v, cs))"

definition io_cs_get_consumer_group :: "io_cs \<Rightarrow> cstr option" where
  "io_cs_get_consumer_group cs = (case io_cs_get_entry (Some cs) io_cs_entry_consumer_group of
     None \<Rightarrow> if io_cs_get_endpoint cs \<noteq> None then Some (str ''$default'') else None
   | Some v \<Rightarrow> Some v)"

text \<open>\<open>atoi\<close> is \<open>strtol\<close> narrowed to \<open>int\<close>.\<close>

definition io_cs_get_partition_count :: "io_cs \<Rightarrow> int" where
  "io_cs_get_partition_count cs = (case io_cs_get_entry (Some cs) io_cs_entry_partition_count of
     None \<Rightarrow> if io_cs_get_endpoint cs \<noteq> None then 4 else 0
   | Some v \<Rightarrow> int32_of (fst (c_strtol v)))"

section \<open>Validation\<close>

definition is_lower :: "u8 \<Rightarrow> bool" where
  "is_lower c \<longleftrightarrow> 97 \<le> c \<and> c \<le> 122"

definition is_upper :: "u8 \<Rightarrow> bool" where
  "is_upper c \<longleftrightarrow> 65 \<le> c \<and> c \<le> 90"

fun validate_host_loop :: "cstr \<Rightarrow> bool \<Rightarrow> prx_error" where
  "validate_host_loop [] char_found = (if char_found then er_ok else er_invalid_format)"
| "validate_host_loop (c # cs) char_found = (
     if is_digit c then validate_host_loop cs char_found
     else if is_lower c then validate_host_loop cs True
     else if is_upper c then validate_host_loop cs True
     else if c = 45 then validate_host_loop cs True
     else er_invalid_format)"

definition io_cs_validate_host_name :: "cstr \<Rightarrow> prx_error" where
  "io_cs_validate_host_name host_name = (
     if 46 \<notin> set host_name then er_invalid_format
     else let hub = takeWhile (\<lambda>c. c \<noteq> 46) host_name; count = length hub
          in if count < 3 \<or> 50 < count then er_invalid_format
             else if hd host_name = 45 then er_invalid_format
             else validate_host_loop hub False)"

definition device_id_chars :: cstr where
  "device_id_chars = str ''-:.+%_#*?!(),=@;$'' @ [39]"

definition io_cs_validate_device_id :: "cstr \<Rightarrow> prx_error" where
  "io_cs_validate_device_id device_id = (
     if 128 \<le> length device_id then er_invalid_format
     else if list_all (\<lambda>c. is_lower c \<or> is_upper c \<or> is_digit c \<or> c \<in> set device_id_chars) device_id then er_ok
     else er_invalid_format)"

definition io_cs_validate :: "cs_env \<Rightarrow> io_cs \<Rightarrow> prx_error \<times> io_cs" where
  "io_cs_validate E cs = (case io_cs_get_host_name (cse_alloc E (site_host_name 1)) cs of
     (None, cs) \<Rightarrow> (er_invalid_format, cs)
   | (Some val, cs) \<Rightarrow>
       if val = [] then (er_invalid_format, cs)
       else let result = io_cs_validate_host_name val
            in if result \<noteq> er_ok then (result, cs)
               else (case cs io_cs_entry_device_id of
                   None \<Rightarrow> (er_ok, cs)
                 | Some val \<Rightarrow>
                     if val = [] then (er_invalid_format, cs)
                     else let result = io_cs_validate_device_id val
                          in if result \<noteq> er_ok then (result, cs)
                             else (case cs io_cs_entry_shared_access_token of
                                 None \<Rightarrow> (er_ok, cs)
                               | Some token \<Rightarrow> (if cse_sas_valid E token then er_ok else er_invalid_format, cs))))"

section \<open>Keys\<close>

text \<open>Result: the error, the key name when it could be made, and the connection string with its host name.\<close>

definition io_cs_get_unique_key_name :: "cs_env \<Rightarrow> io_cs \<Rightarrow> prx_error \<times> cstr option \<times> io_cs" where
  "io_cs_get_unique_key_name E cs = (
     let policy = io_cs_get_shared_access_key_name cs
     in case STRING_construct (cse_alloc E (site_key_name 0)) (case policy of Some p \<Rightarrow> Some p | None \<Rightarrow> Some []) of
         None \<Rightarrow> (er_out_of_memory, None, cs)
       | Some key_name \<Rightarrow>
           let (result, key_name) = (case policy of
                   Some _ \<Rightarrow> (er_ok, key_name)
                 | None \<Rightarrow> (case io_cs_get_device_id cs of
                       None \<Rightarrow> (er_not_found, key_name)
                     | Some device \<Rightarrow> (case STRING_concat (cse_alloc E (site_key_name 1)) key_name (str ''device:'') of
                           (False, key_name) \<Rightarrow> (er_out_of_memory, key_name)
                         | (True, key_name) \<Rightarrow> (case STRING_concat (cse_alloc E (site_key_name 2)) key_name device of
                               (False, key_name) \<Rightarrow> (er_out_of_memory, key_name)
                             | (True, key_name) \<Rightarrow> (er_ok, key_name)))))
           in if result \<noteq> er_ok then (result, None, cs)
              else (case io_cs_get_host_name (cse_alloc E (site_host_name 0)) cs of
                  (None, cs) \<Rightarrow> (er_ok, Some key_name, cs)
                | (Some host, cs) \<Rightarrow> (case STRING_concat (cse_alloc E (site_key_name 3)) key_name (str ''@'') of
                      (False, _) \<Rightarrow> (er_out_of_memory, None, cs)
                    | (True, key_name) \<Rightarrow> (case STRING_concat (cse_alloc E (site_key_name 4)) key_name host of
                          (False, _) \<Rightarrow> (er_out_of_memory, None, cs)
                        | (True, key_name) \<Rightarrow> (er_ok, Some key_name, cs)))))"

definition io_cs_import_key :: "cs_env \<Rightarrow> io_cs \<Rightarrow> prx_error \<times> io_cs" where
  "io_cs_import_key E cs = (case cs io_cs_entry_shared_access_key of
     None \<Rightarrow> (er_ok, cs)
   | Some key_val \<Rightarrow>
       if \<not> cse_cred E then (er_ok, cs)
       else (case io_cs_get_unique_key_name E cs of
           (result, None, cs) \<Rightarrow> (result, cs)
         | (_, Some key_name, cs) \<Rightarrow>
             (case string_base64_to_byte_array (cse_base64 E) (cse_alloc E site_key) (Some key_val) of
                 (result, None) \<Rightarrow> (result, cs)
               | (_, Some key) \<Rightarrow>
                   let persist = (io_cs_get_shared_access_key_name cs = None \<or> cse_policy_import E \<noteq> 0);
                       (result, key_handle) = cse_import E key_name key persist
                   in if result \<noteq> er_ok then (result, cs)
                      else let cs = (if key_name \<noteq> key_handle
                                     then cs(io_cs_entry_shared_access_key_handle := Some key_handle) else cs)
                           in (result, cs(io_cs_entry_shared_access_key := None)))))"

definition io_cs_get_key_handle :: "cs_env \<Rightarrow> io_cs \<Rightarrow> cstr option \<times> io_cs" where
  "io_cs_get_key_handle E cs = (case cs io_cs_entry_shared_access_key_handle of
     Some key_handle \<Rightarrow> (Some key_handle, cs)
   | None \<Rightarrow> (case io_cs_get_unique_key_name E cs of
         (_, None, cs) \<Rightarrow> (None, cs)
       | (_, Some key_handle, cs) \<Rightarrow>
           (Some key_handle, cs(io_cs_entry_shared_access_key_handle := Some key_handle))))"

section \<open>Parsing and printing\<close>

definition io_cs_add_entry :: "cs_env \<Rightarrow> io_cs_entry \<Rightarrow> io_cs \<Rightarrow> cstr \<Rightarrow> prx_error \<times> io_cs" where
  "io_cs_add_entry E t cs val = (
     if cs t \<noteq> None then (er_invalid_format, cs)
     else let cs = cs(t := STRING_safe_construct_n (cse_alloc E (site_entry t)) (cse_alloc E (site_entry_handle t))
                             (Some val) (length val))
          in if cs t = None then (er_out_of_memory, cs) else (er_ok, cs))"

definition key_is :: "cstr \<Rightarrow> string \<Rightarrow> bool" where
  "key_is key name = string_is_equal_nocase (Some key) (length key) (Some (str name))"

definition io_cs_parser_callback :: "cs_env \<Rightarrow> io_cs \<Rightarrow> cstr \<Rightarrow> cstr \<Rightarrow> prx_error \<times> io_cs" where
  "io_cs_parser_callback E cs key val = (
     if key_is key ''HostName'' then io_cs_add_entry E io_cs_entry_host_name cs val
     else if key_is key ''DeviceId'' then io_cs_add_entry E io_cs_entry_device_id cs val
     else if key_is key ''SharedAccessKeyName'' then io_cs_add_entry E io_cs_entry_shared_access_key_name cs val
     else if key_is key ''SharedAccessKey'' then io_cs_add_entry E io_cs_entry_shared_access_key cs val
     else if key_is key ''ConsumerGroup'' then io_cs_add_entry E io_cs_entry_consumer_group cs val
     else if key_is key ''Partitions'' then io_cs_add_entry E io_cs_entry_partition_count cs val
     else if key_is key ''Endpoint'' then io_cs_add_entry E io_cs_entry_endpoint cs val
     else if key_is key ''EntityPath'' then io_cs_add_entry E io_cs_entry_entity cs val
     else if key_is key ''EndpointName'' then io_cs_add_entry E io_cs_entry_endpoint_name cs val
     else if key_is key ''SharedAccessToken'' then io_cs_add_entry E io_cs_entry_shared_access_token cs val
     else if key_is key ''SharedAccessKeyHandle'' then io_cs_add_entry E io_cs_entry_shared_access_key_handle cs val
     else if key_is key ''GatewayHostName'' then (er_ok, cs)
     else (er_invalid_format, cs))"

definition io_cs_append_entry_to_STRING :: "cs_env \<Rightarrow> io_cs \<Rightarrow> io_cs_entry \<Rightarrow> cstr \<Rightarrow> cstr \<Rightarrow> prx_error \<times> cstr" where
  "io_cs_append_entry_to_STRING E cs entry name c_string = (case cs entry of
     None \<Rightarrow> (er_ok, c_string)
   | Some val \<Rightarrow>
       let (ok, c_string) = (if 0 < length c_string then STRING_concat (cse_alloc E (site_concat entry 0)) c_string (str '';'')
                             else (True, c_string))
       in if \<not> ok then (er_out_of_memory, c_string)
          else (case STRING_concat (cse_alloc E (site_concat entry 1)) c_string name of
              (False, c_string) \<Rightarrow> (er_out_of_memory, c_string)
            | (True, c_string) \<Rightarrow> (case STRING_concat (cse_alloc E (site_concat entry 2)) c_string val of
                  (False, c_string) \<Rightarrow> (er_out_of_memory, c_string)
                | (True, c_string) \<Rightarrow> (er_ok, c_string))))"

text \<open>The entries in the order in which they are written; the hub name is derived and never written.\<close>

definition cs_printed :: "(io_cs_entry \<times> cstr) list" where
  "cs_printed = [
     (io_cs_entry_host_name, str ''HostName''),
     (io_cs_entry_device_id, str ''DeviceId''),
     (io_cs_entry_endpoint, str ''Endpoint''),
     (io_cs_entry_entity, str ''EntityPath''),
     (io_cs_entry_shared_access_key_name, str ''SharedAccessKeyName''),
     (io_cs_entry_shared_access_key, str ''SharedAccessKey''),
     (io_cs_entry_consumer_group, str ''ConsumerGroup''),
     (io_cs_entry_partition_count, str ''Partitions''),
     (io_cs_entry_endpoint_name, str ''EndpointName''),
     (io_cs_entry_shared_access_token, str ''SharedAccessToken''),
     (io_cs_entry_shared_access_key_handle, str ''SharedAccessKeyHandle'')]"

fun append_entries :: "cs_env \<Rightarrow> io_cs \<Rightarrow> (io_cs_entry \<times> cstr) list \<Rightarrow> cstr \<Rightarrow> prx_error \<times> cstr" where
  "append_entries E cs [] c_string = (er_ok, c_string)"
| "append_entries E cs ((entry, key) # es) c_string = (
     case io_cs_append_entry_to_STRING E cs entry (key @ [61]) c_string of (result, c_string) \<Rightarrow>
       if result \<noteq> er_ok then (result, c_string) else append_entries E cs es c_string)"

definition io_cs_append_to_STRING :: "cs_env \<Rightarrow> io_cs option \<Rightarrow> cstr option \<Rightarrow> prx_error \<times> cstr option" where
  "io_cs_append_to_STRING E cs c_string = (case (cs, c_string) of
     (Some cs, Some c) \<Rightarrow> map_prod (\<lambda>r. r) Some (append_entries E cs cs_printed c)
   | _ \<Rightarrow> (er_fault, c_string))"

definition io_cs_to_STRING :: "cs_env \<Rightarrow> io_cs option \<Rightarrow> cstr option" where
  "io_cs_to_STRING E cs = (
     if cs = None then None
     else if \<not> cse_alloc E site_cs then None
     else (case io_cs_append_to_STRING E cs (Some []) of (result, c) \<Rightarrow> if result = er_ok then c else None))"

section \<open>Creation\<close>

definition cs_zero :: io_cs where
  "cs_zero = (\<lambda>_. None)"

definition cs_check :: "cs_env \<Rightarrow> io_cs \<Rightarrow> prx_error \<times> io_cs option" where
  "cs_check E cs = (case io_cs_import_key E cs of (result, cs) \<Rightarrow>
     if result \<noteq> er_ok then (result, None)
     else (case io_cs_validate E cs of (result, cs) \<Rightarrow> if result \<noteq> er_ok then (result, None) else (er_ok, Some cs)))"

definition io_cs_create_from_string :: "cs_env \<Rightarrow> cstr option \<Rightarrow> prx_error \<times> io_cs option" where
  "io_cs_create_from_string E c_string = (case c_string of
     None \<Rightarrow> (er_fault, None)
   | Some s \<Rightarrow>
       if \<not> cse_alloc E site_cs then (er_out_of_memory, None)
       else (case string_key_value_parser (Some s) (Some (io_cs_parser_callback E)) 59 cs_zero of (result, cs) \<Rightarrow>
           if result \<noteq> er_ok then (result, None) else cs_check E cs))"

text \<open>
  \<open>real_path\<close>, \<open>exists\<close> and \<open>fopen_r\<close> are the file system of the platform. The bytes read end at the first
  NUL when they are used as a string.
\<close>

definition io_cs_create_from_raw_file ::
  "(cstr \<Rightarrow> prx_error \<times> cstr) \<Rightarrow> (cstr \<Rightarrow> bool) \<Rightarrow> (cstr \<Rightarrow> c_file option) \<Rightarrow> bool \<Rightarrow> cs_env \<Rightarrow> cstr option \<Rightarrow> prx_error \<times> io_cs option" where
  "io_cs_create_from_raw_file real_path exists fopen_r ok_buf E file_name = (case file_name of
     None \<Rightarrow> (er_fault, None)
   | Some name \<Rightarrow> (case real_path name of (result, real_file) \<Rightarrow>
       if result \<noteq> er_ok then (result, None)
       else if \<not> exists real_file then (er_not_found, None)
       else (case io_file_stream_init fopen_r (\<lambda>_. None) (Some real_file) None of
           None \<Rightarrow> (er_reading, None)
         | Some st \<Rightarrow>
             let read = io_stream_readable (Some st)
             in if read = 0 \<or> 2048 < read then (er_reading, None)
                else if \<not> ok_buf then (er_out_of_memory, None)
                else (case io_stream_read (Some st) read of (result, buf, _) \<Rightarrow>
                    if result \<noteq> er_ok then (result, None)
                    else io_cs_create_from_string E
                           (string_trim_back (Some (takeWhile (\<lambda>c. c \<noteq> 0) buf)) (Some [13, 10, 32]))))))"

definition io_cs_create ::
  "cs_env \<Rightarrow> cstr option \<Rightarrow> cstr option \<Rightarrow> cstr option \<Rightarrow> cstr option \<Rightarrow> prx_error \<times> io_cs option" where
  "io_cs_create E host_name device_id shared_access_key_name shared_access_key = (
     if host_name = None then (er_fault, None)
     else if \<not> cse_alloc E site_cs then (er_out_of_memory, None)
     else let cs = cs_zero(
                io_cs_entry_host_name := STRING_construct (cse_alloc E (site_entry io_cs_entry_host_name)) host_name,
                io_cs_entry_device_id := STRING_construct (cse_alloc E (site_entry io_cs_entry_device_id)) device_id,
                io_cs_entry_shared_access_key_name :=
                  STRING_construct (cse_alloc E (site_entry io_cs_entry_shared_access_key_name)) shared_access_key_name,
                io_cs_entry_shared_access_key :=
                  STRING_construct (cse_alloc E (site_entry io_cs_entry_shared_access_key)) shared_access_key)
          in if cs io_cs_entry_host_name = None \<or>
                (device_id \<noteq> None \<and> cs io_cs_entry_device_id = None) \<or>
                (shared_access_key_name \<noteq> None \<and> cs io_cs_entry_shared_access_key_name = None) \<or>
                (shared_access_key \<noteq> None \<and> cs io_cs_entry_shared_access_key = None)
             then (er_out_of_memory, None)
             else cs_check E cs)"

text \<open>A clone succeeds when every entry that is set can be copied.\<close>

definition cs_entries :: "io_cs_entry list" where
  "cs_entries = [io_cs_entry_host_name, io_cs_entry_hub_name, io_cs_entry_device_id, io_cs_entry_shared_access_key_name,
     io_cs_entry_shared_access_key, io_cs_entry_endpoint, io_cs_entry_consumer_group, io_cs_entry_partition_count,
     io_cs_entry_entity, io_cs_entry_endpoint_name, io_cs_entry_shared_access_token, io_cs_entry_shared_access_key_handle]"

fun clone_entries :: "cs_env \<Rightarrow> io_cs \<Rightarrow> io_cs_entry list \<Rightarrow> io_cs \<Rightarrow> prx_error \<times> io_cs" where
  "clone_entries E orig [] cs = (er_ok, cs)"
| "clone_entries E orig (i # is) cs = (
     if orig i = None then clone_entries E orig is cs
     else let cs = cs(i := STRING_construct (cse_alloc E (site_entry i)) (orig i))
          in if cs i = None then (er_out_of_memory, cs) else clone_entries E orig is cs)"

definition io_cs_clone :: "cs_env \<Rightarrow> io_cs option \<Rightarrow> prx_error \<times> io_cs option" where
  "io_cs_clone E orig = (case orig of
     None \<Rightarrow> (er_fault, None)
   | Some orig \<Rightarrow>
       if \<not> cse_alloc E site_cs then (er_out_of_memory, None)
       else (case clone_entries E orig cs_entries cs_zero of (result, cs) \<Rightarrow>
           if result \<noteq> er_ok then (result, None) else (result, Some cs)))"

text \<open>The handle is removed from the key storage, which is told of it, and from the connection string.\<close>

definition io_cs_remove_keys :: "io_cs option \<Rightarrow> cstr option \<times> io_cs option" where
  "io_cs_remove_keys cs = (case cs of
     None \<Rightarrow> (None, None)
   | Some c \<Rightarrow> (case c io_cs_entry_shared_access_key_handle of
         None \<Rightarrow> (None, cs)
       | Some handle \<Rightarrow> (Some handle, Some (c(io_cs_entry_shared_access_key_handle := None)))))"

section \<open>Setters\<close>

definition io_cs_set_entry :: "bool \<Rightarrow> io_cs option \<Rightarrow> io_cs_entry \<Rightarrow> cstr option \<Rightarrow> prx_error \<times> io_cs option" where
  "io_cs_set_entry ok cs eid entry = (case cs of
     None \<Rightarrow> (er_fault, None)
   | Some c \<Rightarrow>
       if eid = io_cs_entry_max then (er_arg, cs)
       else (case entry of
           None \<Rightarrow> (er_ok, Some (c(eid := None)))
         | Some _ \<Rightarrow>
             let c = c(eid := STRING_construct ok entry)
             in if c eid = None then (er_out_of_memory, Some c) else (er_ok, Some c)))"

definition io_cs_set_host_name :: "bool \<Rightarrow> io_cs option \<Rightarrow> cstr option \<Rightarrow> prx_error \<times> io_cs option" where
  "io_cs_set_host_name ok cs host_name = (case (cs, host_name) of
     (Some c, Some host) \<Rightarrow>
       let result = io_cs_validate_host_name host
       in if result \<noteq> er_ok then (result, cs)
          else let c = c(io_cs_entry_host_name := STRING_construct_trim ok host_name (Some [47, 92, 32]))
               in if c io_cs_entry_host_name = None then (er_out_of_memory, Some c) else (er_ok, Some c)
   | _ \<Rightarrow> (er_fault, cs))"

definition io_cs_set_device_id :: "bool \<Rightarrow> io_cs option \<Rightarrow> cstr option \<Rightarrow> prx_error \<times> io_cs option" where
  "io_cs_set_device_id ok cs device_id = (
     if cs = None then (er_fault, None)
     else (case device_id of
         None \<Rightarrow> io_cs_set_entry ok cs io_cs_entry_device_id None
       | Some d \<Rightarrow>
           let result = io_cs_validate_device_id d
           in if result \<noteq> er_ok then (result, cs) else io_cs_set_entry ok cs io_cs_entry_device_id device_id))"

definition io_cs_set_endpoint :: "bool \<Rightarrow> bool \<Rightarrow> io_cs option \<Rightarrow> cstr option \<Rightarrow> prx_error \<times> io_cs option" where
  "io_cs_set_endpoint ok_copy ok_handle cs endpoint = (case cs of
     None \<Rightarrow> (er_fault, None)
   | Some c \<Rightarrow> (case endpoint of
         None \<Rightarrow> io_cs_set_entry ok_copy cs io_cs_entry_endpoint None
       | Some val \<Rightarrow> (case string_trim_scheme endpoint (Some (length val)) of
             None \<Rightarrow> (er_out_of_memory, Some (c(io_cs_entry_endpoint := None)))
           | Some (off, len) \<Rightarrow>
               let val = drop off val; len = string_trim_back_len (Some val) len (Some [47, 92, 32]);
                   c = c(io_cs_entry_endpoint := STRING_safe_construct_n ok_copy ok_handle (Some val) len)
               in if c io_cs_entry_endpoint = None then (er_out_of_memory, Some c) else (er_ok, Some c))))"

definition io_cs_set_endpoint_name :: "bool \<Rightarrow> io_cs option \<Rightarrow> cstr option \<Rightarrow> prx_error \<times> io_cs option" where
  "io_cs_set_endpoint_name ok cs endpoint_name = io_cs_set_entry ok cs io_cs_entry_endpoint_name endpoint_name"

definition io_cs_set_consumer_group :: "bool \<Rightarrow> io_cs option \<Rightarrow> cstr option \<Rightarrow> prx_error \<times> io_cs option" where
  "io_cs_set_consumer_group ok cs consumer_group = io_cs_set_entry ok cs io_cs_entry_consumer_group consumer_group"

definition io_cs_set_partition_count :: "bool \<Rightarrow> io_cs option \<Rightarrow> int \<Rightarrow> prx_error \<times> io_cs option" where
  "io_cs_set_partition_count ok cs count = (
     if count \<noteq> 0
     then (case string_from_int count 10 True 32 of (result, buf) \<Rightarrow>
         if result \<noteq> er_ok then (result, cs) else io_cs_set_entry ok cs io_cs_entry_partition_count (Some buf))
     else io_cs_set_entry ok cs io_cs_entry_partition_count None)"

definition io_cs_set_entity :: "bool \<Rightarrow> io_cs option \<Rightarrow> cstr option \<Rightarrow> prx_error \<times> io_cs option" where
  "io_cs_set_entity ok cs entity = io_cs_set_entry ok cs io_cs_entry_entity entity"

section \<open>Token provider\<close>

text \<open>
  \<open>fresh\<close> is the address the new provider gets and \<open>token_ttl\<close> the configured time to live. Result: the error,
  the provider, the connection string with what was derived, and the providers.
\<close>

definition cs_scope_suffix :: "cs_env \<Rightarrow> io_cs \<Rightarrow> (cstr \<times> cstr option \<times> io_cs) res" where
  "cs_scope_suffix E cs = (case io_cs_get_device_id cs of
     Some val \<Rightarrow> Ok (str ''/devices/'', Some val, cs)
   | None \<Rightarrow> (case io_cs_get_entity cs of
         Some val \<Rightarrow> Ok (str ''/'', Some val, cs)
       | None \<Rightarrow> (case io_cs_get_endpoint_name (cse_alloc E (site_host_name 3)) (cse_alloc E site_hub_name) cs of
             Ok (val, cs) \<Rightarrow> Ok (str ''/'', val, cs)
           | Err e \<Rightarrow> Err e
           | Crash \<Rightarrow> Crash)))"

definition cs_scope_text :: "cs_env \<Rightarrow> cstr \<Rightarrow> cstr \<Rightarrow> cstr option \<Rightarrow> cstr option" where
  "cs_scope_text E scope delim val = (case val of
     None \<Rightarrow> Some scope
   | Some v \<Rightarrow> (case STRING_concat (cse_alloc E (site_scope 1)) scope delim of
         (False, _) \<Rightarrow> None
       | (True, scope) \<Rightarrow> (case STRING_concat (cse_alloc E (site_scope 2)) scope v of
             (False, _) \<Rightarrow> None | (True, scope) \<Rightarrow> Some scope)))"

definition io_cs_create_token_provider ::
  "cs_env \<Rightarrow> int \<Rightarrow> nat \<Rightarrow> io_cs \<Rightarrow> tp_store \<Rightarrow> (prx_error \<times> nat option \<times> io_cs \<times> tp_store) res" where
  "io_cs_create_token_provider E token_ttl fresh cs h = (case cs io_cs_entry_shared_access_token of
     Some token \<Rightarrow> (case io_passthru_token_provider_create (cse_alloc E (site_provider 0)) (cse_alloc E (site_provider 1)) fresh token h of
         (result, p, h) \<Rightarrow> Ok (result, p, cs, h))
   | None \<Rightarrow>
       let (val, cs) = (case io_cs_get_endpoint cs of
             Some val \<Rightarrow> (Some val, cs) | None \<Rightarrow> io_cs_get_host_name (cse_alloc E (site_host_name 2)) cs)
       in if val = None then Ok (er_invalid_format, None, cs, h)
          else (case STRING_construct (cse_alloc E (site_scope 0)) val of
              None \<Rightarrow> Ok (er_out_of_memory, None, cs, h)
            | Some scope \<Rightarrow> (case cs_scope_suffix E cs of
                  Err e \<Rightarrow> Err e
                | Crash \<Rightarrow> Crash
                | Ok (delim, val, cs) \<Rightarrow> (case cs_scope_text E scope delim val of
                      None \<Rightarrow> Ok (er_out_of_memory, None, cs, h)
                    | Some scope \<Rightarrow>
                        let (key, cs) = (if cse_cred E then io_cs_get_key_handle E cs
                                         else (cs io_cs_entry_shared_access_key, cs))
                        in case key of
                            None \<Rightarrow> Ok (er_invalid_format, None, cs, h)
                          | Some key \<Rightarrow> (case io_iothub_token_provider_create (cse_alloc E (site_provider 0))
                                (cse_alloc E (site_provider 1)) (cse_alloc E (site_provider 2)) (cse_alloc E (site_provider 3))
                                token_ttl fresh (io_cs_get_shared_access_key_name cs) key scope h of
                              (result, p, h) \<Rightarrow> Ok (result, p, cs, h))))))"

section \<open>Encoding\<close>

definition io_encode_cs :: "('k, 'x, 's) io_codec \<Rightarrow> cs_env \<Rightarrow> io_cs \<Rightarrow> ('k, 'x, unit) act" where
  "io_encode_cs C E cs = act_seq [
     io_encode_type_begin C 1,
     (case io_cs_to_STRING E (Some cs) of
        None \<Rightarrow> act_fail er_out_of_memory
      | Some connection_string \<Rightarrow> io_encode_STRING_HANDLE C (Some ''connection-string'') (Some (connection_string @ [0]))),
     io_encode_type_end C]"

definition io_decode_cs :: "('k, 'x, 's) io_codec \<Rightarrow> bool \<Rightarrow> cs_env \<Rightarrow> ('k, 'x, io_cs) act" where
  "io_decode_cs C string_new E = act_bind (io_decode_type_begin C) (\<lambda>_.
     act_bind (io_decode_STRING_HANDLE C string_new (Some ''connection-string'')) (\<lambda>p.
     act_bind (act_mem (\<lambda>m. map_option (\<lambda>s. (s, m)) (mem_string m p))) (\<lambda>s.
     act_bind (act_free crt_heap p) (\<lambda>_.
     case io_cs_create_from_string E (Some s) of
       (_, Some cs) \<Rightarrow> act_bind (io_decode_type_end C) (\<lambda>_. act_return cs)
     | (result, None) \<Rightarrow> act_fail result))))"

end
