(* ===== verification/Cs_Text.thy ===== *)
theory Cs_Text
  imports Io_Cs
begin

text \<open>
  The text of a connection string: what is printed is parsed back. The entries of a parsed connection string
  contain no separator; the printed text is the list of its pairs of keys and values, so the key value parser
  visits them and the callback puts every value back into its entry.
\<close>

section \<open>Entries without separators\<close>

named_theorems cs_clean_intros \<open>operations keep the entries free of separators\<close>

definition cs_clean :: "io_cs \<Rightarrow> bool" where
  "cs_clean cs \<longleftrightarrow> (\<forall>t v. cs t = Some v \<longrightarrow> 59 \<notin> set v) \<and> cs io_cs_entry_hub_name = None \<and> cs io_cs_entry_max = None"

lemma cs_clean_zero [cs_clean_intros]: "cs_clean cs_zero"
  by (simp add: cs_clean_def cs_zero_def)

lemma cs_clean_upd [cs_clean_intros]:
  "cs_clean cs \<Longrightarrow> (\<And>v. x = Some v \<Longrightarrow> 59 \<notin> set v) \<Longrightarrow> t \<noteq> io_cs_entry_hub_name \<Longrightarrow> t \<noteq> io_cs_entry_max \<Longrightarrow> cs_clean (cs(t := x))"
  by (auto simp: cs_clean_def)

lemma construct_n_subset: "STRING_safe_construct_n a b (Some val) n = Some v \<Longrightarrow> set v \<subseteq> set val"
  by (auto simp: STRING_safe_construct_n_def dest: in_set_takeD split: if_splits)

lemma cs_clean_add_entry:
  "cs_clean cs \<Longrightarrow> 59 \<notin> set val \<Longrightarrow> t \<noteq> io_cs_entry_hub_name \<Longrightarrow> t \<noteq> io_cs_entry_max \<Longrightarrow>
     cs_clean (snd (io_cs_add_entry E t cs val))"
  unfolding io_cs_add_entry_def Let_def
  by (auto intro!: cs_clean_upd dest: construct_n_subset)

lemma cs_clean_callback: "cs_clean cs \<Longrightarrow> 59 \<notin> set val \<Longrightarrow> cs_clean (snd (io_cs_parser_callback E cs key val))"
  unfolding io_cs_parser_callback_def by (simp add: cs_clean_add_entry)

lemma key_value_loop_invariant:
  assumes step: "\<And>c k v. P c \<Longrightarrow> delim \<notin> set v \<Longrightarrow> P (snd (visitor c k v))"
  shows "P c \<Longrightarrow> P (snd (key_value_loop visitor delim s c))"
proof (induction "length s" arbitrary: s c rule: less_induct)
  case less
  define key where "key = takeWhile (\<lambda>b. b \<noteq> 61) s"
  define rest where "rest = tl (dropWhile (\<lambda>b. b \<noteq> 61) s)"
  define val where "val = takeWhile (\<lambda>b. b \<noteq> delim) rest"
  define rest' where "rest' = dropWhile (\<lambda>b. b \<noteq> delim) rest"
  have len: "length (tl rest') < length s" if "dropWhile (\<lambda>b. b \<noteq> 61) s \<noteq> []"
    using that length_dropWhile_le [of "\<lambda>b. b \<noteq> 61" s] length_dropWhile_le [of "\<lambda>b. b \<noteq> delim" rest]
    by (cases "dropWhile (\<lambda>b. b \<noteq> 61) s") (auto simp: rest_def rest'_def)
  have val: "delim \<notin> set val"
    by (auto simp: val_def dest: set_takeWhileD)
  have run: "key_value_loop visitor delim s c = (
      if dropWhile (\<lambda>b. b \<noteq> 61) s = [] \<or> rest = [] then visitor c key []
      else if fst (visitor c key val) \<noteq> er_ok \<or> rest' = [] \<or> tl rest' = [] then visitor c key val
      else key_value_loop visitor delim (tl rest') (snd (visitor c key val)))"
    by (subst key_value_loop.simps) (auto simp: key_def rest_def val_def rest'_def Let_def split: prod.splits)
  show ?case
    unfolding run using less.hyps [OF len] step [OF less.prems val] step [OF less.prems, of "[]"] by auto
qed

lemma cs_clean_host_name:
  assumes "cs_clean cs"
  shows "cs_clean (snd (io_cs_get_host_name ok cs))"
proof -
  have "59 \<notin> set v" if "io_cs_get_endpoint cs = Some val" "STRING_safe_construct_n ok ok (Some (take len (drop off val))) i = Some v"
    for v val len off i
  proof -
    have "59 \<notin> set val"
      using assms that(1) by (auto simp: cs_clean_def io_cs_get_endpoint_def io_cs_get_entry_def)
    moreover have "set v \<subseteq> set val"
      using construct_n_subset [OF that(2)] by (auto dest: in_set_takeD in_set_dropD)
    ultimately show ?thesis by blast
  qed
  then show ?thesis
    using assms by (auto simp: io_cs_get_host_name_def Let_def intro!: cs_clean_upd split: option.splits)
qed


lemma cs_clean_key_name:
  assumes "cs_clean cs" "io_cs_get_unique_key_name E cs = (result, name, cs')"
  shows "cs_clean cs'"
proof -
  have "cs' = cs \<or> cs' = snd (io_cs_get_host_name (cse_alloc E (site_host_name 0)) cs)"
    using assms(2)
    by (auto simp: io_cs_get_unique_key_name_def Let_def split: option.splits prod.splits bool.splits if_splits)
  then show ?thesis
    using assms(1) cs_clean_host_name by auto
qed

lemma cs_clean_import:
  assumes "cs_clean cs" "\<And>n k p h. cse_import E n k p = (er_ok, h) \<Longrightarrow> 59 \<notin> set h"
  shows "cs_clean (snd (io_cs_import_key E cs))"
proof (cases "io_cs_get_unique_key_name E cs")
  case (fields result name cs')
  then have "cs_clean cs'"
    using cs_clean_key_name assms(1) by blast
  then show ?thesis
    using assms fields
    by (auto simp: io_cs_import_key_def Let_def intro!: cs_clean_upd split: option.splits prod.splits)
qed

text \<open>Where the platform has a credential store, the key is no longer part of an imported connection string.\<close>

lemma key_name_none: "io_cs_get_unique_key_name E cs \<noteq> (er_ok, None, cs')"
  by (auto simp: io_cs_get_unique_key_name_def Let_def split: option.splits prod.splits bool.splits if_splits)

lemma base64_none: "string_base64_to_byte_array decoder ok val \<noteq> (er_ok, None)"
  by (auto simp: string_base64_to_byte_array_def split: option.splits)

lemma import_removes_key:
  "io_cs_import_key E cs = (er_ok, cs') \<Longrightarrow> cse_cred E \<Longrightarrow> cs' io_cs_entry_shared_access_key = None"
  by (auto simp: io_cs_import_key_def Let_def key_name_none base64_none split: option.splits prod.splits if_splits)

lemma import_nothing:
  "cs io_cs_entry_shared_access_key = None \<or> \<not> cse_cred E \<Longrightarrow> io_cs_import_key E cs = (er_ok, cs)"
  by (auto simp: io_cs_import_key_def split: option.splits)

lemma host_name_cached:
  assumes "io_cs_get_host_name ok cs = (Some v, cs')"
  shows "cs' io_cs_entry_host_name = Some v" "io_cs_get_host_name ok' cs' = (Some v, cs')"
    "t \<noteq> io_cs_entry_host_name \<Longrightarrow> cs' t = cs t"
proof -
  show host: "cs' io_cs_entry_host_name = Some v"
    using assms by (auto simp: io_cs_get_host_name_def io_cs_get_entry_def Let_def split: option.splits if_splits)
  show "io_cs_get_host_name ok' cs' = (Some v, cs')"
    using host by (simp add: io_cs_get_host_name_def io_cs_get_entry_def)
  show "t \<noteq> io_cs_entry_host_name \<Longrightarrow> cs' t = cs t"
    using assms by (auto simp: io_cs_get_host_name_def Let_def split: option.splits if_splits)
qed

lemma validate_again:
  assumes "io_cs_validate E cs = (er_ok, cs')"
  shows "io_cs_validate E cs' = (er_ok, cs')" "cs' io_cs_entry_host_name \<noteq> None"
    "cs' io_cs_entry_shared_access_key = cs io_cs_entry_shared_access_key"
proof -
  obtain v where v: "io_cs_get_host_name (cse_alloc E (site_host_name 1)) cs = (Some v, cs')"
    using assms by (auto simp: io_cs_validate_def Let_def split: option.splits prod.splits if_splits)
  note cached = host_name_cached [OF v]
  show "cs' io_cs_entry_host_name \<noteq> None" "cs' io_cs_entry_shared_access_key = cs io_cs_entry_shared_access_key"
    using cached by simp_all
  show "io_cs_validate E cs' = (er_ok, cs')"
    using assms unfolding io_cs_validate_def v cached(2) by simp
qed

lemma cs_clean_validate: "cs_clean cs \<Longrightarrow> cs_clean (snd (io_cs_validate E cs))"
  using cs_clean_host_name [of cs "cse_alloc E (site_host_name 1)"]
  by (auto simp: io_cs_validate_def Let_def split: option.splits prod.splits if_splits)

section \<open>Printing\<close>

definition cs_pairs :: "io_cs \<Rightarrow> (io_cs_entry \<times> cstr) list \<Rightarrow> (cstr \<times> cstr) list" where
  "cs_pairs cs es = List.map_filter (\<lambda>(t, key). map_option (\<lambda>v. (key, v)) (cs t)) es"

lemma cs_pairs_simps [simp]:
  "cs_pairs cs [] = []"
  "cs_pairs cs ((t, key) # es) = (case cs t of None \<Rightarrow> cs_pairs cs es | Some v \<Rightarrow> (key, v) # cs_pairs cs es)"
  by (simp_all add: cs_pairs_def map_filter_simps split: option.splits)

lemma key_value_text_Cons:
  "key_value_text delim ((k, v) # kvs) = k @ 61 # v @ (if kvs = [] then [] else delim # key_value_text delim kvs)"
  by (cases kvs) auto

lemma append_entry:
  assumes "\<And>site. cse_alloc E site" "cs t = Some v"
  shows "io_cs_append_entry_to_STRING E cs t name c = (er_ok, c @ (if c = [] then [] else [59]) @ name @ v)"
proof -
  have "str '';'' = [59]"
    by code_simp
  then show ?thesis
    using assms by (simp add: io_cs_append_entry_to_STRING_def STRING_concat_def)
qed

lemma append_entries_text:
  assumes "\<And>site. cse_alloc E site"
  shows "append_entries E cs es c =
    (er_ok, c @ (if c \<noteq> [] \<and> cs_pairs cs es \<noteq> [] then [59] else []) @ key_value_text 59 (cs_pairs cs es))"
proof (induction es arbitrary: c)
  case (Cons e es)
  obtain t key where e: "e = (t, key)" by (cases e)
  show ?case
  proof (cases "cs t")
    case None
    then show ?thesis
      using Cons by (simp add: e io_cs_append_entry_to_STRING_def)
  next
    case (Some v)
    then show ?thesis
      using Cons [of "c @ (if c = [] then [] else [59]) @ (key @ [61]) @ v"]
      by (simp add: e append_entry [of E cs t v, OF assms Some] key_value_text_Cons del: key_value_text.simps(3))
  qed
qed simp

lemma to_STRING_text:
  assumes "\<And>site. cse_alloc E site"
  shows "io_cs_to_STRING E (Some cs) = Some (key_value_text 59 (cs_pairs cs cs_printed))"
  using assms by (simp add: io_cs_to_STRING_def io_cs_append_to_STRING_def append_entries_text)

section \<open>Parsing what was printed\<close>

definition cs_keys :: "(string \<times> io_cs_entry option) list" where
  "cs_keys = [
     (''HostName'', Some io_cs_entry_host_name),
     (''DeviceId'', Some io_cs_entry_device_id),
     (''SharedAccessKeyName'', Some io_cs_entry_shared_access_key_name),
     (''SharedAccessKey'', Some io_cs_entry_shared_access_key),
     (''ConsumerGroup'', Some io_cs_entry_consumer_group),
     (''Partitions'', Some io_cs_entry_partition_count),
     (''Endpoint'', Some io_cs_entry_endpoint),
     (''EntityPath'', Some io_cs_entry_entity),
     (''EndpointName'', Some io_cs_entry_endpoint_name),
     (''SharedAccessToken'', Some io_cs_entry_shared_access_token),
     (''SharedAccessKeyHandle'', Some io_cs_entry_shared_access_key_handle),
     (''GatewayHostName'', None)]"

lemma parser_callback_find:
  "io_cs_parser_callback E cs key val = (case map_option snd (find (\<lambda>(name, t). key_is key name) cs_keys) of
     None \<Rightarrow> (er_invalid_format, cs)
   | Some None \<Rightarrow> (er_ok, cs)
   | Some (Some t) \<Rightarrow> io_cs_add_entry E t cs val)"
  by (simp add: io_cs_parser_callback_def cs_keys_def)

lemma printed_key:
  assumes "(t, key) \<in> set cs_printed"
  shows "io_cs_parser_callback E cs key val = io_cs_add_entry E t cs val" "61 \<notin> set key"
proof -
  have "list_all (\<lambda>(t, key). 61 \<notin> set key \<and> map_option snd (find (\<lambda>(name, t). key_is key name) cs_keys) = Some (Some t)) cs_printed"
    by code_simp
  then show "61 \<notin> set key" "io_cs_parser_callback E cs key val = io_cs_add_entry E t cs val"
    using assms unfolding parser_callback_find list_all_iff by fastforce+
qed

lemma visit_printed:
  assumes "\<And>site. cse_alloc E site" "set es \<subseteq> set cs_printed" "distinct (map fst es)" "\<And>t. t \<in> fst ` set es \<Longrightarrow> cs0 t = None"
  shows "visit_all (io_cs_parser_callback E) (cs_pairs cs es) cs0 = (er_ok, \<lambda>t. if t \<in> fst ` set es then cs t else cs0 t)"
  using assms(2-4)
proof (induction es arbitrary: cs0)
  case (Cons e es)
  obtain t key where e: "e = (t, key)" by (cases e)
  have printed: "(t, key) \<in> set cs_printed"
    using Cons.prems(1) by (simp add: e)
  show ?case
  proof (cases "cs t")
    case None
    then show ?thesis
      using Cons.IH [of cs0] Cons.prems by (auto simp: e fun_eq_iff)
  next
    case (Some v)
    have add: "io_cs_add_entry E t cs0 v = (er_ok, cs0(t \<mapsto> v))"
      using assms(1) Cons.prems(3) by (simp add: io_cs_add_entry_def STRING_safe_construct_n_def e)
    have "visit_all (io_cs_parser_callback E) (cs_pairs cs es) (cs0(t \<mapsto> v)) =
        (er_ok, \<lambda>u. if u \<in> fst ` set es then cs u else (cs0(t \<mapsto> v)) u)"
      using Cons.prems by (intro Cons.IH) (auto simp: e)
    then show ?thesis
      using Some Cons.prems by (auto simp: e printed_key(1) [OF printed] add fun_eq_iff)
  qed
qed simp

lemma pairs_key_value_ok:
  assumes "cs_clean cs" "set es \<subseteq> set cs_printed"
  shows "list_all (key_value_ok 59) (cs_pairs cs es)"
  using assms(2)
proof (induction es)
  case (Cons e es)
  obtain t key where e: "e = (t, key)" by (cases e)
  then show ?case
    using Cons assms(1) printed_key(2) [of t key]
    by (auto simp: key_value_ok_def cs_clean_def split: option.splits)
qed simp

lemma printed_entries: "distinct (map fst cs_printed)" "t \<in> fst ` set cs_printed \<longleftrightarrow> t \<noteq> io_cs_entry_hub_name \<and> t \<noteq> io_cs_entry_max"
  by (simp_all add: cs_printed_def) (cases t; simp)

lemma parse_printed:
  assumes "\<And>site. cse_alloc E site" "cs_clean cs" "cs io_cs_entry_host_name \<noteq> None"
  shows "string_key_value_parser (Some (key_value_text 59 (cs_pairs cs cs_printed))) (Some (io_cs_parser_callback E)) 59 cs_zero = (er_ok, cs)"
proof -
  have ne: "cs_pairs cs cs_printed \<noteq> []"
    using assms(3) by (auto simp: cs_printed_def)
  have cs: "(\<lambda>t. if t \<in> fst ` set cs_printed then cs t else cs_zero t) = cs"
    using assms(2) by (auto simp: fun_eq_iff printed_entries(2) cs_zero_def cs_clean_def)
  show ?thesis
    using key_value_loop_text [OF ne pairs_key_value_ok [OF assms(2) subset_refl], of "io_cs_parser_callback E" cs_zero]
      visit_printed [OF assms(1) subset_refl printed_entries(1), of cs_zero cs]
    by (simp add: string_key_value_parser_def cs) (simp add: cs_zero_def)
qed

lemma created_from_string:
  assumes "io_cs_create_from_string E (Some s) = (er_ok, Some cs)" "\<And>n k p h. cse_import E n k p = (er_ok, h) \<Longrightarrow> 59 \<notin> set h"
  shows "cs_clean cs" "cs io_cs_entry_host_name \<noteq> None" "cs_check E cs = (er_ok, Some cs)"
proof -
  obtain cs1 cs2 where parse: "string_key_value_parser (Some s) (Some (io_cs_parser_callback E)) 59 cs_zero = (er_ok, cs1)"
    and imp: "io_cs_import_key E cs1 = (er_ok, cs2)" and val: "io_cs_validate E cs2 = (er_ok, cs)"
    using assms(1) by (auto simp: io_cs_create_from_string_def cs_check_def split: prod.splits if_splits)
  have "cs_clean (snd (string_key_value_parser (Some s) (Some (io_cs_parser_callback E)) 59 cs_zero))"
    unfolding string_key_value_parser_def prod.case option.case
    by (rule key_value_loop_invariant [where P = cs_clean]) (simp_all add: cs_clean_callback cs_clean_zero)
  then have "cs_clean cs2"
    using cs_clean_import [of cs1 E] assms(2) parse imp by simp
  then show "cs_clean cs"
    using cs_clean_validate [of cs2 E] val by simp
  show "cs io_cs_entry_host_name \<noteq> None"
    by (rule validate_again(2) [OF val])
  have "cs io_cs_entry_shared_access_key = None \<or> \<not> cse_cred E"
    using import_removes_key [OF imp] validate_again(3) [OF val] by auto
  then show "cs_check E cs = (er_ok, Some cs)"
    using validate_again(1) [OF val] by (simp add: cs_check_def import_nothing)
qed

text \<open>
  C14. A connection string that was created from a text is printed to a text from which it is created again,
  with every entry the same, when memory can be allocated and the key handles the credential store hands out
  contain no semicolon. The key is imported once: where the platform has a credential store it is replaced by
  its handle and the printed text no longer contains it.
\<close>

theorem io_cs_roundtrip:
  assumes "\<And>site. cse_alloc E site" "\<And>n k p h. cse_import E n k p = (er_ok, h) \<Longrightarrow> 59 \<notin> set h"
    "io_cs_create_from_string E (Some s) = (er_ok, Some cs)"
  shows "\<exists>text. io_cs_to_STRING E (Some cs) = Some text \<and> io_cs_create_from_string E (Some text) = (er_ok, Some cs) \<and>
    (cse_cred E \<longrightarrow> cs io_cs_entry_shared_access_key = None)"
proof -
  note created = created_from_string [OF assms(3,2)]
  have "io_cs_create_from_string E (Some (key_value_text 59 (cs_pairs cs cs_printed))) = (er_ok, Some cs)"
    using parse_printed [OF assms(1) created(1,2)] created(3) assms(1) by (simp add: io_cs_create_from_string_def)
  moreover have "cse_cred E \<longrightarrow> cs io_cs_entry_shared_access_key = None"
    using assms(3) import_removes_key validate_again(3)
    by (auto simp: io_cs_create_from_string_def cs_check_def split: prod.splits if_splits) metis
  ultimately show ?thesis
    using to_STRING_text [OF assms(1)] by blast
qed

definition cs_env_demo :: cs_env where
  "cs_env_demo = \<lparr>cse_cred = True, cse_import = (\<lambda>name key persist. (er_ok, str ''h1'')), cse_base64 = (\<lambda>v. Some [1, 2, 3]),
     cse_policy_import = 0, cse_sas_valid = (\<lambda>t. True), cse_alloc = (\<lambda>site. True)\<rparr>"

definition cs_text_demo :: cstr where
  "cs_text_demo = str ''HostName=hub.net;DeviceId=d1;SharedAccessKey=AQID''"

theorem io_cs_roundtrip_witness:
  "\<exists>cs text. io_cs_create_from_string cs_env_demo (Some cs_text_demo) = (er_ok, Some cs) \<and>
     io_cs_to_STRING cs_env_demo (Some cs) = Some text \<and> io_cs_create_from_string cs_env_demo (Some text) = (er_ok, Some cs) \<and>
     cs io_cs_entry_shared_access_key = None"
proof -
  have alloc: "cse_alloc cs_env_demo site" for site
    by (simp add: cs_env_demo_def)
  have handle: "cse_import cs_env_demo n k p = (er_ok, h) \<Longrightarrow> 59 \<notin> set h" for n k p h
    by (auto simp: cs_env_demo_def str_def)
  have "fst (io_cs_create_from_string cs_env_demo (Some cs_text_demo)) = er_ok"
    "snd (io_cs_create_from_string cs_env_demo (Some cs_text_demo)) = None \<longleftrightarrow> False"
    by code_simp+
  then obtain cs where created: "io_cs_create_from_string cs_env_demo (Some cs_text_demo) = (er_ok, Some cs)"
    by (cases "io_cs_create_from_string cs_env_demo (Some cs_text_demo)") auto
  have "cse_cred cs_env_demo"
    by (simp add: cs_env_demo_def)
  moreover have "\<exists>text. io_cs_to_STRING cs_env_demo (Some cs) = Some text \<and> io_cs_create_from_string cs_env_demo (Some text) = (er_ok, Some cs) \<and>
      (cse_cred cs_env_demo \<longrightarrow> cs io_cs_entry_shared_access_key = None)"
    by (rule io_cs_roundtrip [OF _ _ created]) (use alloc handle in blast)+
  ultimately show ?thesis
    using created by blast
qed


section \<open>Host names of endpoints\<close>

lemma trim_scheme_sb:
  assumes "6 \<le> length h"
  shows "string_trim_scheme (Some (115 # 98 # 58 # 47 # 47 # h)) (Some (Suc (Suc (Suc (Suc (Suc (length h))))))) = Some (5, length h)"
proof -
  have "trim_scheme_loop ([115, 98, 58, 47, 47] @ h) (Suc (Suc (Suc (Suc (Suc (length h)))))) 0 = (5, length h)"
    using assms by (simp add: trim_scheme_loop.simps [of _ _ 0] trim_scheme_loop.simps [of _ _ 1]
        trim_scheme_loop.simps [of _ _ "Suc 0"] trim_scheme_loop.simps [of _ _ 2] SIZEOF_POINTER_def numeral_2_eq_2 [symmetric])
  then show ?thesis
    using assms by (simp add: string_trim_scheme_def SIZEOF_POINTER_def)
qed

lemma endpoint_only:
  assumes "\<And>site. cse_alloc E site" "59 \<notin> set v"
  shows "io_cs_create_from_string E (Some (str ''Endpoint='' @ v)) = cs_check E (cs_zero(io_cs_entry_endpoint \<mapsto> v))"
proof -
  have split: "str ''Endpoint='' @ v = key_value_text 59 [(str ''Endpoint'', v)]"
    by (simp add: str_def)
  have "(io_cs_entry_endpoint, str ''Endpoint'') \<in> set cs_printed"
    by (simp add: cs_printed_def)
  note cb = printed_key [OF this]
  have "io_cs_parser_callback E cs_zero (str ''Endpoint'') v = (er_ok, cs_zero(io_cs_entry_endpoint \<mapsto> v))"
    using assms(1) by (simp add: cb io_cs_add_entry_def STRING_safe_construct_n_def cs_zero_def)
  then show ?thesis
    using key_value_loop_text [of "[(str ''Endpoint'', v)]" 59 "io_cs_parser_callback E" cs_zero] assms cb(2)
    by (simp add: io_cs_create_from_string_def split string_key_value_parser_def key_value_ok_def del: key_value_text.simps)
qed

text \<open>
  C16. The host name of an endpoint is found only when a slash follows it: a connection string whose endpoint is
  \<open>sb://\<close> and a valid host name is rejected with \<open>er_invalid_format\<close>, while the same endpoint with a slash at its
  end is accepted and has that host name. The loop that looks for the slash also tests for the end of the string,
  which lies behind the characters it looks at.
\<close>

theorem endpoint_needs_slash:
  assumes "\<And>site. cse_alloc E site" "59 \<notin> set h" "47 \<notin> set h" "6 \<le> length h" "io_cs_validate_host_name h = er_ok"
  shows "io_cs_create_from_string E (Some (str ''Endpoint=sb://'' @ h)) = (er_invalid_format, None) \<and>
    (\<exists>cs. io_cs_create_from_string E (Some (str ''Endpoint=sb://'' @ h @ [47])) = (er_ok, Some cs) \<and> cs io_cs_entry_host_name = Some h)"
proof -
  have split: "str ''Endpoint=sb://'' @ x = str ''Endpoint='' @ [115, 98, 58, 47, 47] @ x" for x
    by (simp add: str_def)
  have create: "io_cs_create_from_string E (Some (str ''Endpoint=sb://'' @ x)) =
      cs_check E (cs_zero(io_cs_entry_endpoint \<mapsto> [115, 98, 58, 47, 47] @ x))" if "59 \<notin> set x" for x
    unfolding split by (rule endpoint_only) (use assms(1) that in auto)
  have check: "cs_check E (cs_zero(io_cs_entry_endpoint \<mapsto> v)) = (case io_cs_validate E (cs_zero(io_cs_entry_endpoint \<mapsto> v)) of
      (result, cs) \<Rightarrow> if result \<noteq> er_ok then (result, None) else (er_ok, Some cs))" for v
    by (simp add: cs_check_def import_nothing cs_zero_def)
  have none: "io_cs_get_host_name ok (cs_zero(io_cs_entry_endpoint \<mapsto> 115 # 98 # 58 # 47 # 47 # h)) =
      (None, cs_zero(io_cs_entry_endpoint \<mapsto> 115 # 98 # 58 # 47 # 47 # h))" for ok
    using trim_scheme_sb [OF assms(4)] assms(3)
    by (simp add: io_cs_get_host_name_def io_cs_get_endpoint_def io_cs_get_entry_def cs_zero_def Let_def takeWhile_neq_all)
  have some: "io_cs_get_host_name True (cs_zero(io_cs_entry_endpoint \<mapsto> 115 # 98 # 58 # 47 # 47 # h @ [47])) =
      (Some h, cs_zero(io_cs_entry_endpoint \<mapsto> 115 # 98 # 58 # 47 # 47 # h @ [47], io_cs_entry_host_name \<mapsto> h))"
    using trim_scheme_sb [of "h @ [47]"] assms(3,4)
    by (simp add: io_cs_get_host_name_def io_cs_get_endpoint_def io_cs_get_entry_def cs_zero_def Let_def takeWhile_neq_append
        STRING_safe_construct_n_def)
  have "h \<noteq> []"
    using assms(4) by auto
  then show ?thesis
    using assms(1,5) create [OF assms(2)] create [of "h @ [47]"] assms(2)
    by (simp add: check io_cs_validate_def none some) (simp add: cs_zero_def)
qed

theorem endpoint_needs_slash_witness:
  "io_cs_create_from_string cs_env_demo (Some (str ''Endpoint=sb://'' @ str ''ns1.net'')) = (er_invalid_format, None) \<and>
   (\<exists>cs. io_cs_create_from_string cs_env_demo (Some (str ''Endpoint=sb://'' @ str ''ns1.net'' @ [47])) = (er_ok, Some cs) \<and>
      cs io_cs_entry_host_name = Some (str ''ns1.net''))"
proof (rule endpoint_needs_slash)
  show "cse_alloc cs_env_demo site" for site
    by (simp add: cs_env_demo_def)
qed code_simp+

end
