(* ===== verification/Cs_Token.thy ===== *)
theory Cs_Token
  imports Io_Cs
begin

text \<open>
  From a connection string to a token: the provider made from a connection string with a shared access key
  signs the scope of the device and the expiry, and asks for renewal before the token expires.
\<close>

section \<open>Printed numbers\<close>

lemma length_dec: "n < 10 ^ Suc k \<Longrightarrow> length (dec n) \<le> Suc k"
proof (induction k arbitrary: n)
  case 0
  then show ?case by (simp add: dec.simps)
next
  case (Suc k)
  have "n div 10 < 10 ^ Suc k"
    using Suc.prems by (simp add: less_mult_imp_div_less)
  then show ?case
    using Suc.IH [of "n div 10"] by (simp add: dec.simps [of n])
qed

lemma expiry_text_dec:
  assumes "0 \<le> e" "e < 2 ^ 31"
  shows "expiry_text e = dec (nat e)"
proof -
  have "length (dec (nat e)) \<le> Suc 9"
    using assms by (intro length_dec) simp
  then show ?thesis
    using assms int32_of_small [of "nat e"] by (simp add: expiry_text_def print_d_def)
qed

lemma concat_all_ok: "(\<And>n. ok n) \<Longrightarrow> concat_all ok n vs s = (True, s @ concat vs)"
  by (induction vs arbitrary: n s) (simp_all add: STRING_concat_def)

section \<open>The token of a device\<close>

definition device_scope :: "cstr \<Rightarrow> cstr \<Rightarrow> cstr" where
  "device_scope host device = host @ str ''/devices/'' @ device"

definition sas_token_text :: "cstr \<Rightarrow> cstr \<Rightarrow> int \<Rightarrow> cstr \<Rightarrow> cstr" where
  "sas_token_text scope sig expiry policy =
     str ''SharedAccessSignature sr='' @ scope @ str ''&sig='' @ sig @ str ''&se='' @ dec (nat expiry) @ str ''&skn='' @ policy"

lemma device_provider:
  assumes "\<And>site. cse_alloc E site" "\<not> cse_cred E" "cs io_cs_entry_shared_access_token = None" "cs io_cs_entry_endpoint = None"
    "cs io_cs_entry_host_name = Some host" "cs io_cs_entry_device_id = Some device" "cs io_cs_entry_shared_access_key = Some key"
  shows "io_cs_create_token_provider E ttl fresh cs h = Ok (er_ok, Some fresh, cs, h(fresh \<mapsto> \<lparr>tp_refs = 1,
    tp_impl = io_sas_token_provider (device_scope host device) (case_option [] (\<lambda>p. p) (cs io_cs_entry_shared_access_key_name)) key ttl\<rparr>))"
  using assms
  by (simp add: io_cs_create_token_provider_def io_cs_get_endpoint_def io_cs_get_entry_def io_cs_get_host_name_def
      STRING_construct_def cs_scope_suffix_def io_cs_get_device_id_def cs_scope_text_def STRING_concat_def Let_def
      io_iothub_token_provider_create_def io_cs_get_shared_access_key_name_def device_scope_def split: option.split)

lemma sas_token_created:
  assumes "\<And>n. te_alloc T n" "0 \<le> e" "e < 2 ^ 31"
    "te_hmac T key (scope @ [10] @ dec (nat e)) = (er_ok, mac)" "te_base64 T mac = Some b" "te_url_encode T b = Some sig"
  shows "io_sas_token_create T key scope policy e = (er_ok, Some (sas_token_text scope sig e policy))"
  using assms by (simp add: io_sas_token_create_def concat_all_ok expiry_text_dec sas_token_text_def del: concat_all.simps)

text \<open>
  C15. The token of a device: a connection string with the host name, the device and the shared access key gives
  a provider whose tokens are for the scope \<open>{host}/devices/{device}\<close>, carry the signature of that scope and the
  expiry \<open>now + ttl\<close> under the key, and are to be renewed after four fifths of their time to live, as long as
  neither the expiry nor the milliseconds exceed an \<open>int32_t\<close>.
\<close>

theorem sas_token_of_device:
  assumes "\<And>site. cse_alloc E site" "\<not> cse_cred E" "cs io_cs_entry_shared_access_token = None" "cs io_cs_entry_endpoint = None"
    "cs io_cs_entry_host_name = Some host" "cs io_cs_entry_device_id = Some device" "cs io_cs_entry_shared_access_key = Some key"
    "cs io_cs_entry_shared_access_key_name = Some policy"
    and "\<And>n. te_alloc T n" "0 \<le> te_now T" "0 < ttl" "te_now T + ttl < 2 ^ 31" "ttl * 800 < 2 ^ 31"
    "te_hmac T key (device_scope host device @ [10] @ dec (nat (te_now T + ttl))) = (er_ok, mac)"
    "te_base64 T mac = Some b" "te_url_encode T b = Some sig"
  shows "\<exists>h'. io_cs_create_token_provider E ttl fresh cs h = Ok (er_ok, Some fresh, cs, h') \<and>
    io_token_provider_new_token T h' fresh =
      Some (er_ok, Some (sas_token_text (device_scope host device) sig (te_now T + ttl) policy), Some (800 * ttl)) \<and>
    0 < 800 * ttl \<and> 800 * ttl < 1000 * ttl"
proof -
  have now: "int32_of (te_now T) = te_now T" "int32_of (te_now T + ttl) = te_now T + ttl" "int32_of (ttl * 800) = 800 * ttl"
    using int32_of_small [of "nat (te_now T)"] int32_of_small [of "nat (te_now T + ttl)"] int32_of_small [of "nat (ttl * 800)"] assms(10-13)
    by (simp_all add: nat_less_iff)
  have "io_sas_token_create T key (device_scope host device) policy (te_now T + ttl) =
      (er_ok, Some (sas_token_text (device_scope host device) sig (te_now T + ttl) policy))"
    by (rule sas_token_created) (use assms(9-16) in auto)
  then show ?thesis
    using device_provider [OF assms(1-7), of ttl fresh h] assms(8,11)
    by (simp add: io_token_provider_new_token_def io_token_provider_on_new_iothub_token_def now)
qed

definition device_cs_demo :: io_cs where
  "device_cs_demo = cs_zero(io_cs_entry_host_name \<mapsto> str ''hub.net'', io_cs_entry_device_id \<mapsto> str ''d1'',
     io_cs_entry_shared_access_key \<mapsto> str ''AQID'', io_cs_entry_shared_access_key_name \<mapsto> str ''device'')"

definition plain_env_demo :: cs_env where
  "plain_env_demo = \<lparr>cse_cred = False, cse_import = (\<lambda>name key persist. (er_not_supported, [])), cse_base64 = (\<lambda>v. None),
     cse_policy_import = 0, cse_sas_valid = (\<lambda>t. True), cse_alloc = (\<lambda>site. True)\<rparr>"

definition token_env_demo :: token_env where
  "token_env_demo = \<lparr>te_alloc = (\<lambda>n. True), te_hmac = (\<lambda>key text. (er_ok, take 4 text)), te_base64 = Some, te_url_encode = Some,
     te_now = 1500000000\<rparr>"

theorem sas_token_of_device_witness:
  "\<exists>h'. io_cs_create_token_provider plain_env_demo 28800 3 device_cs_demo (\<lambda>_. None) = Ok (er_ok, Some 3, device_cs_demo, h') \<and>
    io_token_provider_new_token token_env_demo h' 3 =
      Some (er_ok, Some (sas_token_text (device_scope (str ''hub.net'') (str ''d1'')) (str ''hub.'') 1500028800 (str ''device'')), Some 23040000)"
proof -
  have now: "te_now token_env_demo + 28800 = 1500028800"
    by (simp add: token_env_demo_def)
  have "\<exists>h'. io_cs_create_token_provider plain_env_demo 28800 3 device_cs_demo (\<lambda>_. None) = Ok (er_ok, Some 3, device_cs_demo, h') \<and>
    io_token_provider_new_token token_env_demo h' 3 =
      Some (er_ok, Some (sas_token_text (device_scope (str ''hub.net'') (str ''d1'')) (str ''hub.'') (te_now token_env_demo + 28800) (str ''device'')),
        Some (800 * 28800)) \<and> (0 :: int) < 800 * 28800 \<and> (800 :: int) * 28800 < 1000 * 28800"
    by (rule sas_token_of_device)
      (simp_all add: plain_env_demo_def device_cs_demo_def token_env_demo_def cs_zero_def device_scope_def str_def)
  then show ?thesis
    unfolding now by auto
qed

end
