(* ===== verification/Util_Ringbuf.thy ===== *)
theory Util_Ringbuf
  imports Prelude
begin

text \<open>
  The byte ring buffer of \<^verbatim>\<open>src/src/util_ringbuf.c\<close>. The buffer is modelled with its
  pointers as offsets from \<open>start\<close>; the \<open>end\<close> pointer is one past the last byte of the
  allocation. A bounded FIFO of bytes is its contract, stated as the locale \<open>byte_fifo\<close>;
  the ring buffer interprets it.
\<close>

section \<open>The ring buffer\<close>

record ring_buffer =
  rb_mem :: "u8 list"
  rb_read_pos :: nat
  rb_write_pos :: nat

definition rb_end :: "ring_buffer \<Rightarrow> nat" where
  "rb_end rb = length (rb_mem rb)"

text \<open>
  \<open>ring_buffer_create\<close>: two allocations, each of which may fail; the number of bytes asked
  for is \<open>size + 1\<close> in \<open>size_t\<close>. The last argument says whether the two allocations succeed.
\<close>

definition ring_buffer_create :: "nat \<Rightarrow> bool \<times> bool \<Rightarrow> ring_buffer option" where
  "ring_buffer_create sz alloc =
     (if \<not> fst alloc then None
      else if \<not> snd alloc then None
      else Some \<lparr>rb_mem = replicate (size_add sz 1) 0, rb_read_pos = 0, rb_write_pos = 0\<rparr>)"

text \<open>
  One copy of at most \<open>avail\<close> bytes of \<open>buf\<close> from offset \<open>written\<close>, as both halves of
  \<open>ring_buffer_write\<close> do it: \<open>(rb', len', written')\<close>.
\<close>

definition rb_copy_in ::
  "ring_buffer \<Rightarrow> u8 list \<Rightarrow> nat \<Rightarrow> nat \<Rightarrow> nat \<Rightarrow> ring_buffer \<times> nat \<times> nat" where
  "rb_copy_in rb buf avail0 len written =
     (let avail = (if len < avail0 then len else avail0);
          len' = size_sub len avail
      in if avail > 0
         then (rb\<lparr>rb_mem := mem_put (rb_mem rb) (rb_write_pos rb) (drop written buf) avail,
                  rb_write_pos := rb_write_pos rb + avail\<rparr>, len', written + avail)
         else (rb, len', written))"

text \<open>
  The first half of \<open>ring_buffer_write\<close>: with the write pointer at or ahead of the read
  pointer, fill up to the end of the allocation, one byte short of it when the reader stands
  at the start, and wrap the write pointer.
\<close>

definition rb_write_to_end ::
  "ring_buffer \<Rightarrow> u8 list \<Rightarrow> nat \<Rightarrow> ring_buffer \<times> nat \<times> nat" where
  "rb_write_to_end rb buf len =
     (let avail = size_sub (rb_end rb) (rb_write_pos rb);
          (avail', len') =
            (if rb_read_pos rb = 0
             then let a = size_sub avail 1 in (a, if len > a then a else len)
             else (avail, len));
          (r, l, w) = rb_copy_in rb buf avail' len' 0
      in (if rb_write_pos r = rb_end r then r\<lparr>rb_write_pos := 0\<rparr> else r, l, w))"

definition ring_buffer_write :: "ring_buffer \<Rightarrow> u8 list \<Rightarrow> nat \<Rightarrow> nat \<times> ring_buffer" where
  "ring_buffer_write rb buf len =
     (let read_pos = rb_read_pos rb;
          (rb1, len1, written1) =
            (if rb_write_pos rb \<ge> read_pos then rb_write_to_end rb buf len else (rb, len, 0))
      in if len1 > 0
         then let avail = size_sub (size_sub read_pos (rb_write_pos rb1)) 1;
                  (r, l, w) = rb_copy_in rb1 buf avail len1 written1
              in (w, r)
         else (written1, rb1))"

definition ring_buffer_is_empty :: "ring_buffer \<Rightarrow> bool" where
  "ring_buffer_is_empty rb \<longleftrightarrow> rb_write_pos rb = rb_read_pos rb"

definition ring_buffer_clear :: "ring_buffer \<Rightarrow> ring_buffer" where
  "ring_buffer_clear rb = rb\<lparr>rb_read_pos := 0, rb_write_pos := 0\<rparr>"

definition ring_buffer_capacity :: "ring_buffer \<Rightarrow> nat" where
  "ring_buffer_capacity rb =
     (let read_pos = rb_read_pos rb
      in if rb_write_pos rb \<ge> read_pos
         then size_sub (size_add (size_sub (rb_end rb) (rb_write_pos rb)) read_pos) 1
         else size_sub (size_sub read_pos (rb_write_pos rb)) 1)"

text \<open>The mirror image for reading: \<open>(rb', bytes so far, len')\<close>.\<close>

definition rb_copy_out ::
  "ring_buffer \<Rightarrow> u8 list \<Rightarrow> nat \<Rightarrow> nat \<Rightarrow> ring_buffer \<times> u8 list \<times> nat" where
  "rb_copy_out rb out avail0 len =
     (let avail = (if len < avail0 then len else avail0);
          len' = size_sub len avail
      in if avail > 0
         then (rb\<lparr>rb_read_pos := rb_read_pos rb + avail\<rparr>,
               out @ mem_get (rb_mem rb) (rb_read_pos rb) avail, len')
         else (rb, out, len'))"

definition ring_buffer_read :: "ring_buffer \<Rightarrow> nat \<Rightarrow> u8 list \<times> ring_buffer" where
  "ring_buffer_read rb len =
     (let write_pos = rb_write_pos rb;
          (rb1, out1, len1) =
            (if rb_read_pos rb > write_pos
             then let (r, b, l) = rb_copy_out rb [] (size_sub (rb_end rb) (rb_read_pos rb)) len
                  in (if rb_read_pos r = rb_end r then r\<lparr>rb_read_pos := 0\<rparr> else r, b, l)
             else (rb, [], len))
      in if len1 > 0
         then let (r, b, l) = rb_copy_out rb1 out1 (size_sub write_pos (rb_read_pos rb1)) len1
              in (b, r)
         else (out1, rb1))"

definition ring_buffer_available :: "ring_buffer \<Rightarrow> nat" where
  "ring_buffer_available rb =
     (let write_pos = rb_write_pos rb
      in if rb_read_pos rb > write_pos
         then size_add (size_sub (rb_end rb) (rb_read_pos rb)) write_pos
         else size_sub write_pos (rb_read_pos rb))"

section \<open>Invariant and abstraction\<close>

definition rb_inv :: "ring_buffer \<Rightarrow> bool" where
  "rb_inv rb \<longleftrightarrow> rb_read_pos rb < length (rb_mem rb) \<and> rb_write_pos rb < length (rb_mem rb) \<and>
     length (rb_mem rb) < SIZE_MOD"

definition rb_contents :: "ring_buffer \<Rightarrow> u8 list" where
  "rb_contents rb =
     (if rb_read_pos rb \<le> rb_write_pos rb
      then mem_get (rb_mem rb) (rb_read_pos rb) (rb_write_pos rb - rb_read_pos rb)
      else drop (rb_read_pos rb) (rb_mem rb) @ take (rb_write_pos rb) (rb_mem rb))"

definition rb_bound :: "ring_buffer \<Rightarrow> nat" where
  "rb_bound rb = length (rb_mem rb) - 1"

lemmas rb_defs = rb_inv_def rb_contents_def rb_bound_def rb_end_def

lemma length_rb_contents:
  "rb_inv rb \<Longrightarrow> length (rb_contents rb) =
     (if rb_read_pos rb \<le> rb_write_pos rb then rb_write_pos rb - rb_read_pos rb
      else length (rb_mem rb) - rb_read_pos rb + rb_write_pos rb)"
  by (auto simp: rb_defs mem_get_def)

lemma rb_contents_bounded: "rb_inv rb \<Longrightarrow> length (rb_contents rb) \<le> rb_bound rb"
  by (auto simp: length_rb_contents rb_bound_def rb_inv_def)

lemma rb_copy_in_simp:
  assumes "len < SIZE_MOD"
  shows "rb_copy_in rb buf avail len w =
     (let n = min len avail in
      (rb\<lparr>rb_mem := mem_put (rb_mem rb) (rb_write_pos rb) (drop w buf) n,
          rb_write_pos := rb_write_pos rb + n\<rparr>, len - n, w + n))"
  using assms by (auto simp: rb_copy_in_def Let_def min_def size_sub_def)

lemma rb_copy_out_simp:
  "rb_copy_out rb b avail len =
     (let n = min len avail in
      (rb\<lparr>rb_read_pos := rb_read_pos rb + n\<rparr>, b @ mem_get (rb_mem rb) (rb_read_pos rb) n, len - n))"
  by (auto simp: rb_copy_out_def Let_def min_def size_sub_def)

text \<open>The three ways a write goes: behind the reader, up to the end, and around the end.\<close>

lemma ring_buffer_write_behind:
  assumes "rb_inv rb" "rb_write_pos rb < rb_read_pos rb" "len < SIZE_MOD"
  shows "ring_buffer_write rb buf len =
    (let n = min len (rb_read_pos rb - rb_write_pos rb - 1) in
     (n, rb\<lparr>rb_mem := mem_put (rb_mem rb) (rb_write_pos rb) buf n,
            rb_write_pos := rb_write_pos rb + n\<rparr>))"
proof -
  have "\<not> rb_read_pos rb \<le> rb_write_pos rb"
    using assms(2) by simp
  moreover have "size_sub (size_sub (rb_read_pos rb) (rb_write_pos rb)) 1 =
      rb_read_pos rb - rb_write_pos rb - 1"
    using assms(2) by (simp add: size_sub_def)
  ultimately show ?thesis
    using assms(3) by (simp add: ring_buffer_write_def Let_def rb_copy_in_simp)
qed

lemma rb_write_to_end_start:
  assumes "rb_inv rb" "rb_read_pos rb = 0" "len < SIZE_MOD" "len \<le> length buf"
  shows "rb_write_to_end rb buf len =
    (let n = min len (rb_end rb - rb_write_pos rb - 1) in
     (rb\<lparr>rb_mem := mem_put (rb_mem rb) (rb_write_pos rb) buf n,
          rb_write_pos := rb_write_pos rb + n\<rparr>, 0, n))"
proof -
  define a where "a = rb_end rb - rb_write_pos rb - 1"
  define n where "n = min len a"
  have w: "rb_write_pos rb < rb_end rb"
    using assms(1) by (simp add: rb_defs)
  then have a: "size_sub (size_sub (rb_end rb) (rb_write_pos rb)) 1 = a"
    by (simp add: size_sub_def a_def)
  have l: "(if len > a then a else len) = n" "n < SIZE_MOD" "min n a = n"
    using assms(3) by (auto simp: n_def)
  have "rb_write_pos rb + n < rb_end rb"
    using w by (auto simp: n_def a_def)
  moreover have "rb_end (rb\<lparr>rb_mem := mem_put (rb_mem rb) (rb_write_pos rb) buf n,
      rb_write_pos := rb_write_pos rb + n\<rparr>) = rb_end rb"
    using w assms(4) by (simp add: rb_end_def length_mem_put n_def a_def)
  ultimately show ?thesis
    unfolding rb_write_to_end_def Let_def a a_def [symmetric] n_def [symmetric]
    using assms(2) l by (simp add: rb_copy_in_simp)
qed

lemma rb_write_to_end_rest:
  assumes "rb_inv rb" "0 < rb_read_pos rb" "len < SIZE_MOD" "len \<le> length buf"
  shows "rb_write_to_end rb buf len =
    (let n = min len (rb_end rb - rb_write_pos rb) in
     (rb\<lparr>rb_mem := mem_put (rb_mem rb) (rb_write_pos rb) buf n,
         rb_write_pos := (if n = rb_end rb - rb_write_pos rb then 0 else rb_write_pos rb + n)\<rparr>,
      len - n, n))"
proof -
  define n where "n = min len (rb_end rb - rb_write_pos rb)"
  have w: "rb_write_pos rb < rb_end rb"
    using assms(1) by (simp add: rb_defs)
  then have a: "size_sub (rb_end rb) (rb_write_pos rb) = rb_end rb - rb_write_pos rb"
    by (simp add: size_sub_def)
  have "rb_end (rb\<lparr>rb_mem := mem_put (rb_mem rb) (rb_write_pos rb) buf n,
      rb_write_pos := rb_write_pos rb + n\<rparr>) = rb_end rb"
    using w assms(4) by (simp add: rb_end_def length_mem_put n_def)
  moreover have "rb_write_pos rb + n = rb_end rb \<longleftrightarrow> n = rb_end rb - rb_write_pos rb"
    using w by auto
  ultimately show ?thesis
    using assms(2,3) by (simp add: rb_write_to_end_def Let_def a rb_copy_in_simp n_def [symmetric])
qed

text \<open>What the copies do to the contents.\<close>

lemma drop_mem_put_after:
  "pos + n \<le> r \<Longrightarrow> pos + n \<le> length mem \<Longrightarrow> n \<le> length src \<Longrightarrow>
   drop r (mem_put mem pos src n) = drop r mem"
  by (simp add: mem_put_def)

lemma take_mem_put_upto:
  "pos + n \<le> length mem \<Longrightarrow> n \<le> length src \<Longrightarrow>
   take (pos + n) (mem_put mem pos src n) = take pos mem @ take n src"
  by (simp add: mem_put_def)

lemma mem_get_mem_put_upto:
  assumes "r \<le> pos" "pos + n \<le> length mem" "n \<le> length src"
  shows "mem_get (mem_put mem pos src n) r (pos + n - r) = mem_get mem r (pos - r) @ take n src"
proof -
  have "mem_get (mem_put mem pos src n) r (pos + n - r) =
      drop r (take (pos + n) (mem_put mem pos src n))"
    using assms(1) by (simp add: mem_get_def take_drop)
  also have "\<dots> = drop r (take pos mem) @ take n src"
    using assms by (simp add: take_mem_put_upto)
  finally show ?thesis
    using assms(1) by (simp add: mem_get_def take_drop)
qed

lemma drop_mem_put_end:
  assumes "r \<le> pos" "pos \<le> length mem" "length mem - pos \<le> length src"
  shows "drop r (mem_put mem pos src (length mem - pos)) =
      mem_get mem r (pos - r) @ take (length mem - pos) src"
  using assms by (simp add: mem_put_def mem_get_def take_drop)

lemma rb_contents_write_behind:
  assumes "rb_inv rb" "rb_write_pos rb + n < rb_read_pos rb" "n \<le> length buf"
  shows "rb_contents (rb\<lparr>rb_mem := mem_put (rb_mem rb) (rb_write_pos rb) buf n,
            rb_write_pos := rb_write_pos rb + n\<rparr>) = rb_contents rb @ take n buf"
  using assms by (simp add: rb_defs drop_mem_put_after take_mem_put_upto)

lemma rb_contents_write_ahead:
  assumes "rb_inv rb" "rb_read_pos rb \<le> rb_write_pos rb" "rb_write_pos rb + n < rb_end rb"
    "n \<le> length buf"
  shows "rb_contents (rb\<lparr>rb_mem := mem_put (rb_mem rb) (rb_write_pos rb) buf n,
            rb_write_pos := rb_write_pos rb + n\<rparr>) = rb_contents rb @ take n buf"
  using assms by (simp add: rb_defs mem_get_mem_put_upto)

lemma rb_contents_write_around:
  assumes "rb_inv rb" "rb_read_pos rb \<le> rb_write_pos rb" "n < rb_read_pos rb"
    "a = rb_end rb - rb_write_pos rb" "a + n \<le> length buf"
  shows "rb_contents (rb\<lparr>rb_mem :=
              mem_put (mem_put (rb_mem rb) (rb_write_pos rb) buf a) 0 (drop a buf) n,
            rb_write_pos := n\<rparr>) = rb_contents rb @ take (a + n) buf"
proof -
  let ?m = "mem_put (rb_mem rb) (rb_write_pos rb) buf a"
  have len: "length ?m = length (rb_mem rb)"
    using assms by (simp add: rb_defs length_mem_put)
  have "drop (rb_read_pos rb) (mem_put ?m 0 (drop a buf) n) = drop (rb_read_pos rb) ?m"
    using assms len by (intro drop_mem_put_after) (auto simp: rb_defs)
  also have "\<dots> = mem_get (rb_mem rb) (rb_read_pos rb) (rb_write_pos rb - rb_read_pos rb) @ take a buf"
    using assms by (simp add: rb_defs drop_mem_put_end)
  finally have d: "drop (rb_read_pos rb) (mem_put ?m 0 (drop a buf) n) =
      mem_get (rb_mem rb) (rb_read_pos rb) (rb_write_pos rb - rb_read_pos rb) @ take a buf" .
  have "take n (mem_put ?m 0 (drop a buf) n) = take n (drop a buf)"
    using take_mem_put_upto [of 0 n ?m "drop a buf"] assms len by (simp add: rb_defs)
  then show ?thesis
    using assms(2,3) d by (simp add: rb_contents_def take_add)
qed

text \<open>What a write owes its caller, and the four cases in which it delivers it.\<close>

definition rb_write_ok :: "ring_buffer \<Rightarrow> u8 list \<Rightarrow> nat \<Rightarrow> nat \<times> ring_buffer \<Rightarrow> bool" where
  "rb_write_ok rb buf len res \<longleftrightarrow> (case res of (n, rb') \<Rightarrow>
     n = min len (rb_bound rb - length (rb_contents rb)) \<and>
     rb_contents rb' = rb_contents rb @ take n buf \<and>
     rb_inv rb' \<and> rb_bound rb' = rb_bound rb)"

lemma rb_write_ok_behind:
  assumes "rb_inv rb" "len < SIZE_MOD" "len \<le> length buf" "rb_write_pos rb < rb_read_pos rb"
  shows "rb_write_ok rb buf len (ring_buffer_write rb buf len)"
proof -
  define n where "n = min len (rb_read_pos rb - rb_write_pos rb - 1)"
  have n: "rb_write_pos rb + n < rb_read_pos rb" "n \<le> length buf"
    using assms(3,4) by (auto simp: n_def)
  have "n = min len (rb_bound rb - length (rb_contents rb))"
    using assms(1,4) by (simp add: n_def length_rb_contents rb_bound_def rb_inv_def)
  moreover have "ring_buffer_write rb buf len =
      (n, rb\<lparr>rb_mem := mem_put (rb_mem rb) (rb_write_pos rb) buf n,
          rb_write_pos := rb_write_pos rb + n\<rparr>)"
    using ring_buffer_write_behind [OF assms(1,4,2), of buf] by (simp add: Let_def n_def)
  ultimately show ?thesis
    using rb_contents_write_behind [OF assms(1) n] n assms(1)
    by (simp add: rb_write_ok_def rb_inv_def rb_bound_def length_mem_put)
qed

lemma rb_write_ok_start:
  assumes "rb_inv rb" "len < SIZE_MOD" "len \<le> length buf" "rb_read_pos rb = 0"
  shows "rb_write_ok rb buf len (ring_buffer_write rb buf len)"
proof -
  define n where "n = min len (rb_end rb - rb_write_pos rb - 1)"
  have n: "rb_read_pos rb \<le> rb_write_pos rb" "rb_write_pos rb + n < rb_end rb" "n \<le> length buf"
    using assms by (auto simp: n_def rb_defs)
  have "n = min len (rb_bound rb - length (rb_contents rb))"
    using assms by (simp add: n_def length_rb_contents rb_bound_def rb_inv_def rb_end_def)
  moreover have "ring_buffer_write rb buf len =
      (n, rb\<lparr>rb_mem := mem_put (rb_mem rb) (rb_write_pos rb) buf n,
          rb_write_pos := rb_write_pos rb + n\<rparr>)"
    using rb_write_to_end_start [OF assms(1,4,2,3)] assms(4)
    by (simp add: ring_buffer_write_def Let_def n_def)
  ultimately show ?thesis
    using rb_contents_write_ahead [OF assms(1) n] n assms(1)
    by (simp add: rb_write_ok_def rb_inv_def rb_bound_def length_mem_put rb_end_def)
qed

lemma rb_write_ok_ahead:
  assumes "rb_inv rb" "len < SIZE_MOD" "len \<le> length buf"
    and rest: "0 < rb_read_pos rb" "rb_read_pos rb \<le> rb_write_pos rb"
    and lt: "len < rb_end rb - rb_write_pos rb"
  shows "rb_write_ok rb buf len (ring_buffer_write rb buf len)"
proof -
  have "ring_buffer_write rb buf len =
      (len, rb\<lparr>rb_mem := mem_put (rb_mem rb) (rb_write_pos rb) buf len,
          rb_write_pos := rb_write_pos rb + len\<rparr>)"
    using rb_write_to_end_rest [OF assms(1) rest(1) assms(2,3)] rest lt
    by (simp add: ring_buffer_write_def Let_def)
  moreover have n: "rb_write_pos rb + len < rb_end rb"
    using lt by simp
  moreover have "len = min len (rb_bound rb - length (rb_contents rb))"
    using assms(1) rest n by (auto simp: length_rb_contents rb_bound_def rb_inv_def rb_end_def)
  ultimately show ?thesis
    using rb_contents_write_ahead [OF assms(1) rest(2) n assms(3)] assms
    by (simp add: rb_write_ok_def rb_inv_def rb_bound_def length_mem_put rb_end_def)
qed

lemma rb_write_ok_around:
  assumes "rb_inv rb" "len < SIZE_MOD" "len \<le> length buf"
    and rest: "0 < rb_read_pos rb" "rb_read_pos rb \<le> rb_write_pos rb"
    and ge: "rb_end rb - rb_write_pos rb \<le> len"
  shows "rb_write_ok rb buf len (ring_buffer_write rb buf len)"
proof -
  define a where "a = rb_end rb - rb_write_pos rb"
  define n where "n = min (len - a) (rb_read_pos rb - 1)"
  have n: "n < rb_read_pos rb" "a + n \<le> length buf" "min len a = a"
    using rest(1) assms(3) ge by (auto simp: n_def a_def)
  let ?r = "rb\<lparr>rb_mem := mem_put (rb_mem rb) (rb_write_pos rb) buf a, rb_write_pos := 0\<rparr>"
  have to_end: "rb_write_to_end rb buf len = (?r, len - a, a)"
    using rb_write_to_end_rest [OF assms(1) rest(1) assms(2,3)] n(3) by (simp add: a_def Let_def)
  have "size_sub (size_sub (rb_read_pos rb) (rb_write_pos ?r)) 1 = rb_read_pos rb - 1"
    using rest(1) by (simp add: size_sub_def)
  then have "rb_copy_in ?r buf (size_sub (size_sub (rb_read_pos rb) (rb_write_pos ?r)) 1) (len - a) a =
      (?r\<lparr>rb_mem := mem_put (rb_mem ?r) 0 (drop a buf) n, rb_write_pos := n\<rparr>, len - a - n, a + n)"
    using assms(2) by (simp add: rb_copy_in_simp n_def Let_def)
  moreover have "len - a = 0 \<Longrightarrow> n = 0"
    by (simp add: n_def)
  ultimately have "ring_buffer_write rb buf len = (a + n, rb\<lparr>rb_mem :=
        mem_put (mem_put (rb_mem rb) (rb_write_pos rb) buf a) 0 (drop a buf) n, rb_write_pos := n\<rparr>)"
    using to_end rest(2) by (auto simp: ring_buffer_write_def Let_def)
  moreover have "a + n = min len (rb_bound rb - length (rb_contents rb))"
    using assms(1) rest ge unfolding n_def a_def
    by (simp add: length_rb_contents rb_bound_def rb_inv_def rb_end_def)
  moreover have "length (mem_put (mem_put (rb_mem rb) (rb_write_pos rb) buf a) 0 (drop a buf) n) =
      length (rb_mem rb)"
    using assms(1) n(1,2) by (simp add: length_mem_put rb_defs a_def)
  ultimately show ?thesis
    using rb_contents_write_around [OF assms(1) rest(2) n(1) a_def n(2)] assms(1) n(1)
    by (simp add: rb_write_ok_def rb_inv_def rb_bound_def)
qed

lemma rb_write_ok:
  assumes "rb_inv rb" "len < SIZE_MOD" "len \<le> length buf"
  shows "rb_write_ok rb buf len (ring_buffer_write rb buf len)"
proof -
  consider "rb_write_pos rb < rb_read_pos rb" | "rb_read_pos rb = 0"
    | "0 < rb_read_pos rb" "rb_read_pos rb \<le> rb_write_pos rb" "len < rb_end rb - rb_write_pos rb"
    | "0 < rb_read_pos rb" "rb_read_pos rb \<le> rb_write_pos rb" "rb_end rb - rb_write_pos rb \<le> len"
    by linarith
  then show ?thesis
    by cases (rule rb_write_ok_behind [OF assms] rb_write_ok_start [OF assms]
        rb_write_ok_ahead [OF assms] rb_write_ok_around [OF assms]; assumption)+
qed

section \<open>Reading\<close>

definition rb_read_ok :: "ring_buffer \<Rightarrow> nat \<Rightarrow> u8 list \<times> ring_buffer \<Rightarrow> bool" where
  "rb_read_ok rb len res \<longleftrightarrow> (case res of (out, rb') \<Rightarrow>
     out = take len (rb_contents rb) \<and> rb_contents rb' = drop len (rb_contents rb) \<and>
     rb_inv rb' \<and> rb_bound rb' = rb_bound rb)"

lemma rb_read_ok_straight:
  assumes "rb_inv rb" "rb_read_pos rb \<le> rb_write_pos rb"
  shows "rb_read_ok rb len (ring_buffer_read rb len)"
proof -
  define n where "n = min len (rb_write_pos rb - rb_read_pos rb)"
  have "ring_buffer_read rb len = (mem_get (rb_mem rb) (rb_read_pos rb) n,
      rb\<lparr>rb_read_pos := rb_read_pos rb + n\<rparr>)"
    using assms(2) by (auto simp: ring_buffer_read_def Let_def rb_copy_out_simp size_sub_def n_def)
  moreover have "rb_read_pos rb + n \<le> rb_write_pos rb"
    using assms(2) by (simp add: n_def)
  ultimately show ?thesis
    using assms by (auto simp: rb_read_ok_def rb_defs mem_get_def n_def min_def drop_take add.commute)
qed

lemma rb_read_ok_wrapped:
  assumes "rb_inv rb" "rb_write_pos rb < rb_read_pos rb"
  shows "rb_read_ok rb len (ring_buffer_read rb len)"
proof (cases "len < rb_end rb - rb_read_pos rb")
  case True
  then have "ring_buffer_read rb len = (mem_get (rb_mem rb) (rb_read_pos rb) len,
      rb\<lparr>rb_read_pos := rb_read_pos rb + len\<rparr>)"
    using assms by (auto simp: ring_buffer_read_def Let_def rb_copy_out_simp size_sub_def rb_end_def)
  then show ?thesis
    using assms True by (simp add: rb_read_ok_def rb_defs mem_get_def add.commute)
next
  case False
  define a where "a = rb_end rb - rb_read_pos rb"
  define n where "n = min (len - a) (rb_write_pos rb)"
  have a: "a \<le> len" "length (rb_mem rb) = a + rb_read_pos rb"
    using False assms by (auto simp: a_def rb_defs)
  have "ring_buffer_read rb len = (mem_get (rb_mem rb) (rb_read_pos rb) a @ mem_get (rb_mem rb) 0 n,
      rb\<lparr>rb_read_pos := n\<rparr>)"
    using assms a
    by (auto simp: ring_buffer_read_def Let_def rb_copy_out_simp size_sub_def n_def rb_end_def)
  moreover have "n \<le> rb_write_pos rb"
    by (simp add: n_def)
  ultimately show ?thesis
    using assms a False
    by (auto simp: rb_read_ok_def rb_defs mem_get_def n_def min_def drop_take add.commute)
qed

lemma rb_read_ok:
  "rb_inv rb \<Longrightarrow> rb_read_ok rb len (ring_buffer_read rb len)"
  by (meson not_le_imp_less rb_read_ok_straight rb_read_ok_wrapped)

lemma ring_buffer_available_eq: "rb_inv rb \<Longrightarrow> ring_buffer_available rb = length (rb_contents rb)"
  by (auto simp: ring_buffer_available_def length_rb_contents Let_def rb_inv_def rb_end_def size_simps)

lemma ring_buffer_capacity_eq:
  "rb_inv rb \<Longrightarrow> ring_buffer_capacity rb = rb_bound rb - length (rb_contents rb)"
  by (auto simp: ring_buffer_capacity_def length_rb_contents Let_def rb_inv_def rb_end_def rb_bound_def
      size_simps)

lemma ring_buffer_is_empty_eq: "rb_inv rb \<Longrightarrow> ring_buffer_is_empty rb \<longleftrightarrow> rb_contents rb = []"
  by (auto simp: ring_buffer_is_empty_def length_rb_contents rb_inv_def
      simp flip: length_0_conv split: if_splits)

lemma ring_buffer_clear_ok:
  "rb_inv rb \<Longrightarrow> rb_inv (ring_buffer_clear rb) \<and> rb_contents (ring_buffer_clear rb) = [] \<and>
     rb_bound (ring_buffer_clear rb) = rb_bound rb"
  by (auto simp: ring_buffer_clear_def rb_defs mem_get_def)

lemma ring_buffer_create_ok:
  assumes "ring_buffer_create sz alloc = Some rb" "sz + 1 < SIZE_MOD"
  shows "rb_inv rb" "rb_contents rb = []" "rb_bound rb = sz"
  using assms by (auto simp: ring_buffer_create_def size_simps rb_defs mem_get_def split: if_splits)

section \<open>The contract: a bounded FIFO of bytes\<close>

locale byte_fifo =
  fixes put :: "'q \<Rightarrow> 'a list \<Rightarrow> nat \<Rightarrow> nat \<times> 'q"
    and get :: "'q \<Rightarrow> nat \<Rightarrow> 'a list \<times> 'q"
    and contents :: "'q \<Rightarrow> 'a list"
    and bound :: "'q \<Rightarrow> nat"
    and inv :: "'q \<Rightarrow> bool"
  assumes put_law: "inv q \<Longrightarrow> len < SIZE_MOD \<Longrightarrow> len \<le> length buf \<Longrightarrow> put q buf len = (n, q') \<Longrightarrow>
      n = min len (bound q - length (contents q)) \<and> contents q' = contents q @ take n buf \<and>
      inv q' \<and> bound q' = bound q"
    and get_law: "inv q \<Longrightarrow> get q len = (out, q') \<Longrightarrow>
      out = take len (contents q) \<and> contents q' = drop len (contents q) \<and>
      inv q' \<and> bound q' = bound q"
    and contents_le_bound: "inv q \<Longrightarrow> length (contents q) \<le> bound q"

text \<open>
  A run of a FIFO: the bytes it accepted from its writers and those it delivered to its
  readers, both in order.
\<close>

datatype 'a fifo_op = Put "'a list" | Get nat

fun fifo_run ::
  "('q \<Rightarrow> 'a list \<Rightarrow> nat \<Rightarrow> nat \<times> 'q) \<Rightarrow> ('q \<Rightarrow> nat \<Rightarrow> 'a list \<times> 'q) \<Rightarrow> 'q \<Rightarrow> 'a fifo_op list \<Rightarrow>
   'a list \<times> 'a list \<times> 'q" where
  "fifo_run put get q [] = ([], [], q)"
| "fifo_run put get q (Put bs # ops) =
     (case put q bs (length bs) of (n, q1) \<Rightarrow>
      case fifo_run put get q1 ops of (acc, del, q') \<Rightarrow> (take n bs @ acc, del, q'))"
| "fifo_run put get q (Get k # ops) =
     (case get q k of (out, q1) \<Rightarrow>
      case fifo_run put get q1 ops of (acc, del, q') \<Rightarrow> (acc, out @ del, q'))"

fun fifo_op_ok :: "'a fifo_op \<Rightarrow> bool" where
  "fifo_op_ok (Put bs) = (length bs < SIZE_MOD)"
| "fifo_op_ok (Get k) = True"

context byte_fifo
begin

lemma run_in_order:
  assumes "inv q" "list_all fifo_op_ok ops" "fifo_run put get q ops = (acc, del, q')"
  shows "contents q @ acc = del @ contents q' \<and> inv q' \<and> bound q' = bound q"
  using assms
proof (induction ops arbitrary: q acc del q')
  case Nil
  then show ?case by simp
next
  case (Cons oper ops)
  show ?case
  proof (cases oper)
    case (Put bs)
    obtain n q1 where p: "put q bs (length bs) = (n, q1)" by force
    obtain acc1 del1 q2 where r: "fifo_run put get q1 ops = (acc1, del1, q2)"
      by (metis prod_cases3)
    have "contents q1 @ acc1 = del1 @ contents q2 \<and> inv q2 \<and> bound q2 = bound q1"
      using Cons.IH [OF _ _ r] Cons.prems put_law [OF _ _ _ p] Put by simp
    then show ?thesis
      using Cons.prems put_law [OF _ _ _ p] Put p r by simp
  next
    case (Get k)
    obtain out q1 where p: "get q k = (out, q1)" by force
    obtain acc1 del1 q2 where r: "fifo_run put get q1 ops = (acc1, del1, q2)"
      by (metis prod_cases3)
    have "contents q1 @ acc1 = del1 @ contents q2 \<and> inv q2 \<and> bound q2 = bound q1"
      using Cons.IH [OF _ _ r] Cons.prems get_law [OF _ p] Get by simp
    then show ?thesis
      using Cons.prems get_law [OF _ p] Get p r by (metis append.assoc append_take_drop_id
          fifo_run.simps(3) fst_conv snd_conv case_prod_conv)
  qed
qed

lemma run_from_empty:
  assumes "inv q" "contents q = []" "list_all fifo_op_ok ops"
    "fifo_run put get q ops = (acc, del, q')"
  shows "acc = del @ contents q' \<and> length (contents q') \<le> bound q"
  using run_in_order [OF assms(1,3,4)] contents_le_bound [of q'] assms(2) by simp

end

interpretation rbq: byte_fifo ring_buffer_write ring_buffer_read rb_contents rb_bound rb_inv
proof
  fix q :: ring_buffer and len buf n q'
  assume "rb_inv q" "len < SIZE_MOD" "len \<le> length buf" "ring_buffer_write q buf len = (n, q')"
  then show "n = min len (rb_bound q - length (rb_contents q)) \<and>
      rb_contents q' = rb_contents q @ take n buf \<and> rb_inv q' \<and> rb_bound q' = rb_bound q"
    using rb_write_ok [of q len buf] by (simp add: rb_write_ok_def)
next
  fix q :: ring_buffer and len out q'
  assume "rb_inv q" "ring_buffer_read q len = (out, q')"
  then show "out = take len (rb_contents q) \<and> rb_contents q' = drop len (rb_contents q) \<and>
      rb_inv q' \<and> rb_bound q' = rb_bound q"
    using rb_read_ok [of q len] by (simp add: rb_read_ok_def)
qed (rule rb_contents_bounded)

section \<open>Properties\<close>

text \<open>
  C35. Writing to a ring buffer appends to its contents the longest prefix of the bytes offered
  that fits below the size it was created with, returns the length of that prefix, and keeps
  both pointers inside the allocation.
\<close>

theorem ring_buffer_write_correct:
  assumes "rb_inv rb" "len < SIZE_MOD" "len \<le> length buf"
    and "ring_buffer_write rb buf len = (n, rb')"
  shows "n = min len (ring_buffer_capacity rb) \<and> rb_contents rb' = rb_contents rb @ take n buf \<and>
    ring_buffer_available rb' = ring_buffer_available rb + n \<and> rb_inv rb'"
  using rbq.put_law [OF assms] assms(1,3)
  by (simp add: ring_buffer_capacity_eq ring_buffer_available_eq)

definition rb_example :: ring_buffer where
  "rb_example = \<lparr>rb_mem = [1, 2, 3, 4], rb_read_pos = 3, rb_write_pos = 1\<rparr>"

theorem ring_buffer_write_correct_witness:
  "rb_inv rb_example \<and> fst (ring_buffer_write rb_example [7, 8, 9] 3) = 1 \<and>
   rb_contents (snd (ring_buffer_write rb_example [7, 8, 9] 3)) = [4, 1, 7]"
proof -
  have i: "rb_inv rb_example"
    by (simp add: rb_inv_def rb_example_def SIZE_MOD_def)
  have "rb_contents rb_example = [4, 1]" "ring_buffer_capacity rb_example = 1"
    by (simp_all add: rb_contents_def ring_buffer_capacity_def rb_example_def size_sub_def)
  then show ?thesis
    using i ring_buffer_write_correct [OF i, of 3 "[7, 8, 9]"
        "fst (ring_buffer_write rb_example [7, 8, 9] 3)" "snd (ring_buffer_write rb_example [7, 8, 9] 3)"]
    by (simp add: SIZE_MOD_def)
qed

text \<open>
  C36. Reading takes the oldest bytes: it delivers the first \<open>len\<close> bytes of the contents, or
  all of them when there are fewer, and leaves the rest.
\<close>

theorem ring_buffer_read_correct:
  assumes "rb_inv rb" "ring_buffer_read rb len = (out, rb')"
  shows "out = take len (rb_contents rb) \<and> rb_contents rb' = drop len (rb_contents rb) \<and>
    length out = min len (ring_buffer_available rb) \<and>
    ring_buffer_available rb' = ring_buffer_available rb - length out \<and> rb_inv rb'"
  using rbq.get_law [OF assms] assms(1) by (auto simp: ring_buffer_available_eq)

theorem ring_buffer_read_correct_witness:
  "fst (ring_buffer_read rb_example 2) = [4, 1] \<and>
   ring_buffer_available (snd (ring_buffer_read rb_example 2)) = 0"
proof -
  have i: "rb_inv rb_example"
    by (simp add: rb_inv_def rb_example_def SIZE_MOD_def)
  have "rb_contents rb_example = [4, 1]" "ring_buffer_available rb_example = 2"
    by (simp_all add: rb_contents_def ring_buffer_available_def rb_example_def size_sub_def
        rb_end_def size_add_def SIZE_MOD_def)
  then show ?thesis
    using ring_buffer_read_correct [OF i, of 2 "fst (ring_buffer_read rb_example 2)"
        "snd (ring_buffer_read rb_example 2)"] by simp
qed

text \<open>
  C37. Over any sequence of writes and reads on a freshly created buffer, the bytes delivered
  to the readers are a prefix of the bytes accepted from the writers, nothing is lost,
  duplicated or reordered, and the buffer never holds more than the size it was created with.
\<close>

theorem ring_buffer_fifo:
  assumes "ring_buffer_create sz alloc = Some rb" "sz + 1 < SIZE_MOD" "list_all fifo_op_ok ops"
    and "fifo_run ring_buffer_write ring_buffer_read rb ops = (acc, del, rb')"
  shows "acc = del @ rb_contents rb' \<and> ring_buffer_available rb' \<le> sz"
  using rbq.run_from_empty [OF ring_buffer_create_ok(1,2) [OF assms(1,2)] assms(3,4)]
    rbq.run_in_order [OF ring_buffer_create_ok(1) [OF assms(1,2)] assms(3,4)]
    ring_buffer_create_ok(3) [OF assms(1,2)]
  by (simp add: ring_buffer_available_eq)

theorem ring_buffer_fifo_witness:
  "\<exists>rb rb'. ring_buffer_create 2 (True, True) = Some rb \<and>
     fifo_run ring_buffer_write ring_buffer_read rb [Put [1, 2, 3], Get 1, Put [4]] =
       ([1, 2, 4], [1], rb') \<and> ([1, 2, 4] :: u8 list) = [1] @ rb_contents rb'"
proof -
  define rb where "rb = \<lparr>rb_mem = [0, 0, 0], rb_read_pos = 0, rb_write_pos = 0\<rparr>"
  define rb' where "rb' = \<lparr>rb_mem = [1, 2, 4], rb_read_pos = 1, rb_write_pos = 0\<rparr>"
  have "size_add 2 1 = 3"
    by (simp add: size_add_def SIZE_MOD_def)
  then have c: "ring_buffer_create 2 (True, True) = Some rb"
    by (simp add: ring_buffer_create_def rb_def numeral_3_eq_3)
  have r: "fifo_run ring_buffer_write ring_buffer_read rb [Put [1, 2, 3], Get 1, Put [4]] =
      ([1, 2, 4], [1], rb')"
    by (simp add: rb_def rb'_def ring_buffer_write_def ring_buffer_read_def rb_write_to_end_def
        rb_copy_in_def rb_copy_out_def rb_end_def size_sub_def mem_put_def mem_get_def Let_def)
  show ?thesis
    using c r ring_buffer_fifo [OF c _ _ r] by (auto simp: SIZE_MOD_def)
qed

end
