(* ===== verification/Prx_Sched.thy ===== *)
theory Prx_Sched
  imports Prelude Prx_Err Prx_Buffer "HOL-Library.Multiset"
begin

text \<open>
  The task scheduler of \<open>src/prx_sched.c\<close>: a queue of tasks to run now, in order, and a queue of
  delayed tasks sorted by deadline, both made of entries of a fixed buffer pool. A task entry
  carries the address of its buffer, which is also the identifier \<open>prx_scheduler_queue\<close> returns.
  Task handlers and contexts are pointers, 0 being \<open>NULL\<close>. \<open>ticks_t\<close> is a signed 64 bit count of
  milliseconds and is modelled by the integers; the narrowing to \<open>int32_t\<close> that the code makes
  is written out. The worker thread's local \<open>next\<close> is the field \<open>sch_running\<close>.
\<close>

section \<open>State\<close>

type_synonym ptr = nat

record prx_task_entry =
  te_id :: addr
  te_queued :: int
  te_deadline :: int
  te_task :: ptr
  te_context :: ptr

record prx_scheduler =
  sch_task_pool :: prx_buffer_pool
  sch_now :: "prx_task_entry list"
  sch_later :: "prx_task_entry list"
  sch_wakeup :: bool
  sch_should_run :: bool
  sch_refs :: nat
  sch_running :: "prx_task_entry option"

definition to_int32 :: "int \<Rightarrow> int" where
  "to_int32 x = (x + 2 ^ 31) mod 2 ^ 32 - 2 ^ 31"

definition INITIAL_POOL_SIZE :: nat where
  "INITIAL_POOL_SIZE = 128"

text \<open>\<open>sizeof(prx_task_entry_t)\<close> in a release build: five words and two link pointers.\<close>

definition SIZEOF_TASK_ENTRY :: nat where
  "SIZEOF_TASK_ENTRY = 56"

section \<open>Operations\<close>

definition prx_scheduler_create_new ::
  "allocator \<Rightarrow> bool \<Rightarrow> prx_error \<Rightarrow> prx_error \<Rightarrow> prx_error \<Rightarrow> bool \<Rightarrow> prx_error \<times> prx_scheduler option" where
  "prx_scheduler_create_new A zalloc_ok pool_lock lock_result signal_result thread_ok = (
     if \<not> zalloc_ok then (er_out_of_memory, None)
     else case prx_fixed_pool_create A True pool_lock SIZEOF_TASK_ENTRY
            (Some \<lparr>initial_count = INITIAL_POOL_SIZE, max_count = 0, low_watermark = 0, high_watermark = 0\<rparr>) of
       (result, None) \<Rightarrow> (result, None)
     | (result, Some pool) \<Rightarrow>
         if lock_result \<noteq> er_ok then (lock_result, None)
         else if signal_result \<noteq> er_ok then (signal_result, None)
         else if \<not> thread_ok then (er_fatal, None)
         else (er_ok, Some \<lparr>sch_task_pool = pool, sch_now = [], sch_later = [], sch_wakeup = False,
                            sch_should_run = True, sch_refs = 1, sch_running = None\<rparr>))"

text \<open>A scheduler made with a parent is the parent with one more reference.\<close>

definition prx_scheduler_create_child :: "prx_scheduler \<Rightarrow> prx_error \<times> prx_scheduler" where
  "prx_scheduler_create_child parent = (er_ok, parent\<lparr>sch_refs := sch_refs parent + 1\<rparr>)"

definition prx_scheduler_interrupt :: "prx_scheduler \<Rightarrow> prx_scheduler" where
  "prx_scheduler_interrupt scheduler = scheduler\<lparr>sch_wakeup := True\<rparr>"

text \<open>The walk that inserts an entry before the first one with a later deadline.\<close>

fun sched_insert_ordered :: "prx_task_entry \<Rightarrow> prx_task_entry list \<Rightarrow> prx_task_entry list" where
  "sched_insert_ordered entry [] = [entry]"
| "sched_insert_ordered entry (next # rest) =
     (if te_deadline entry < te_deadline next then entry # next # rest
      else next # sched_insert_ordered entry rest)"

text \<open>
  \<open>ticks\<close> is what \<open>ticks_get()\<close> returns. A missing task handler is reported as \<open>er_fault\<close>, an
  exhausted pool as -1; otherwise the identifier of the entry is returned.
\<close>

definition prx_scheduler_queue ::
  "allocator \<Rightarrow> int \<Rightarrow> prx_scheduler \<Rightarrow> ptr \<Rightarrow> ptr \<Rightarrow> u32 \<Rightarrow> (int + addr) \<times> prx_scheduler" where
  "prx_scheduler_queue A ticks scheduler task context delay = (
     if task = 0 then (Inl (prx_error_code er_fault), scheduler)
     else case prx_buffer_alloc A fixed_pool (sch_task_pool scheduler) None of
       (None, pool) \<Rightarrow> (Inl (- 1), scheduler\<lparr>sch_task_pool := pool\<rparr>)
     | (Some a, pool) \<Rightarrow> (
         let entry = \<lparr>te_id = a, te_queued = ticks, te_deadline = ticks + uint delay, te_task = task,
                      te_context = context\<rparr>;
             scheduler = scheduler\<lparr>sch_task_pool := pool\<rparr>;
             scheduler = (if delay = 0
               then scheduler\<lparr>sch_now := sch_now scheduler @ [entry]\<rparr>
               else scheduler\<lparr>sch_later := sched_insert_ordered entry (sch_later scheduler)\<rparr>)
         in (Inr a, prx_scheduler_interrupt scheduler)))"

definition prx_scheduler_get_next ::
  "prx_scheduler \<Rightarrow> int \<Rightarrow> prx_task_entry option \<times> int \<times> prx_scheduler" where
  "prx_scheduler_get_next scheduler now = (
     let from_now = (\<lambda>idle. case sch_now scheduler of
           [] \<Rightarrow> (None, idle, scheduler)
         | candidate # rest \<Rightarrow> (Some candidate, 0, scheduler\<lparr>sch_now := rest\<rparr>))
     in case sch_later scheduler of
          [] \<Rightarrow> from_now (- 1)
        | candidate # rest \<Rightarrow> (
            let idle = to_int32 (te_deadline candidate - now)
            in if idle \<le> 0 then (Some candidate, 0, scheduler\<lparr>sch_later := rest\<rparr>)
               else from_now idle))"

fun prx_scheduler_remove_by_id ::
  "prx_task_entry list \<Rightarrow> addr \<Rightarrow> prx_task_entry option \<times> prx_task_entry list" where
  "prx_scheduler_remove_by_id [] ident = (None, [])"
| "prx_scheduler_remove_by_id (next # rest) ident =
     (if te_id next = ident then (Some next, rest)
      else let (found, rest) = prx_scheduler_remove_by_id rest ident in (found, next # rest))"

definition prx_scheduler_kill :: "prx_scheduler \<Rightarrow> addr \<Rightarrow> prx_error \<times> prx_scheduler" where
  "prx_scheduler_kill scheduler ident = (
     let (next, now) = prx_scheduler_remove_by_id (sch_now scheduler) ident;
         scheduler = scheduler\<lparr>sch_now := now\<rparr>;
         (next, scheduler) = (case next of
            Some e \<Rightarrow> (Some e, scheduler)
          | None \<Rightarrow> (let (next, later) = prx_scheduler_remove_by_id (sch_later scheduler) ident
                     in (next, scheduler\<lparr>sch_later := later\<rparr>)))
     in case next of
          Some e \<Rightarrow> (er_ok, scheduler\<lparr>sch_task_pool :=
                       prx_buffer_release fixed_pool (sch_task_pool scheduler) (te_id e)\<rparr>)
        | None \<Rightarrow> (er_not_found, scheduler))"

definition sched_matches :: "ptr \<Rightarrow> ptr \<Rightarrow> prx_task_entry \<Rightarrow> bool" where
  "sched_matches task context next \<longleftrightarrow>
     (context = 0 \<or> te_context next = context) \<and> (task = 0 \<or> te_task next = task)"

fun prx_scheduler_remove_by_task_type ::
  "prx_task_entry list \<Rightarrow> ptr \<Rightarrow> ptr \<Rightarrow> prx_task_entry list \<Rightarrow> prx_task_entry list \<times> prx_task_entry list" where
  "prx_scheduler_remove_by_task_type [] task context result = ([], result)"
| "prx_scheduler_remove_by_task_type (next # rest) task context result =
     (if sched_matches task context next
      then prx_scheduler_remove_by_task_type rest task context (result @ [next])
      else let (queue, result) = prx_scheduler_remove_by_task_type rest task context result
           in (next # queue, result))"

fun sched_release_all :: "prx_buffer_pool \<Rightarrow> prx_task_entry list \<Rightarrow> prx_buffer_pool" where
  "sched_release_all pool [] = pool"
| "sched_release_all pool (next # rest) = sched_release_all (prx_buffer_release fixed_pool pool (te_id next)) rest"

definition prx_scheduler_clear :: "prx_scheduler \<Rightarrow> ptr \<Rightarrow> ptr \<Rightarrow> prx_scheduler" where
  "prx_scheduler_clear scheduler task context = (
     let (now, free_list) = prx_scheduler_remove_by_task_type (sch_now scheduler) task context [];
         (later, free_list) = prx_scheduler_remove_by_task_type (sch_later scheduler) task context free_list
     in scheduler\<lparr>sch_now := now, sch_later := later,
                  sch_task_pool := sched_release_all (sch_task_pool scheduler) free_list\<rparr>)"

definition prx_scheduler_release :: "prx_scheduler \<Rightarrow> ptr \<Rightarrow> prx_scheduler" where
  "prx_scheduler_release scheduler context = (
     let scheduler = (if context \<noteq> 0 then prx_scheduler_clear scheduler 0 context else scheduler);
         scheduler = scheduler\<lparr>sch_refs := sch_refs scheduler - 1\<rparr>
     in if sch_refs scheduler = 0
        then prx_scheduler_interrupt (scheduler\<lparr>sch_should_run := False\<rparr>) else scheduler)"

text \<open>
  One turn of the worker loop up to the call of the task, the decision to leave, or the idle
  wait, and the return of the entry to the pool after the call.
\<close>

datatype sched_action = sched_run prx_task_entry | sched_exit | sched_idle u32

definition prx_scheduler_work :: "prx_scheduler \<Rightarrow> int \<Rightarrow> sched_action \<times> prx_scheduler" where
  "prx_scheduler_work scheduler now = (
     let (next, idle_timeout, scheduler) = prx_scheduler_get_next scheduler now
     in case next of
          Some e \<Rightarrow> (sched_run e, scheduler\<lparr>sch_running := Some e\<rparr>)
        | None \<Rightarrow> if \<not> sch_should_run scheduler \<and> idle_timeout = - 1 then (sched_exit, scheduler)
                  else (sched_idle (word_of_int idle_timeout), scheduler\<lparr>sch_wakeup := False\<rparr>))"

definition prx_scheduler_task_done :: "prx_scheduler \<Rightarrow> prx_scheduler" where
  "prx_scheduler_task_done scheduler = (case sch_running scheduler of
     None \<Rightarrow> scheduler
   | Some e \<Rightarrow> scheduler\<lparr>sch_running := None,
       sch_task_pool := prx_buffer_release fixed_pool (sch_task_pool scheduler) (te_id e)\<rparr>)"

section \<open>Invariant\<close>

text \<open>
  The delayed tasks are sorted by deadline, every queued or running task has an entry of its own,
  and these entries are exactly what is checked out of the task pool, each once.
\<close>

definition sched_entries :: "prx_scheduler \<Rightarrow> prx_task_entry list" where
  "sched_entries s = sch_now s @ sch_later s @ (case sch_running s of None \<Rightarrow> [] | Some e \<Rightarrow> [e])"

definition by_deadline :: "prx_task_entry list \<Rightarrow> bool" where
  "by_deadline es = sorted (map te_deadline es)"

definition sched_owns :: "prx_buffer_pool \<Rightarrow> prx_task_entry list \<Rightarrow> bool" where
  "sched_owns pool es \<longleftrightarrow> pool_inv pool \<and> distinct (map te_id es) \<and>
     pool_live pool = (\<lambda>a. if a \<in> te_id ` set es then 1 else 0)"

definition sched_inv :: "prx_scheduler \<Rightarrow> bool" where
  "sched_inv s \<longleftrightarrow> by_deadline (sch_later s) \<and> sched_owns (sch_task_pool s) (sched_entries s)"

lemma set_sched_insert_ordered [simp]:
  "set (sched_insert_ordered e es) = insert e (set es)"
  by (induction es) auto

lemma mset_sched_insert_ordered:
  "mset (sched_insert_ordered e es) = add_mset e (mset es)"
  by (induction es) auto

lemma sched_insert_ordered_split:
  "\<exists>xs ys. es = xs @ ys \<and> sched_insert_ordered e es = xs @ e # ys \<and>
     (\<forall>x \<in> set xs. te_deadline x \<le> te_deadline e) \<and> (ys = [] \<or> te_deadline e < te_deadline (hd ys))"
proof (induction es)
  case (Cons n es)
  then obtain xs ys where "es = xs @ ys" "sched_insert_ordered e es = xs @ e # ys"
    "\<forall>x \<in> set xs. te_deadline x \<le> te_deadline e" "ys = [] \<or> te_deadline e < te_deadline (hd ys)"
    by blast
  then show ?case
    by (cases "te_deadline e < te_deadline n")
       (simp_all, rule exI [of _ "[]"], simp, rule exI [of _ "n # xs"], auto)
qed simp

lemma by_deadline_insert: "by_deadline es \<Longrightarrow> by_deadline (sched_insert_ordered e es)"
  by (induction es) (auto simp: by_deadline_def)

lemma sched_owns_perm:
  "sched_owns pool es \<Longrightarrow> mset es = mset es' \<Longrightarrow> sched_owns pool es'"
  unfolding sched_owns_def by (metis mset_eq_setD mset_eq_imp_distinct_iff mset_map)

lemma sched_owns_alloc:
  assumes "sched_owns pool es" "prx_buffer_alloc A fixed_pool pool None = (Some a, pool')" "te_id e = a"
  shows "sched_owns pool' (e # es)"
proof -
  have p: "pool_inv pool'" "pool_live pool a = 0" "pool_live pool' = (pool_live pool)(a := 1)"
    using assms(1) pool_factory.alloc_new [OF _ assms(2)] by (simp_all add: sched_owns_def)
  then have "a \<notin> te_id ` set es"
    using assms(1) by (auto simp: sched_owns_def)
  then show ?thesis
    using assms(1,3) p by (simp add: sched_owns_def fun_eq_iff)
qed

lemma sched_owns_alloc_fail:
  assumes "sched_owns pool es" "prx_buffer_alloc A fixed_pool pool None = (None, pool')"
  shows "sched_owns pool' es"
  using assms pool_factory.alloc_new [of pool A fixed_pool None pool'] by (simp add: sched_owns_def)

lemma sched_owns_release:
  assumes "sched_owns pool (e # es)"
  shows "sched_owns (prx_buffer_release fixed_pool pool (te_id e)) es"
proof -
  have e: "pool_live pool (te_id e) = 1" "pool_inv pool" "te_id e \<notin> te_id ` set es"
    using assms by (simp_all add: sched_owns_def)
  then show ?thesis
    using assms pool_factory.release_one [of pool "te_id e" fixed_pool]
    by (auto simp: sched_owns_def fun_upd_def)
qed

lemma sched_owns_release_all:
  "sched_owns pool (rs @ es) \<Longrightarrow> sched_owns (sched_release_all pool rs) es"
  by (induction rs arbitrary: pool) (auto dest: sched_owns_release)

lemma prx_scheduler_remove_by_id_split:
  "prx_scheduler_remove_by_id es ident = (r, es') \<Longrightarrow>
     (case r of None \<Rightarrow> es' = es \<and> ident \<notin> te_id ` set es
      | Some e \<Rightarrow> te_id e = ident \<and> (\<exists>xs ys. es = xs @ e # ys \<and> es' = xs @ ys))"
proof (induction es arbitrary: es')
  case (Cons n es)
  obtain r1 es1 where e: "prx_scheduler_remove_by_id es ident = (r1, es1)"
    by (cases "prx_scheduler_remove_by_id es ident")
  show ?case
  proof (cases "te_id n = ident")
    case True
    then show ?thesis using Cons.prems by auto (metis append_Nil)
  next
    case False
    then have "r = r1" "es' = n # es1"
      using Cons.prems e by auto
    then show ?thesis
      using Cons.IH [of es1] e False by (auto split: option.splits) (metis append_Cons)
  qed
qed auto

lemma prx_scheduler_remove_by_task_type_eq:
  "prx_scheduler_remove_by_task_type es task context result =
     (filter (\<lambda>e. \<not> sched_matches task context e) es, result @ filter (sched_matches task context) es)"
  by (induction es arbitrary: result) auto

section \<open>Every operation keeps the invariant\<close>

lemma prx_scheduler_queue_inv:
  assumes "sched_inv s"
  shows "sched_inv (snd (prx_scheduler_queue A t s task context delay))"
proof (cases "task = 0")
  case False
  obtain r pool where e: "prx_buffer_alloc A fixed_pool (sch_task_pool s) None = (r, pool)"
    by (cases "prx_buffer_alloc A fixed_pool (sch_task_pool s) None")
  have owns: "sched_owns (sch_task_pool s) (sched_entries s)" and sorted: "by_deadline (sch_later s)"
    using assms by (simp_all add: sched_inv_def)
  show ?thesis
  proof (cases r)
    case None
    then show ?thesis
      using False e sorted sched_owns_alloc_fail [OF owns, of A pool]
      by (simp add: prx_scheduler_queue_def sched_inv_def sched_entries_def)
  next
    case (Some a)
    define n where "n = \<lparr>te_id = a, te_queued = t, te_deadline = t + uint delay, te_task = task, te_context = context\<rparr>"
    have "sched_owns pool (n # sched_entries s)"
      using sched_owns_alloc [OF owns, of A a pool n] e Some by (simp add: n_def)
    then have o: "sched_owns pool es" if "mset es = add_mset n (mset (sched_entries s))" for es
      by (rule sched_owns_perm) (simp add: that)
    show ?thesis
      using False e Some sorted
      by (auto simp: prx_scheduler_queue_def sched_inv_def sched_entries_def prx_scheduler_interrupt_def
          n_def [symmetric] Let_def by_deadline_insert mset_sched_insert_ordered intro!: o)
  qed
qed (use assms in \<open>simp add: prx_scheduler_queue_def\<close>)

lemma prx_scheduler_get_next_cases:
  assumes "prx_scheduler_get_next s now = (r, idle, s')"
  obtains (due) c rest where "sch_later s = c # rest" "r = Some c" "s' = s\<lparr>sch_later := rest\<rparr>"
      "to_int32 (te_deadline c - now) \<le> 0" "idle = 0"
    | (now) c rest where "sch_now s = c # rest" "r = Some c" "s' = s\<lparr>sch_now := rest\<rparr>" "idle = 0"
      "sch_later s = [] \<or> 0 < to_int32 (te_deadline (hd (sch_later s)) - now)"
    | (none) "r = None" "s' = s" "sch_now s = []"
      "sch_later s = [] \<and> idle = - 1 \<or>
       sch_later s \<noteq> [] \<and> 0 < idle \<and> idle = to_int32 (te_deadline (hd (sch_later s)) - now)"
  using assms unfolding prx_scheduler_get_next_def Let_def
  by (cases "sch_later s"; cases "sch_now s")
     (auto split: if_splits)

lemma prx_scheduler_work_inv:
  assumes inv: "sched_inv s" and idle: "sch_running s = None"
  shows "sched_inv (snd (prx_scheduler_work s now))"
proof -
  obtain r idle s' where e: "prx_scheduler_get_next s now = (r, idle, s')"
    by (cases "prx_scheduler_get_next s now")
  have owns: "sched_owns (sch_task_pool s) (sched_entries s)" and sorted: "by_deadline (sch_later s)"
    using inv by (simp_all add: sched_inv_def)
  have o: "sched_owns (sch_task_pool s) es" if "mset es = mset (sched_entries s)" for es
    by (rule sched_owns_perm [OF owns]) (simp add: that)
  from e show ?thesis
  proof (cases rule: prx_scheduler_get_next_cases)
    case (due c rest)
    then show ?thesis
      using e sorted idle by (auto simp: prx_scheduler_work_def sched_inv_def sched_entries_def by_deadline_def intro!: o)
  next
    case (now c rest)
    then show ?thesis
      using e sorted idle by (auto simp: prx_scheduler_work_def sched_inv_def sched_entries_def intro!: o)
  next
    case none
    then show ?thesis
      using e inv idle by (auto simp: prx_scheduler_work_def sched_inv_def sched_entries_def)
  qed
qed

lemma prx_scheduler_task_done_inv:
  assumes "sched_inv s"
  shows "sched_inv (prx_scheduler_task_done s)"
proof (cases "sch_running s")
  case (Some e)
  have "sched_owns (sch_task_pool s) (e # sch_now s @ sch_later s)"
    using assms Some by (auto simp: sched_inv_def sched_entries_def intro: sched_owns_perm)
  then show ?thesis
    using assms Some sched_owns_release
    by (auto simp: prx_scheduler_task_done_def sched_inv_def sched_entries_def)
qed (use assms in \<open>simp add: prx_scheduler_task_done_def\<close>)

lemma by_deadline_remove: "by_deadline (xs @ e # ys) \<Longrightarrow> by_deadline (xs @ ys)"
  by (simp add: by_deadline_def sorted_append)

lemma prx_scheduler_kill_inv:
  assumes inv: "sched_inv s"
  shows "sched_inv (snd (prx_scheduler_kill s ident))"
proof -
  obtain r1 now where n: "prx_scheduler_remove_by_id (sch_now s) ident = (r1, now)"
    by (cases "prx_scheduler_remove_by_id (sch_now s) ident")
  obtain r2 later where l: "prx_scheduler_remove_by_id (sch_later s) ident = (r2, later)"
    by (cases "prx_scheduler_remove_by_id (sch_later s) ident")
  note ns = prx_scheduler_remove_by_id_split [OF n] and ls = prx_scheduler_remove_by_id_split [OF l]
  have owns: "sched_owns (sch_task_pool s) (sched_entries s)" and sorted: "by_deadline (sch_later s)"
    using inv by (simp_all add: sched_inv_def)
  have o: "sched_owns (prx_buffer_release fixed_pool (sch_task_pool s) (te_id e)) es"
    if "add_mset e (mset es) = mset (sched_entries s)" for e es
    by (rule sched_owns_release, rule sched_owns_perm [OF owns]) (simp add: that)
  consider (now) e where "r1 = Some e" | (later) e where "r1 = None" "r2 = Some e" | (none) "r1 = None" "r2 = None"
    by (cases r1; cases r2) auto
  then show ?thesis
  proof cases
    case now
    then show ?thesis
      using n ns sorted by (auto simp: prx_scheduler_kill_def sched_inv_def sched_entries_def intro!: o)
  next
    case later
    then show ?thesis
      using n l ns ls sorted
      by (auto simp: prx_scheduler_kill_def sched_inv_def sched_entries_def dest: by_deadline_remove intro!: o)
  next
    case none
    then show ?thesis
      using n l ns ls inv by (auto simp: prx_scheduler_kill_def sched_inv_def sched_entries_def)
  qed
qed

lemma prx_scheduler_clear_eq:
  "prx_scheduler_clear s task context = s\<lparr>
     sch_now := filter (\<lambda>e. \<not> sched_matches task context e) (sch_now s),
     sch_later := filter (\<lambda>e. \<not> sched_matches task context e) (sch_later s),
     sch_task_pool := sched_release_all (sch_task_pool s)
       (filter (sched_matches task context) (sch_now s) @ filter (sched_matches task context) (sch_later s))\<rparr>"
  by (simp add: prx_scheduler_clear_def prx_scheduler_remove_by_task_type_eq)

lemma prx_scheduler_clear_inv:
  assumes inv: "sched_inv s"
  shows "sched_inv (prx_scheduler_clear s task context)"
proof -
  define m where "m = sched_matches task context"
  have f: "mset xs = mset (filter m xs) + mset (filter (\<lambda>e. \<not> m e) xs)" for xs :: "prx_task_entry list"
    by (simp add: mset_filter multiset_partition)
  define es where "es = filter (\<lambda>e. \<not> m e) (sch_now s) @ filter (\<lambda>e. \<not> m e) (sch_later s) @
     (case sch_running s of None \<Rightarrow> [] | Some e \<Rightarrow> [e])"
  have "mset (sched_entries s) = mset ((filter m (sch_now s) @ filter m (sch_later s)) @ es)"
    unfolding sched_entries_def es_def mset_append f [of "sch_now s"] f [of "sch_later s"]
    by (simp only: ac_simps)
  then have "sched_owns (sched_release_all (sch_task_pool s) (filter m (sch_now s) @ filter m (sch_later s))) es"
    using inv by (intro sched_owns_release_all) (auto simp: sched_inv_def intro: sched_owns_perm)
  moreover have "by_deadline (filter (\<lambda>e. \<not> m e) (sch_later s))"
    using inv by (simp add: sched_inv_def by_deadline_def sorted_filter)
  ultimately show ?thesis
    by (simp add: prx_scheduler_clear_eq sched_inv_def sched_entries_def es_def m_def)
qed

lemma sched_inv_update [simp]:
  "sched_inv (s\<lparr>sch_refs := n\<rparr>) = sched_inv s"
  "sched_inv (s\<lparr>sch_should_run := b\<rparr>) = sched_inv s"
  "sched_inv (s\<lparr>sch_wakeup := b\<rparr>) = sched_inv s"
  by (simp_all add: sched_inv_def sched_entries_def)

lemma prx_scheduler_release_inv: "sched_inv s \<Longrightarrow> sched_inv (prx_scheduler_release s context)"
  by (simp add: prx_scheduler_release_def prx_scheduler_interrupt_def prx_scheduler_clear_inv Let_def)

section \<open>Runs of the scheduler\<close>

text \<open>
  Any thread may queue, kill, clear, reference or release at any moment between two critical
  sections; the worker thread takes the next task only after it finished the previous one.
\<close>

inductive sched_step :: "allocator \<Rightarrow> prx_scheduler \<Rightarrow> prx_scheduler \<Rightarrow> bool" for A where
  step_queue: "sched_step A s (snd (prx_scheduler_queue A t s task context delay))"
| step_kill: "sched_step A s (snd (prx_scheduler_kill s ident))"
| step_clear: "sched_step A s (prx_scheduler_clear s task context)"
| step_child: "sched_step A s (snd (prx_scheduler_create_child s))"
| step_release: "sched_step A s (prx_scheduler_release s context)"
| step_work: "sch_running s = None \<Longrightarrow> sched_step A s (snd (prx_scheduler_work s now))"
| step_done: "sched_step A s (prx_scheduler_task_done s)"

inductive sched_reachable :: "allocator \<Rightarrow> prx_scheduler \<Rightarrow> bool" for A where
  reach_create: "prx_scheduler_create_new A True er_ok er_ok er_ok True = (er_ok, Some s) \<Longrightarrow> sched_reachable A s"
| reach_step: "sched_reachable A s \<Longrightarrow> sched_step A s s' \<Longrightarrow> sched_reachable A s'"

inductive_cases sched_stepE: "sched_step A s s'"

lemma sched_step_inv: "sched_step A s s' \<Longrightarrow> sched_inv s \<Longrightarrow> sched_inv s'"
  by (induction rule: sched_step.induct)
     (simp_all add: prx_scheduler_queue_inv prx_scheduler_kill_inv prx_scheduler_clear_inv
       prx_scheduler_create_child_def prx_scheduler_release_inv prx_scheduler_work_inv
       prx_scheduler_task_done_inv)

lemma prx_scheduler_create_inv:
  assumes "prx_scheduler_create_new A True er_ok er_ok er_ok True = (er_ok, Some s)"
  shows "sched_inv s"
proof -
  obtain r p where p: "prx_fixed_pool_create A True er_ok SIZEOF_TASK_ENTRY
      (Some \<lparr>initial_count = INITIAL_POOL_SIZE, max_count = 0, low_watermark = 0, high_watermark = 0\<rparr>) = (r, Some p)"
    and s: "sch_task_pool s = p" "sch_now s = []" "sch_later s = []" "sch_running s = None"
    using assms by (auto simp: prx_scheduler_create_new_def split: prod.splits option.splits)
  have "r = er_ok"
    using p by (auto simp: prx_fixed_pool_create_def split: if_splits prod.splits)
  then have "pool_created A fixed_pool SIZEOF_TASK_ENTRY
      (Some \<lparr>initial_count = INITIAL_POOL_SIZE, max_count = 0, low_watermark = 0, high_watermark = 0\<rparr>) p"
    using p by (simp add: pool_created_def)
  from pool_created_inv [OF this] show ?thesis
    using s by (simp add: sched_inv_def sched_entries_def sched_owns_def by_deadline_def)
qed

lemma sched_reachable_inv: "sched_reachable A s \<Longrightarrow> sched_inv s"
  by (induction rule: sched_reachable.induct) (auto intro: prx_scheduler_create_inv sched_step_inv)

text \<open>
  A concrete scheduler for the witnesses: three tasks queued on a fresh scheduler, the second
  delayed one due before the first.
\<close>

definition sched_demo0 :: prx_scheduler where
  "sched_demo0 = the (snd (prx_scheduler_create_new pool_demo_allocator True er_ok er_ok er_ok True))"

definition sched_demo :: prx_scheduler where
  "sched_demo = snd (prx_scheduler_queue pool_demo_allocator 10 (snd (prx_scheduler_queue pool_demo_allocator 7
     (snd (prx_scheduler_queue pool_demo_allocator 5 sched_demo0 1 9 100)) 2 9 20)) 3 9 0)"

lemma prx_fixed_pool_grow_loop_lists:
  "pool_free_list (prx_fixed_pool_grow_loop n mem i k p) = pool_free_list p @ map (Pair n) [i..<i + k] \<and>
   pool_free_count (prx_fixed_pool_grow_loop n mem i k p) = pool_free_count p + k"
proof (induction k arbitrary: i p)
  case (Suc k)
  have "[i..<i + Suc k] = i # [Suc i..<Suc i + k]"
    by (simp add: upt_conv_Cons)
  then show ?case
    using Suc.IH by (simp add: Let_def)
qed simp

lemma sched_demo0:
  "prx_scheduler_create_new pool_demo_allocator True er_ok er_ok er_ok True = (er_ok, Some sched_demo0)"
  "sch_now sched_demo0 = []" "sch_later sched_demo0 = []"
  "pool_free_list (sch_task_pool sched_demo0) = (0, 0) # (0, 1) # (0, 2) # map (Pair 0) [3..<128]"
  "pool_free_count (sch_task_pool sched_demo0) = 128"
proof -
  define p where "p = snd (prx_fixed_pool_grow_no_lock pool_demo_allocator (snd (prx_buffer_pool_init er_ok
     prx_pool_zero SIZEOF_TASK_ENTRY (Some \<lparr>initial_count = INITIAL_POOL_SIZE, max_count = 0,
       low_watermark = 0, high_watermark = 0\<rparr>))))"
  have "[0..<128 :: nat] = 0 # 1 # 2 # [3..<128]"
    by (simp add: upt_conv_Cons numeral_3_eq_3)
  then have p: "pool_free_list p = (0, 0) # (0, 1) # (0, 2) # map (Pair 0) [3..<128]" "pool_free_count p = 128"
    by (simp_all add: p_def prx_fixed_pool_grow_no_lock_def pool_grow_items_def prx_buffer_pool_init_def Let_def
        prx_pool_config_init_def INITIAL_POOL_SIZE_def mem_alloc_def pool_demo_allocator_def prx_pool_zero_def
        prx_fixed_pool_grow_loop_lists)
  have "prx_fixed_pool_create pool_demo_allocator True er_ok SIZEOF_TASK_ENTRY
     (Some \<lparr>initial_count = INITIAL_POOL_SIZE, max_count = 0, low_watermark = 0, high_watermark = 0\<rparr>) = (er_ok, Some p)"
    by (simp add: p_def prx_fixed_pool_create_def prx_fixed_pool_grow_no_lock_def pool_grow_items_def
        prx_buffer_pool_init_def Let_def prx_pool_config_init_def INITIAL_POOL_SIZE_def mem_alloc_def
        pool_demo_allocator_def)
  then have c: "prx_scheduler_create_new pool_demo_allocator True er_ok er_ok er_ok True = (er_ok,
      Some \<lparr>sch_task_pool = p, sch_now = [], sch_later = [], sch_wakeup = False, sch_should_run = True,
            sch_refs = 1, sch_running = None\<rparr>)"
    by (simp add: prx_scheduler_create_new_def)
  then show "prx_scheduler_create_new pool_demo_allocator True er_ok er_ok er_ok True = (er_ok, Some sched_demo0)"
    "sch_now sched_demo0 = []" "sch_later sched_demo0 = []"
    "pool_free_list (sch_task_pool sched_demo0) = (0, 0) # (0, 1) # (0, 2) # map (Pair 0) [3..<128]"
    "pool_free_count (sch_task_pool sched_demo0) = 128"
    using p by (simp_all add: sched_demo0_def)
qed

lemma prx_buffer_alloc_plain:
  assumes "pool_free_list p = a # rest" "1 < pool_free_count p"
  shows "prx_buffer_alloc A fixed_pool p None =
    (Some a, pool_checkout a (p\<lparr>pool_free_list := rest, pool_free_count := pool_free_count p - 1\<rparr>))"
  using assms by (simp add: prx_buffer_alloc_def prx_buffer_pool_alloc_None Let_def size_simps)

lemma prx_scheduler_queue_plain:
  assumes "pool_free_list (sch_task_pool s) = a # rest" "1 < pool_free_count (sch_task_pool s)" "task \<noteq> 0"
    and "prx_scheduler_queue A t s task context delay = (r, s')"
  defines "e \<equiv> \<lparr>te_id = a, te_queued = t, te_deadline = t + uint delay, te_task = task, te_context = context\<rparr>"
  shows "r = Inr a" "pool_free_list (sch_task_pool s') = rest"
    "pool_free_count (sch_task_pool s') = pool_free_count (sch_task_pool s) - 1"
    "sch_now s' = (if delay = 0 then sch_now s @ [e] else sch_now s)"
    "sch_later s' = (if delay = 0 then sch_later s else sched_insert_ordered e (sch_later s))"
  using assms by (auto simp: prx_scheduler_queue_def prx_buffer_alloc_plain prx_scheduler_interrupt_def
      pool_checkout_sel Let_def)

lemma sched_demo:
  "sched_reachable pool_demo_allocator sched_demo"
  "sch_now sched_demo = [\<lparr>te_id = (0, 2), te_queued = 10, te_deadline = 10, te_task = 3, te_context = 9\<rparr>]"
  "sch_later sched_demo = [\<lparr>te_id = (0, 1), te_queued = 7, te_deadline = 27, te_task = 2, te_context = 9\<rparr>,
     \<lparr>te_id = (0, 0), te_queued = 5, te_deadline = 105, te_task = 1, te_context = 9\<rparr>]"
proof -
  define s1 where "s1 = snd (prx_scheduler_queue pool_demo_allocator 5 sched_demo0 1 9 100)"
  define s2 where "s2 = snd (prx_scheduler_queue pool_demo_allocator 7 s1 2 9 20)"
  have s3: "sched_demo = snd (prx_scheduler_queue pool_demo_allocator 10 s2 3 9 0)"
    by (simp add: sched_demo_def s1_def s2_def)
  show "sched_reachable pool_demo_allocator sched_demo"
    unfolding s3 s2_def s1_def
    by (intro reach_step [OF _ step_queue] reach_create sched_demo0)
  have s1: "pool_free_list (sch_task_pool s1) = (0, 1) # (0, 2) # map (Pair 0) [3..<128]"
    "pool_free_count (sch_task_pool s1) = 127" "sch_now s1 = []"
    "sch_later s1 = [\<lparr>te_id = (0, 0), te_queued = 5, te_deadline = 105, te_task = 1, te_context = 9\<rparr>]"
    using prx_scheduler_queue_plain [OF sched_demo0(4), of 1 pool_demo_allocator 5 9 100 _ s1] sched_demo0(2,3,5)
    by (simp_all add: s1_def prod_eq_iff)
  have s2: "pool_free_list (sch_task_pool s2) = (0, 2) # map (Pair 0) [3..<128]"
    "pool_free_count (sch_task_pool s2) = 126" "sch_now s2 = []"
    "sch_later s2 = [\<lparr>te_id = (0, 1), te_queued = 7, te_deadline = 27, te_task = 2, te_context = 9\<rparr>,
       \<lparr>te_id = (0, 0), te_queued = 5, te_deadline = 105, te_task = 1, te_context = 9\<rparr>]"
    using prx_scheduler_queue_plain [OF s1(1), of 2 pool_demo_allocator 7 9 20 _ s2] s1
    by (simp_all add: s2_def prod_eq_iff)
  show "sch_now sched_demo = [\<lparr>te_id = (0, 2), te_queued = 10, te_deadline = 10, te_task = 3, te_context = 9\<rparr>]"
    "sch_later sched_demo = [\<lparr>te_id = (0, 1), te_queued = 7, te_deadline = 27, te_task = 2, te_context = 9\<rparr>,
     \<lparr>te_id = (0, 0), te_queued = 5, te_deadline = 105, te_task = 1, te_context = 9\<rparr>]"
    using prx_scheduler_queue_plain [OF s2(1), of 3 pool_demo_allocator 10 9 0 _ sched_demo] s2
    by (simp_all add: s3 prod_eq_iff)
qed

text \<open>
  C29. In every state the scheduler can get into, whatever the interleaving of its operations, the
  delayed tasks are sorted by deadline, no entry is used for two tasks, and the buffers checked out
  of the task pool are exactly the entries of the tasks that are queued or running: no task entry
  leaks and none is freed early.
\<close>
theorem scheduler_invariant:
  assumes "sched_reachable A s"
  shows "sorted (map te_deadline (sch_later s)) \<and> distinct (map te_id (sched_entries s)) \<and>
    set (pool_checked_out (sch_task_pool s)) = te_id ` set (sched_entries s)"
proof -
  have inv: "sched_inv s"
    using sched_reachable_inv [OF assms] .
  then have p: "pool_inv (sch_task_pool s)"
    and l: "pool_live (sch_task_pool s) = (\<lambda>a. if a \<in> te_id ` set (sched_entries s) then 1 else 0)"
    by (simp_all add: sched_inv_def sched_owns_def)
  have "a \<in> set (pool_checked_out (sch_task_pool s)) \<longleftrightarrow> a \<in> te_id ` set (sched_entries s)" for a
    using pool_live_checked_out [OF p, of a] unfolding l by (simp split: if_splits)
  then show ?thesis
    using inv by (auto simp: sched_inv_def by_deadline_def sched_owns_def)
qed

theorem scheduler_invariant_witness:
  "sch_later sched_demo \<noteq> [] \<and> sorted (map te_deadline (sch_later sched_demo)) \<and>
   set (pool_checked_out (sch_task_pool sched_demo)) = te_id ` set (sched_entries sched_demo)"
  using scheduler_invariant [OF sched_demo(1)] sched_demo(3) by simp

lemma to_int32_small: "- (2 ^ 31) \<le> x \<Longrightarrow> x < 2 ^ 31 \<Longrightarrow> to_int32 x = x"
  by (simp add: to_int32_def)

text \<open>
  C28. While every pending deadline is less than \<open>2^31\<close> ms away, the worker takes the earliest
  delayed task as soon as its deadline has passed, otherwise the oldest immediate task; it never
  takes a delayed task before its deadline, and when there is nothing to do it idles exactly until
  the earliest deadline (or without limit when nothing is queued).
\<close>
theorem prx_scheduler_get_next_correct:
  assumes "sched_reachable A s"
    and "\<forall>e \<in> set (sch_later s). - (2 ^ 31) \<le> te_deadline e - now \<and> te_deadline e - now < 2 ^ 31"
    and "prx_scheduler_get_next s now = (r, idle, s')"
  shows "case r of
      Some e \<Rightarrow> idle = 0 \<and>
        (if \<exists>d \<in> set (sch_later s). te_deadline d \<le> now
         then sch_later s = e # sch_later s' \<and> sch_now s' = sch_now s \<and>
              te_deadline e \<le> now \<and> (\<forall>d \<in> set (sch_later s). te_deadline e \<le> te_deadline d)
         else sch_now s = e # sch_now s' \<and> sch_later s' = sch_later s)
    | None \<Rightarrow> s' = s \<and> sch_now s = [] \<and> (\<forall>d \<in> set (sch_later s). now < te_deadline d) \<and>
        (if sch_later s = [] then idle = - 1
         else idle = Min (te_deadline ` set (sch_later s)) - now \<and> 0 < idle)"
proof -
  have sorted: "sorted (map te_deadline (sch_later s))"
    using sched_reachable_inv [OF assms(1)] by (simp add: sched_inv_def by_deadline_def)
  have hd_min: "\<forall>d \<in> set (sch_later s). te_deadline (hd (sch_later s)) \<le> te_deadline d"
    using sorted by (cases "sch_later s") auto
  have small: "to_int32 (te_deadline (hd (sch_later s)) - now) = te_deadline (hd (sch_later s)) - now"
    if "sch_later s \<noteq> []"
    using assms(2) that by (intro to_int32_small) auto
  have min: "Min (te_deadline ` set (sch_later s)) = te_deadline (hd (sch_later s))" if "sch_later s \<noteq> []"
    using that hd_min by (intro Min_eqI) auto
  from assms(3) show ?thesis
  proof (cases rule: prx_scheduler_get_next_cases)
    case (due c rest)
    then show ?thesis using small hd_min by auto
  next
    case (now c rest)
    then show ?thesis using small hd_min by fastforce
  next
    case none
    then show ?thesis using small hd_min min by fastforce
  qed
qed

theorem prx_scheduler_get_next_correct_witness:
  "\<exists>e s'. prx_scheduler_get_next sched_demo 30 = (Some e, 0, s') \<and> te_task e = 2 \<and>
     sch_later sched_demo = e # sch_later s' \<and> te_deadline e \<le> 30"
proof -
  obtain r idle s' where e: "prx_scheduler_get_next sched_demo 30 = (r, idle, s')"
    by (cases "prx_scheduler_get_next sched_demo 30")
  have "r \<noteq> None"
    using e sched_demo(2,3) by (auto simp: prx_scheduler_get_next_def Let_def split: if_splits)
  then show ?thesis
    using prx_scheduler_get_next_correct [OF sched_demo(1) _ e] e sched_demo(3) by auto
qed



text \<open>
  C38. Clearing the scheduler of a context and a task type (either may be left open) drops exactly
  the queued tasks that match, keeps the others in their order, and gives each dropped entry back to
  the pool.
\<close>
theorem prx_scheduler_clear_correct:
  assumes "sched_reachable A s" and s'_def: "s' = prx_scheduler_clear s task context"
  shows "sch_now s' = filter (\<lambda>e. \<not> sched_matches task context e) (sch_now s) \<and>
    sch_later s' = filter (\<lambda>e. \<not> sched_matches task context e) (sch_later s) \<and>
    set (pool_checked_out (sch_task_pool s')) = set (pool_checked_out (sch_task_pool s)) -
      te_id ` {e \<in> set (sch_now s @ sch_later s). sched_matches task context e}"
proof -
  have out: "set (pool_checked_out (sch_task_pool t)) = te_id ` set (sched_entries t) \<and>
      distinct (map te_id (sched_entries t))" if "sched_inv t" for t
  proof -
    have "a \<in> set (pool_checked_out (sch_task_pool t)) \<longleftrightarrow> a \<in> te_id ` set (sched_entries t)" for a
      using pool_live_checked_out [of "sch_task_pool t" a] that
      by (simp add: sched_inv_def sched_owns_def split: if_splits)
    then show ?thesis
      using that by (auto simp: sched_inv_def sched_owns_def)
  qed
  have inv: "sched_inv s"
    using sched_reachable_inv [OF assms(1)] .
  have lists: "sch_now s' = filter (\<lambda>e. \<not> sched_matches task context e) (sch_now s)"
    "sch_later s' = filter (\<lambda>e. \<not> sched_matches task context e) (sch_later s)" "sch_running s' = sch_running s"
    by (simp_all add: s'_def prx_scheduler_clear_eq)
  have inj: "inj_on te_id (set (sched_entries s))"
    using out [OF inv] by (simp add: distinct_map)
  have "te_id ` set (sched_entries s') = te_id ` (set (sched_entries s) -
      {e \<in> set (sch_now s @ sch_later s). sched_matches task context e})"
    using inj out [OF inv] by (cases "sch_running s") (auto simp: sched_entries_def lists)
  also have "\<dots> = te_id ` set (sched_entries s) -
      te_id ` {e \<in> set (sch_now s @ sch_later s). sched_matches task context e}"
    by (rule inj_on_image_set_diff [OF inj]) (auto simp: sched_entries_def)
  finally show ?thesis
    using lists out [OF inv] out [OF prx_scheduler_clear_inv [OF inv]] by (simp add: s'_def)
qed

theorem prx_scheduler_clear_witness:
  "sch_now (prx_scheduler_clear sched_demo 2 9) = sch_now sched_demo \<and>
   map te_task (sch_later (prx_scheduler_clear sched_demo 2 9)) = [1]"
  using prx_scheduler_clear_correct [OF sched_demo(1) refl, of 2 9] sched_demo(2,3)
  by (simp add: sched_matches_def)

end
