(* ===== verification/Io_Mpack.thy ===== *)
theory Io_Mpack
  imports Io_Codec
begin

text \<open>
  The MessagePack codec of \<open>src/io_codec.c\<close>. The library \<open>cmp\<close> behind it is the parameter
  \<open>L :: cmp_lib\<close>: what it does is known only through the calls it makes to the read and write callbacks
  of its context, \<open>cmp_stream_read\<close> and \<open>cmp_stream_write\<close>, and through the error code it leaves there.
\<close>

section \<open>The cmp library as a parameter\<close>

text \<open>The items the codec asks the library to write.\<close>

datatype cmp_item =
    cmp_integer i64
  | cmp_uinteger u64
  | cmp_decimal double
  | cmp_bool bool
  | cmp_str "u8 list"
  | cmp_bin "u8 list"
  | cmp_array u32
  | cmp_nil

text \<open>What \<open>cmp_read_object\<close> found: the types the codec tells apart.\<close>

datatype cmp_object = obj_nil | obj_array u32 | obj_map | obj_other

text \<open>
  A reader of the library: it ends with a value or with an error code, or asks the callback for a
  number of bytes, leaving an error code of its own when the callback fails.
\<close>

datatype 'a cmp_reader =
    rd_done 'a
  | rd_fail nat
  | rd_need nat nat "u8 list \<Rightarrow> 'a cmp_reader"

record cmp_lib =
  cmp_ctx_size :: nat
  cmp_write :: "cmp_item \<Rightarrow> (nat \<times> u8 list) list"
  cmp_read_integer :: "i64 cmp_reader"
  cmp_read_uinteger :: "u64 cmp_reader"
  cmp_read_decimal :: "double cmp_reader"
  cmp_read_bool :: "bool cmp_reader"
  cmp_read_str_size :: "u32 cmp_reader"
  cmp_read_bin_size :: "u32 cmp_reader"
  cmp_read_array :: "u32 cmp_reader"
  cmp_read_object :: "cmp_object cmp_reader"
  cmp_read_nil :: "unit cmp_reader"

section \<open>The context of the library and its callbacks\<close>

record 's cmp_ctx =
  cmp_buf :: "'s io_stream option"
  cmp_error :: nat

definition cmp_out_of_memory_error :: nat where
  "cmp_out_of_memory_error = 0xff"

definition cmp_ctx_get_err :: "'s cmp_ctx \<Rightarrow> prx_error" where
  "cmp_ctx_get_err c = (
     let e = cmp_error c
     in if e = 0 then er_ok
        else if e \<in> {1, 2, 3, 4, 5} then er_arg
        else if e = 6 then er_writing
        else if e = 7 then er_invalid_format
        else if e = 8 then er_writing
        else if e = 9 then er_invalid_format
        else if e = 10 then er_writing
        else if e = 11 then er_invalid_format
        else if e = 12 then er_writing
        else if e = 13 then er_arg
        else if e = 14 then er_invalid_format
        else if e = 15 then er_writing
        else if e = 16 then er_fault
        else if e = 17 then er_fault
        else if e = cmp_out_of_memory_error then er_out_of_memory
        else er_unknown)"

definition cmp_ctx_set_err :: "'s cmp_ctx \<Rightarrow> prx_error \<Rightarrow> bool \<times> 's cmp_ctx" where
  "cmp_ctx_set_err c error = (
     if error = er_ok then (True, c\<lparr>cmp_error := 0\<rparr>)
     else if error = er_arg then (False, c\<lparr>cmp_error := 1\<rparr>)
     else if error = er_writing then (False, c\<lparr>cmp_error := 10\<rparr>)
     else if error = er_reading then (False, c\<lparr>cmp_error := 9\<rparr>)
     else if error = er_invalid_format then (False, c\<lparr>cmp_error := 7\<rparr>)
     else if error = er_out_of_memory then (False, c\<lparr>cmp_error := cmp_out_of_memory_error\<rparr>)
     else if error = er_fault then (False, c\<lparr>cmp_error := 16\<rparr>)
     else (False, c\<lparr>cmp_error := 99\<rparr>))"

definition cmp_stream_read :: "nat \<Rightarrow> 's cmp_ctx \<Rightarrow> bool \<times> u8 list \<times> 's cmp_ctx" where
  "cmp_stream_read limit c = (
     let (result, data, stream) = io_stream_read (cmp_buf c) limit;
         result = (if result = er_ok \<and> length data \<noteq> limit then er_reading else result);
         (ok, c) = cmp_ctx_set_err (c\<lparr>cmp_buf := stream\<rparr>) result
     in (ok, data, c))"

definition cmp_stream_write :: "u8 list \<Rightarrow> 's cmp_ctx \<Rightarrow> nat \<times> 's cmp_ctx" where
  "cmp_stream_write data c = (
     let (result, stream) = io_stream_write (cmp_buf c) data;
         (ok, c) = cmp_ctx_set_err (c\<lparr>cmp_buf := stream\<rparr>) result
     in (if ok then length data else 0, c))"

text \<open>
  Running the library: it writes chunk after chunk and stops with its own error code at the first one
  the callback did not take completely; its readers run against the read callback.
\<close>

fun cmp_put :: "(nat \<times> u8 list) list \<Rightarrow> 's cmp_ctx \<Rightarrow> bool \<times> 's cmp_ctx" where
  "cmp_put [] c = (True, c)"
| "cmp_put ((e, data) # chunks) c = (
     let (n, c) = cmp_stream_write data c
     in if n = length data then cmp_put chunks c else (False, c\<lparr>cmp_error := e\<rparr>))"

primrec cmp_get :: "'a cmp_reader \<Rightarrow> 's cmp_ctx \<Rightarrow> 'a option \<times> 's cmp_ctx" where
  "cmp_get (rd_done v) c = (Some v, c)"
| "cmp_get (rd_fail e) c = (None, c\<lparr>cmp_error := e\<rparr>)"
| "cmp_get (rd_need e n k) c = (case cmp_stream_read n c of
     (ok, data, c) \<Rightarrow> if ok then cmp_get (k data) c else (None, c\<lparr>cmp_error := e\<rparr>))"

section \<open>Writers\<close>

text \<open>The context pointer of every codec context is the one \<open>cmp\<close> context; freed, it is \<^const>\<open>None\<close>.\<close>

type_synonym ('s, 'a) mpack_act = "(unit, 's cmp_ctx option, 'a) act"

definition act_cmp :: "('s cmp_ctx \<Rightarrow> 'a \<times> 's cmp_ctx) \<Rightarrow> ('s, 'a) mpack_act" where
  "act_cmp f s = (case cs_state (snd s) of
     None \<Rightarrow> (Crash, s)
   | Some c \<Rightarrow> (case f c of (v, c') \<Rightarrow> (Ok v, fst s, (snd s)\<lparr>cs_state := Some c'\<rparr>)))"

text \<open>\<open>return cmp_ctx_get_err(cmp_ctx)\<close>: an error code of zero is the success of the caller.\<close>

definition act_cmp_err :: "('s, unit) mpack_act" where
  "act_cmp_err = act_bind (act_cmp (\<lambda>c. (cmp_ctx_get_err c, c))) (\<lambda>e.
     if e = er_ok then act_return () else act_fail e)"

definition mpack_write_complete :: "('s, unit) mpack_act" where
  "mpack_write_complete s = (Ok (), (fst s)\<lparr>ctx_index := size_sub (ctx_index (fst s)) 1\<rparr>, snd s)"

definition mpack_write :: "cmp_lib \<Rightarrow> cmp_item \<Rightarrow> ('s, unit) mpack_act" where
  "mpack_write L item = act_bind (act_cmp (cmp_put (cmp_write L item))) (\<lambda>ok.
     if \<not> ok then act_cmp_err else mpack_write_complete)"

definition mpack_write_integer :: "cmp_lib \<Rightarrow> pname \<Rightarrow> i64 \<Rightarrow> ('s, unit) mpack_act" where
  "mpack_write_integer L name value = mpack_write L (cmp_integer value)"

definition mpack_write_uinteger :: "cmp_lib \<Rightarrow> pname \<Rightarrow> u64 \<Rightarrow> ('s, unit) mpack_act" where
  "mpack_write_uinteger L name value = mpack_write L (cmp_uinteger value)"

definition mpack_write_decimal :: "cmp_lib \<Rightarrow> pname \<Rightarrow> double \<Rightarrow> ('s, unit) mpack_act" where
  "mpack_write_decimal L name value = mpack_write L (cmp_decimal value)"

definition mpack_write_bool :: "cmp_lib \<Rightarrow> pname \<Rightarrow> bool \<Rightarrow> ('s, unit) mpack_act" where
  "mpack_write_bool L name value = mpack_write L (cmp_bool value)"

text \<open>\<open>strlen\<close> needs a terminated string; the length is then cast to 32 bits.\<close>

definition c_strlen :: "u8 list option \<Rightarrow> nat option" where
  "c_strlen p = (case p of
     None \<Rightarrow> None
   | Some mem \<Rightarrow> if 0 \<in> set mem then Some (length (takeWhile (\<lambda>b. b \<noteq> 0) mem)) else None)"

definition to_uint32 :: "nat \<Rightarrow> nat" where
  "to_uint32 n = n mod 2 ^ 32"

definition mpack_write_string :: "cmp_lib \<Rightarrow> pname \<Rightarrow> u8 list option \<Rightarrow> ('s, unit) mpack_act" where
  "mpack_write_string L name value = (case c_strlen value of
     None \<Rightarrow> act_crash
   | Some n \<Rightarrow> mpack_write L (cmp_str (take (to_uint32 n) (the value))))"

definition mpack_write_bin :: "cmp_lib \<Rightarrow> pname \<Rightarrow> u8 list option \<Rightarrow> nat \<Rightarrow> ('s, unit) mpack_act" where
  "mpack_write_bin L name value sz = (
     let n = to_uint32 sz; mem = (case value of None \<Rightarrow> [] | Some mem \<Rightarrow> mem)
     in if length mem < n then act_crash else mpack_write L (cmp_bin (take n mem)))"

text \<open>The index of the sub-context is not set before its type begins; it is 0 here.\<close>

definition mpack_write_object :: "cmp_lib \<Rightarrow> pname \<Rightarrow> bool \<Rightarrow> ('s, unit io_codec_ctx) mpack_act" where
  "mpack_write_object L name is_null = act_bind
     (if is_null then act_cmp (cmp_put (cmp_write L cmp_nil)) else act_return True) (\<lambda>ok.
     if \<not> ok then act_bind act_cmp_err (\<lambda>_. act_crash)
     else (\<lambda>(ctx, m). act_bind mpack_write_complete (\<lambda>_. act_return (ctx\<lparr>ctx_index := 0\<rparr>)) (ctx, m)))"

definition set_index :: "nat \<Rightarrow> ('s, unit) mpack_act" where
  "set_index n s = (Ok (), (fst s)\<lparr>ctx_index := n\<rparr>, snd s)"

definition mpack_write_type_begin :: "cmp_lib \<Rightarrow> nat \<Rightarrow> ('s, unit) mpack_act" where
  "mpack_write_type_begin L members = act_bind (act_cmp (cmp_put (cmp_write L (cmp_array (of_nat members + 1))))) (\<lambda>ok.
     if \<not> ok then act_cmp_err
     else act_bind (act_cmp (cmp_put (cmp_write L cmp_nil))) (\<lambda>ok.
     if \<not> ok then act_cmp_err else set_index members))"

definition mpack_write_type_end :: "('s, unit) mpack_act" where
  "mpack_write_type_end = act_return ()"

definition mpack_write_array :: "cmp_lib \<Rightarrow> pname \<Rightarrow> nat \<Rightarrow> ('s, unit io_codec_ctx) mpack_act" where
  "mpack_write_array L name sz = act_bind (act_cmp (cmp_put (cmp_write L (cmp_array (of_nat sz))))) (\<lambda>ok.
     if \<not> ok then act_bind act_cmp_err (\<lambda>_. act_crash)
     else (\<lambda>(ctx, m). act_bind mpack_write_complete (\<lambda>_. act_return (ctx\<lparr>ctx_index := sz\<rparr>)) (ctx, m)))"

section \<open>Readers\<close>

definition mpack_read_begin :: "('s, unit) mpack_act" where
  "mpack_read_begin s = (
     if ctx_index (fst s) = 0 then (Err er_invalid_format, s)
     else (Ok (), (fst s)\<lparr>ctx_index := ctx_index (fst s) - 1\<rparr>, snd s))"

text \<open>
  A value read: when the library fails without an error code the caller goes on with a variable that
  was never set.
\<close>

definition mpack_value :: "'a cmp_reader \<Rightarrow> ('s, 'a) mpack_act" where
  "mpack_value rd = act_bind (act_cmp (cmp_get rd)) (\<lambda>r. case r of
     None \<Rightarrow> act_bind act_cmp_err (\<lambda>_. act_crash)
   | Some v \<Rightarrow> act_return v)"

definition mpack_read :: "'a cmp_reader \<Rightarrow> ('s, 'a) mpack_act" where
  "mpack_read rd = act_bind mpack_read_begin (\<lambda>_. mpack_value rd)"

definition mpack_read_integer :: "cmp_lib \<Rightarrow> pname \<Rightarrow> ('s, i64) mpack_act" where
  "mpack_read_integer L name = mpack_read (cmp_read_integer L)"

definition mpack_read_uinteger :: "cmp_lib \<Rightarrow> pname \<Rightarrow> ('s, u64) mpack_act" where
  "mpack_read_uinteger L name = mpack_read (cmp_read_uinteger L)"

definition mpack_read_decimal :: "cmp_lib \<Rightarrow> pname \<Rightarrow> ('s, double) mpack_act" where
  "mpack_read_decimal L name = mpack_read (cmp_read_decimal L)"

definition mpack_read_bool :: "cmp_lib \<Rightarrow> pname \<Rightarrow> ('s, bool) mpack_act" where
  "mpack_read_bool L name = mpack_read (cmp_read_bool L)"

text \<open>
  The callback stores the bytes it got behind the pointer also when there were fewer than asked for.
\<close>

definition mpack_read_payload :: "mem_ptr \<Rightarrow> nat \<Rightarrow> ('s, bool) mpack_act" where
  "mpack_read_payload p n = act_bind (act_cmp (\<lambda>c. case cmp_stream_read n c of (ok, data, c) \<Rightarrow> ((ok, data), c))) (\<lambda>(ok, data).
     act_mem (\<lambda>m. map_option (Pair ok) (mem_store m p 0 data)))"

text \<open>A failed size read, as the result code of the string and binary readers.\<close>

definition mpack_size :: "u32 cmp_reader \<Rightarrow> ('s, nat) mpack_act" where
  "mpack_size rd = act_bind (mpack_value rd) (\<lambda>w. act_return (unat w))"

definition mpack_read_string ::
  "cmp_lib \<Rightarrow> pname \<Rightarrow> io_decode_allocator option \<Rightarrow> mem_ptr \<Rightarrow> nat \<Rightarrow> ('s, prx_error \<times> mem_ptr \<times> nat) mpack_act" where
  "mpack_read_string L name allocator value sz = (case allocator of
     None \<Rightarrow> act_crash
   | Some a \<Rightarrow>
     act_bind mpack_read_begin (\<lambda>_.
     act_bind (mpack_size (cmp_read_str_size L)) (\<lambda>len32.
     act_bind (act_allocate a (to_uint32 (len32 + 1)) value sz) (\<lambda>(result, value, sz).
     if result \<noteq> er_ok then act_return (result, value, sz)
     else if sz \<noteq> to_uint32 (len32 + 1)
     then act_bind (act_allocate a 0 value sz) (\<lambda>(_, value, sz). act_return (er_out_of_memory, value, sz))
     else act_bind (mpack_read_payload value len32) (\<lambda>ok.
       if \<not> ok
       then act_bind (act_allocate a 0 value sz) (\<lambda>(_, value, sz). act_return (er_reading, value, sz))
       else act_bind (act_mem (\<lambda>m. map_option (Pair ()) (mem_store m value len32 [0]))) (\<lambda>_.
            act_return (er_ok, value, sz)))))))"

definition mpack_read_bin ::
  "cmp_lib \<Rightarrow> pname \<Rightarrow> io_decode_allocator option \<Rightarrow> mem_ptr \<Rightarrow> nat \<Rightarrow> ('s, prx_error \<times> mem_ptr \<times> nat) mpack_act" where
  "mpack_read_bin L name allocator value sz =
     act_bind mpack_read_begin (\<lambda>_.
     act_bind (mpack_size (cmp_read_bin_size L)) (\<lambda>len32.
     if len32 = 0 then act_return (er_ok, null_ptr, 0)
     else case allocator of
       None \<Rightarrow> act_crash
     | Some a \<Rightarrow>
       act_bind (act_allocate a len32 value sz) (\<lambda>(result, value, sz).
       if result \<noteq> er_ok then act_return (result, value, sz)
       else if sz \<noteq> len32
       then act_bind (act_allocate a 0 value sz) (\<lambda>(_, value, sz). act_return (er_out_of_memory, value, sz))
       else act_bind (mpack_read_payload value len32) (\<lambda>ok.
         if \<not> ok
         then act_bind (act_allocate a 0 value sz) (\<lambda>(_, value, sz). act_return (er_reading, value, sz))
         else act_return (er_ok, value, sz)))))"

definition mpack_read_object :: "cmp_lib \<Rightarrow> pname \<Rightarrow> ('s, bool \<times> unit io_codec_ctx) mpack_act" where
  "mpack_read_object L name =
     act_bind mpack_read_begin (\<lambda>_.
     act_bind (mpack_value (cmp_read_object L)) (\<lambda>obj. case obj of
       obj_nil \<Rightarrow> (\<lambda>(ctx, m). (Ok (True, ctx\<lparr>ctx_index := 0\<rparr>), ctx, m))
     | obj_array n \<Rightarrow> (\<lambda>(ctx, m).
         case act_bind mpack_read_begin (\<lambda>_. mpack_value (cmp_read_nil L)) (ctx\<lparr>ctx_index := unat n\<rparr>, m) of
           (Ok _, object, m) \<Rightarrow> (Ok (False, object), ctx, m)
         | (Err e, object, m) \<Rightarrow> (Err e, ctx, m)
         | (Crash, object, m) \<Rightarrow> (Crash, ctx, m))
     | obj_map \<Rightarrow> act_fail er_invalid_format
     | obj_other \<Rightarrow> act_fail er_invalid_format))"

definition mpack_read_type_begin :: "('s, unit) mpack_act" where
  "mpack_read_type_begin = act_return ()"

definition mpack_read_type_end :: "('s, unit) mpack_act" where
  "mpack_read_type_end = act_return ()"

definition mpack_read_array :: "cmp_lib \<Rightarrow> pname \<Rightarrow> ('s, nat \<times> unit io_codec_ctx) mpack_act" where
  "mpack_read_array L name =
     act_bind mpack_read_begin (\<lambda>_.
     act_bind (mpack_value (cmp_read_array L)) (\<lambda>n.
     (\<lambda>(ctx, m). (Ok (unat n, ctx\<lparr>ctx_index := unat n\<rparr>), ctx, m))))"

section \<open>The codec\<close>

definition mpack_init_ctx ::
  "cmp_lib \<Rightarrow> 's io_stream option \<Rightarrow> bool \<Rightarrow> dec_mem \<Rightarrow> (unit io_codec_ctx \<times> 's cmp_ctx option codec_store) res \<times> dec_mem" where
  "mpack_init_ctx L stream init_from_stream m = (
     let m' = m\<lparr>mm_count := mm_count m + 1\<rparr>
     in if \<not> al_ok (mm_alloc m) (mm_count m) (cmp_ctx_size L) then (Err er_out_of_memory, m')
        else (Ok (\<lparr>ctx_context = (), ctx_index = 1, ctx_default_allocator = None\<rparr>,
                  \<lparr>cs_state = Some \<lparr>cmp_buf = stream, cmp_error = 0\<rparr>, cs_mem = m'\<rparr>), m'))"

definition mpack_fini_ctx :: "'s io_stream option \<Rightarrow> bool \<Rightarrow> ('s, unit) mpack_act" where
  "mpack_fini_ctx stream flush s = (Ok (), fst s, (snd s)\<lparr>cs_state := None\<rparr>)"

definition mpack_codec :: "cmp_lib \<Rightarrow> (unit, 's cmp_ctx option, 's) io_codec" where
  "mpack_codec L = \<lparr>
     codec_id = io_codec_mpack,
     enc_int = mpack_write_integer L,
     enc_uint = mpack_write_uinteger L,
     enc_decimal = mpack_write_decimal L,
     enc_bool = mpack_write_bool L,
     enc_string = mpack_write_string L,
     enc_bin = mpack_write_bin L,
     enc_object = mpack_write_object L,
     enc_tbegin = mpack_write_type_begin L,
     enc_tend = mpack_write_type_end,
     enc_array = mpack_write_array L,
     dec_int = mpack_read_integer L,
     dec_uint = mpack_read_uinteger L,
     dec_double = mpack_read_decimal L,
     dec_bool = mpack_read_bool L,
     dec_string = mpack_read_string L,
     dec_bin = mpack_read_bin L,
     dec_object = mpack_read_object L,
     dec_tbegin = mpack_read_type_begin,
     dec_tend = mpack_read_type_end,
     dec_array = mpack_read_array L,
     init_ctx = mpack_init_ctx L,
     fini_ctx = mpack_fini_ctx\<rparr>"

end
