(* ===== verification/Mpack_Laws.thy ===== *)
theory Mpack_Laws
  imports Io_Mpack
begin

text \<open>
  The documented laws of the MessagePack library, what the codec makes of them on a stream, and the
  two calculi the encoders and decoders of the protocol types are verified with: \<open>emits\<close> for what an
  encoder that succeeds has written, and \<open>reads\<close> for what a decoder makes of those bytes.
\<close>

named_theorems emits_rules \<open>what the encoders of fields emit\<close>
named_theorems reads_rules \<open>one step of a decoder on the fields of its type\<close>
named_theorems codec_unfold \<open>dispatch of the codec interface to the MessagePack codec\<close>

section \<open>Conversions between integer widths\<close>

lemma ucast_widen [simp]:
  "ucast (ucast (a :: u32) :: u64) = a"
  "ucast (ucast (b :: u16) :: u64) = b"
  "ucast (ucast (c :: u8) :: u64) = c"
  by (rule bit_word_eqI, simp add: bit_ucast_iff)+

lemma scast_widen [simp]: "ucast (scast (a :: i32) :: i64) = a"
proof (rule bit_word_eqI)
  fix n assume n: "n < LENGTH(32)"
  then have "min n 31 = n" by simp
  then show "bit (ucast (scast a :: i64) :: i32) n = bit a n"
    using n by (simp add: bit_ucast_iff bit_signed_iff)
qed

section \<open>Laws of the library\<close>

text \<open>A reader of the library on a list of bytes.\<close>

primrec rd_list :: "'a cmp_reader \<Rightarrow> u8 list \<Rightarrow> ('a \<times> u8 list) option" where
  "rd_list (rd_done v) bs = Some (v, bs)"
| "rd_list (rd_fail e) bs = None"
| "rd_list (rd_need e n k) bs = (if n \<le> length bs then rd_list (k (take n bs)) (drop n bs) else None)"

definition cmp_bytes :: "cmp_lib \<Rightarrow> cmp_item \<Rightarrow> u8 list" where
  "cmp_bytes L item = concat (map snd (cmp_write L item))"

text \<open>
  What the library writes for an item its reader for that kind of item reads back, leaving what
  follows; the readers of sizes leave the payload as well. A write the callback refuses leaves an
  error code.
\<close>

definition scalar_laws :: "cmp_lib \<Rightarrow> bool" where
  "scalar_laws L \<longleftrightarrow>
     (\<forall>v rest. rd_list (cmp_read_integer L) (cmp_bytes L (cmp_integer v) @ rest) = Some (v, rest)) \<and>
     (\<forall>v rest. rd_list (cmp_read_uinteger L) (cmp_bytes L (cmp_uinteger v) @ rest) = Some (v, rest)) \<and>
     (\<forall>v rest. rd_list (cmp_read_decimal L) (cmp_bytes L (cmp_decimal v) @ rest) = Some (v, rest)) \<and>
     (\<forall>v rest. rd_list (cmp_read_bool L) (cmp_bytes L (cmp_bool v) @ rest) = Some (v, rest))"

definition sized_laws :: "cmp_lib \<Rightarrow> bool" where
  "sized_laws L \<longleftrightarrow>
     (\<forall>d rest. length d < 2 ^ 32 \<longrightarrow>
        rd_list (cmp_read_str_size L) (cmp_bytes L (cmp_str d) @ rest) = Some (of_nat (length d), d @ rest)) \<and>
     (\<forall>d rest. length d < 2 ^ 32 \<longrightarrow>
        rd_list (cmp_read_bin_size L) (cmp_bytes L (cmp_bin d) @ rest) = Some (of_nat (length d), d @ rest))"

definition struct_laws :: "cmp_lib \<Rightarrow> bool" where
  "struct_laws L \<longleftrightarrow>
     (\<forall>n rest. rd_list (cmp_read_array L) (cmp_bytes L (cmp_array n) @ rest) = Some (n, rest)) \<and>
     (\<forall>n rest. rd_list (cmp_read_object L) (cmp_bytes L (cmp_array n) @ rest) = Some (obj_array n, rest)) \<and>
     (\<forall>rest. rd_list (cmp_read_object L) (cmp_bytes L cmp_nil @ rest) = Some (obj_nil, rest)) \<and>
     (\<forall>rest. rd_list (cmp_read_nil L) (cmp_bytes L cmp_nil @ rest) = Some ((), rest))"

definition cmp_laws :: "cmp_lib \<Rightarrow> bool" where
  "cmp_laws L \<longleftrightarrow> scalar_laws L \<and> sized_laws L \<and> struct_laws L \<and> (\<forall>item. 0 \<notin> fst ` set (cmp_write L item))"

lemma scalar_laws_readers:
  assumes "cmp_laws L"
  shows "rd_list (cmp_read_integer L) (cmp_bytes L (cmp_integer i) @ rest) = Some (i, rest)"
    and "rd_list (cmp_read_uinteger L) (cmp_bytes L (cmp_uinteger u) @ rest) = Some (u, rest)"
    and "rd_list (cmp_read_decimal L) (cmp_bytes L (cmp_decimal u) @ rest) = Some (u, rest)"
    and "rd_list (cmp_read_bool L) (cmp_bytes L (cmp_bool b) @ rest) = Some (b, rest)"
  using assms unfolding cmp_laws_def scalar_laws_def by simp_all

lemma sized_laws_readers:
  assumes "cmp_laws L" "length d < 2 ^ 32"
  shows "rd_list (cmp_read_str_size L) (cmp_bytes L (cmp_str d) @ rest) = Some (of_nat (length d), d @ rest)"
    and "rd_list (cmp_read_bin_size L) (cmp_bytes L (cmp_bin d) @ rest) = Some (of_nat (length d), d @ rest)"
  using assms unfolding cmp_laws_def sized_laws_def by simp_all

lemma struct_laws_readers:
  assumes "cmp_laws L"
  shows "rd_list (cmp_read_array L) (cmp_bytes L (cmp_array n) @ rest) = Some (n, rest)"
    and "rd_list (cmp_read_object L) (cmp_bytes L (cmp_array n) @ rest) = Some (obj_array n, rest)"
    and "rd_list (cmp_read_object L) (cmp_bytes L cmp_nil @ rest) = Some (obj_nil, rest)"
    and "rd_list (cmp_read_nil L) (cmp_bytes L cmp_nil @ rest) = Some ((), rest)"
  using assms unfolding cmp_laws_def struct_laws_def by simp_all

lemma cmp_laws_write: "cmp_laws L \<Longrightarrow> (e, d) \<in> set (cmp_write L item) \<Longrightarrow> e \<noteq> 0"
  unfolding cmp_laws_def by force

section \<open>Actions\<close>

lemma act_bind_return [simp]: "act_bind (act_return v) f = f v"
  by (rule ext) (simp add: act_bind_def act_return_def)

lemma act_bind_return_right [simp]: "act_bind a act_return = a"
  by (rule ext) (simp add: act_bind_def act_return_def split: prod.splits res.splits)

lemma act_bind_assoc: "act_bind (act_bind a f) g = act_bind a (\<lambda>v. act_bind (f v) g)"
  by (rule ext) (simp add: act_bind_def split: prod.splits res.splits)

lemma read_type_simps [simp]:
  "io_decode_type_begin (mpack_codec L) = act_return ()"
  "io_decode_type_end (mpack_codec L) = act_return ()"
  by (simp_all add: io_decode_type_begin_def io_decode_type_end_def mpack_codec_def
      mpack_read_type_begin_def mpack_read_type_end_def)

lemma act_bind_Ok:
  "act_bind a f s = (Ok w, s') \<Longrightarrow> \<exists>v s1. a s = (Ok v, s1) \<and> f v s1 = (Ok w, s')"
  by (auto simp: act_bind_def split: prod.splits res.splits)

lemma act_bind_step: "a s = (Ok v, s1) \<Longrightarrow> act_bind a f s = f v s1"
  by (simp add: act_bind_def)

lemmas codec_dispatch [codec_unfold] =
  io_encode_int64_def io_encode_uint64_def io_encode_bool_def io_encode_double_def
  io_encode_string_def io_encode_bin_def io_encode_type_begin_def io_encode_type_end_def io_encode_object_def
  io_encode_array_def io_decode_int64_def io_decode_uint64_def io_decode_double_def io_decode_bool_def
  io_decode_type_begin_def io_decode_type_end_def io_decode_object_def io_decode_array_def
  io_encode_int32_def io_encode_uint32_def io_encode_uint16_def io_encode_uint8_def
  io_codec_ctx_get_codec_id_def

lemma mpack_codec_simps [simp, codec_unfold]:
  "codec_id (mpack_codec L) = io_codec_mpack"
  "enc_int (mpack_codec L) = mpack_write_integer L"
  "enc_uint (mpack_codec L) = mpack_write_uinteger L"
  "enc_decimal (mpack_codec L) = mpack_write_decimal L"
  "enc_bool (mpack_codec L) = mpack_write_bool L"
  "enc_string (mpack_codec L) = mpack_write_string L"
  "enc_bin (mpack_codec L) = mpack_write_bin L"
  "enc_object (mpack_codec L) = mpack_write_object L"
  "enc_tbegin (mpack_codec L) = mpack_write_type_begin L"
  "enc_tend (mpack_codec L) = mpack_write_type_end"
  "enc_array (mpack_codec L) = mpack_write_array L"
  "dec_int (mpack_codec L) = mpack_read_integer L"
  "dec_uint (mpack_codec L) = mpack_read_uinteger L"
  "dec_double (mpack_codec L) = mpack_read_decimal L"
  "dec_bool (mpack_codec L) = mpack_read_bool L"
  "dec_string (mpack_codec L) = mpack_read_string L"
  "dec_bin (mpack_codec L) = mpack_read_bin L"
  "dec_object (mpack_codec L) = mpack_read_object L"
  "dec_tbegin (mpack_codec L) = mpack_read_type_begin"
  "dec_tend (mpack_codec L) = mpack_read_type_end"
  "dec_array (mpack_codec L) = mpack_read_array L"
  "init_ctx (mpack_codec L) = mpack_init_ctx L"
  "fini_ctx (mpack_codec L) = mpack_fini_ctx"
  by (simp_all add: mpack_codec_def)

section \<open>Encoding\<close>

lemma cmp_ctx_get_err_0 [simp]: "cmp_ctx_get_err c = er_ok \<longleftrightarrow> cmp_error c = 0"
  by (simp add: cmp_ctx_get_err_def Let_def)

lemma cmp_ctx_set_err_buf: "cmp_ctx_set_err c e = (b, c') \<Longrightarrow> cmp_buf c' = cmp_buf c \<and> (b \<longleftrightarrow> e = er_ok)"
  by (auto simp: cmp_ctx_set_err_def split: if_splits)

lemma cmp_put_error:
  "cmp_put chunks c = (False, c') \<Longrightarrow> 0 \<notin> fst ` set chunks \<Longrightarrow> cmp_error c' \<noteq> 0"
proof (induction chunks arbitrary: c)
  case (Cons ch chunks)
  obtain e d where ch: "ch = (e, d)" by (cases ch)
  obtain n c1 where w: "cmp_stream_write d c = (n, c1)" by (cases "cmp_stream_write d c")
  show ?case
  proof (cases "n = length d")
    case True
    then show ?thesis
      using Cons.IH [of c1] Cons.prems ch w by simp
  next
    case False
    then show ?thesis
      using Cons.prems ch w by auto
  qed
qed simp

context sink
begin

definition sinks_ctx :: "'s cmp_ctx \<Rightarrow> u8 list \<Rightarrow> nat \<Rightarrow> bool" where
  "sinks_ctx c bs n \<longleftrightarrow> (\<exists>st. cmp_buf c = Some st \<and> st_writer st = Some wr \<and> ok (st_context st) \<and>
     out (st_context st) = bs \<and> room (st_context st) = n)"

definition sinks :: "'s cmp_ctx option codec_store \<Rightarrow> u8 list \<Rightarrow> nat \<Rightarrow> bool" where
  "sinks m bs n \<longleftrightarrow> (\<exists>c. cs_state m = Some c \<and> sinks_ctx c bs n)"

text \<open>
  The action appends \<open>w\<close> to the output of the stream; it fails only where the stream has no room for \<open>w\<close>,
  and it never accesses memory out of bounds.
\<close>

definition emits :: "('s, 'a) mpack_act \<Rightarrow> u8 list \<Rightarrow> bool" where
  "emits a w \<longleftrightarrow> (\<forall>s bs n. sinks (snd s) bs n \<longrightarrow>
     (\<exists>v s' k. a s = (Ok v, s') \<and> n \<le> k + length w \<and> sinks (snd s') (bs @ w) k) \<or>
     (\<exists>e s'. a s = (Err e, s') \<and> n < length w))"

lemma emitsI:
  "(\<And>s bs n. sinks (snd s) bs n \<Longrightarrow>
      (\<exists>v s' k. a s = (Ok v, s') \<and> n \<le> k + length w \<and> sinks (snd s') (bs @ w) k) \<or>
      (\<exists>e s'. a s = (Err e, s') \<and> n < length w)) \<Longrightarrow> emits a w"
  by (simp add: emits_def)

lemma emitsE:
  assumes "emits a w" "sinks (snd s) bs n"
  obtains v s' k where "a s = (Ok v, s')" "n \<le> k + length w" "sinks (snd s') (bs @ w) k"
  | e s' where "a s = (Err e, s')" "n < length w"
proof -
  have "(\<exists>v s' k. a s = (Ok v, s') \<and> n \<le> k + length w \<and> sinks (snd s') (bs @ w) k) \<or>
      (\<exists>e s'. a s = (Err e, s') \<and> n < length w)"
    using assms(1) [unfolded emits_def, rule_format, OF assms(2)] .
  then show thesis
    using that by blast
qed

lemma sinks_ctx_write:
  assumes "sinks_ctx c bs n" "cmp_stream_write d c = (r, c')"
  shows "if r = length d then \<exists>k. n \<le> k + length d \<and> sinks_ctx c' (bs @ d) k else n < length d"
proof -
  obtain st where st: "cmp_buf c = Some st" "st_writer st = Some wr" "ok (st_context st)" "out (st_context st) = bs"
      "room (st_context st) = n"
    using assms(1) by (auto simp: sinks_ctx_def)
  obtain e x where w: "wr (st_context st) d = (e, x)" by (cases "wr (st_context st) d")
  have buf: "cmp_buf c' = Some (st\<lparr>st_context := x\<rparr>)" and r: "r = (if e = er_ok then length d else 0)"
    using assms(2) st w
    by (auto simp: cmp_stream_write_def io_stream_write_def Let_def cmp_ctx_set_err_def split: if_splits)
  show ?thesis
    using wr_room [OF st(3) w] buf r st by (auto simp: sinks_ctx_def split: if_splits)
qed

lemma sinks_ctx_put:
  "cmp_put chunks c = (b, c') \<Longrightarrow> sinks_ctx c bs n \<Longrightarrow>
     if b then \<exists>k. n \<le> k + length (concat (map snd chunks)) \<and> sinks_ctx c' (bs @ concat (map snd chunks)) k
     else n < length (concat (map snd chunks))"
proof (induction chunks c arbitrary: bs n rule: cmp_put.induct)
  case (2 e data chunks c)
  obtain r c1 where w: "cmp_stream_write data c = (r, c1)" by (cases "cmp_stream_write data c")
  show ?case
  proof (cases "r = length data")
    case True
    then obtain k where k: "n \<le> k + length data" "sinks_ctx c1 (bs @ data) k"
      using sinks_ctx_write [OF "2.prems"(2) w] by auto
    have p: "cmp_put chunks c1 = (b, c')"
      using "2.prems"(1) w True by simp
    have IH: "if b then \<exists>k'. k \<le> k' + length (concat (map snd chunks)) \<and> sinks_ctx c' ((bs @ data) @ concat (map snd chunks)) k'
        else k < length (concat (map snd chunks))"
      using "2.IH" [OF w [symmetric] refl True p k(2)] .
    show ?thesis
    proof (cases b)
      case True
      with IH obtain k' where "k \<le> k' + length (concat (map snd chunks))"
        "sinks_ctx c' ((bs @ data) @ concat (map snd chunks)) k'" by auto
      then show ?thesis
        using True k(1) by (auto intro!: exI [of _ k'])
    qed (use IH k(1) in simp)
  next
    case False
    then show ?thesis
      using sinks_ctx_write [OF "2.prems"(2) w] "2.prems"(1) w by auto
  qed
qed auto

lemma emits_bind:
  assumes a: "emits a x" and f: "\<And>v. emits (f v) y"
  shows "emits (act_bind a f) (x @ y)"
proof (rule emitsI)
  fix s :: "unit io_codec_ctx \<times> 's cmp_ctx option codec_store" and bs n assume s: "sinks (snd s) bs n"
  show "(\<exists>v s' k. act_bind a f s = (Ok v, s') \<and> n \<le> k + length (x @ y) \<and> sinks (snd s') (bs @ x @ y) k) \<or>
      (\<exists>e s'. act_bind a f s = (Err e, s') \<and> n < length (x @ y))"
    using a s
  proof (cases rule: emitsE)
    case (1 v s1 k)
    show ?thesis
      using f [of v] 1(3)
    proof (cases rule: emitsE)
      case (1 w s2 k')
      then show ?thesis
        using \<open>a s = (Ok v, s1)\<close> \<open>n \<le> k + length x\<close> by (intro disjI1) (auto simp: act_bind_def intro!: exI [of _ k'])
    next
      case (2 e s2)
      then show ?thesis
        using \<open>a s = (Ok v, s1)\<close> \<open>n \<le> k + length x\<close> by (intro disjI2) (auto simp: act_bind_def)
    qed
  next
    case (2 e s1)
    then show ?thesis by (intro disjI2) (auto simp: act_bind_def)
  qed
qed

lemma emits_pure:
  assumes "\<And>c m. \<exists>v c'. a (c, m) = (Ok v, c', m)"
  shows "emits a []"
proof (rule emitsI)
  fix s :: "unit io_codec_ctx \<times> 's cmp_ctx option codec_store" and bs n assume "sinks (snd s) bs n"
  moreover obtain v c' where "a s = (Ok v, c', snd s)"
    using assms [of "fst s" "snd s"] by auto
  ultimately show "(\<exists>v s' k. a s = (Ok v, s') \<and> n \<le> k + length [] \<and> sinks (snd s') (bs @ []) k) \<or>
      (\<exists>e s'. a s = (Err e, s') \<and> n < length [])"
    by auto
qed

lemma emits_return [simp]: "emits (act_return v) []"
  by (rule emits_pure) (auto simp: act_return_def)

lemma emits_in:
  assumes a: "emits a w"
  shows "emits (act_in obj a) w"
proof (rule emitsI)
  fix s :: "unit io_codec_ctx \<times> 's cmp_ctx option codec_store" and bs n assume s: "sinks (snd s) bs n"
  then have "sinks (snd (obj, snd s)) bs n" by simp
  with a show "(\<exists>v s' k. act_in obj a s = (Ok v, s') \<and> n \<le> k + length w \<and> sinks (snd s') (bs @ w) k) \<or>
      (\<exists>e s'. act_in obj a s = (Err e, s') \<and> n < length w)"
    by (cases rule: emitsE) (auto simp: act_in_def)
qed

lemma emits_put:
  assumes "0 \<notin> fst ` set chunks" "emits (f True) w"
  shows "emits (act_bind (act_cmp (cmp_put chunks)) (\<lambda>ok. if \<not> ok then act_bind act_cmp_err g else f ok)) (concat (map snd chunks) @ w)"
    (is "emits ?a (?ds @ w)")
proof (rule emitsI)
  fix s :: "unit io_codec_ctx \<times> 's cmp_ctx option codec_store" and bs n
  assume s: "sinks (snd s) bs n"
  obtain c where c: "cs_state (snd s) = Some c" "sinks_ctx c bs n"
    using s by (auto simp: sinks_def)
  obtain b c' where p: "cmp_put chunks c = (b, c')" by (cases "cmp_put chunks c")
  show "(\<exists>v s' k. ?a s = (Ok v, s') \<and> n \<le> k + length (?ds @ w) \<and> sinks (snd s') (bs @ ?ds @ w) k) \<or>
      (\<exists>e s'. ?a s = (Err e, s') \<and> n < length (?ds @ w))"
  proof (cases b)
    case True
    let ?s = "(fst s, (snd s)\<lparr>cs_state := Some c'\<rparr>)"
    have eq: "?a s = f True ?s"
      using c p True by (simp add: act_bind_def act_cmp_def)
    obtain k where k: "n \<le> k + length ?ds" "sinks (snd ?s) (bs @ ?ds) k"
      using sinks_ctx_put [OF p c(2)] True by (auto simp: sinks_def)
    show ?thesis
      using assms(2) k(2)
    proof (cases rule: emitsE)
      case (1 v s' k')
      then show ?thesis using eq k(1) by (intro disjI1) (auto intro!: exI [of _ k'])
    next
      case (2 e s')
      then show ?thesis using eq k(1) by (intro disjI2) auto
    qed
  next
    case False
    then have "cmp_error c' \<noteq> 0" "n < length ?ds"
      using cmp_put_error [of chunks c c'] p assms(1) sinks_ctx_put [OF p c(2)] by simp_all
    then show ?thesis
      using c p False by (intro disjI2) (simp add: act_bind_def act_cmp_def act_cmp_err_def act_fail_def)
  qed
qed

lemma emits_write:
  assumes "cmp_laws L"
  shows "emits (mpack_write L item) (cmp_bytes L item)"
proof -
  have "emits (act_bind (act_cmp (cmp_put (cmp_write L item))) (\<lambda>ok. if \<not> ok then act_bind act_cmp_err act_return else mpack_write_complete))
     (concat (map snd (cmp_write L item)) @ [])"
    using assms by (intro emits_put emits_pure) (auto simp: cmp_laws_def mpack_write_complete_def)
  then show ?thesis
    by (simp add: mpack_write_def cmp_bytes_def cong: if_cong)
qed

lemma emits_write_object:
  assumes "cmp_laws L"
  shows "emits (mpack_write_object L name is_null) (if is_null then cmp_bytes L cmp_nil else [])"
proof (cases is_null)
  case True
  have "emits (act_bind (act_cmp (cmp_put (cmp_write L cmp_nil))) (\<lambda>ok. if \<not> ok then act_bind act_cmp_err (\<lambda>_. act_crash)
      else (\<lambda>(ctx, m). act_bind mpack_write_complete (\<lambda>_. act_return (ctx\<lparr>ctx_index := 0\<rparr>)) (ctx, m))))
     (concat (map snd (cmp_write L cmp_nil)) @ [])"
    using assms by (intro emits_put emits_pure)
      (auto simp: cmp_laws_def mpack_write_complete_def act_bind_def act_return_def)
  then show ?thesis
    using True by (simp add: mpack_write_object_def cmp_bytes_def)
next
  case False
  then show ?thesis
    by (auto intro!: emits_pure simp: mpack_write_object_def mpack_write_complete_def act_bind_def act_return_def)
qed

lemma emits_write_array:
  assumes "cmp_laws L"
  shows "emits (mpack_write_array L name n) (cmp_bytes L (cmp_array (of_nat n)))"
proof -
  have "emits (act_bind (act_cmp (cmp_put (cmp_write L (cmp_array (of_nat n))))) (\<lambda>ok. if \<not> ok then act_bind act_cmp_err (\<lambda>_. act_crash)
      else (\<lambda>(ctx, m). act_bind mpack_write_complete (\<lambda>_. act_return (ctx\<lparr>ctx_index := n\<rparr>)) (ctx, m))))
     (concat (map snd (cmp_write L (cmp_array (of_nat n)))) @ [])"
    using assms by (intro emits_put emits_pure)
      (auto simp: cmp_laws_def mpack_write_complete_def act_bind_def act_return_def)
  then show ?thesis
    by (simp add: mpack_write_array_def cmp_bytes_def)
qed

lemma emits_type_begin:
  assumes "cmp_laws L"
  shows "emits (mpack_write_type_begin L n) (cmp_bytes L (cmp_array (of_nat n + 1)) @ cmp_bytes L cmp_nil)"
proof -
  have put: "0 \<notin> fst ` set (cmp_write L item)" for item
    using assms by (simp add: cmp_laws_def)
  have "emits (set_index n) []"
    by (rule emits_pure) (simp add: set_index_def)
  then have "emits (act_bind (act_cmp (cmp_put (cmp_write L (cmp_array (of_nat n + 1))))) (\<lambda>ok.
       if \<not> ok then act_bind act_cmp_err act_return
       else act_bind (act_cmp (cmp_put (cmp_write L cmp_nil))) (\<lambda>ok.
       if \<not> ok then act_bind act_cmp_err act_return else set_index n)))
     (concat (map snd (cmp_write L (cmp_array (of_nat n + 1)))) @ concat (map snd (cmp_write L cmp_nil)) @ [])"
    using put by (intro emits_put) auto
  then show ?thesis
    by (simp add: mpack_write_type_begin_def cmp_bytes_def cong: if_cong)
qed

lemma emits_seq: "list_all2 emits acts ws \<Longrightarrow> emits (act_seq acts) (concat ws)"
proof (induction acts arbitrary: ws)
  case Nil
  then show ?case by simp
next
  case (Cons a acts)
  then obtain w ws' where ws: "ws = w # ws'" "emits a w" "list_all2 emits acts ws'"
    by (auto simp: list_all2_Cons1)
  have "emits (act_bind a (\<lambda>_. act_seq acts)) (w @ concat ws')"
    using ws Cons.IH by (intro emits_bind) auto
  then show ?case
    using ws(1) by simp
qed

lemma emits_member [emits_rules]:
  "cmp_laws L \<Longrightarrow> emits a w \<Longrightarrow> emits (encode_member (mpack_codec L) name a) w"
  using emits_bind [OF emits_write_object [of L name False] emits_in [of a w]]
  by (simp add: encode_member_def codec_unfold)

lemma emits_string:
  "cmp_laws L \<Longrightarrow> c_strlen v = Some n \<Longrightarrow> n < 2 ^ 32 \<Longrightarrow>
     emits (io_encode_string (mpack_codec L) name v) (cmp_bytes L (cmp_str (take n (the v))))"
  by (simp add: codec_unfold mpack_write_string_def to_uint32_def emits_write)

lemma emits_bin [emits_rules]:
  "cmp_laws L \<Longrightarrow> n = length d \<Longrightarrow> n < 2 ^ 32 \<Longrightarrow> w = cmp_bytes L (cmp_bin d) \<Longrightarrow>
     emits (io_encode_bin (mpack_codec L) name (Some d) n) w"
  by (simp add: codec_unfold mpack_write_bin_def to_uint32_def emits_write)

lemma emits_bin_null [emits_rules]:
  "cmp_laws L \<Longrightarrow> w = cmp_bytes L (cmp_bin []) \<Longrightarrow> emits (io_encode_bin (mpack_codec L) name None 0) w"
  by (simp add: codec_unfold mpack_write_bin_def to_uint32_def emits_write)

lemma emits_scalar [emits_rules]:
  assumes "cmp_laws L"
  shows "w = cmp_bytes L (cmp_integer i) \<Longrightarrow> emits (io_encode_int64 (mpack_codec L) name i) w"
    and "w = cmp_bytes L (cmp_uinteger u) \<Longrightarrow> emits (io_encode_uint64 (mpack_codec L) name u) w"
    and "w = cmp_bytes L (cmp_integer (scast i32)) \<Longrightarrow> emits (io_encode_int32 (mpack_codec L) name i32) w"
    and "w = cmp_bytes L (cmp_uinteger (ucast u32)) \<Longrightarrow> emits (io_encode_uint32 (mpack_codec L) name u32) w"
    and "w = cmp_bytes L (cmp_uinteger (ucast u16)) \<Longrightarrow> emits (io_encode_uint16 (mpack_codec L) name u16) w"
    and "w = cmp_bytes L (cmp_uinteger (ucast u8)) \<Longrightarrow> emits (io_encode_uint8 (mpack_codec L) name u8) w"
    and "w = cmp_bytes L (cmp_bool b) \<Longrightarrow> emits (io_encode_bool (mpack_codec L) name b) w"
  using emits_write [OF assms]
  by (simp_all add: codec_unfold mpack_write_integer_def mpack_write_uinteger_def mpack_write_bool_def)

lemma emits_type_end: "emits (io_encode_type_end (mpack_codec L)) []"
  by (simp add: codec_unfold mpack_write_type_end_def)

end

text \<open>The bytes of an array encoded object with the given fields.\<close>

definition obj_bytes :: "cmp_lib \<Rightarrow> u8 list list \<Rightarrow> u8 list" where
  "obj_bytes L fs = cmp_bytes L (cmp_array (of_nat (length fs) + 1)) @ cmp_bytes L cmp_nil @ concat fs"

context sink
begin

text \<open>A type with its members between \<open>type_begin\<close> and \<open>type_end\<close>.\<close>

lemma emits_typeI:
  assumes L: "cmp_laws L" and n: "n = length fs"
    and acts: "acts \<noteq> []" "last acts = io_encode_type_end (mpack_codec L)" "list_all2 emits (butlast acts) fs"
  shows "emits (act_seq (io_encode_type_begin (mpack_codec L) n # acts)) (obj_bytes L fs)"
proof -
  let ?b = "cmp_bytes L (cmp_array (of_nat n + 1)) @ cmp_bytes L cmp_nil"
  have "emits (io_encode_type_begin (mpack_codec L) n) ?b"
    using emits_type_begin [OF L] by (simp add: codec_unfold)
  moreover have "list_all2 emits (butlast acts @ [last acts]) (fs @ [[]])"
    using acts emits_type_end by (intro list_all2_appendI) simp_all
  ultimately show ?thesis
    using emits_seq [of "io_encode_type_begin (mpack_codec L) n # acts" "?b # fs @ [[]]"] n acts(1)
    by (simp add: obj_bytes_def)
qed

end

section \<open>Allocation from the message buffer\<close>

text \<open>The pointer and the memory after \<open>data\<close> went to newly allocated message memory.\<close>

definition message_stored :: "dec_mem \<Rightarrow> u8 list \<Rightarrow> (mem_ptr \<times> dec_mem) option" where
  "message_stored M data = (case io_message_allocate_buffer (length data) null_ptr M of
     (e, p, M1) \<Rightarrow> if e = er_ok then map_option (Pair p) (mem_store M1 p 0 data) else None)"

lemma message_stored_Nil [simp]: "message_stored M [] = Some (null_ptr, M)"
  by (simp add: message_stored_def io_message_allocate_buffer_def mem_store_def)

lemma message_storedD:
  "message_stored M d = Some (p, M') \<Longrightarrow>
     \<exists>M1. io_decode_allocate use_message (length d) null_ptr n M = Some (er_ok, p, length d, M1) \<and> mem_store M1 p 0 d = Some M'"
  by (auto simp: message_stored_def io_message_allocator_def Let_def split: prod.splits if_splits)

lemma mem_put_snoc:
  "length d < length bs \<Longrightarrow> mem_put (mem_put bs 0 d (length d)) (length d) [x] (Suc 0) = mem_put bs 0 (d @ [x]) (Suc (length d))"
  by (simp add: mem_put_def)

lemma mem_put_snoc_at:
  "base + length d < length bs \<Longrightarrow>
     mem_put (mem_put bs base d (length d)) (base + length d) [x] (Suc 0) = mem_put bs base (d @ [x]) (Suc (length d))"
  by (simp add: mem_put_def)

lemma mem_store_snoc:
  assumes "mem_store M p 0 (d @ [x]) = Some M3"
  shows "\<exists>M2. mem_store M p 0 d = Some M2 \<and> mem_store M2 p (length d) [x] = Some M3"
proof -
  have "mem_store M p 0 d \<noteq> None"
    using assms by (cases p) (auto simp: mem_store_def split: option.splits if_splits)
  then obtain M2 where m2: "mem_store M p 0 d = Some M2" by blast
  have "mem_store M2 p (length d) [x] = Some M3"
    using assms m2
    by (cases p) (auto simp: mem_store_def mem_put_snoc mem_put_snoc_at buf_simps split: option.splits if_splits)
  with m2 show ?thesis by blast
qed

lemma io_decode_string_mpack [simp]:
  "io_decode_string (mpack_codec L) name (Some a) p n = mpack_read_string L name (Some a) p n"
  by (rule ext) (simp add: io_decode_string_def)

lemma io_decode_bin_mpack [simp]:
  "io_decode_bin (mpack_codec L) name (Some a) p n = mpack_read_bin L name (Some a) p n"
  by (rule ext) (simp add: io_decode_bin_def)

section \<open>Decoding\<close>

context in_stream
begin

definition feeds :: "'s cmp_ctx \<Rightarrow> u8 list \<Rightarrow> bool" where
  "feeds c bs \<longleftrightarrow> (\<exists>st. cmp_buf c = Some st \<and> st_reader st = Some rd \<and> ok (st_context st) \<and> inp (st_context st) = bs)"

definition source :: "'s cmp_ctx option codec_store \<Rightarrow> u8 list \<Rightarrow> bool" where
  "source m bs \<longleftrightarrow> (\<exists>c. cs_state m = Some c \<and> feeds c bs)"

text \<open>
  On a stream that starts with the fields \<open>fs\<close>, in a context with at least as many items left and the
  default allocator \<open>D\<close>, the decoder consumes exactly the fields, returns \<open>v\<close> and turns the memory \<open>M\<close>
  into \<open>M'\<close>.
\<close>

definition reads :: "io_decode_allocator option \<Rightarrow> ('s, 'a) mpack_act \<Rightarrow> u8 list list \<Rightarrow> dec_mem \<Rightarrow> 'a \<Rightarrow> dec_mem \<Rightarrow> bool" where
  "reads D a fs M v M' \<longleftrightarrow> (\<forall>ctx m rest.
     ctx_default_allocator ctx = D \<longrightarrow> length fs \<le> ctx_index ctx \<longrightarrow> source m (concat fs @ rest) \<longrightarrow> cs_mem m = M \<longrightarrow>
     (\<exists>m'. a (ctx, m) = (Ok v, ctx\<lparr>ctx_index := ctx_index ctx - length fs\<rparr>, m') \<and> source m' rest \<and> cs_mem m' = M'))"

lemma readsI:
  "(\<And>ctx m rest. ctx_default_allocator ctx = D \<Longrightarrow> length fs \<le> ctx_index ctx \<Longrightarrow> source m (concat fs @ rest) \<Longrightarrow> cs_mem m = M \<Longrightarrow>
     \<exists>m'. a (ctx, m) = (Ok v, ctx\<lparr>ctx_index := ctx_index ctx - length fs\<rparr>, m') \<and> source m' rest \<and> cs_mem m' = M')
   \<Longrightarrow> reads D a fs M v M'"
  by (simp add: reads_def)

lemma readsD:
  assumes "reads D a fs M v M'" "ctx_default_allocator ctx = D" "length fs \<le> ctx_index ctx"
    "source m (concat fs @ rest)" "cs_mem m = M"
  shows "\<exists>m'. a (ctx, m) = (Ok v, ctx\<lparr>ctx_index := ctx_index ctx - length fs\<rparr>, m') \<and> source m' rest \<and> cs_mem m' = M'"
  using assms by (simp add: reads_def)

lemma feeds_read:
  assumes "feeds c bs" "n \<le> length bs"
  shows "\<exists>c'. cmp_stream_read n c = (True, take n bs, c') \<and> feeds c' (drop n bs)"
proof -
  obtain st where st: "cmp_buf c = Some st" "st_reader st = Some rd" "ok (st_context st)" "inp (st_context st) = bs"
    using assms(1) by (auto simp: feeds_def)
  obtain e data x where r: "rd (st_context st) n = (e, data, x)" by (cases "rd (st_context st) n")
  have e: "e = er_ok" "data = take n bs" "ok x" "inp x = drop n bs"
    using rd_full [OF st(3), of n] st(4) assms(2) r by auto
  then have "cmp_stream_read n c = (True, take n bs, c\<lparr>cmp_buf := Some (st\<lparr>st_context := x\<rparr>), cmp_error := 0\<rparr>)"
    using st r assms(2) by (simp add: cmp_stream_read_def io_stream_read_def Let_def cmp_ctx_set_err_def min_absorb2)
  then show ?thesis
    using st(2) e(3,4) by (simp add: feeds_def)
qed

lemma feeds_get:
  "rd_list r bs = Some (v, rest) \<Longrightarrow> feeds c bs \<Longrightarrow> \<exists>c'. cmp_get r c = (Some v, c') \<and> feeds c' rest"
proof (induction r arbitrary: bs c)
  case (rd_need e n k)
  have n: "n \<le> length bs" and r: "rd_list (k (take n bs)) (drop n bs) = Some (v, rest)"
    using rd_need.prems(1) by (simp_all split: if_splits)
  obtain c1 where c1: "cmp_stream_read n c = (True, take n bs, c1)" "feeds c1 (drop n bs)"
    using feeds_read [OF rd_need.prems(2) n] by blast
  show ?case
    using rd_need.IH [OF _ r c1(2)] c1(1) by simp
qed simp_all

lemma reads_bind:
  assumes a: "reads D a [b] M v M1" and f: "reads D (f v) fs M1 w M2"
  shows "reads D (act_bind a f) (b # fs) M w M2"
proof (rule readsI)
  fix ctx :: "unit io_codec_ctx" and m rest
  assume c: "ctx_default_allocator ctx = D" "length (b # fs) \<le> ctx_index ctx" "source m (concat (b # fs) @ rest)" "cs_mem m = M"
  obtain m1 where m1: "a (ctx, m) = (Ok v, ctx\<lparr>ctx_index := ctx_index ctx - 1\<rparr>, m1)"
      "source m1 (concat fs @ rest)" "cs_mem m1 = M1"
    using readsD [OF a c(1), of m "concat fs @ rest"] c by auto
  have "\<exists>m'. f v (ctx\<lparr>ctx_index := ctx_index ctx - 1\<rparr>, m1) =
      (Ok w, ctx\<lparr>ctx_index := ctx_index ctx - 1 - length fs\<rparr>, m') \<and> source m' rest \<and> cs_mem m' = M2"
    using readsD [OF f, of "ctx\<lparr>ctx_index := ctx_index ctx - 1\<rparr>" m1 rest] c m1 by simp
  then show "\<exists>m'. act_bind a f (ctx, m) = (Ok w, ctx\<lparr>ctx_index := ctx_index ctx - length (b # fs)\<rparr>, m') \<and>
      source m' rest \<and> cs_mem m' = M2"
    using m1(1) by (simp add: act_bind_step)
qed

lemma reads_return [intro]: "reads D (act_return v) [] M v M"
  by (simp add: reads_def act_return_def)

lemma reads_returnI [reads_rules]: "v = w \<Longrightarrow> M = M' \<Longrightarrow> reads D (act_return v) [] M w M'"
  by (simp add: reads_return)

text \<open>A continuation that only computes.\<close>

lemma reads_then:
  assumes a: "reads D a fs M v M1" and f: "reads D (f v) [] M1 w M2"
  shows "reads D (act_bind a f) fs M w M2"
proof (rule readsI)
  fix ctx :: "unit io_codec_ctx" and m rest
  assume c: "ctx_default_allocator ctx = D" "length fs \<le> ctx_index ctx" "source m (concat fs @ rest)" "cs_mem m = M"
  obtain m1 where m1: "a (ctx, m) = (Ok v, ctx\<lparr>ctx_index := ctx_index ctx - length fs\<rparr>, m1)"
      "source m1 rest" "cs_mem m1 = M1"
    using readsD [OF a c] by auto
  show "\<exists>m'. act_bind a f (ctx, m) = (Ok w, ctx\<lparr>ctx_index := ctx_index ctx - length fs\<rparr>, m') \<and>
      source m' rest \<and> cs_mem m' = M2"
    using readsD [OF f, of "ctx\<lparr>ctx_index := ctx_index ctx - length fs\<rparr>" m1 rest] c(1) m1 by (simp add: act_bind_step)
qed

lemma mpack_value_source:
  assumes "source m bs" "rd_list r bs = Some (v, rest)"
  shows "\<exists>m'. mpack_value r (ctx, m) = (Ok v, ctx, m') \<and> source m' rest \<and> cs_mem m' = cs_mem m"
proof -
  obtain c where c: "cs_state m = Some c" "feeds c bs"
    using assms(1) by (auto simp: source_def)
  obtain c' where "cmp_get r c = (Some v, c')" "feeds c' rest"
    using feeds_get [OF assms(2) c(2)] by blast
  then show ?thesis
    using c(1) by (simp add: mpack_value_def act_cmp_def act_bind_def act_return_def source_def)
qed

lemma act_bind_read_begin:
  "0 < ctx_index ctx \<Longrightarrow> act_bind mpack_read_begin f (ctx, m) = f () (ctx\<lparr>ctx_index := ctx_index ctx - 1\<rparr>, m)"
  by (simp add: mpack_read_begin_def act_bind_def)

lemma reads_mpack_read:
  assumes "\<And>rest. rd_list r (b @ rest) = Some (v, rest)"
  shows "reads D (mpack_read r) [b] M v M"
proof (rule readsI)
  fix ctx :: "unit io_codec_ctx" and m rest
  assume c: "ctx_default_allocator ctx = D" "length [b] \<le> ctx_index ctx" "source m (concat [b] @ rest)" "cs_mem m = M"
  have s: "source m (b @ rest)" using c(3) by simp
  obtain m' where "mpack_value r (ctx\<lparr>ctx_index := ctx_index ctx - 1\<rparr>, m) = (Ok v, ctx\<lparr>ctx_index := ctx_index ctx - 1\<rparr>, m')"
     "source m' rest" "cs_mem m' = cs_mem m"
    using mpack_value_source [OF s assms] by blast
  then show "\<exists>m'. mpack_read r (ctx, m) = (Ok v, ctx\<lparr>ctx_index := ctx_index ctx - length [b]\<rparr>, m') \<and>
      source m' rest \<and> cs_mem m' = M"
    using c(2,4) by (simp add: mpack_read_def act_bind_read_begin)
qed

lemma reads_scalar:
  assumes "cmp_laws L"
  shows "reads D (io_decode_int64 (mpack_codec L) name) [cmp_bytes L (cmp_integer i)] M i M"
    and "reads D (io_decode_uint64 (mpack_codec L) name) [cmp_bytes L (cmp_uinteger u)] M u M"
    and "reads D (io_decode_bool (mpack_codec L) name) [cmp_bytes L (cmp_bool b)] M b M"
  unfolding codec_unfold mpack_read_integer_def mpack_read_uinteger_def mpack_read_bool_def
  by (intro reads_mpack_read scalar_laws_readers [OF assms])+

lemma reads_narrow:
  assumes "cmp_laws L"
  shows "reads D (io_decode_uint32 (mpack_codec L) name) [cmp_bytes L (cmp_uinteger (ucast (u32 :: u32)))] M u32 M"
    and "reads D (io_decode_uint16 (mpack_codec L) name) [cmp_bytes L (cmp_uinteger (ucast (u16 :: u16)))] M u16 M"
    and "reads D (io_decode_uint8 (mpack_codec L) name) [cmp_bytes L (cmp_uinteger (ucast (u8 :: u8)))] M u8 M"
    and "reads D (io_decode_int32 (mpack_codec L) name) [cmp_bytes L (cmp_integer (scast (i32 :: i32)))] M i32 M"
  unfolding io_decode_uint32_def io_decode_uint16_def io_decode_uint8_def io_decode_int32_def
  by (rule reads_then [OF reads_scalar(2) [OF assms]], simp add: Let_def reads_return)+
     (rule reads_then [OF reads_scalar(1) [OF assms]], simp add: Let_def reads_return)

text \<open>
  An array encoded object. What follows runs the decoder of its members in the context of the object,
  once the object turned out not to be null.
\<close>

lemma mpack_read_object_source:
  assumes L: "cmp_laws L" and n: "length fs < 2 ^ 32 - 1"
    and c: "0 < ctx_index ctx" "source m (obj_bytes L fs @ rest)"
  shows "\<exists>m'. mpack_read_object L name (ctx, m) =
      (Ok (False, ctx\<lparr>ctx_index := length fs\<rparr>), ctx\<lparr>ctx_index := ctx_index ctx - 1\<rparr>, m') \<and>
    source m' (concat fs @ rest) \<and> cs_mem m' = cs_mem m"
proof -
  let ?ctx = "ctx\<lparr>ctx_index := ctx_index ctx - 1\<rparr>"
  let ?n = "of_nat (length fs) + 1 :: u32"
  have un: "unat ?n = length fs + 1"
  proof -
    have "unat (of_nat (length fs + 1) :: u32) = length fs + 1"
      using n by (simp only: unat_of_nat) simp
    then show ?thesis by (simp add: add.commute)
  qed
  have s: "source m (cmp_bytes L (cmp_array ?n) @ cmp_bytes L cmp_nil @ concat fs @ rest)"
    using c(2) by (simp add: obj_bytes_def)
  obtain m1 where m1: "mpack_value (cmp_read_object L) (?ctx, m) = (Ok (obj_array ?n), ?ctx, m1)"
      "source m1 (cmp_bytes L cmp_nil @ concat fs @ rest)" "cs_mem m1 = cs_mem m"
    using mpack_value_source [OF s struct_laws_readers(2) [OF L], of ?ctx] by auto
  obtain m2 where m2: "mpack_value (cmp_read_nil L) (ctx\<lparr>ctx_index := length fs\<rparr>, m1) = (Ok (), ctx\<lparr>ctx_index := length fs\<rparr>, m2)"
      "source m2 (concat fs @ rest)" "cs_mem m2 = cs_mem m"
    using mpack_value_source [OF m1(2) struct_laws_readers(4) [OF L], of "ctx\<lparr>ctx_index := length fs\<rparr>"] m1(3) by auto
  then show ?thesis
    using c(1) m1(1) m2 un
    by (simp add: mpack_read_object_def act_bind_read_begin act_bind_def [of "mpack_value (cmp_read_object L)"])
qed

lemma reads_in_object:
  assumes L: "cmp_laws L" and n: "length fs < 2 ^ 32 - 1" and a: "reads D a fs M v M'"
    and h: "\<And>obj. h (False, obj) = act_in obj a"
  shows "reads D (act_bind (io_decode_object (mpack_codec L) name) h) [obj_bytes L fs] M v M'"
proof (rule readsI)
  fix ctx :: "unit io_codec_ctx" and m rest
  assume c: "ctx_default_allocator ctx = D" "length [obj_bytes L fs] \<le> ctx_index ctx"
    "source m (concat [obj_bytes L fs] @ rest)" "cs_mem m = M"
  obtain m2 where m2: "mpack_read_object L name (ctx, m) =
      (Ok (False, ctx\<lparr>ctx_index := length fs\<rparr>), ctx\<lparr>ctx_index := ctx_index ctx - 1\<rparr>, m2)"
      "source m2 (concat fs @ rest)" "cs_mem m2 = M"
    using mpack_read_object_source [OF L n, of ctx m rest name] c by auto
  obtain m3 where m3: "a (ctx\<lparr>ctx_index := length fs\<rparr>, m2) = (Ok v, ctx\<lparr>ctx_index := 0\<rparr>, m3)"
      "source m3 rest" "cs_mem m3 = M'"
    using readsD [OF a, of "ctx\<lparr>ctx_index := length fs\<rparr>" m2 rest] m2 c(1) by auto
  show "\<exists>m'. act_bind (io_decode_object (mpack_codec L) name) h (ctx, m) =
      (Ok v, ctx\<lparr>ctx_index := ctx_index ctx - length [obj_bytes L fs]\<rparr>, m') \<and> source m' rest \<and> cs_mem m' = M'"
    using m2 m3 by (simp add: codec_unfold act_bind_def h act_in_def)
qed

lemma reads_object:
  assumes L: "cmp_laws L" and n: "length fs < 2 ^ 32 - 1" and a: "reads D (a old) fs M v M'"
  shows "reads D (decode_member (mpack_codec L) name a old) [obj_bytes L fs] M v M'"
  unfolding decode_member_def by (rule reads_in_object [OF L n a]) simp

lemma reads_null:
  assumes L: "cmp_laws L" and h: "\<And>obj. reads D (h (True, obj)) [] M v M'"
  shows "reads D (act_bind (io_decode_object (mpack_codec L) name) h) [cmp_bytes L cmp_nil] M v M'"
proof (rule readsI)
  fix ctx :: "unit io_codec_ctx" and m rest
  assume c: "ctx_default_allocator ctx = D" "length [cmp_bytes L cmp_nil] \<le> ctx_index ctx"
    "source m (concat [cmp_bytes L cmp_nil] @ rest)" "cs_mem m = M"
  let ?ctx = "ctx\<lparr>ctx_index := ctx_index ctx - 1\<rparr>"
  have s: "source m (cmp_bytes L cmp_nil @ rest)" using c(3) by simp
  obtain m1 where m1: "mpack_value (cmp_read_object L) (?ctx, m) = (Ok obj_nil, ?ctx, m1)" "source m1 rest" "cs_mem m1 = M"
    using mpack_value_source [OF s struct_laws_readers(3) [OF L]] c(4) by blast
  have "mpack_read_object L name (ctx, m) = (Ok (True, ?ctx\<lparr>ctx_index := 0\<rparr>), ?ctx, m1)"
    using c(2) m1(1) by (simp add: mpack_read_object_def act_bind_read_begin act_bind_def [of "mpack_value (cmp_read_object L)"])
  then show "\<exists>m'. act_bind (io_decode_object (mpack_codec L) name) h (ctx, m) =
      (Ok v, ctx\<lparr>ctx_index := ctx_index ctx - length [cmp_bytes L cmp_nil]\<rparr>, m') \<and> source m' rest \<and> cs_mem m' = M'"
    using readsD [OF h, of ?ctx m1 rest "?ctx\<lparr>ctx_index := 0\<rparr>"] c(1) m1(2,3) by (simp add: codec_unfold act_bind_def)
qed

lemma reads_array:
  assumes L: "cmp_laws L" and n: "length fs < 2 ^ 32" and a: "reads D (a (length fs)) fs M v M'"
  shows "reads D (act_bind (io_decode_array (mpack_codec L) name) (\<lambda>(sz, arr). act_in arr (a sz)))
    [cmp_bytes L (cmp_array (of_nat (length fs))) @ concat fs] M v M'"
proof (rule readsI)
  fix ctx :: "unit io_codec_ctx" and m rest
  let ?b = "cmp_bytes L (cmp_array (of_nat (length fs)))"
  assume c: "ctx_default_allocator ctx = D" "length [?b @ concat fs] \<le> ctx_index ctx"
    "source m (concat [?b @ concat fs] @ rest)" "cs_mem m = M"
  let ?ctx = "ctx\<lparr>ctx_index := ctx_index ctx - 1\<rparr>"
  have un: "unat (of_nat (length fs) :: u32) = length fs"
    using n by (simp add: unat_of_nat)
  have s: "source m (?b @ concat fs @ rest)" using c(3) by simp
  obtain m1 where m1: "mpack_value (cmp_read_array L) (?ctx, m) = (Ok (of_nat (length fs)), ?ctx, m1)"
      "source m1 (concat fs @ rest)" "cs_mem m1 = M"
    using mpack_value_source [OF s struct_laws_readers(1) [OF L]] c(4) by blast
  have r: "mpack_read_array L name (ctx, m) = (Ok (length fs, ctx\<lparr>ctx_index := length fs\<rparr>), ?ctx, m1)"
    using c(2) m1(1) un by (simp add: mpack_read_array_def act_bind_read_begin act_bind_def [of "mpack_value (cmp_read_array L)"])
  obtain m2 where "a (length fs) (ctx\<lparr>ctx_index := length fs\<rparr>, m1) = (Ok v, ctx\<lparr>ctx_index := 0\<rparr>, m2)"
      "source m2 rest" "cs_mem m2 = M'"
    using readsD [OF a, of "ctx\<lparr>ctx_index := length fs\<rparr>" m1 rest] m1 c(1) by auto
  then show "\<exists>m'. act_bind (io_decode_array (mpack_codec L) name) (\<lambda>(sz, arr). act_in arr (a sz)) (ctx, m) =
      (Ok v, ctx\<lparr>ctx_index := ctx_index ctx - length [?b @ concat fs]\<rparr>, m') \<and> source m' rest \<and> cs_mem m' = M'"
    using r by (simp add: codec_unfold act_bind_def act_in_def)
qed

lemma mpack_read_payload_source:
  assumes "source m (d @ rest)" "mem_store (cs_mem m) p 0 d = Some M1"
  shows "\<exists>m'. mpack_read_payload p (length d) (ctx, m) = (Ok True, ctx, m') \<and> source m' rest \<and> cs_mem m' = M1"
proof -
  obtain c where c: "cs_state m = Some c" "feeds c (d @ rest)"
    using assms(1) by (auto simp: source_def)
  obtain c' where "cmp_stream_read (length d) c = (True, d, c')" "feeds c' rest"
    using feeds_read [OF c(2), of "length d"] by auto
  then show ?thesis
    using c(1) assms(2) by (simp add: mpack_read_payload_def act_bind_def act_cmp_def act_mem_def source_def)
qed

lemma mpack_size_source:
  assumes "source m bs" "rd_list r bs = Some (of_nat n, rest)" "n < 2 ^ 32"
  shows "\<exists>m'. mpack_size r (ctx, m) = (Ok n, ctx, m') \<and> source m' rest \<and> cs_mem m' = cs_mem m"
proof -
  have "unat (of_nat n :: u32) = n"
    using assms(3) by (simp add: unat_of_nat)
  then show ?thesis
    using mpack_value_source [OF assms(1,2), of ctx] by (auto simp: mpack_size_def act_bind_def act_return_def)
qed

lemma reads_read_string:
  assumes L: "cmp_laws L" and n: "length d + 1 < 2 ^ 32"
    and al: "io_decode_allocate a (length d + 1) p sz M = Some (er_ok, q, length d + 1, M1)"
    and st: "mem_store M1 q 0 d = Some M2" "mem_store M2 q (length d) [0] = Some M3"
  shows "reads D (mpack_read_string L name (Some a) p sz) [cmp_bytes L (cmp_str d)] M (er_ok, q, length d + 1) M3"
proof (rule readsI)
  fix ctx :: "unit io_codec_ctx" and m rest
  assume c: "ctx_default_allocator ctx = D" "length [cmp_bytes L (cmp_str d)] \<le> ctx_index ctx"
    "source m (concat [cmp_bytes L (cmp_str d)] @ rest)" "cs_mem m = M"
  let ?ctx = "ctx\<lparr>ctx_index := ctx_index ctx - 1\<rparr>"
  have s: "source m (cmp_bytes L (cmp_str d) @ rest)" using c(3) by simp
  obtain m1 where m1: "mpack_size (cmp_read_str_size L) (?ctx, m) = (Ok (length d), ?ctx, m1)"
      "source m1 (d @ rest)" "cs_mem m1 = M"
    using mpack_size_source [OF s sized_laws_readers(1) [OF L]] n c(4) by auto
  have s1: "source (m1\<lparr>cs_mem := M1\<rparr>) (d @ rest)" "cs_mem (m1\<lparr>cs_mem := M1\<rparr>) = M1"
    using m1(2) by (simp_all add: source_def)
  obtain m2 where m2: "mpack_read_payload q (length d) (?ctx, m1\<lparr>cs_mem := M1\<rparr>) = (Ok True, ?ctx, m2)"
      "source m2 rest" "cs_mem m2 = M2"
    using mpack_read_payload_source [OF s1(1), of q M2 ?ctx] st(1) s1(2) by auto
  have u: "to_uint32 (length d + 1) = length d + 1"
    using n by (simp add: to_uint32_def)
  have "act_allocate a (length d + 1) p sz (?ctx, m1) = (Ok (er_ok, q, length d + 1), ?ctx, m1\<lparr>cs_mem := M1\<rparr>)"
    using al m1(3) by (simp add: act_allocate_def act_mem_def)
  then have "mpack_read_string L name (Some a) p sz (ctx, m) = (Ok (er_ok, q, length d + 1), ?ctx, m2\<lparr>cs_mem := M3\<rparr>)"
    using c(2) m1(1) m2 u st(2)
    by (simp add: mpack_read_string_def act_bind_read_begin act_bind_def [of "mpack_size r" for r]
        act_bind_def [of "act_allocate a' n' p' s'" for a' n' p' s'] act_bind_def [of "mpack_read_payload q' n'" for q' n']
        act_bind_def [of "act_mem f" for f] act_mem_def act_return_def)
  then show "\<exists>m'. mpack_read_string L name (Some a) p sz (ctx, m) =
      (Ok (er_ok, q, length d + 1), ctx\<lparr>ctx_index := ctx_index ctx - length [cmp_bytes L (cmp_str d)]\<rparr>, m') \<and>
      source m' rest \<and> cs_mem m' = M3"
    using m2(2) by (simp add: source_def)
qed

lemma reads_read_bin_empty:
  assumes L: "cmp_laws L"
  shows "reads D (mpack_read_bin L name a p sz) [cmp_bytes L (cmp_bin [])] M (er_ok, null_ptr, 0) M"
proof (rule readsI)
  fix ctx :: "unit io_codec_ctx" and m rest
  assume c: "ctx_default_allocator ctx = D" "length [cmp_bytes L (cmp_bin [])] \<le> ctx_index ctx"
    "source m (concat [cmp_bytes L (cmp_bin [])] @ rest)" "cs_mem m = M"
  let ?ctx = "ctx\<lparr>ctx_index := ctx_index ctx - 1\<rparr>"
  have s: "source m (cmp_bytes L (cmp_bin []) @ rest)" using c(3) by simp
  obtain m1 where m1: "mpack_size (cmp_read_bin_size L) (?ctx, m) = (Ok 0, ?ctx, m1)" "source m1 rest" "cs_mem m1 = M"
    using mpack_size_source [OF s sized_laws_readers(2) [OF L]] c(4) by auto
  then show "\<exists>m'. mpack_read_bin L name a p sz (ctx, m) =
      (Ok (er_ok, null_ptr, 0), ctx\<lparr>ctx_index := ctx_index ctx - length [cmp_bytes L (cmp_bin [])]\<rparr>, m') \<and>
      source m' rest \<and> cs_mem m' = M"
    using c(2) by (simp add: mpack_read_bin_def act_bind_read_begin act_bind_def [of "mpack_size r" for r] act_return_def)
qed

lemma reads_read_bin:
  assumes L: "cmp_laws L" and n: "length d < 2 ^ 32" "d \<noteq> []"
    and al: "io_decode_allocate a (length d) p sz M = Some (er_ok, q, length d, M1)"
    and st: "mem_store M1 q 0 d = Some M2"
  shows "reads D (mpack_read_bin L name (Some a) p sz) [cmp_bytes L (cmp_bin d)] M (er_ok, q, length d) M2"
proof (rule readsI)
  fix ctx :: "unit io_codec_ctx" and m rest
  assume c: "ctx_default_allocator ctx = D" "length [cmp_bytes L (cmp_bin d)] \<le> ctx_index ctx"
    "source m (concat [cmp_bytes L (cmp_bin d)] @ rest)" "cs_mem m = M"
  let ?ctx = "ctx\<lparr>ctx_index := ctx_index ctx - 1\<rparr>"
  have s: "source m (cmp_bytes L (cmp_bin d) @ rest)" using c(3) by simp
  obtain m1 where m1: "mpack_size (cmp_read_bin_size L) (?ctx, m) = (Ok (length d), ?ctx, m1)"
      "source m1 (d @ rest)" "cs_mem m1 = M"
    using mpack_size_source [OF s sized_laws_readers(2) [OF L]] n c(4) by auto
  have s1: "source (m1\<lparr>cs_mem := M1\<rparr>) (d @ rest)" "cs_mem (m1\<lparr>cs_mem := M1\<rparr>) = M1"
    using m1(2) by (simp_all add: source_def)
  obtain m2 where m2: "mpack_read_payload q (length d) (?ctx, m1\<lparr>cs_mem := M1\<rparr>) = (Ok True, ?ctx, m2)"
      "source m2 rest" "cs_mem m2 = M2"
    using mpack_read_payload_source [OF s1(1), of q M2 ?ctx] st(1) s1(2) by auto
  have "act_allocate a (length d) p sz (?ctx, m1) = (Ok (er_ok, q, length d), ?ctx, m1\<lparr>cs_mem := M1\<rparr>)"
    using al m1(3) by (simp add: act_allocate_def act_mem_def)
  then have "mpack_read_bin L name (Some a) p sz (ctx, m) = (Ok (er_ok, q, length d), ?ctx, m2)"
    using c(2) m1(1) m2 n(2)
    by (simp add: mpack_read_bin_def act_bind_read_begin act_bind_def [of "mpack_size r" for r]
        act_bind_def [of "act_allocate a' n' p' s'" for a' n' p' s'] act_bind_def [of "mpack_read_payload q' n'" for q' n']
        act_return_def)
  then show "\<exists>m'. mpack_read_bin L name (Some a) p sz (ctx, m) =
      (Ok (er_ok, q, length d), ctx\<lparr>ctx_index := ctx_index ctx - length [cmp_bytes L (cmp_bin d)]\<rparr>, m') \<and>
      source m' rest \<and> cs_mem m' = M2"
    using m2(2,3) by simp
qed

lemma reads_mem:
  "f M = Some (v, M') \<Longrightarrow> reads D (act_mem f) [] M v M'"
  by (rule readsI) (auto simp: act_mem_def source_def)

lemma reads_first:
  assumes a: "reads D a [] M v M1" and f: "reads D (f v) fs M1 w M2"
  shows "reads D (act_bind a f) fs M w M2"
proof (rule readsI)
  fix ctx :: "unit io_codec_ctx" and m rest
  assume c: "ctx_default_allocator ctx = D" "length fs \<le> ctx_index ctx" "source m (concat fs @ rest)" "cs_mem m = M"
  obtain m1 where "a (ctx, m) = (Ok v, ctx, m1)" "source m1 (concat fs @ rest)" "cs_mem m1 = M1"
    using readsD [OF a c(1), of m "concat fs @ rest"] c by auto
  then show "\<exists>m'. act_bind a f (ctx, m) = (Ok w, ctx\<lparr>ctx_index := ctx_index ctx - length fs\<rparr>, m') \<and>
      source m' rest \<and> cs_mem m' = M2"
    using readsD [OF f c(1,2)] by (simp add: act_bind_def)
qed

lemma reads_string_fixed:
  assumes L: "cmp_laws L" and n: "length d + 1 < 2 ^ 32" "length d + 1 \<le> len" "len = length arr"
    and M: "mm_field M = []"
  shows "reads D (io_decode_string_fixed (mpack_codec L) name arr len) [cmp_bytes L (cmp_str d)] M
    (d @ 0 # drop (length d + 1) arr) M"
proof -
  let ?M1 = "M\<lparr>mm_field := arr\<rparr>"
  let ?M3 = "M\<lparr>mm_field := d @ 0 # drop (length d + 1) arr\<rparr>"
  have "mem_store ?M1 field_ptr 0 d = Some (M\<lparr>mm_field := d @ drop (length d) arr\<rparr>)"
    using n by (simp add: mem_store_def mem_put_def)
  moreover have "mem_store (M\<lparr>mm_field := d @ drop (length d) arr\<rparr>) field_ptr (length d) [0] = Some ?M3"
    using n by (simp add: mem_store_def mem_put_def)
  ultimately have r: "reads D (mpack_read_string L name (Some use_fixed) field_ptr len) [cmp_bytes L (cmp_str d)] ?M1
      (er_ok, field_ptr, length d + 1) ?M3"
    using n by (intro reads_read_string [OF L n(1)]) (simp_all add: fixed_validator_def)
  have "M\<lparr>mm_field := []\<rparr> = M"
    using M by (metis dec_mem.surjective dec_mem.update_convs(4))
  then have l: "reads D (act_mem (\<lambda>m. Some (mm_field m, m\<lparr>mm_field := []\<rparr>))) [] ?M3 (d @ 0 # drop (length d + 1) arr) M"
    by (intro reads_mem) simp
  show ?thesis
    unfolding io_decode_string_fixed_def io_decode_string_mpack
    by (rule reads_first [OF reads_mem], rule refl, rule reads_then [OF r]) (use l in simp)
qed

lemma reads_bin_fixed:
  assumes L: "cmp_laws L" and n: "length d < 2 ^ 32" "length d \<le> len" "len = length arr"
    and M: "mm_field M = []"
  shows "reads D (io_decode_bin_fixed (mpack_codec L) name arr len) [cmp_bytes L (cmp_bin d)] M
    (d @ drop (length d) arr, length d) M"
proof -
  let ?M1 = "M\<lparr>mm_field := arr\<rparr>"
  let ?M2 = "M\<lparr>mm_field := d @ drop (length d) arr\<rparr>"
  have "M\<lparr>mm_field := []\<rparr> = M"
    using M by (metis dec_mem.surjective dec_mem.update_convs(4))
  then have l: "reads D (act_mem (\<lambda>m. Some ((mm_field m, length d), m\<lparr>mm_field := []\<rparr>))) [] ?M2 (d @ drop (length d) arr, length d) M"
    by (intro reads_mem) simp
  have "\<exists>q. reads D (mpack_read_bin L name (Some use_fixed) field_ptr len) [cmp_bytes L (cmp_bin d)] ?M1 (er_ok, q, length d) ?M2"
  proof (cases "d = []")
    case True
    then show ?thesis
      using reads_read_bin_empty [OF L] by fastforce
  next
    case False
    have "mem_store ?M1 field_ptr 0 d = Some ?M2"
      using n by (simp add: mem_store_def mem_put_def)
    then show ?thesis
      using n False by (intro exI [of _ field_ptr] reads_read_bin [OF L n(1) False]) (simp_all add: fixed_validator_def)
  qed
  then obtain q where r: "reads D (mpack_read_bin L name (Some use_fixed) field_ptr len) [cmp_bytes L (cmp_bin d)] ?M1 (er_ok, q, length d) ?M2"
    by blast
  show ?thesis
    unfolding io_decode_bin_fixed_def io_decode_bin_mpack
    by (rule reads_first [OF reads_mem], rule refl, rule reads_then [OF r]) (simp add: l)
qed

lemma reads_string_default:
  assumes L: "cmp_laws L" and n: "length d + 1 < 2 ^ 32" and M: "message_stored M (d @ [0]) = Some (p, M')"
  shows "reads (Some use_message) (io_decode_string_default (mpack_codec L) name) [cmp_bytes L (cmp_str d)] M p M'"
proof -
  obtain M1 where al: "io_decode_allocate use_message (length d + 1) null_ptr 0 M = Some (er_ok, p, length d + 1, M1)"
    and st: "mem_store M1 p 0 (d @ [0]) = Some M'"
    using message_storedD [OF M, of 0] by auto
  obtain M2 where st2: "mem_store M1 p 0 d = Some M2" "mem_store M2 p (length d) [0] = Some M'"
    using mem_store_snoc [OF st] by blast
  have r: "reads (Some use_message) (mpack_read_string L name (Some use_message) null_ptr 0) [cmp_bytes L (cmp_str d)] M
      (er_ok, p, length d + 1) M'"
    by (rule reads_read_string [OF L n al st2])
  have "reads (Some use_message) (act_bind (mpack_read_string L name (Some use_message) null_ptr 0) (\<lambda>(result, alloc, sz).
       if result \<noteq> er_ok
       then act_bind (if alloc \<noteq> null_ptr then act_allocate use_message 0 alloc sz else act_return (er_ok, alloc, sz))
              (\<lambda>_. act_fail result)
       else act_return alloc)) [cmp_bytes L (cmp_str d)] M p M'"
    by (rule reads_then [OF r]) (simp add: reads_return)
  then show ?thesis
    unfolding reads_def by (simp add: io_decode_string_default_def)
qed

lemma reads_bin_default:
  assumes L: "cmp_laws L" and n: "length d < 2 ^ 32" and M: "message_stored M d = Some (p, M')"
  shows "reads (Some use_message) (io_decode_bin_default (mpack_codec L) name sz) [cmp_bytes L (cmp_bin d)] M (p, length d) M'"
proof -
  obtain M1 where al: "io_decode_allocate use_message (length d) null_ptr sz M = Some (er_ok, p, length d, M1)"
    and st: "mem_store M1 p 0 d = Some M'"
    using message_storedD [OF M, of sz] by auto
  have r: "reads (Some use_message) (mpack_read_bin L name (Some use_message) null_ptr sz) [cmp_bytes L (cmp_bin d)] M
      (er_ok, p, length d) M'"
  proof (cases "d = []")
    case True
    then show ?thesis using reads_read_bin_empty [OF L] M by simp
  next
    case False
    then show ?thesis by (rule reads_read_bin [OF L n _ al st])
  qed
  have "reads (Some use_message) (act_bind (mpack_read_bin L name (Some use_message) null_ptr sz) (\<lambda>(result, alloc, sz).
       if result \<noteq> er_ok
       then act_bind (if alloc \<noteq> null_ptr then act_allocate use_message 0 alloc sz else act_return (er_ok, alloc, sz))
              (\<lambda>_. act_fail result)
       else act_return (alloc, sz))) [cmp_bytes L (cmp_bin d)] M (p, length d) M'"
    by (rule reads_then [OF r]) (simp add: reads_return)
  then show ?thesis
    unfolding reads_def by (simp add: io_decode_bin_default_def)
qed

text \<open>One field each, in the form the simplifier walks through a decoder with.\<close>

lemma reads_scalar_step [reads_rules]:
  assumes "cmp_laws L"
  shows "reads D (f i) fs M w M' \<Longrightarrow>
      reads D (act_bind (io_decode_int64 (mpack_codec L) name) f) (cmp_bytes L (cmp_integer i) # fs) M w M'"
    and "reads D (g u) fs M w M' \<Longrightarrow>
      reads D (act_bind (io_decode_uint64 (mpack_codec L) name) g) (cmp_bytes L (cmp_uinteger u) # fs) M w M'"
    and "reads D (h b) fs M w M' \<Longrightarrow>
      reads D (act_bind (io_decode_bool (mpack_codec L) name) h) (cmp_bytes L (cmp_bool b) # fs) M w M'"
  subgoal by (rule reads_bind [where f = f and v = i, OF reads_scalar(1) [OF assms]])
  subgoal by (rule reads_bind [where f = g and v = u, OF reads_scalar(2) [OF assms]])
  subgoal by (rule reads_bind [where f = h and v = b, OF reads_scalar(3) [OF assms]])
  done

lemma reads_narrow_step [reads_rules]:
  assumes "cmp_laws L"
  shows "reads D (f u32) fs M w M' \<Longrightarrow>
      reads D (act_bind (io_decode_uint32 (mpack_codec L) name) f) (cmp_bytes L (cmp_uinteger (ucast (u32 :: u32))) # fs) M w M'"
    and "reads D (g u16) fs M w M' \<Longrightarrow>
      reads D (act_bind (io_decode_uint16 (mpack_codec L) name) g) (cmp_bytes L (cmp_uinteger (ucast (u16 :: u16))) # fs) M w M'"
    and "reads D (h u8) fs M w M' \<Longrightarrow>
      reads D (act_bind (io_decode_uint8 (mpack_codec L) name) h) (cmp_bytes L (cmp_uinteger (ucast (u8 :: u8))) # fs) M w M'"
    and "reads D (k i32) fs M w M' \<Longrightarrow>
      reads D (act_bind (io_decode_int32 (mpack_codec L) name) k) (cmp_bytes L (cmp_integer (scast (i32 :: i32))) # fs) M w M'"
  subgoal by (rule reads_bind [where f = f and v = u32, OF reads_narrow(1) [OF assms]])
  subgoal by (rule reads_bind [where f = g and v = u16, OF reads_narrow(2) [OF assms]])
  subgoal by (rule reads_bind [where f = h and v = u8, OF reads_narrow(3) [OF assms]])
  subgoal by (rule reads_bind [where f = k and v = i32, OF reads_narrow(4) [OF assms]])
  done

lemma reads_bin_array_step [reads_rules]:
  assumes "cmp_laws L" "length d = n" "length arr = n" "n < 2 ^ 32" "mm_field M = []" "reads D (f (d, n)) fs M w M'"
  shows "reads D (act_bind (io_decode_bin_fixed (mpack_codec L) name arr n) f) (cmp_bytes L (cmp_bin d) # fs) M w M'"
proof -
  have "reads D (io_decode_bin_fixed (mpack_codec L) name arr n) [cmp_bytes L (cmp_bin d)] M (d @ drop (length d) arr, length d) M"
    by (rule reads_bin_fixed [OF assms(1)]) (simp_all only: assms(2-5) le_refl)
  moreover have "(d @ drop (length d) arr, length d) = (d, n)"
    using assms(2,3) by simp
  ultimately have "reads D (io_decode_bin_fixed (mpack_codec L) name arr n) [cmp_bytes L (cmp_bin d)] M (d, n) M"
    by (simp only:)
  then show ?thesis
    by (rule reads_bind [where f = f and v = "(d, n)"]) (rule assms(6))
qed

end

end
