(* ===== verification/Io_Types.thy ===== *)
theory Io_Types
  imports Prelude Prx_Err Prx_Types Io_Codec
begin

text \<open>
  The encoders and decoders of \<open>src/io_types.c\<close> for addresses, properties and socket properties, over any
  codec. A decoder takes the structure it fills and returns it; a structure left incomplete by an error
  is dropped, as all callers do.
\<close>

section \<open>Socket addresses\<close>

primrec sa_set_family :: "prx_socket_address \<Rightarrow> i32 \<Rightarrow> prx_socket_address" where
  "sa_set_family (sa_family_only g) f = sa_family_only f"
| "sa_set_family (sa_ip a) f = sa_ip (a\<lparr>in_family := f\<rparr>)"
| "sa_set_family (sa_ux a) f = sa_ux (a\<lparr>ux_family := f\<rparr>)"
| "sa_set_family (sa_proxy a) f = sa_proxy (a\<lparr>px_family := f\<rparr>)"

definition io_encode_prx_socket_address_inet ::
  "('k, 'x, 's) io_codec \<Rightarrow> prx_socket_address_inet \<Rightarrow> ('k, 'x, unit) act" where
  "io_encode_prx_socket_address_inet C sa = act_seq (
     [io_encode_type_begin C (if in_family sa = prx_address_family_inet then 3 else 5),
      io_encode_int32 C (Some ''family'') (in_family sa),
      io_encode_uint16 C (Some ''port'') (in_port sa)] @
     (if in_family sa = prx_address_family_inet
      then [io_encode_bin C (Some ''addr'') (Some (take 4 (in_addr sa))) 4]
      else [io_encode_uint32 C (Some ''flow'') (in_flow sa),
            io_encode_bin C (Some ''addr'') (Some (in_addr sa)) 16,
            io_encode_uint32 C (Some ''scope_id'') (in_scope_id sa)]) @
     [io_encode_type_end C])"

text \<open>Writing the four bytes of \<open>in4\<close> leaves the other address bytes.\<close>

definition io_decode_prx_socket_address_inet ::
  "('k, 'x, 's) io_codec \<Rightarrow> prx_socket_address_inet \<Rightarrow> ('k, 'x, prx_socket_address_inet) act" where
  "io_decode_prx_socket_address_inet C sa =
     act_bind (io_decode_uint16 C (Some ''port'')) (\<lambda>port.
     if in_family sa = prx_address_family_inet
     then act_bind (io_decode_bin_fixed C (Some ''addr'') (take 4 (in_addr sa)) 4) (\<lambda>(addr, sz).
          act_bind (io_decode_type_end C) (\<lambda>_.
          act_return (sa\<lparr>in_port := port, in_addr := addr @ drop 4 (in_addr sa), in_flow := 0, in_padding := 0\<rparr>)))
     else act_bind (io_decode_uint32 C (Some ''flow'')) (\<lambda>flow.
          act_bind (io_decode_bin_fixed C (Some ''addr'') (in_addr sa) 16) (\<lambda>(addr, sz).
          act_bind (io_decode_uint32 C (Some ''scope_id'')) (\<lambda>scope_id.
          act_bind (io_decode_type_end C) (\<lambda>_.
          act_return (sa\<lparr>in_port := port, in_flow := flow, in_addr := addr, in_scope_id := scope_id, in_padding := 0\<rparr>))))))"

definition io_encode_prx_socket_address_proxy ::
  "('k, 'x, 's) io_codec \<Rightarrow> prx_socket_address_proxy \<Rightarrow> ('k, 'x, unit) act" where
  "io_encode_prx_socket_address_proxy C sa = act_seq [
     io_encode_type_begin C 5,
     io_encode_int32 C (Some ''family'') (px_family sa),
     io_encode_uint16 C (Some ''port'') (px_port sa),
     io_encode_uint16 C (Some ''flags'') (px_flags sa),
     io_encode_int32 C (Some ''itf_index'') (px_itf_index sa),
     io_encode_string C (Some ''host'') (Some (px_host sa)),
     io_encode_type_end C]"

definition io_decode_prx_socket_address_proxy ::
  "('k, 'x, 's) io_codec \<Rightarrow> prx_socket_address_proxy \<Rightarrow> ('k, 'x, prx_socket_address_proxy) act" where
  "io_decode_prx_socket_address_proxy C sa =
     act_bind (io_decode_uint16 C (Some ''port'')) (\<lambda>port.
     act_bind (io_decode_uint16 C (Some ''flags'')) (\<lambda>flags.
     act_bind (io_decode_int32 C (Some ''itf_index'')) (\<lambda>itf_index.
     act_bind (io_decode_string_fixed C (Some ''host'') (px_host sa) MAX_HOST_LENGTH) (\<lambda>host.
     act_bind (io_decode_type_end C) (\<lambda>_.
     act_return (sa\<lparr>px_port := port, px_flags := flags, px_itf_index := itf_index, px_host := host\<rparr>))))))"

definition io_encode_prx_socket_address_unix ::
  "('k, 'x, 's) io_codec \<Rightarrow> prx_socket_address_unix \<Rightarrow> ('k, 'x, unit) act" where
  "io_encode_prx_socket_address_unix C sa = act_seq [
     io_encode_type_begin C 2,
     io_encode_int32 C (Some ''family'') (ux_family sa),
     io_encode_string C (Some ''path'') (Some (ux_path sa)),
     io_encode_type_end C]"

definition io_decode_prx_socket_address_unix ::
  "('k, 'x, 's) io_codec \<Rightarrow> prx_socket_address_unix \<Rightarrow> ('k, 'x, prx_socket_address_unix) act" where
  "io_decode_prx_socket_address_unix C sa =
     act_bind (io_decode_string_fixed C (Some ''path'') (ux_path sa) MAX_UNIX_PATH_LENGTH) (\<lambda>path.
     act_bind (io_decode_type_end C) (\<lambda>_.
     act_return (sa\<lparr>ux_path := path\<rparr>)))"

definition io_encode_prx_socket_address :: "('k, 'x, 's) io_codec \<Rightarrow> prx_socket_address \<Rightarrow> ('k, 'x, unit) act" where
  "io_encode_prx_socket_address C sa = (
     if sa_family sa = prx_address_family_unspec
     then act_seq [io_encode_type_begin C 1, io_encode_int32 C (Some ''family'') (sa_family sa), io_encode_type_end C]
     else if sa_family sa = prx_address_family_inet \<or> sa_family sa = prx_address_family_inet6
     then io_encode_prx_socket_address_inet C (as_inet sa)
     else if sa_family sa = prx_address_family_proxy
     then io_encode_prx_socket_address_proxy C (as_proxy sa)
     else if sa_family sa = prx_address_family_unix
     then io_encode_prx_socket_address_unix C (as_unix sa)
     else act_fail er_arg)"

definition io_decode_prx_socket_address ::
  "('k, 'x, 's) io_codec \<Rightarrow> prx_socket_address \<Rightarrow> ('k, 'x, prx_socket_address) act" where
  "io_decode_prx_socket_address C sa =
     act_bind (io_decode_type_begin C) (\<lambda>_.
     act_bind (io_decode_int32 C (Some ''family'')) (\<lambda>family.
     let sa = sa_set_family sa family in
     if family = prx_address_family_unspec
     then act_bind (io_decode_type_end C) (\<lambda>_. act_return sa)
     else if family = prx_address_family_inet \<or> family = prx_address_family_inet6
     then act_bind (io_decode_prx_socket_address_inet C (as_inet sa)) (\<lambda>a. act_return (sa_ip a))
     else if family = prx_address_family_proxy
     then act_bind (io_decode_prx_socket_address_proxy C (as_proxy sa)) (\<lambda>a. act_return (sa_proxy a))
     else if family = prx_address_family_unix
     then act_bind (io_decode_prx_socket_address_unix C (as_unix sa)) (\<lambda>a. act_return (sa_ux a))
     else act_fail er_invalid_format))"

section \<open>Information records\<close>

text \<open>A string a pointer refers to is its memory with the terminator; a null name is encoded as empty.\<close>

definition io_encode_prx_addrinfo :: "('k, 'x, 's) io_codec \<Rightarrow> u8 list option prx_addrinfo \<Rightarrow> ('k, 'x, unit) act" where
  "io_encode_prx_addrinfo C ai = act_seq [
     io_encode_type_begin C 2,
     encode_member C (Some ''address'') (io_encode_prx_socket_address C (ai_address ai)),
     io_encode_string C (Some ''name'') (if ai_name ai \<noteq> None then ai_name ai else Some [0]),
     io_encode_type_end C]"

definition io_decode_prx_addrinfo :: "('k, 'x, 's) io_codec \<Rightarrow> mem_ptr prx_addrinfo \<Rightarrow> ('k, 'x, mem_ptr prx_addrinfo) act" where
  "io_decode_prx_addrinfo C ai =
     act_bind (io_decode_type_begin C) (\<lambda>_.
     act_bind (decode_member C (Some ''address'') (io_decode_prx_socket_address C) (ai_address ai)) (\<lambda>address.
     act_bind (io_decode_string_default C (Some ''name'')) (\<lambda>name.
     act_bind (io_decode_type_end C) (\<lambda>_.
     act_return (ai\<lparr>ai_address := address, ai_name := name, ai_reserved := 0\<rparr>)))))"

definition io_encode_prx_ifaddrinfo :: "('k, 'x, 's) io_codec \<Rightarrow> prx_ifaddrinfo \<Rightarrow> ('k, 'x, unit) act" where
  "io_encode_prx_ifaddrinfo C ifa = act_seq [
     io_encode_type_begin C 6,
     encode_member C (Some ''address'') (io_encode_prx_socket_address C (ifa_address ifa)),
     io_encode_uint8 C (Some ''prefix'') (ifa_prefix ifa),
     io_encode_uint8 C (Some ''flags'') (ifa_flags ifa),
     io_encode_string C (Some ''name'') (Some (ifa_name ifa)),
     io_encode_int32 C (Some ''index'') (ifa_index ifa),
     encode_member C (Some ''broadcast_addr'') (io_encode_prx_socket_address C (ifa_broadcast_addr ifa)),
     io_encode_type_end C]"

definition io_decode_prx_ifaddrinfo :: "('k, 'x, 's) io_codec \<Rightarrow> prx_ifaddrinfo \<Rightarrow> ('k, 'x, prx_ifaddrinfo) act" where
  "io_decode_prx_ifaddrinfo C ifa =
     act_bind (io_decode_type_begin C) (\<lambda>_.
     act_bind (decode_member C (Some ''address'') (io_decode_prx_socket_address C) (ifa_address ifa)) (\<lambda>address.
     act_bind (io_decode_uint8 C (Some ''prefix'')) (\<lambda>prefix.
     act_bind (io_decode_uint8 C (Some ''flags'')) (\<lambda>flags.
     act_bind (io_decode_string_fixed C (Some ''name'') (ifa_name ifa) MAX_INTERFACE_LENGTH) (\<lambda>name.
     act_bind (io_decode_int32 C (Some ''index'')) (\<lambda>index.
     act_bind (decode_member C (Some ''broadcast_addr'') (io_decode_prx_socket_address C) (ifa_broadcast_addr ifa)) (\<lambda>broadcast_addr.
     act_bind (io_decode_type_end C) (\<lambda>_.
     act_return (ifa\<lparr>ifa_address := address, ifa_prefix := prefix, ifa_flags := flags, ifa_name := name,
       ifa_index := index, ifa_broadcast_addr := broadcast_addr, ifa_reserved := 0\<rparr>)))))))))"

definition io_encode_prx_file_info :: "('k, 'x, 's) io_codec \<Rightarrow> prx_file_info \<Rightarrow> ('k, 'x, unit) act" where
  "io_encode_prx_file_info C fi = act_seq [
     io_encode_type_begin C 6,
     io_encode_uint64 C (Some ''inode_number'') (fi_inode_number fi),
     io_encode_uint64 C (Some ''device_id'') (fi_device_id fi),
     io_encode_int32 C (Some ''type'') (fi_type fi),
     io_encode_uint64 C (Some ''total_size'') (fi_total_size fi),
     io_encode_uint64 C (Some ''last_atime'') (fi_last_atime fi),
     io_encode_uint64 C (Some ''last_mtime'') (fi_last_mtime fi),
     io_encode_type_end C]"

definition io_decode_prx_file_info :: "('k, 'x, 's) io_codec \<Rightarrow> prx_file_info \<Rightarrow> ('k, 'x, prx_file_info) act" where
  "io_decode_prx_file_info C fi =
     act_bind (io_decode_type_begin C) (\<lambda>_.
     act_bind (io_decode_uint64 C (Some ''inode_number'')) (\<lambda>inode_number.
     act_bind (io_decode_uint64 C (Some ''device_id'')) (\<lambda>device_id.
     act_bind (io_decode_int32 C (Some ''type'')) (\<lambda>ftype.
     act_bind (io_decode_uint64 C (Some ''total_size'')) (\<lambda>total_size.
     act_bind (io_decode_uint64 C (Some ''last_atime'')) (\<lambda>last_atime.
     act_bind (io_decode_uint64 C (Some ''last_mtime'')) (\<lambda>last_mtime.
     act_bind (io_decode_type_end C) (\<lambda>_.
     act_return (fi\<lparr>fi_inode_number := inode_number, fi_device_id := device_id, fi_type := ftype,
       fi_total_size := total_size, fi_last_atime := last_atime, fi_last_mtime := last_mtime\<rparr>)))))))))"

section \<open>Properties\<close>

definition io_encode_prx_multicast_option :: "('k, 'x, 's) io_codec \<Rightarrow> prx_multicast_option \<Rightarrow> ('k, 'x, unit) act" where
  "io_encode_prx_multicast_option C mo = act_seq [
     io_encode_type_begin C 3,
     io_encode_int32 C (Some ''family'') (mc_family mo),
     io_encode_int32 C (Some ''itf_index'') (mc_itf_index mo),
     (if mc_family mo = prx_address_family_inet
      then io_encode_bin C (Some ''addr'') (Some (take 4 (mc_addr mo))) 4
      else if mc_family mo = prx_address_family_inet6
      then io_encode_bin C (Some ''addr'') (Some (mc_addr mo)) 16
      else act_fail er_invalid_format),
     io_encode_type_end C]"

text \<open>The decoder ends the type with the encoder's function.\<close>

definition io_decode_prx_multicast_option ::
  "('k, 'x, 's) io_codec \<Rightarrow> prx_multicast_option \<Rightarrow> ('k, 'x, prx_multicast_option) act" where
  "io_decode_prx_multicast_option C mo =
     act_bind (io_decode_type_begin C) (\<lambda>_.
     act_bind (io_decode_int32 C (Some ''family'')) (\<lambda>family.
     act_bind (io_decode_int32 C (Some ''itf_index'')) (\<lambda>itf_index.
     if family = prx_address_family_inet
     then act_bind (io_decode_bin_fixed C (Some ''addr'') (take 4 (mc_addr mo)) 4) (\<lambda>(addr, sz).
          act_bind (io_encode_type_end C) (\<lambda>_.
          act_return (mo\<lparr>mc_family := family, mc_itf_index := itf_index, mc_addr := addr @ drop 4 (mc_addr mo)\<rparr>)))
     else if family = prx_address_family_inet6
     then act_bind (io_decode_bin_fixed C (Some ''addr'') (mc_addr mo) 16) (\<lambda>(addr, sz).
          act_bind (io_encode_type_end C) (\<lambda>_.
          act_return (mo\<lparr>mc_family := family, mc_itf_index := itf_index, mc_addr := addr, mc_scope_id := itf_index\<rparr>)))
     else act_fail er_invalid_format)))"

definition is_mcast_type :: "i32 \<Rightarrow> bool" where
  "is_mcast_type t \<longleftrightarrow> t = prx_so_ip_multicast_join \<or> t = prx_so_ip_multicast_leave"

definition is_record_type :: "i32 \<Rightarrow> bool" where
  "is_record_type t \<longleftrightarrow> \<not> lt_i32 t prx_record_type_default \<and> lt_i32 t prx_record_max"

definition is_socket_option :: "i32 \<Rightarrow> bool" where
  "is_socket_option t \<longleftrightarrow> lt_i32 prx_so_unknown t \<and> lt_i32 t prx_so_max"

text \<open>
  The type selects the member of the union. Reading a member other than the one stored has no meaning in
  the model.
\<close>

definition io_encode_property_value :: "('k, 'x, 's) io_codec \<Rightarrow> u8 list option prx_property \<Rightarrow> ('k, 'x, unit) act" where
  "io_encode_property_value C p = (
     if is_mcast_type (prop_type p) \<or> \<not> lt_i32 (prop_type p) prx_property_type_file_info
     then encode_member C (Some ''property'') (
       if is_mcast_type (prop_type p)
       then (case prop_property p of prop_mcast m \<Rightarrow> io_encode_prx_multicast_option C m | _ \<Rightarrow> act_crash)
       else if prop_type p = prx_property_type_addrinfo
       then (case prop_property p of prop_addr_info a \<Rightarrow> io_encode_prx_addrinfo C a | _ \<Rightarrow> act_crash)
       else if prop_type p = prx_property_type_ifaddrinfo
       then (case prop_property p of prop_itf_info i \<Rightarrow> io_encode_prx_ifaddrinfo C i | _ \<Rightarrow> act_crash)
       else if prop_type p = prx_property_type_file_info
       then (case prop_property p of prop_file_info f \<Rightarrow> io_encode_prx_file_info C f | _ \<Rightarrow> act_crash)
       else act_fail er_writing)
     else if is_record_type (prop_type p)
     then (case prop_property p of prop_bin n v \<Rightarrow> io_encode_bin C (Some ''property'') v n | _ \<Rightarrow> act_crash)
     else if is_socket_option (prop_type p)
     then (case prop_property p of prop_value v \<Rightarrow> io_encode_uint64 C (Some ''property'') v | _ \<Rightarrow> act_crash)
     else act_fail er_writing)"

definition io_encode_prx_property :: "('k, 'x, 's) io_codec \<Rightarrow> u8 list option prx_property \<Rightarrow> ('k, 'x, unit) act" where
  "io_encode_prx_property C p = act_seq [
     io_encode_type_begin C 2,
     io_encode_int32 C (Some ''type'') (prop_type p),
     io_encode_property_value C p,
     io_encode_type_end C]"

text \<open>The members of the union a decoder writes to, zero unless it is the one stored.\<close>

definition as_mcast :: "'p prx_property_value \<Rightarrow> prx_multicast_option" where
  "as_mcast v = (case v of prop_mcast m \<Rightarrow> m | _ \<Rightarrow> mcast_zero)"

definition as_addr_info :: "mem_ptr prx_property_value \<Rightarrow> mem_ptr prx_addrinfo" where
  "as_addr_info v = (case v of prop_addr_info a \<Rightarrow> a | _ \<Rightarrow> addrinfo_zero null_ptr)"

definition as_itf_info :: "'p prx_property_value \<Rightarrow> prx_ifaddrinfo" where
  "as_itf_info v = (case v of prop_itf_info i \<Rightarrow> i | _ \<Rightarrow> ifaddrinfo_zero)"

definition as_file_info :: "'p prx_property_value \<Rightarrow> prx_file_info" where
  "as_file_info v = (case v of prop_file_info f \<Rightarrow> f | _ \<Rightarrow> file_info_zero)"

definition as_bin_size :: "'p prx_property_value \<Rightarrow> nat" where
  "as_bin_size v = (case v of prop_bin n p \<Rightarrow> n | _ \<Rightarrow> 0)"

definition io_decode_property_value ::
  "('k, 'x, 's) io_codec \<Rightarrow> i32 \<Rightarrow> mem_ptr prx_property_value \<Rightarrow> ('k, 'x, mem_ptr prx_property_value) act" where
  "io_decode_property_value C t v = (
     if is_mcast_type t \<or> \<not> lt_i32 t prx_property_type_file_info
     then act_bind (io_decode_object C (Some ''property'')) (\<lambda>(is_null, obj).
       if is_null then act_fail er_invalid_format
       else act_in obj (
         if is_mcast_type t
         then act_bind (io_decode_prx_multicast_option C (as_mcast v)) (\<lambda>m. act_return (prop_mcast m))
         else if t = prx_property_type_addrinfo
         then act_bind (io_decode_prx_addrinfo C (as_addr_info v)) (\<lambda>a. act_return (prop_addr_info a))
         else if t = prx_property_type_ifaddrinfo
         then act_bind (io_decode_prx_ifaddrinfo C (as_itf_info v)) (\<lambda>i. act_return (prop_itf_info i))
         else if t = prx_property_type_file_info
         then act_bind (io_decode_prx_file_info C (as_file_info v)) (\<lambda>f. act_return (prop_file_info f))
         else act_fail er_invalid_format))
     else if is_record_type t
     then act_bind (io_decode_bin_default C (Some ''property'') (as_bin_size v)) (\<lambda>(p, n). act_return (prop_bin n p))
     else if is_socket_option t
     then act_bind (io_decode_uint64 C (Some ''property'')) (\<lambda>u. act_return (prop_value u))
     else act_fail er_invalid_format)"

definition io_decode_prx_property ::
  "('k, 'x, 's) io_codec \<Rightarrow> mem_ptr prx_property \<Rightarrow> ('k, 'x, mem_ptr prx_property) act" where
  "io_decode_prx_property C p =
     act_bind (io_decode_type_begin C) (\<lambda>_.
     act_bind (io_decode_int32 C (Some ''type'')) (\<lambda>t.
     act_bind (io_decode_property_value C t (prop_property p)) (\<lambda>v.
     act_bind (io_decode_type_end C) (\<lambda>_.
     act_return \<lparr>prop_type = t, prop_property = v\<rparr>))))"

section \<open>Socket properties\<close>

definition io_encode_prx_socket_properties ::
  "('k, 'x, 's) io_codec \<Rightarrow> u8 list option prx_socket_properties \<Rightarrow> ('k, 'x, unit) act" where
  "io_encode_prx_socket_properties C sp = (
     let opts = filter (\<lambda>p. is_socket_option (prop_type p)) (sp_options sp)
     in act_seq [
     io_encode_type_begin C 7,
     io_encode_int32 C (Some ''family'') (sp_family sp),
     io_encode_int32 C (Some ''sock_type'') (sp_sock_type sp),
     io_encode_int32 C (Some ''proto_type'') (sp_proto_type sp),
     io_encode_uint32 C (Some ''flags'') (sp_flags sp),
     io_encode_uint64 C (Some ''timeout'') (sp_timeout sp),
     encode_member C (Some ''address'') (io_encode_prx_socket_address C (sp_address sp)),
     act_bind (io_encode_array C (Some ''options'') (length opts)) (\<lambda>arr.
       act_in arr (act_seq (map (\<lambda>p. encode_member C None (io_encode_prx_property C p)) opts))),
     io_encode_type_end C])"

text \<open>The variable \<open>option\<close> keeps what the previous round left in it but for its type.\<close>

primrec decode_options ::
  "('k, 'x, 's) io_codec \<Rightarrow> nat \<Rightarrow> mem_ptr prx_property \<Rightarrow> mem_ptr prx_property list \<Rightarrow> ('k, 'x, mem_ptr prx_property list) act" where
  "decode_options C 0 option opts = act_return opts"
| "decode_options C (Suc n) option opts =
     act_bind (io_decode_object C None) (\<lambda>(is_null, obj).
     act_bind (act_in obj (io_decode_prx_property C (option\<lparr>prop_type := 0\<rparr>))) (\<lambda>option.
     decode_options C n option (
       if is_socket_option (prop_type option) then opts[unat (prop_type option) := option] else opts)))"

text \<open>\<open>option\<close> is the uninitialised variable on the stack.\<close>

definition io_decode_prx_socket_properties ::
  "('k, 'x, 's) io_codec \<Rightarrow> mem_ptr prx_property \<Rightarrow> mem_ptr prx_socket_properties \<Rightarrow> ('k, 'x, mem_ptr prx_socket_properties) act" where
  "io_decode_prx_socket_properties C option sp =
     act_bind (io_decode_type_begin C) (\<lambda>_.
     act_bind (io_decode_int32 C (Some ''family'')) (\<lambda>family.
     act_bind (io_decode_int32 C (Some ''sock_type'')) (\<lambda>sock_type.
     act_bind (io_decode_int32 C (Some ''proto_type'')) (\<lambda>proto_type.
     act_bind (io_decode_uint32 C (Some ''flags'')) (\<lambda>flags.
     act_bind (io_decode_uint64 C (Some ''timeout'')) (\<lambda>timeout.
     act_bind (decode_member C (Some ''address'') (io_decode_prx_socket_address C) (sp_address sp)) (\<lambda>address.
     act_bind (act_bind (io_decode_array C (Some ''options'')) (\<lambda>(sz, arr).
       act_in arr (decode_options C sz option (replicate 34 property_zero)))) (\<lambda>options.
     act_bind (io_decode_type_end C) (\<lambda>_.
     act_return \<lparr>sp_family = family, sp_sock_type = sock_type, sp_proto_type = proto_type, sp_flags = flags,
       sp_timeout = timeout, sp_address = address, sp_options = options\<rparr>)))))))))"

end
