(* ===== verification/Io_Proto.thy ===== *)
theory Io_Proto
  imports Prelude Prx_Err Prx_Types Prx_Buffer Io_Codec Io_Types Io_Ref
begin

text \<open>
  The protocol messages of \<open>inc/io_proto.h\<close> and \<open>src/io_proto.c\<close>: their content types, encoding and decoding
  over any codec, and the message factory with its two pools. Like the types of \<open>Prx_Types\<close>, a message is
  parametrised by what stands for its pointers.
\<close>

section \<open>Messages\<close>

abbreviation "io_message_type_ping \<equiv> (10 :: u32)"
abbreviation "io_message_type_link \<equiv> (12 :: u32)"
abbreviation "io_message_type_setopt \<equiv> (13 :: u32)"
abbreviation "io_message_type_getopt \<equiv> (14 :: u32)"
abbreviation "io_message_type_open \<equiv> (20 :: u32)"
abbreviation "io_message_type_close \<equiv> (21 :: u32)"
abbreviation "io_message_type_data \<equiv> (30 :: u32)"
abbreviation "io_message_type_poll \<equiv> (31 :: u32)"

record io_ping_response =
  pr_address :: prx_socket_address
  pr_physical_address :: "u8 list"
  pr_time_ms :: u32

record 'p io_link_request =
  lr_version :: u8
  lr_props :: "'p prx_socket_properties"

record io_link_response =
  lp_link_id :: io_ref
  lp_local_address :: prx_socket_address
  lp_peer_address :: prx_socket_address

record 'p io_open_request =
  or_stream_id :: io_ref
  or_type :: i32
  or_connection_string :: 'p
  or_polled :: bool
  or_max_send :: u32
  or_max_recv :: u32

record io_poll_message =
  pm_sequence_number :: u64
  pm_timeout :: u64

record 'p io_data_message =
  dm_sequence_number :: u64
  dm_source_address :: prx_socket_address
  dm_control_buffer_length :: nat
  dm_control_buffer :: 'p
  dm_buffer_length :: nat
  dm_buffer :: 'p

record io_close_response =
  cr_time_open :: u64
  cr_bytes_sent :: u64
  cr_bytes_received :: u64
  cr_error_code :: i32

text \<open>The union of the contents; \<open>content_zero\<close> is the zeroed union.\<close>

datatype 'p io_content =
    content_zero
  | ping_request prx_socket_address
  | ping_response io_ping_response
  | link_request "'p io_link_request"
  | link_response io_link_response
  | setopt_request "'p prx_property"
  | getopt_request i32
  | getopt_response "'p prx_property"
  | open_request "'p io_open_request"
  | poll_message io_poll_message
  | data_message "'p io_data_message"
  | close_response io_close_response

record 'p io_message =
  msg_source_id :: io_ref
  msg_proxy_id :: io_ref
  msg_target_id :: io_ref
  msg_error_code :: i32
  msg_is_response :: bool
  msg_type :: u32
  msg_content :: "'p io_content"
  msg_buffer :: "addr option"
  msg_correlation_id :: i32

definition message_zero :: "'p io_message" where
  "message_zero = \<lparr>msg_source_id = io_ref_null, msg_proxy_id = io_ref_null, msg_target_id = io_ref_null,
     msg_error_code = 0, msg_is_response = False, msg_type = 0, msg_content = content_zero, msg_buffer = None,
     msg_correlation_id = 0\<rparr>"

section \<open>Encoding of the contents\<close>

definition io_encode_ping_request :: "('k, 'x, 's) io_codec \<Rightarrow> prx_socket_address \<Rightarrow> ('k, 'x, unit) act" where
  "io_encode_ping_request C address = act_seq [
     io_encode_type_begin C 1,
     encode_member C (Some ''address'') (io_encode_prx_socket_address C address),
     io_encode_type_end C]"

definition io_encode_ping_response :: "('k, 'x, 's) io_codec \<Rightarrow> io_ping_response \<Rightarrow> ('k, 'x, unit) act" where
  "io_encode_ping_response C r = act_seq [
     io_encode_type_begin C 3,
     encode_member C (Some ''address'') (io_encode_prx_socket_address C (pr_address r)),
     io_encode_bin C (Some ''physical_address'') (Some (pr_physical_address r)) 8,
     io_encode_uint32 C (Some ''time_ms'') (pr_time_ms r),
     io_encode_type_end C]"

definition io_encode_link_request :: "('k, 'x, 's) io_codec \<Rightarrow> u8 list option io_link_request \<Rightarrow> ('k, 'x, unit) act" where
  "io_encode_link_request C r = act_seq [
     io_encode_type_begin C 2,
     io_encode_uint8 C (Some ''version'') (lr_version r),
     encode_member C (Some ''props'') (io_encode_prx_socket_properties C (lr_props r)),
     io_encode_type_end C]"

definition io_encode_link_response :: "('k, 'x, 's) io_codec \<Rightarrow> string_env \<Rightarrow> io_link_response \<Rightarrow> ('k, 'x, unit) act" where
  "io_encode_link_response C E r = act_seq [
     io_encode_type_begin C 3,
     encode_member C (Some ''link_id'') (io_encode_ref C E (lp_link_id r)),
     encode_member C (Some ''local_address'') (io_encode_prx_socket_address C (lp_local_address r)),
     encode_member C (Some ''peer_address'') (io_encode_prx_socket_address C (lp_peer_address r)),
     io_encode_type_end C]"

definition io_encode_setopt_request :: "('k, 'x, 's) io_codec \<Rightarrow> u8 list option prx_property \<Rightarrow> ('k, 'x, unit) act" where
  "io_encode_setopt_request C so_val = act_seq [
     io_encode_type_begin C 1,
     encode_member C (Some ''so_val'') (io_encode_prx_property C so_val),
     io_encode_type_end C]"

definition io_encode_getopt_request :: "('k, 'x, 's) io_codec \<Rightarrow> i32 \<Rightarrow> ('k, 'x, unit) act" where
  "io_encode_getopt_request C so_opt = act_seq [
     io_encode_type_begin C 1,
     io_encode_int32 C (Some ''so_opt'') so_opt,
     io_encode_type_end C]"

definition io_encode_getopt_response :: "('k, 'x, 's) io_codec \<Rightarrow> u8 list option prx_property \<Rightarrow> ('k, 'x, unit) act" where
  "io_encode_getopt_response C so_val = act_seq [
     io_encode_type_begin C 1,
     encode_member C (Some ''so_val'') (io_encode_prx_property C so_val),
     io_encode_type_end C]"

text \<open>\<open>max_send\<close> does not travel.\<close>

definition io_encode_open_request :: "('k, 'x, 's) io_codec \<Rightarrow> string_env \<Rightarrow> u8 list option io_open_request \<Rightarrow> ('k, 'x, unit) act" where
  "io_encode_open_request C E r = act_seq [
     io_encode_type_begin C 5,
     encode_member C (Some ''stream_id'') (io_encode_ref C E (or_stream_id r)),
     io_encode_int32 C (Some ''type'') (or_type r),
     io_encode_string C (Some ''connection-string'') (or_connection_string r),
     io_encode_bool C (Some ''polled'') (or_polled r),
     io_encode_uint32 C (Some ''max_recv'') (or_max_recv r),
     io_encode_type_end C]"

definition io_encode_poll_message :: "('k, 'x, 's) io_codec \<Rightarrow> io_poll_message \<Rightarrow> ('k, 'x, unit) act" where
  "io_encode_poll_message C m = act_seq [
     io_encode_type_begin C 2,
     io_encode_uint64 C (Some ''sequence_number'') (pm_sequence_number m),
     io_encode_uint64 C (Some ''timeout'') (pm_timeout m),
     io_encode_type_end C]"

text \<open>The lengths are cast to 32 bits.\<close>

definition io_encode_data_message :: "('k, 'x, 's) io_codec \<Rightarrow> u8 list option io_data_message \<Rightarrow> ('k, 'x, unit) act" where
  "io_encode_data_message C m = act_seq [
     io_encode_type_begin C 4,
     io_encode_uint64 C (Some ''sequence_number'') (dm_sequence_number m),
     encode_member C (Some ''source_address'') (io_encode_prx_socket_address C (dm_source_address m)),
     io_encode_bin C (Some ''buffer'') (dm_buffer m) (dm_buffer_length m mod 2 ^ 32),
     io_encode_bin C (Some ''control_buffer'') (dm_control_buffer m) (dm_control_buffer_length m mod 2 ^ 32),
     io_encode_type_end C]"

definition io_encode_close_response :: "('k, 'x, 's) io_codec \<Rightarrow> io_close_response \<Rightarrow> ('k, 'x, unit) act" where
  "io_encode_close_response C r = act_seq [
     io_encode_type_begin C 4,
     io_encode_uint64 C (Some ''time_open'') (cr_time_open r),
     io_encode_uint64 C (Some ''bytes_received'') (cr_bytes_received r),
     io_encode_uint64 C (Some ''bytes_sent'') (cr_bytes_sent r),
     io_encode_int32 C (Some ''error_code'') (cr_error_code r),
     io_encode_type_end C]"

text \<open>
  The content of a given kind, which a zeroed union is for every kind; a union that holds another kind has
  no meaning as it.
\<close>

definition zero_addr :: prx_socket_address where "zero_addr = sa_family_only 0"

definition ping_response_zero :: io_ping_response where
  "ping_response_zero = \<lparr>pr_address = zero_addr, pr_physical_address = replicate 8 0, pr_time_ms = 0\<rparr>"

definition link_request_zero :: "'p io_link_request" where
  "link_request_zero = \<lparr>lr_version = 0, lr_props = socket_properties_zero\<rparr>"

definition link_response_zero :: io_link_response where
  "link_response_zero = \<lparr>lp_link_id = io_ref_null, lp_local_address = zero_addr, lp_peer_address = zero_addr\<rparr>"

definition open_request_zero :: "'p \<Rightarrow> 'p io_open_request" where
  "open_request_zero null = \<lparr>or_stream_id = io_ref_null, or_type = 0, or_connection_string = null, or_polled = False,
     or_max_send = 0, or_max_recv = 0\<rparr>"

definition poll_message_zero :: io_poll_message where
  "poll_message_zero = \<lparr>pm_sequence_number = 0, pm_timeout = 0\<rparr>"

definition data_message_zero :: "'p \<Rightarrow> 'p io_data_message" where
  "data_message_zero null = \<lparr>dm_sequence_number = 0, dm_source_address = zero_addr, dm_control_buffer_length = 0,
     dm_control_buffer = null, dm_buffer_length = 0, dm_buffer = null\<rparr>"

definition close_response_zero :: io_close_response where
  "close_response_zero = \<lparr>cr_time_open = 0, cr_bytes_sent = 0, cr_bytes_received = 0, cr_error_code = 0\<rparr>"

definition encode_content :: "('k, 'x, 's) io_codec \<Rightarrow> ('k, 'x, unit) act option \<Rightarrow> ('k, 'x, unit) act" where
  "encode_content C a = encode_member C (Some ''content'') (case a of None \<Rightarrow> act_crash | Some a \<Rightarrow> a)"

definition encode_null_content :: "('k, 'x, 's) io_codec \<Rightarrow> ('k, 'x, unit) act" where
  "encode_null_content C = act_bind (io_encode_object C (Some ''content'') True) (\<lambda>obj. act_return ())"

definition encode_data_content :: "('k, 'x, 's) io_codec \<Rightarrow> u8 list option io_content \<Rightarrow> ('k, 'x, unit) act" where
  "encode_data_content C c = encode_content C (case c of
     data_message m \<Rightarrow> Some (io_encode_data_message C m)
   | content_zero \<Rightarrow> Some (io_encode_data_message C (data_message_zero None)) | _ \<Rightarrow> None)"

definition io_encode_response_content :: "('k, 'x, 's) io_codec \<Rightarrow> string_env \<Rightarrow> u8 list option io_message \<Rightarrow> ('k, 'x, unit) act" where
  "io_encode_response_content C E msg = (
     let c = msg_content msg; t = msg_type msg in
     if t = io_message_type_data then encode_data_content C c
     else if t = io_message_type_close then encode_content C (case c of
         close_response r \<Rightarrow> Some (io_encode_close_response C r)
       | content_zero \<Rightarrow> Some (io_encode_close_response C close_response_zero) | _ \<Rightarrow> None)
     else if t = io_message_type_ping then encode_content C (case c of
         ping_response r \<Rightarrow> Some (io_encode_ping_response C r)
       | content_zero \<Rightarrow> Some (io_encode_ping_response C ping_response_zero) | _ \<Rightarrow> None)
     else if t = io_message_type_poll then encode_null_content C
     else if t = io_message_type_link then encode_content C (case c of
         link_response r \<Rightarrow> Some (io_encode_link_response C E r)
       | content_zero \<Rightarrow> Some (io_encode_link_response C E link_response_zero) | _ \<Rightarrow> None)
     else if t = io_message_type_open then encode_null_content C
     else if t = io_message_type_setopt then encode_null_content C
     else if t = io_message_type_getopt then encode_content C (case c of
         getopt_response p \<Rightarrow> Some (io_encode_getopt_response C p)
       | content_zero \<Rightarrow> Some (io_encode_getopt_response C property_zero) | _ \<Rightarrow> None)
     else act_fail er_not_supported)"

definition io_encode_request_content :: "('k, 'x, 's) io_codec \<Rightarrow> string_env \<Rightarrow> u8 list option io_message \<Rightarrow> ('k, 'x, unit) act" where
  "io_encode_request_content C E msg = (
     let c = msg_content msg; t = msg_type msg in
     if t = io_message_type_data then encode_data_content C c
     else if t = io_message_type_close then encode_null_content C
     else if t = io_message_type_ping then encode_content C (case c of
         ping_request a \<Rightarrow> Some (io_encode_ping_request C a)
       | content_zero \<Rightarrow> Some (io_encode_ping_request C zero_addr) | _ \<Rightarrow> None)
     else if t = io_message_type_poll then encode_content C (case c of
         poll_message m \<Rightarrow> Some (io_encode_poll_message C m)
       | content_zero \<Rightarrow> Some (io_encode_poll_message C poll_message_zero) | _ \<Rightarrow> None)
     else if t = io_message_type_link then encode_content C (case c of
         link_request r \<Rightarrow> Some (io_encode_link_request C r)
       | content_zero \<Rightarrow> Some (io_encode_link_request C link_request_zero) | _ \<Rightarrow> None)
     else if t = io_message_type_open then encode_content C (case c of
         open_request r \<Rightarrow> Some (io_encode_open_request C E r)
       | content_zero \<Rightarrow> Some (io_encode_open_request C E (open_request_zero None)) | _ \<Rightarrow> None)
     else if t = io_message_type_setopt then encode_content C (case c of
         setopt_request p \<Rightarrow> Some (io_encode_setopt_request C p)
       | content_zero \<Rightarrow> Some (io_encode_setopt_request C property_zero) | _ \<Rightarrow> None)
     else if t = io_message_type_getopt then encode_content C (case c of
         getopt_request o' \<Rightarrow> Some (io_encode_getopt_request C o')
       | content_zero \<Rightarrow> Some (io_encode_getopt_request C 0) | _ \<Rightarrow> None)
     else act_fail er_not_supported)"

definition io_encode_message_content :: "('k, 'x, 's) io_codec \<Rightarrow> string_env \<Rightarrow> u8 list option io_message \<Rightarrow> ('k, 'x, unit) act" where
  "io_encode_message_content C E msg = (
     if msg_is_response msg then io_encode_response_content C E msg else io_encode_request_content C E msg)"

definition MODULE_VER_NUM :: u32 where
  "MODULE_VER_NUM = push_bit 24 0 OR push_bit 16 2 OR push_bit 8 1"

definition io_encode_message :: "('k, 'x, 's) io_codec \<Rightarrow> string_env \<Rightarrow> u8 list option io_message \<Rightarrow> ('k, 'x, unit) act" where
  "io_encode_message C E msg = act_seq [
     io_encode_type_begin C 8,
     io_encode_uint32 C (Some ''version'') MODULE_VER_NUM,
     encode_member C (Some ''source_id'') (io_encode_ref C E (msg_source_id msg)),
     encode_member C (Some ''proxy_id'') (io_encode_ref C E (msg_proxy_id msg)),
     encode_member C (Some ''target_id'') (io_encode_ref C E (msg_target_id msg)),
     io_encode_int32 C (Some ''error_code'') (msg_error_code msg),
     io_encode_bool C (Some ''is_response'') (msg_is_response msg),
     io_encode_uint32 C (Some ''type'') (msg_type msg),
     io_encode_message_content C E msg,
     io_encode_type_end C]"

section \<open>Decoding of the contents\<close>

text \<open>
  A decoder takes the structure it fills as it was, since what does not travel keeps its old value. It returns
  the filled structure; on an error the partly filled one is dropped, as every caller releases the message then.
\<close>

definition io_decode_ping_request :: "('k, 'x, 's) io_codec \<Rightarrow> prx_socket_address \<Rightarrow> ('k, 'x, prx_socket_address) act" where
  "io_decode_ping_request C address =
     act_bind (io_decode_type_begin C) (\<lambda>_.
     act_bind (decode_member C (Some ''address'') (io_decode_prx_socket_address C) address) (\<lambda>address.
     act_bind (io_decode_type_end C) (\<lambda>_.
     act_return address)))"

definition io_decode_ping_response :: "('k, 'x, 's) io_codec \<Rightarrow> io_ping_response \<Rightarrow> ('k, 'x, io_ping_response) act" where
  "io_decode_ping_response C r =
     act_bind (io_decode_type_begin C) (\<lambda>_.
     act_bind (decode_member C (Some ''address'') (io_decode_prx_socket_address C) (pr_address r)) (\<lambda>address.
     act_bind (io_decode_bin_fixed C (Some ''physical_address'') (pr_physical_address r) 8) (\<lambda>(physical_address, len).
     act_bind (io_decode_uint32 C (Some ''time_ms'')) (\<lambda>time_ms.
     act_bind (io_decode_type_end C) (\<lambda>_.
     act_return \<lparr>pr_address = address, pr_physical_address = physical_address, pr_time_ms = time_ms\<rparr>)))))"

definition io_decode_link_request ::
  "('k, 'x, 's) io_codec \<Rightarrow> mem_ptr prx_property \<Rightarrow> mem_ptr io_link_request \<Rightarrow> ('k, 'x, mem_ptr io_link_request) act" where
  "io_decode_link_request C option r =
     act_bind (io_decode_type_begin C) (\<lambda>_.
     act_bind (io_decode_uint8 C (Some ''version'')) (\<lambda>version.
     act_bind (decode_member C (Some ''props'') (io_decode_prx_socket_properties C option) (lr_props r)) (\<lambda>props.
     act_bind (io_decode_type_end C) (\<lambda>_.
     act_return \<lparr>lr_version = version, lr_props = props\<rparr>))))"

definition io_decode_link_response ::
  "('k, 'x, 's) io_codec \<Rightarrow> string_env \<Rightarrow> io_link_response \<Rightarrow> ('k, 'x, io_link_response) act" where
  "io_decode_link_response C E r =
     act_bind (io_decode_type_begin C) (\<lambda>_.
     act_bind (decode_member C (Some ''link_id'') (io_decode_ref C E) (lp_link_id r)) (\<lambda>link_id.
     act_bind (decode_member C (Some ''local_address'') (io_decode_prx_socket_address C) (lp_local_address r)) (\<lambda>local_address.
     act_bind (decode_member C (Some ''peer_address'') (io_decode_prx_socket_address C) (lp_peer_address r)) (\<lambda>peer_address.
     act_bind (io_decode_type_end C) (\<lambda>_.
     act_return \<lparr>lp_link_id = link_id, lp_local_address = local_address, lp_peer_address = peer_address\<rparr>)))))"

definition io_decode_setopt_request ::
  "('k, 'x, 's) io_codec \<Rightarrow> mem_ptr prx_property \<Rightarrow> ('k, 'x, mem_ptr prx_property) act" where
  "io_decode_setopt_request C so_val =
     act_bind (io_decode_type_begin C) (\<lambda>_.
     act_bind (decode_member C (Some ''so_val'') (io_decode_prx_property C) so_val) (\<lambda>so_val.
     act_bind (io_decode_type_end C) (\<lambda>_.
     act_return so_val)))"

definition io_decode_getopt_request :: "('k, 'x, 's) io_codec \<Rightarrow> i32 \<Rightarrow> ('k, 'x, i32) act" where
  "io_decode_getopt_request C so_opt =
     act_bind (io_decode_type_begin C) (\<lambda>_.
     act_bind (io_decode_int32 C (Some ''so_opt'')) (\<lambda>so_opt.
     act_bind (io_decode_type_end C) (\<lambda>_.
     act_return so_opt)))"

definition io_decode_getopt_response ::
  "('k, 'x, 's) io_codec \<Rightarrow> mem_ptr prx_property \<Rightarrow> ('k, 'x, mem_ptr prx_property) act" where
  "io_decode_getopt_response C so_val =
     act_bind (io_decode_type_begin C) (\<lambda>_.
     act_bind (decode_member C (Some ''so_val'') (io_decode_prx_property C) so_val) (\<lambda>so_val.
     act_bind (io_decode_type_end C) (\<lambda>_.
     act_return so_val)))"

definition io_decode_open_request ::
  "('k, 'x, 's) io_codec \<Rightarrow> string_env \<Rightarrow> mem_ptr io_open_request \<Rightarrow> ('k, 'x, mem_ptr io_open_request) act" where
  "io_decode_open_request C E r =
     act_bind (io_decode_type_begin C) (\<lambda>_.
     act_bind (decode_member C (Some ''stream_id'') (io_decode_ref C E) (or_stream_id r)) (\<lambda>stream_id.
     act_bind (io_decode_int32 C (Some ''type'')) (\<lambda>type.
     act_bind (io_decode_string_default C (Some ''connection-string'')) (\<lambda>connection_string.
     act_bind (io_decode_bool C (Some ''polled'')) (\<lambda>polled.
     act_bind (io_decode_uint32 C (Some ''max_recv'')) (\<lambda>max_recv.
     act_bind (io_decode_type_end C) (\<lambda>_.
     act_return \<lparr>or_stream_id = stream_id, or_type = type, or_connection_string = connection_string,
       or_polled = polled, or_max_send = or_max_send r, or_max_recv = max_recv\<rparr>)))))))"

definition io_decode_poll_message :: "('k, 'x, 's) io_codec \<Rightarrow> io_poll_message \<Rightarrow> ('k, 'x, io_poll_message) act" where
  "io_decode_poll_message C m =
     act_bind (io_decode_type_begin C) (\<lambda>_.
     act_bind (io_decode_uint64 C (Some ''sequence_number'')) (\<lambda>sequence_number.
     act_bind (io_decode_uint64 C (Some ''timeout'')) (\<lambda>timeout.
     act_bind (io_decode_type_end C) (\<lambda>_.
     act_return \<lparr>pm_sequence_number = sequence_number, pm_timeout = timeout\<rparr>))))"

definition io_decode_data_message ::
  "('k, 'x, 's) io_codec \<Rightarrow> mem_ptr io_data_message \<Rightarrow> ('k, 'x, mem_ptr io_data_message) act" where
  "io_decode_data_message C m =
     act_bind (io_decode_type_begin C) (\<lambda>_.
     act_bind (io_decode_uint64 C (Some ''sequence_number'')) (\<lambda>sequence_number.
     act_bind (decode_member C (Some ''source_address'') (io_decode_prx_socket_address C) (dm_source_address m)) (\<lambda>source_address.
     act_bind (io_decode_bin_default C (Some ''buffer'') (dm_buffer_length m)) (\<lambda>(buffer, buffer_length).
     act_bind (io_decode_bin_default C (Some ''control_buffer'') (dm_control_buffer_length m)) (\<lambda>(control_buffer, control_buffer_length).
     act_bind (io_decode_type_end C) (\<lambda>_.
     act_return \<lparr>dm_sequence_number = sequence_number, dm_source_address = source_address,
       dm_control_buffer_length = control_buffer_length, dm_control_buffer = control_buffer,
       dm_buffer_length = buffer_length, dm_buffer = buffer\<rparr>))))))"

definition io_decode_close_response :: "('k, 'x, 's) io_codec \<Rightarrow> io_close_response \<Rightarrow> ('k, 'x, io_close_response) act" where
  "io_decode_close_response C r =
     act_bind (io_decode_type_begin C) (\<lambda>_.
     act_bind (io_decode_uint64 C (Some ''time_open'')) (\<lambda>time_open.
     act_bind (io_decode_uint64 C (Some ''bytes_received'')) (\<lambda>bytes_received.
     act_bind (io_decode_uint64 C (Some ''bytes_sent'')) (\<lambda>bytes_sent.
     act_bind (io_decode_int32 C (Some ''error_code'')) (\<lambda>error_code.
     act_bind (io_decode_type_end C) (\<lambda>_.
     act_return \<lparr>cr_time_open = time_open, cr_bytes_sent = bytes_sent, cr_bytes_received = bytes_received,
       cr_error_code = error_code\<rparr>))))))"

text \<open>The macros \<open>__io_decode_content\<close> and \<open>__io_decode_null\<close>: a missing or an unexpected content is a format error.\<close>

definition decode_content ::
  "('k, 'x, 's) io_codec \<Rightarrow> ('k, 'x, mem_ptr io_content) act option \<Rightarrow> ('k, 'x, mem_ptr io_content) act" where
  "decode_content C a = act_bind (io_decode_object C (Some ''content'')) (\<lambda>(is_null, obj).
     if is_null then act_fail er_invalid_format
     else act_in obj (case a of None \<Rightarrow> act_crash | Some a \<Rightarrow> a))"

definition decode_null_content ::
  "('k, 'x, 's) io_codec \<Rightarrow> mem_ptr io_content \<Rightarrow> ('k, 'x, mem_ptr io_content) act" where
  "decode_null_content C c = act_bind (io_decode_object C (Some ''content'')) (\<lambda>(is_null, obj).
     if is_null then act_return c else act_fail er_invalid_format)"

definition act_map :: "('a \<Rightarrow> 'b) \<Rightarrow> ('k, 'x, 'a) act \<Rightarrow> ('k, 'x, 'b) act" where
  "act_map f a = act_bind a (\<lambda>v. act_return (f v))"

definition decode_data_content :: "('k, 'x, 's) io_codec \<Rightarrow> mem_ptr io_content \<Rightarrow> ('k, 'x, mem_ptr io_content) act" where
  "decode_data_content C c = decode_content C (case c of
     data_message m \<Rightarrow> Some (act_map data_message (io_decode_data_message C m))
   | content_zero \<Rightarrow> Some (act_map data_message (io_decode_data_message C (data_message_zero null_ptr))) | _ \<Rightarrow> None)"

definition io_decode_response_content ::
  "('k, 'x, 's) io_codec \<Rightarrow> string_env \<Rightarrow> u32 \<Rightarrow> mem_ptr io_content \<Rightarrow> ('k, 'x, mem_ptr io_content) act" where
  "io_decode_response_content C E t c = (
     if t = io_message_type_data then decode_data_content C c
     else if t = io_message_type_close then decode_content C (case c of
         close_response r \<Rightarrow> Some (act_map close_response (io_decode_close_response C r))
       | content_zero \<Rightarrow> Some (act_map close_response (io_decode_close_response C close_response_zero)) | _ \<Rightarrow> None)
     else if t = io_message_type_ping then decode_content C (case c of
         ping_response r \<Rightarrow> Some (act_map ping_response (io_decode_ping_response C r))
       | content_zero \<Rightarrow> Some (act_map ping_response (io_decode_ping_response C ping_response_zero)) | _ \<Rightarrow> None)
     else if t = io_message_type_poll then decode_null_content C c
     else if t = io_message_type_link then decode_content C (case c of
         link_response r \<Rightarrow> Some (act_map link_response (io_decode_link_response C E r))
       | content_zero \<Rightarrow> Some (act_map link_response (io_decode_link_response C E link_response_zero)) | _ \<Rightarrow> None)
     else if t = io_message_type_open then decode_null_content C c
     else if t = io_message_type_setopt then decode_null_content C c
     else if t = io_message_type_getopt then decode_content C (case c of
         getopt_response p \<Rightarrow> Some (act_map getopt_response (io_decode_getopt_response C p))
       | content_zero \<Rightarrow> Some (act_map getopt_response (io_decode_getopt_response C property_zero)) | _ \<Rightarrow> None)
     else act_fail er_not_supported)"

definition io_decode_request_content ::
  "('k, 'x, 's) io_codec \<Rightarrow> string_env \<Rightarrow> mem_ptr prx_property \<Rightarrow> u32 \<Rightarrow> mem_ptr io_content \<Rightarrow> ('k, 'x, mem_ptr io_content) act" where
  "io_decode_request_content C E option t c = (
     if t = io_message_type_data then decode_data_content C c
     else if t = io_message_type_close then decode_null_content C c
     else if t = io_message_type_ping then decode_content C (case c of
         ping_request a \<Rightarrow> Some (act_map ping_request (io_decode_ping_request C a))
       | content_zero \<Rightarrow> Some (act_map ping_request (io_decode_ping_request C zero_addr)) | _ \<Rightarrow> None)
     else if t = io_message_type_poll then decode_content C (case c of
         poll_message m \<Rightarrow> Some (act_map poll_message (io_decode_poll_message C m))
       | content_zero \<Rightarrow> Some (act_map poll_message (io_decode_poll_message C poll_message_zero)) | _ \<Rightarrow> None)
     else if t = io_message_type_link then decode_content C (case c of
         link_request r \<Rightarrow> Some (act_map link_request (io_decode_link_request C option r))
       | content_zero \<Rightarrow> Some (act_map link_request (io_decode_link_request C option link_request_zero)) | _ \<Rightarrow> None)
     else if t = io_message_type_open then decode_content C (case c of
         open_request r \<Rightarrow> Some (act_map open_request (io_decode_open_request C E r))
       | content_zero \<Rightarrow> Some (act_map open_request (io_decode_open_request C E (open_request_zero null_ptr))) | _ \<Rightarrow> None)
     else if t = io_message_type_setopt then decode_content C (case c of
         setopt_request p \<Rightarrow> Some (act_map setopt_request (io_decode_setopt_request C p))
       | content_zero \<Rightarrow> Some (act_map setopt_request (io_decode_setopt_request C property_zero)) | _ \<Rightarrow> None)
     else if t = io_message_type_getopt then decode_content C (case c of
         getopt_request v \<Rightarrow> Some (act_map getopt_request (io_decode_getopt_request C v))
       | content_zero \<Rightarrow> Some (act_map getopt_request (io_decode_getopt_request C 0)) | _ \<Rightarrow> None)
     else act_fail er_not_supported)"

text \<open>
  The decoder allocates from the message: \<open>user_context\<close> is the message, whose \<open>buffer\<close> field is the
  one the memory of the decoder holds while it runs.
\<close>

definition act_use_message :: "'p io_message \<Rightarrow> ('k, 'x, unit) act" where
  "act_use_message msg = (\<lambda>(ctx, st). (Ok (), ctx\<lparr>ctx_default_allocator := Some use_message\<rparr>,
     st\<lparr>cs_mem := (cs_mem st)\<lparr>mm_buffer := msg_buffer msg\<rparr>\<rparr>))"

definition io_decode_message_content ::
  "('k, 'x, 's) io_codec \<Rightarrow> string_env \<Rightarrow> mem_ptr prx_property \<Rightarrow> mem_ptr io_message \<Rightarrow> ('k, 'x, mem_ptr io_message) act" where
  "io_decode_message_content C E option msg =
     act_bind (act_use_message msg) (\<lambda>_.
     act_bind (if msg_is_response msg then io_decode_response_content C E (msg_type msg) (msg_content msg)
               else io_decode_request_content C E option (msg_type msg) (msg_content msg)) (\<lambda>content.
     act_mem (\<lambda>m. Some (msg\<lparr>msg_content := content, msg_buffer := mm_buffer m\<rparr>, m))))"

definition io_decode_message ::
  "('k, 'x, 's) io_codec \<Rightarrow> string_env \<Rightarrow> mem_ptr prx_property \<Rightarrow> mem_ptr io_message \<Rightarrow> ('k, 'x, mem_ptr io_message) act" where
  "io_decode_message C E option msg =
     act_bind (io_decode_type_begin C) (\<lambda>_.
     act_bind (io_decode_uint32 C (Some ''version'')) (\<lambda>version.
     if version AND 0xffff0000 \<noteq> MODULE_VER_NUM AND 0xffff0000 then act_fail er_invalid_format
     else
     act_bind (decode_member C (Some ''source_id'') (io_decode_ref C E) (msg_source_id msg)) (\<lambda>source_id.
     act_bind (decode_member C (Some ''proxy_id'') (io_decode_ref C E) (msg_proxy_id msg)) (\<lambda>proxy_id.
     act_bind (decode_member C (Some ''target_id'') (io_decode_ref C E) (msg_target_id msg)) (\<lambda>target_id.
     act_bind (io_decode_int32 C (Some ''error_code'')) (\<lambda>error_code.
     act_bind (io_decode_bool C (Some ''is_response'')) (\<lambda>is_response.
     act_bind (io_decode_uint32 C (Some ''type'')) (\<lambda>type.
     act_bind (io_decode_message_content C E option (msg\<lparr>msg_source_id := source_id, msg_proxy_id := proxy_id,
         msg_target_id := target_id, msg_error_code := error_code, msg_is_response := is_response,
         msg_type := type\<rparr>)) (\<lambda>msg.
     act_bind (io_decode_type_end C) (\<lambda>_.
     act_return msg))))))))))"

section \<open>The message factory\<close>

definition io_message_type_as_string :: "u32 \<Rightarrow> string" where
  "io_message_type_as_string t = (
     if t = io_message_type_ping then ''PING''
     else if t = io_message_type_link then ''LINK''
     else if t = io_message_type_setopt then ''SETOPT''
     else if t = io_message_type_getopt then ''GETOPT''
     else if t = io_message_type_open then ''OPEN''
     else if t = io_message_type_data then ''DATA''
     else if t = io_message_type_close then ''CLOSE''
     else if t = io_message_type_poll then ''POLL''
     else ''UNKNOWN'')"

text \<open>
  The two pools, and the messages that live in the items of the first one. The owner of every message of a
  factory is that factory.
\<close>

record 'p io_message_factory =
  fac_messages :: prx_buffer_pool
  fac_buffers :: prx_buffer_pool
  fac_store :: "addr \<Rightarrow> 'p io_message option"

text \<open>
  The two pools draw on separate allocators, each with the outcomes of the lock and of the zeroed allocation of
  its pool; \<open>sizeof_message\<close> is \<open>sizeof(io_message_t)\<close> and \<open>has_cb\<close> whether a callback is given. On failure
  everything made so far is freed.
\<close>

definition io_message_factory_create ::
  "bool \<Rightarrow> allocator \<times> bool \<times> prx_error \<Rightarrow> allocator \<times> bool \<times> prx_error \<Rightarrow> nat \<Rightarrow> nat \<Rightarrow> nat \<Rightarrow> nat \<Rightarrow> bool
     \<Rightarrow> prx_error \<times> 'p io_message_factory option" where
  "io_message_factory_create zalloc_ok M B sizeof_message pool_size low high has_cb = (
     if \<not> zalloc_ok then (er_out_of_memory, None)
     else
       let config = \<lparr>initial_count = pool_size, max_count = (if has_cb then pool_size else 0),
                     low_watermark = low, high_watermark = high\<rparr>
       in case prx_fixed_pool_create (fst M) (fst (snd M)) (snd (snd M)) sizeof_message (Some config) of
            (result, None) \<Rightarrow> (result, None)
          | (result, Some messages) \<Rightarrow> (
              case prx_dynamic_pool_create (fst B) (fst (snd B)) (snd (snd B)) 0 None of
                (result, None) \<Rightarrow> (result, None)
              | (result, Some buffers) \<Rightarrow>
                  (er_ok, Some \<lparr>fac_messages = messages, fac_buffers = buffers, fac_store = Map.empty\<rparr>)))"

definition io_message_factory_free :: "'p io_message_factory \<Rightarrow> prx_buffer_pool \<times> prx_buffer_pool" where
  "io_message_factory_free fac = (prx_fixed_pool_free (fac_messages fac), prx_dynamic_pool_free (fac_buffers fac))"

definition io_message_create_empty ::
  "allocator \<Rightarrow> 'p io_message_factory \<Rightarrow> prx_error \<times> addr option \<times> 'p io_message_factory" where
  "io_message_create_empty A fac = (
     case prx_buffer_alloc A fixed_pool (fac_messages fac) None of
       (None, pool) \<Rightarrow> (er_out_of_memory, None, fac\<lparr>fac_messages := pool\<rparr>)
     | (Some a, pool) \<Rightarrow>
         (er_ok, Some a, fac\<lparr>fac_messages := pool, fac_store := (fac_store fac)(a \<mapsto> message_zero)\<rparr>))"

definition io_message_create ::
  "allocator \<Rightarrow> 'p io_message_factory \<Rightarrow> u32 \<Rightarrow> io_ref option \<Rightarrow> io_ref option
     \<Rightarrow> prx_error \<times> addr option \<times> 'p io_message_factory" where
  "io_message_create A fac type source target = (
     if source = None \<or> target = None then (er_fault, None, fac)
     else case io_message_create_empty A fac of
       (result, None, fac) \<Rightarrow> (result, None, fac)
     | (result, Some a, fac) \<Rightarrow> (
         let msg = the (fac_store fac a);
             msg = msg\<lparr>msg_type := type, msg_source_id := the (io_ref_copy source (Some (msg_source_id msg))),
                       msg_target_id := the (io_ref_copy target (Some (msg_target_id msg)))\<rparr>
         in (er_ok, Some a, fac\<lparr>fac_store := (fac_store fac)(a \<mapsto> msg)\<rparr>)))"

text \<open>
  A clone is a further reference to the same message and the same buffer, so what is assigned to the clone is
  assigned to the original.
\<close>

definition io_message_clone ::
  "allocator \<Rightarrow> allocator \<Rightarrow> 'p io_message_factory \<Rightarrow> addr \<Rightarrow> prx_error \<times> addr option \<times> 'p io_message_factory" where
  "io_message_clone A B fac original = (
     case prx_buffer_alloc A fixed_pool (fac_messages fac) (Some original) of
       (None, pool) \<Rightarrow> (er_out_of_memory, None, fac\<lparr>fac_messages := pool\<rparr>)
     | (Some a, pool) \<Rightarrow> (
         let fac = fac\<lparr>fac_messages := pool\<rparr>
         in case msg_buffer (the (fac_store fac original)) of
              None \<Rightarrow> (er_ok, Some a, fac)
            | Some b \<Rightarrow> (case prx_buffer_alloc B dynamic_pool (fac_buffers fac) (Some b) of
                (r, buffers) \<Rightarrow> (
                  let fac = fac\<lparr>fac_buffers := buffers,
                                 fac_store := (fac_store fac)(a \<mapsto> (the (fac_store fac a))\<lparr>msg_buffer := r\<rparr>)\<rparr>
                  in if r = None
                     then (er_out_of_memory, None,
                           fac\<lparr>fac_messages := prx_buffer_release fixed_pool (fac_messages fac) a\<rparr>)
                     else (er_ok, Some a, fac)))))"

definition io_message_release :: "'p io_message_factory \<Rightarrow> addr option \<Rightarrow> 'p io_message_factory" where
  "io_message_release fac message = (case message of
     None \<Rightarrow> fac
   | Some a \<Rightarrow> (
       let fac = (case msg_buffer (the (fac_store fac a)) of
                    None \<Rightarrow> fac
                  | Some b \<Rightarrow> fac\<lparr>fac_buffers := prx_buffer_release dynamic_pool (fac_buffers fac) b\<rparr>)
       in fac\<lparr>fac_messages := prx_buffer_release fixed_pool (fac_messages fac) a\<rparr>))"

definition io_message_as_response :: "'p io_message \<Rightarrow> 'p io_message" where
  "io_message_as_response msg = (
     case io_ref_swap (Some (msg_source_id msg)) (Some (msg_target_id msg)) of
       (source, target) \<Rightarrow> msg\<lparr>msg_source_id := the source, msg_target_id := the target,
         msg_content := content_zero, msg_is_response := True\<rparr>)"

end
