(* ===== verification/Proto_Wire.thy ===== *)
theory Proto_Wire
  imports Prelude Io_Types Io_Ref Io_Proto Mpack_Laws
begin

text \<open>
  The wire format of the protocol as a specification: the bytes a value is encoded to in MessagePack, field
  by field, and the value a decoder that started from a zeroed structure makes of them. The encoders and
  decoders of \<open>src/io_types.c\<close>, \<open>src/io_ref.c\<close> and \<open>src/io_proto.c\<close> are shown to implement it.
\<close>

section \<open>Fields\<close>

abbreviation "w_i32 L i \<equiv> cmp_bytes L (cmp_integer (scast (i :: i32)))"
abbreviation "w_u64 L u \<equiv> cmp_bytes L (cmp_uinteger u)"
abbreviation "w_u32 L u \<equiv> cmp_bytes L (cmp_uinteger (ucast (u :: u32)))"
abbreviation "w_u16 L u \<equiv> cmp_bytes L (cmp_uinteger (ucast (u :: u16)))"
abbreviation "w_u8 L u \<equiv> cmp_bytes L (cmp_uinteger (ucast (u :: u8)))"
abbreviation "w_bool L b \<equiv> cmp_bytes L (cmp_bool b)"
abbreviation "w_bin L d \<equiv> cmp_bytes L (cmp_bin d)"
abbreviation "w_str L d \<equiv> cmp_bytes L (cmp_str d)"

text \<open>A C string in its array or behind its pointer, and the array a decoded string leaves.\<close>

definition c_chars :: "u8 list \<Rightarrow> cstr" where
  "c_chars mem = takeWhile (\<lambda>b. b \<noteq> 0) mem"

definition c_array :: "nat \<Rightarrow> cstr \<Rightarrow> u8 list" where
  "c_array n s = s @ replicate (n - length s) 0"

definition c_string_ok :: "nat \<Rightarrow> u8 list \<Rightarrow> bool" where
  "c_string_ok n mem \<longleftrightarrow> length mem = n \<and> 0 \<in> set mem"

section \<open>Addresses\<close>

definition addr_fields :: "cmp_lib \<Rightarrow> prx_socket_address \<Rightarrow> u8 list list" where
  "addr_fields L sa = w_i32 L (sa_family sa) # (
     if sa_family sa = prx_address_family_inet
     then [w_u16 L (in_port (as_inet sa)), w_bin L (take 4 (in_addr (as_inet sa)))]
     else if sa_family sa = prx_address_family_inet6
     then [w_u16 L (in_port (as_inet sa)), w_u32 L (in_flow (as_inet sa)), w_bin L (in_addr (as_inet sa)),
           w_u32 L (in_scope_id (as_inet sa))]
     else if sa_family sa = prx_address_family_proxy
     then [w_u16 L (px_port (as_proxy sa)), w_u16 L (px_flags (as_proxy sa)), w_i32 L (px_itf_index (as_proxy sa)),
           w_str L (c_chars (px_host (as_proxy sa)))]
     else if sa_family sa = prx_address_family_unix
     then [w_str L (c_chars (ux_path (as_unix sa)))]
     else [])"

text \<open>Known families, address arrays of their size and terminated strings.\<close>

definition addr_ok :: "prx_socket_address \<Rightarrow> bool" where
  "addr_ok sa \<longleftrightarrow> (
     if sa_family sa = prx_address_family_inet \<or> sa_family sa = prx_address_family_inet6
     then length (in_addr (as_inet sa)) = 16
     else if sa_family sa = prx_address_family_proxy then c_string_ok MAX_HOST_LENGTH (px_host (as_proxy sa))
     else if sa_family sa = prx_address_family_unix then c_string_ok MAX_UNIX_PATH_LENGTH (ux_path (as_unix sa))
     else sa_family sa = prx_address_family_unspec)"

text \<open>The address without what does not travel: padding, unused address bytes, what follows a terminator.\<close>

definition addr_canon :: "prx_socket_address \<Rightarrow> prx_socket_address" where
  "addr_canon sa = (
     if sa_family sa = prx_address_family_inet
     then sa_ip (inet_zero\<lparr>in_family := sa_family sa, in_port := in_port (as_inet sa),
                           in_addr := take 4 (in_addr (as_inet sa)) @ replicate 12 0\<rparr>)
     else if sa_family sa = prx_address_family_inet6
     then sa_ip ((as_inet sa)\<lparr>in_padding := 0\<rparr>)
     else if sa_family sa = prx_address_family_proxy
     then sa_proxy ((as_proxy sa)\<lparr>px_host := c_array MAX_HOST_LENGTH (c_chars (px_host (as_proxy sa)))\<rparr>)
     else if sa_family sa = prx_address_family_unix
     then sa_ux ((as_unix sa)\<lparr>ux_path := c_array MAX_UNIX_PATH_LENGTH (c_chars (ux_path (as_unix sa)))\<rparr>)
     else sa_family_only (sa_family sa))"

section \<open>Lengths\<close>

lemma c_chars_length: "0 \<in> set mem \<Longrightarrow> length (c_chars mem) < length mem"
  by (induction mem) (auto simp: c_chars_def)

lemma c_strlen_chars: "0 \<in> set mem \<Longrightarrow> c_strlen (Some mem) = Some (length (c_chars mem))"
  by (simp add: c_strlen_def c_chars_def)

lemma max_lengths [simp]:
  "MAX_HOST_LENGTH < 4294967296" "MAX_UNIX_PATH_LENGTH < 4294967296" "MAX_INTERFACE_LENGTH < 4294967296"
  by (simp_all add: MAX_HOST_LENGTH_def MAX_UNIX_PATH_LENGTH_def MAX_INTERFACE_LENGTH_def)

lemma take_c_chars [simp]: "take (length (c_chars mem)) mem = c_chars mem"
  unfolding c_chars_def by (metis takeWhile_eq_take)

lemma c_array_zero:
  "length s < n \<Longrightarrow> s @ 0 # drop (length s + 1) (replicate n 0) = c_array n s"
  by (simp add: c_array_def) (metis Suc_diff_Suc replicate_Suc)

lemma family_of_view [simp]:
  "in_family (as_inet sa) = sa_family sa"
  "px_family (as_proxy sa) = sa_family sa"
  "ux_family (as_unix sa) = sa_family sa"
  by (cases sa; simp add: as_inet_def as_proxy_def as_unix_def)+

lemma view_family_only [simp]:
  "as_inet (sa_family_only f) = inet_zero\<lparr>in_family := f\<rparr>"
  "as_proxy (sa_family_only f) = proxy_zero\<lparr>px_family := f\<rparr>"
  "as_unix (sa_family_only f) = unix_zero\<lparr>ux_family := f\<rparr>"
  by (simp_all add: as_inet_def as_proxy_def as_unix_def)

section \<open>Encoding of addresses\<close>

context sink
begin

lemma emits_c_string [emits_rules]:
  "cmp_laws L \<Longrightarrow> 0 \<in> set mem \<Longrightarrow> length mem < 2 ^ 32 \<Longrightarrow> w = w_str L (c_chars mem) \<Longrightarrow>
     emits (io_encode_string (mpack_codec L) name (Some mem)) w"
  using emits_string [OF _ c_strlen_chars, of L mem name] c_chars_length [of mem] by simp

lemma emits_address [emits_rules]:
  assumes L: "cmp_laws L" and ok: "addr_ok sa"
  shows "emits (io_encode_prx_socket_address (mpack_codec L) sa) (obj_bytes L (addr_fields L sa))"
proof -
  note defs = io_encode_prx_socket_address_def io_encode_prx_socket_address_inet_def addr_fields_def
    io_encode_prx_socket_address_proxy_def io_encode_prx_socket_address_unix_def
  note ok_defs = addr_ok_def c_string_ok_def MAX_HOST_LENGTH_def MAX_UNIX_PATH_LENGTH_def
  consider (unspec) "sa_family sa = prx_address_family_unspec" | (inet) "sa_family sa = prx_address_family_inet"
    | (inet6) "sa_family sa = prx_address_family_inet6" | (proxy) "sa_family sa = prx_address_family_proxy"
    | (ux) "sa_family sa = prx_address_family_unix"
    using ok by (auto simp: addr_ok_def split: if_splits)
  then show ?thesis
  proof cases
    case unspec
    show ?thesis
      unfolding defs using unspec
      by (simp add: emits_typeI L emits_rules)
  next
    case inet
    then show ?thesis
      unfolding defs using ok by (simp add: emits_typeI L emits_rules ok_defs)
  next
    case inet6
    then show ?thesis
      unfolding defs using ok by (simp add: emits_typeI L emits_rules ok_defs)
  next
    case proxy
    then show ?thesis
      unfolding defs using ok by (simp add: emits_typeI L emits_rules ok_defs)
  next
    case ux
    then show ?thesis
      unfolding defs using ok by (simp add: emits_typeI L emits_rules ok_defs)
  qed
qed

end

section \<open>Decoding of addresses\<close>

context in_stream
begin

lemma reads_c_array_step [reads_rules]:
  assumes "cmp_laws L" "length mem = n" "0 \<in> set mem" "n < 2 ^ 32" "mm_field M = []"
    "reads D (f (c_array n (c_chars mem))) fs M w M'"
  shows "reads D (act_bind (io_decode_string_fixed (mpack_codec L) name (replicate n 0) n) f) (w_str L (c_chars mem) # fs) M w M'"
proof -
  have "length (c_chars mem) < n"
    using assms(2,3) c_chars_length by auto
  then have "reads D (io_decode_string_fixed (mpack_codec L) name (replicate n 0) n) [w_str L (c_chars mem)] M
      (c_array n (c_chars mem)) M"
    using reads_string_fixed [OF assms(1), of "c_chars mem" n "replicate n 0" M D name] assms(4,5) c_array_zero [of "c_chars mem" n]
    by simp
  then show ?thesis
    by (rule reads_bind [where f = f]) (rule assms(6))
qed

lemma reads_address:
  assumes L: "cmp_laws L" and ok: "addr_ok sa" and M: "mm_field M = []"
  shows "reads D (io_decode_prx_socket_address (mpack_codec L) (sa_family_only f)) (addr_fields L sa) M (addr_canon sa) M"
proof -
  note defs = io_decode_prx_socket_address_inet_def io_decode_prx_socket_address_proxy_def
    io_decode_prx_socket_address_unix_def addr_canon_def inet_zero_def proxy_zero_def unix_zero_def
  have start: "reads D (act_bind (io_decode_int32 (mpack_codec L) name) g) (addr_fields L sa) M w M'"
    if "reads D (g (sa_family sa)) (tl (addr_fields L sa)) M w M'" for g name w M'
  proof -
    have "addr_fields L sa = w_i32 L (sa_family sa) # tl (addr_fields L sa)"
      by (simp add: addr_fields_def)
    then show ?thesis
      using reads_narrow_step(4) [where k = g, OF L that] by metis
  qed
  consider (unspec) "sa_family sa = prx_address_family_unspec" | (inet) "sa_family sa = prx_address_family_inet"
    | (inet6) "sa_family sa = prx_address_family_inet6" | (proxy) "sa_family sa = prx_address_family_proxy"
    | (ux) "sa_family sa = prx_address_family_unix"
    using ok by (auto simp: addr_ok_def split: if_splits)
  then show ?thesis
    unfolding io_decode_prx_socket_address_def read_type_simps act_bind_return
  proof (cases, goal_cases)
    case 1
    then show ?case
      by (intro start) (simp add: addr_fields_def addr_canon_def reads_rules)
  next
    case 2
    then show ?case
      using ok by (intro start) (simp add: addr_fields_def addr_ok_def defs L M reads_rules act_bind_assoc)
  next
    case 3
    have "as_inet sa = \<lparr>in_family = prx_address_family_inet6, in_port = in_port (as_inet sa), in_padding = in_padding (as_inet sa),
        in_flow = in_flow (as_inet sa), in_addr = in_addr (as_inet sa), in_scope_id = in_scope_id (as_inet sa)\<rparr>"
      using 3 family_of_view(1) [of sa] by simp
    with 3 show ?case
      using ok by (intro start) (simp add: addr_fields_def addr_ok_def defs L M reads_rules act_bind_assoc)
  next
    case 4
    have "px_family (as_proxy sa) = prx_address_family_proxy"
      using 4 by simp
    with 4 show ?case
      using ok by (intro start) (simp add: addr_fields_def addr_ok_def c_string_ok_def defs L M reads_rules act_bind_assoc)
  next
    case 5
    have "ux_family (as_unix sa) = prx_address_family_unix"
      using 5 by simp
    with 5 show ?case
      using ok by (intro start) (simp add: addr_fields_def addr_ok_def c_string_ok_def defs L M reads_rules act_bind_assoc)
  qed
qed

end

section \<open>References and information records\<close>

definition ref_fields :: "cmp_lib \<Rightarrow> io_ref \<Rightarrow> u8 list list" where
  "ref_fields L r = [w_bin L (ref_u8 r)]"

definition file_info_fields :: "cmp_lib \<Rightarrow> prx_file_info \<Rightarrow> u8 list list" where
  "file_info_fields L fi = [w_u64 L (fi_inode_number fi), w_u64 L (fi_device_id fi), w_i32 L (fi_type fi),
     w_u64 L (fi_total_size fi), w_u64 L (fi_last_atime fi), w_u64 L (fi_last_mtime fi)]"

definition ifaddrinfo_fields :: "cmp_lib \<Rightarrow> prx_ifaddrinfo \<Rightarrow> u8 list list" where
  "ifaddrinfo_fields L ifa = [obj_bytes L (addr_fields L (ifa_address ifa)), w_u8 L (ifa_prefix ifa), w_u8 L (ifa_flags ifa),
     w_str L (c_chars (ifa_name ifa)), w_i32 L (ifa_index ifa), obj_bytes L (addr_fields L (ifa_broadcast_addr ifa))]"

definition ifaddrinfo_ok :: "prx_ifaddrinfo \<Rightarrow> bool" where
  "ifaddrinfo_ok ifa \<longleftrightarrow> addr_ok (ifa_address ifa) \<and> addr_ok (ifa_broadcast_addr ifa) \<and>
     c_string_ok MAX_INTERFACE_LENGTH (ifa_name ifa)"

definition ifaddrinfo_canon :: "prx_ifaddrinfo \<Rightarrow> prx_ifaddrinfo" where
  "ifaddrinfo_canon ifa = \<lparr>ifa_address = addr_canon (ifa_address ifa), ifa_prefix = ifa_prefix ifa, ifa_flags = ifa_flags ifa,
     ifa_reserved = 0, ifa_name = c_array MAX_INTERFACE_LENGTH (c_chars (ifa_name ifa)), ifa_index = ifa_index ifa,
     ifa_broadcast_addr = addr_canon (ifa_broadcast_addr ifa)\<rparr>"

text \<open>A name behind a pointer: a null name travels as the empty one.\<close>

definition ptr_chars :: "u8 list option \<Rightarrow> cstr" where
  "ptr_chars p = (case p of None \<Rightarrow> [] | Some mem \<Rightarrow> c_chars mem)"

definition addrinfo_fields :: "cmp_lib \<Rightarrow> u8 list option prx_addrinfo \<Rightarrow> u8 list list" where
  "addrinfo_fields L ai = [obj_bytes L (addr_fields L (ai_address ai)), w_str L (ptr_chars (ai_name ai))]"

definition ptr_ok :: "u8 list option \<Rightarrow> bool" where
  "ptr_ok p \<longleftrightarrow> (case p of None \<Rightarrow> True | Some mem \<Rightarrow> 0 \<in> set mem \<and> length mem < 2 ^ 32)"

definition mcast_fields :: "cmp_lib \<Rightarrow> prx_multicast_option \<Rightarrow> u8 list list" where
  "mcast_fields L mo = [w_i32 L (mc_family mo), w_i32 L (mc_itf_index mo),
     w_bin L (if mc_family mo = prx_address_family_inet then take 4 (mc_addr mo) else mc_addr mo)]"

definition mcast_ok :: "prx_multicast_option \<Rightarrow> bool" where
  "mcast_ok mo \<longleftrightarrow> length (mc_addr mo) = 16 \<and>
     (mc_family mo = prx_address_family_inet \<or> mc_family mo = prx_address_family_inet6)"

definition mcast_canon :: "prx_multicast_option \<Rightarrow> prx_multicast_option" where
  "mcast_canon mo = (
     if mc_family mo = prx_address_family_inet
     then mcast_zero\<lparr>mc_family := mc_family mo, mc_itf_index := mc_itf_index mo, mc_addr := take 4 (mc_addr mo) @ replicate 12 0\<rparr>
     else mcast_zero\<lparr>mc_family := mc_family mo, mc_itf_index := mc_itf_index mo, mc_addr := mc_addr mo,
                     mc_scope_id := mc_itf_index mo\<rparr>)"

lemma ptr_chars_length: "ptr_ok p \<Longrightarrow> length (ptr_chars p) + 1 < 2 ^ 32 + 1"
  using c_chars_length by (auto simp: ptr_ok_def ptr_chars_def split: option.splits) fastforce

context sink
begin

lemma emits_ref [emits_rules]:
  "cmp_laws L \<Longrightarrow> emits (io_encode_ref (mpack_codec L) E r) (obj_bytes L (ref_fields L r))"
  unfolding io_encode_ref_def ref_fields_def
  by (simp add: io_codec_ctx_get_codec_id_def emits_typeI emits_rules)

lemma emits_file_info [emits_rules]:
  "cmp_laws L \<Longrightarrow> emits (io_encode_prx_file_info (mpack_codec L) fi) (obj_bytes L (file_info_fields L fi))"
  unfolding io_encode_prx_file_info_def file_info_fields_def by (simp add: emits_typeI emits_rules)

lemma emits_ifaddrinfo [emits_rules]:
  "cmp_laws L \<Longrightarrow> ifaddrinfo_ok ifa \<Longrightarrow>
     emits (io_encode_prx_ifaddrinfo (mpack_codec L) ifa) (obj_bytes L (ifaddrinfo_fields L ifa))"
  unfolding io_encode_prx_ifaddrinfo_def ifaddrinfo_fields_def ifaddrinfo_ok_def c_string_ok_def MAX_INTERFACE_LENGTH_def
  by (simp add: emits_typeI emits_rules)

lemma emits_ptr [emits_rules]:
  "cmp_laws L \<Longrightarrow> ptr_ok p \<Longrightarrow> w = w_str L (ptr_chars p) \<Longrightarrow>
     emits (io_encode_string (mpack_codec L) name (if p \<noteq> None then p else Some [0])) w"
  by (cases p) (simp_all add: ptr_ok_def ptr_chars_def emits_rules c_chars_def)

lemma emits_addrinfo [emits_rules]:
  "cmp_laws L \<Longrightarrow> addr_ok (ai_address ai) \<Longrightarrow> ptr_ok (ai_name ai) \<Longrightarrow>
     emits (io_encode_prx_addrinfo (mpack_codec L) ai) (obj_bytes L (addrinfo_fields L ai))"
  unfolding io_encode_prx_addrinfo_def addrinfo_fields_def
  by (rule emits_typeI) (simp_all add: emits_address emits_member emits_ptr del: not_None_eq)

lemma emits_mcast [emits_rules]:
  "cmp_laws L \<Longrightarrow> mcast_ok mo \<Longrightarrow>
     emits (io_encode_prx_multicast_option (mpack_codec L) mo) (obj_bytes L (mcast_fields L mo))"
  unfolding io_encode_prx_multicast_option_def mcast_fields_def mcast_ok_def
  by (cases "mc_family mo = prx_address_family_inet") (auto simp: emits_typeI emits_rules)

end

lemma fields_length [simp]:
  "length (ref_fields L r) = 1"
  "length (file_info_fields L fi) = 6"
  "length (ifaddrinfo_fields L ifa) = 6"
  "length (addrinfo_fields L ai) = 2"
  "length (mcast_fields L mo) = 3"
  "length (addr_fields L sa) < 2 ^ 32 - 1"
  by (simp_all add: ref_fields_def file_info_fields_def ifaddrinfo_fields_def addrinfo_fields_def mcast_fields_def
      addr_fields_def)

lemma ref_length: "length (ref_fields L r) < 2 ^ 32 - 1"
  by (simp add: ref_fields_def)

context in_stream
begin

lemma reads_member_step:
  assumes "cmp_laws L" "length gs < 2 ^ 32 - 1" "reads D (a old) gs M v M1" "reads D (f v) fs M1 w M'"
  shows "reads D (act_bind (decode_member (mpack_codec L) name a old) f) (obj_bytes L gs # fs) M w M'"
  by (rule reads_bind [where f = f and v = v, OF reads_object [where a = a, OF assms(1-3)]]) (rule assms(4))

lemma reads_address_step [reads_rules]:
  assumes "cmp_laws L" "addr_ok sa" "mm_field M = []" "reads D (f (addr_canon sa)) fs M w M'"
  shows "reads D (act_bind (decode_member (mpack_codec L) name (io_decode_prx_socket_address (mpack_codec L)) (sa_family_only g)) f)
    (obj_bytes L (addr_fields L sa) # fs) M w M'"
  by (rule reads_member_step [where a = "io_decode_prx_socket_address (mpack_codec L)"])
    (rule assms fields_length reads_address)+

lemma reads_ref:
  "cmp_laws L \<Longrightarrow> mm_field M = [] \<Longrightarrow> reads D (io_decode_ref (mpack_codec L) E old) (ref_fields L r) M r M"
  unfolding io_decode_ref_def ref_fields_def
  by (simp add: io_codec_ctx_get_codec_id_def act_bind_assoc reads_rules)

lemma reads_ref_step [reads_rules]:
  assumes "cmp_laws L" "mm_field M = []" "reads D (f r) fs M w M'"
  shows "reads D (act_bind (decode_member (mpack_codec L) name (io_decode_ref (mpack_codec L) E) old) f)
    (obj_bytes L (ref_fields L r) # fs) M w M'"
  by (rule reads_member_step [where a = "io_decode_ref (mpack_codec L) E"]) (rule assms ref_length reads_ref)+

lemma reads_file_info:
  "cmp_laws L \<Longrightarrow> reads D (io_decode_prx_file_info (mpack_codec L) file_info_zero) (file_info_fields L fi) M fi M"
  unfolding io_decode_prx_file_info_def file_info_fields_def file_info_zero_def by (simp add: reads_rules)

lemma reads_ifaddrinfo:
  "cmp_laws L \<Longrightarrow> ifaddrinfo_ok ifa \<Longrightarrow> mm_field M = [] \<Longrightarrow>
     reads D (io_decode_prx_ifaddrinfo (mpack_codec L) ifaddrinfo_zero) (ifaddrinfo_fields L ifa) M (ifaddrinfo_canon ifa) M"
  unfolding io_decode_prx_ifaddrinfo_def ifaddrinfo_fields_def ifaddrinfo_zero_def ifaddrinfo_canon_def
    ifaddrinfo_ok_def c_string_ok_def
  by (simp add: reads_rules)

lemma reads_mcast:
  "cmp_laws L \<Longrightarrow> mcast_ok mo \<Longrightarrow> mm_field M = [] \<Longrightarrow>
     reads D (io_decode_prx_multicast_option (mpack_codec L) mcast_zero) (mcast_fields L mo) M (mcast_canon mo) M"
  unfolding io_decode_prx_multicast_option_def mcast_fields_def read_type_simps act_bind_return
  by (rule reads_narrow_step(4), assumption)
    (auto simp: reads_rules io_encode_type_end_def mpack_write_type_end_def mcast_canon_def mcast_ok_def mcast_zero_def)

lemma reads_ptr_step [reads_rules]:
  assumes "cmp_laws L" "length d + 1 < 2 ^ 32" "message_stored M (d @ [0]) = Some (p, M1)"
    "reads (Some use_message) (f p) fs M1 w M'"
  shows "reads (Some use_message) (act_bind (io_decode_string_default (mpack_codec L) name) f) (w_str L d # fs) M w M'"
  by (rule reads_bind [where f = f, OF reads_string_default [OF assms(1-3)]]) (rule assms(4))

lemma reads_bin_ptr_step [reads_rules]:
  assumes "cmp_laws L" "length d < 2 ^ 32" "message_stored M d = Some (p, M1)"
    "reads (Some use_message) (f (p, length d)) fs M1 w M'"
  shows "reads (Some use_message) (act_bind (io_decode_bin_default (mpack_codec L) name sz) f) (w_bin L d # fs) M w M'"
  by (rule reads_bind [where f = f, OF reads_bin_default [OF assms(1-3)]]) (rule assms(4))

end

section \<open>Properties\<close>

definition bin_bytes :: "u8 list option \<Rightarrow> u8 list" where
  "bin_bytes v = (case v of None \<Rightarrow> [] | Some d \<Rightarrow> d)"

definition prop_value_bytes :: "cmp_lib \<Rightarrow> u8 list option prx_property_value \<Rightarrow> u8 list" where
  "prop_value_bytes L v = (case v of
     prop_value u \<Rightarrow> w_u64 L u
   | prop_mcast m \<Rightarrow> obj_bytes L (mcast_fields L m)
   | prop_bin n d \<Rightarrow> w_bin L (bin_bytes d)
   | prop_file_info f \<Rightarrow> obj_bytes L (file_info_fields L f)
   | prop_addr_info a \<Rightarrow> obj_bytes L (addrinfo_fields L a)
   | prop_itf_info i \<Rightarrow> obj_bytes L (ifaddrinfo_fields L i))"

definition prop_fields :: "cmp_lib \<Rightarrow> u8 list option prx_property \<Rightarrow> u8 list list" where
  "prop_fields L p = [w_i32 L (prop_type p), prop_value_bytes L (prop_property p)]"

text \<open>The type of a property is one that selects the member it holds, and the member is well-formed.\<close>

definition prop_ok :: "u8 list option prx_property \<Rightarrow> bool" where
  "prop_ok p \<longleftrightarrow> (case prop_property p of
     prop_value u \<Rightarrow> is_socket_option (prop_type p) \<and> \<not> is_mcast_type (prop_type p)
   | prop_mcast m \<Rightarrow> is_mcast_type (prop_type p) \<and> mcast_ok m
   | prop_bin n d \<Rightarrow> is_record_type (prop_type p) \<and> n = length (bin_bytes d) \<and> n < 2 ^ 32
   | prop_file_info f \<Rightarrow> prop_type p = prx_property_type_file_info
   | prop_addr_info a \<Rightarrow> prop_type p = prx_property_type_addrinfo \<and> addr_ok (ai_address a) \<and> ptr_ok (ai_name a) \<and>
       length (ptr_chars (ai_name a)) + 1 < 2 ^ 32
   | prop_itf_info i \<Rightarrow> prop_type p = prx_property_type_ifaddrinfo \<and> ifaddrinfo_ok i)"

text \<open>The bytes the decoder allocates for a property, and the property it makes with their address \<open>q\<close>.\<close>

definition prop_payload :: "u8 list option prx_property \<Rightarrow> u8 list" where
  "prop_payload p = (case prop_property p of
     prop_bin n d \<Rightarrow> bin_bytes d
   | prop_addr_info a \<Rightarrow> ptr_chars (ai_name a) @ [0]
   | _ \<Rightarrow> [])"

definition prop_at :: "'p \<Rightarrow> u8 list option prx_property \<Rightarrow> 'p prx_property" where
  "prop_at q p = \<lparr>prop_type = prop_type p, prop_property = (case prop_property p of
     prop_value u \<Rightarrow> prop_value u
   | prop_mcast m \<Rightarrow> prop_mcast (mcast_canon m)
   | prop_bin n d \<Rightarrow> prop_bin n q
   | prop_file_info f \<Rightarrow> prop_file_info f
   | prop_addr_info a \<Rightarrow> prop_addr_info \<lparr>ai_address = addr_canon (ai_address a), ai_reserved = 0, ai_name = q\<rparr>
   | prop_itf_info i \<Rightarrow> prop_itf_info (ifaddrinfo_canon i))\<rparr>"

lemma sint_small [simp]:
  "sint (31 :: i32) = 31" "sint (32 :: i32) = 32" "sint (34 :: i32) = 34" "sint (100 :: i32) = 100"
  "sint (103 :: i32) = 103" "sint (200 :: i32) = 200" "sint (201 :: i32) = 201" "sint (202 :: i32) = 202"
  by (code_simp)+

lemma prop_type_cases:
  "is_mcast_type t \<Longrightarrow> \<not> is_record_type t"
  "is_record_type t \<Longrightarrow> lt_i32 t prx_property_type_file_info \<and> \<not> is_mcast_type t"
  "is_socket_option t \<Longrightarrow> lt_i32 t prx_property_type_file_info \<and> \<not> is_record_type t"
  "\<not> is_mcast_type prx_property_type_file_info" "\<not> is_mcast_type prx_property_type_addrinfo"
  "\<not> is_mcast_type prx_property_type_ifaddrinfo"
  by (auto simp: is_mcast_type_def is_record_type_def is_socket_option_def lt_i32_def)

context sink
begin

lemma emits_property_value:
  assumes L: "cmp_laws L" and ok: "prop_ok p"
  shows "emits (io_encode_property_value (mpack_codec L) p) (prop_value_bytes L (prop_property p))"
proof (cases "prop_property p")
  case (prop_bin n d)
  then show ?thesis
    using ok L prop_type_cases(2) [of "prop_type p"]
    by (cases d) (simp_all add: prop_ok_def io_encode_property_value_def prop_value_bytes_def bin_bytes_def emits_rules)
qed (use ok L prop_type_cases(3) [of "prop_type p"] in
    \<open>auto simp: prop_ok_def io_encode_property_value_def prop_value_bytes_def prop_type_cases lt_i32_def
       intro!: emits_rules\<close>)

lemma emits_property [emits_rules]:
  "cmp_laws L \<Longrightarrow> prop_ok p \<Longrightarrow> emits (io_encode_prx_property (mpack_codec L) p) (obj_bytes L (prop_fields L p))"
  unfolding io_encode_prx_property_def prop_fields_def by (simp add: emits_typeI emits_rules emits_property_value)

end

lemma view_prop_value [simp]:
  "as_mcast (prop_value u) = mcast_zero"
  "as_addr_info (prop_value u) = addrinfo_zero null_ptr"
  "as_itf_info (prop_value u) = ifaddrinfo_zero"
  "as_file_info (prop_value u) = file_info_zero"
  "as_bin_size (prop_value u) = 0"
  by (simp_all add: as_mcast_def as_addr_info_def as_itf_info_def as_file_info_def as_bin_size_def)

context in_stream
begin

lemma reads_addrinfo:
  assumes L: "cmp_laws L" and ok: "addr_ok (ai_address ai)" "length (ptr_chars (ai_name ai)) + 1 < 2 ^ 32"
    and M: "mm_field M = []" "message_stored M (ptr_chars (ai_name ai) @ [0]) = Some (q, M')"
  shows "reads (Some use_message) (io_decode_prx_addrinfo (mpack_codec L) (addrinfo_zero null_ptr)) (addrinfo_fields L ai) M
    \<lparr>ai_address = addr_canon (ai_address ai), ai_reserved = 0, ai_name = q\<rparr> M'"
  unfolding io_decode_prx_addrinfo_def addrinfo_fields_def addrinfo_zero_def
  using ok L M(1) by (simp add: reads_rules reads_ptr_step [OF L ok(2) M(2)])

text \<open>The object of a structured property.\<close>

lemma reads_prop_object:
  assumes "cmp_laws L" "length gs < 2 ^ 32 - 1" "reads D a gs M x M'"
  shows "reads D (act_bind (io_decode_object (mpack_codec L) name) (\<lambda>(is_null, obj).
       if is_null then act_fail er_invalid_format else act_in obj (act_bind a (\<lambda>x. act_return (g x)))))
     [obj_bytes L gs] M (g x) M'"
  by (rule reads_in_object [OF assms(1,2) reads_then [where f = "\<lambda>x. act_return (g x)", OF assms(3) reads_return]]) simp

lemma reads_property_value:
  assumes L: "cmp_laws L" and ok: "prop_ok p" and M: "mm_field M = []" "message_stored M (prop_payload p) = Some (q, M')"
  shows "reads (Some use_message) (io_decode_property_value (mpack_codec L) (prop_type p) (prop_value u))
    [prop_value_bytes L (prop_property p)] M (prop_property (prop_at q p)) M'"
proof (cases "prop_property p")
  case (prop_value v)
  then show ?thesis
    using ok L M(2) prop_type_cases(3) [of "prop_type p"]
    by (simp add: prop_ok_def io_decode_property_value_def prop_value_bytes_def prop_at_def prop_payload_def reads_rules)
next
  case (prop_mcast m)
  then show ?thesis
    using ok M(2) reads_prop_object [where g = prop_mcast and name = "Some ''property''", OF L _ reads_mcast [OF L _ M(1)], of m "Some use_message"]
    by (simp add: prop_ok_def io_decode_property_value_def prop_value_bytes_def prop_at_def prop_payload_def cong: if_cong)
next
  case (prop_bin n d)
  then have d: "length (bin_bytes d) < 2 ^ 32" "message_stored M (bin_bytes d) = Some (q, M')"
    using ok M(2) by (simp_all add: prop_ok_def prop_payload_def)
  show ?thesis
    using prop_bin ok L prop_type_cases(2) [of "prop_type p"]
    by (simp add: prop_ok_def io_decode_property_value_def prop_value_bytes_def prop_at_def
        reads_bin_ptr_step [OF L d] reads_rules)
next
  case (prop_file_info f)
  then show ?thesis
    using ok M(2) reads_prop_object [where M = M and g = prop_file_info and name = "Some ''property''" and D = "Some use_message", OF L _ reads_file_info [OF L], of f]
    by (simp add: prop_ok_def io_decode_property_value_def prop_value_bytes_def prop_at_def prop_payload_def prop_type_cases lt_i32_def cong: if_cong)
next
  case (prop_addr_info a)
  then have "reads (Some use_message) (io_decode_prx_addrinfo (mpack_codec L) (addrinfo_zero null_ptr)) (addrinfo_fields L a) M
    \<lparr>ai_address = addr_canon (ai_address a), ai_reserved = 0, ai_name = q\<rparr> M'"
    using ok M by (intro reads_addrinfo [OF L]) (simp_all add: prop_ok_def prop_payload_def)
  then show ?thesis
    using prop_addr_info ok reads_prop_object [where g = prop_addr_info and name = "Some ''property''", OF L, of "addrinfo_fields L a" "Some use_message" _ M _ M']
    by (simp add: prop_ok_def io_decode_property_value_def prop_value_bytes_def prop_at_def prop_type_cases lt_i32_def cong: if_cong)
next
  case (prop_itf_info i)
  then show ?thesis
    using ok M(2) reads_prop_object [where g = prop_itf_info and name = "Some ''property''", OF L _ reads_ifaddrinfo [OF L _ M(1)], of i "Some use_message"]
    by (simp add: prop_ok_def io_decode_property_value_def prop_value_bytes_def prop_at_def prop_payload_def prop_type_cases lt_i32_def cong: if_cong)
qed

lemma reads_property:
  assumes L: "cmp_laws L" and ok: "prop_ok p" and M: "mm_field M = []" "message_stored M (prop_payload p) = Some (q, M')"
    and old: "prop_property old = prop_value u"
  shows "reads (Some use_message) (io_decode_prx_property (mpack_codec L) old) (prop_fields L p) M (prop_at q p) M'"
proof -
  have "prop_at q p = \<lparr>prop_type = prop_type p, prop_property = prop_property (prop_at q p)\<rparr>"
    by (simp add: prop_at_def)
  then show ?thesis
    unfolding io_decode_prx_property_def prop_fields_def read_type_simps act_bind_return old
    by (intro reads_narrow_step(4) [OF L] reads_bind [OF reads_property_value [OF L ok M]] reads_returnI) simp_all
qed

end

end
