(* ===== verification/Proto_Message.thy ===== *)
theory Proto_Message
  imports Proto_Wire
begin

text \<open>
  The wire format of the socket properties, of the contents of messages and of whole messages, with the
  correctness of their encoders and decoders: what \<open>io_encode_message\<close> writes, \<open>io_decode_message\<close> reads
  back, allocating from the message what is variable in size.
\<close>

section \<open>Socket properties\<close>

abbreviation sp_set_options :: "'p prx_socket_properties \<Rightarrow> 'p prx_property list" where
  "sp_set_options sp \<equiv> filter (\<lambda>p. is_socket_option (prop_type p)) (sp_options sp)"

definition sp_fields :: "cmp_lib \<Rightarrow> u8 list option prx_socket_properties \<Rightarrow> u8 list list" where
  "sp_fields L sp = [w_i32 L (sp_family sp), w_i32 L (sp_sock_type sp), w_i32 L (sp_proto_type sp), w_u32 L (sp_flags sp),
     w_u64 L (sp_timeout sp), obj_bytes L (addr_fields L (sp_address sp)),
     cmp_bytes L (cmp_array (of_nat (length (sp_set_options sp)))) @
       concat (map (\<lambda>p. obj_bytes L (prop_fields L p)) (sp_set_options sp))]"

text \<open>The options are a table indexed by their type, and hold values, not multicast memberships.\<close>

definition sp_ok :: "u8 list option prx_socket_properties \<Rightarrow> bool" where
  "sp_ok sp \<longleftrightarrow> addr_ok (sp_address sp) \<and> length (sp_options sp) = 34 \<and>
     (\<forall>i < 34. is_socket_option (prop_type (sp_options sp ! i)) \<longrightarrow>
        prop_type (sp_options sp ! i) = of_nat i \<and> \<not> is_mcast_type (of_nat i) \<and>
        (\<exists>u. prop_property (sp_options sp ! i) = prop_value u))"

definition option_canon :: "u8 list option prx_property \<Rightarrow> 'p prx_property" where
  "option_canon p = (
     if is_socket_option (prop_type p)
     then \<lparr>prop_type = prop_type p, prop_property = (case prop_property p of prop_value u \<Rightarrow> prop_value u | _ \<Rightarrow> prop_value 0)\<rparr>
     else property_zero)"

definition sp_canon :: "u8 list option prx_socket_properties \<Rightarrow> 'p prx_socket_properties" where
  "sp_canon sp = \<lparr>sp_family = sp_family sp, sp_sock_type = sp_sock_type sp, sp_proto_type = sp_proto_type sp,
     sp_flags = sp_flags sp, sp_timeout = sp_timeout sp, sp_address = addr_canon (sp_address sp),
     sp_options = map option_canon (sp_options sp)\<rparr>"

lemma prop_fields_length [simp]: "length (prop_fields L p) = 2"
  by (simp add: prop_fields_def)

lemma sp_option_ok:
  "sp_ok sp \<Longrightarrow> p \<in> set (sp_set_options sp) \<Longrightarrow> prop_ok p \<and> (\<exists>u. prop_property p = prop_value u)"
  by (auto simp: sp_ok_def in_set_conv_nth prop_ok_def)

context sink
begin

lemma emits_socket_properties [emits_rules]:
  assumes L: "cmp_laws L" and ok: "sp_ok sp"
  shows "emits (io_encode_prx_socket_properties (mpack_codec L) sp) (obj_bytes L (sp_fields L sp))"
proof -
  let ?opts = "sp_set_options sp"
  have "list_all2 emits (map (\<lambda>p. encode_member (mpack_codec L) None (io_encode_prx_property (mpack_codec L) p)) ?opts)
      (map (\<lambda>p. obj_bytes L (prop_fields L p)) ?opts)"
    unfolding list_all2_map1 list_all2_map2
    using sp_option_ok [OF ok] by (intro list.rel_refl_strong) (auto intro!: emits_rules L)
  then have "emits (act_bind (io_encode_array (mpack_codec L) (Some ''options'') (length ?opts)) (\<lambda>arr.
       act_in arr (act_seq (map (\<lambda>p. encode_member (mpack_codec L) None (io_encode_prx_property (mpack_codec L) p)) ?opts))))
     (cmp_bytes L (cmp_array (of_nat (length ?opts))) @ concat (map (\<lambda>p. obj_bytes L (prop_fields L p)) ?opts))"
    using emits_write_array [OF L] by (intro emits_bind emits_in emits_seq) (simp_all add: codec_unfold)
  then show ?thesis
    unfolding io_encode_prx_socket_properties_def sp_fields_def Let_def
    using ok L by (simp add: emits_typeI emits_rules sp_ok_def)
qed

end

text \<open>Storing the options that are set at the index of their type restores the table.\<close>

lemma unat_option [simp]: "k < 34 \<Longrightarrow> unat (of_nat k :: i32) = k"
  by (simp add: unat_of_nat)

lemma options_restored:
  assumes ok: "sp_ok sp" and k: "k \<le> 34"
  shows "foldl (\<lambda>acc p. acc[unat (prop_type p) := prop_at q p]) (replicate 34 property_zero)
      (filter (\<lambda>p. is_socket_option (prop_type p)) (take k (sp_options sp))) =
    map option_canon (take k (sp_options sp)) @ replicate (34 - k) property_zero"
  using k
proof (induction k)
  case (Suc k)
  let ?p = "sp_options sp ! k"
  have len: "length (sp_options sp) = 34" using ok by (simp add: sp_ok_def)
  then have t: "take (Suc k) (sp_options sp) = take k (sp_options sp) @ [?p]"
    using Suc.prems by (simp add: take_Suc_conv_app_nth)
  have r: "replicate (34 - k) property_zero = property_zero # replicate (33 - k) (property_zero :: 'a prx_property)"
  proof -
    have "34 - k = Suc (33 - k)" using Suc.prems by linarith
    then show ?thesis by simp
  qed
  show ?case
  proof (cases "is_socket_option (prop_type ?p)")
    case True
    then obtain u where u: "prop_type ?p = of_nat k" "prop_property ?p = prop_value u"
      using ok Suc.prems unfolding sp_ok_def by (metis Suc_le_lessD)
    then show ?thesis
      using Suc True len by (simp add: t r list_update_append option_canon_def prop_at_def)
  next
    case False
    then show ?thesis
      using Suc by (simp add: t r option_canon_def)
  qed
qed simp

context in_stream
begin

lemma reads_value_property:
  assumes L: "cmp_laws L" and ok: "prop_ok p" "prop_property p = prop_value u"
  shows "reads D (io_decode_prx_property (mpack_codec L) old) (prop_fields L p) M (prop_at q p) M"
proof -
  have "reads D (io_decode_property_value (mpack_codec L) (prop_type p) (prop_property old)) [w_u64 L u] M (prop_value u) M"
    using ok L prop_type_cases(3) [of "prop_type p"]
    by (simp add: prop_ok_def io_decode_property_value_def reads_rules)
  then show ?thesis
    unfolding io_decode_prx_property_def prop_fields_def read_type_simps act_bind_return
    using ok(2) by (intro reads_narrow_step(4) [OF L]) (auto simp: prop_value_bytes_def prop_at_def reads_rules intro: reads_bind)
qed

lemma reads_options:
  assumes L: "cmp_laws L"
    and ok: "\<And>p. p \<in> set ps \<Longrightarrow> is_socket_option (prop_type p) \<and> prop_ok p \<and> (\<exists>u. prop_property p = prop_value u)"
  shows "reads D (decode_options (mpack_codec L) (length ps) option acc) (map (\<lambda>p. obj_bytes L (prop_fields L p)) ps) M
    (foldl (\<lambda>acc p. acc[unat (prop_type p) := prop_at null_ptr p]) acc ps) M"
  using ok
proof (induction ps arbitrary: option acc)
  case (Cons p ps)
  let ?o = "prop_at null_ptr p"
  obtain u where p: "is_socket_option (prop_type p)" "prop_ok p" "prop_property p = prop_value u"
    using Cons.prems [of p] by auto
  have "reads D (act_bind (io_decode_object (mpack_codec L) None) (\<lambda>(is_null, obj).
      act_in obj (io_decode_prx_property (mpack_codec L) (option\<lparr>prop_type := 0\<rparr>)))) [obj_bytes L (prop_fields L p)] M ?o M"
    by (rule reads_in_object [OF L _ reads_value_property [OF L p(2,3)]]) simp_all
  moreover have "reads D (decode_options (mpack_codec L) (length ps) ?o (acc[unat (prop_type p) := ?o]))
      (map (\<lambda>p. obj_bytes L (prop_fields L p)) ps) M
      (foldl (\<lambda>acc p. acc[unat (prop_type p) := prop_at null_ptr p]) (acc[unat (prop_type p) := ?o]) ps) M"
    using Cons.prems by (intro Cons.IH) auto
  ultimately have "reads D (act_bind (act_bind (io_decode_object (mpack_codec L) None) (\<lambda>(is_null, obj).
      act_in obj (io_decode_prx_property (mpack_codec L) (option\<lparr>prop_type := 0\<rparr>)))) (\<lambda>option.
     decode_options (mpack_codec L) (length ps) option (
       if is_socket_option (prop_type option) then acc[unat (prop_type option) := option] else acc)))
      (obj_bytes L (prop_fields L p) # map (\<lambda>p. obj_bytes L (prop_fields L p)) ps) M
      (foldl (\<lambda>acc p. acc[unat (prop_type p) := prop_at null_ptr p]) (acc[unat (prop_type p) := ?o]) ps) M"
    using p(1) by (intro reads_bind [where v = ?o]) (simp_all add: prop_at_def)
  then show ?case
    by (simp add: act_bind_assoc case_prod_beta' )
qed (simp add: reads_return)

lemma reads_socket_properties:
  assumes L: "cmp_laws L" and ok: "sp_ok sp" and M: "mm_field M = []"
  shows "reads D (io_decode_prx_socket_properties (mpack_codec L) option socket_properties_zero) (sp_fields L sp) M (sp_canon sp) M"
proof -
  let ?opts = "sp_set_options sp"
  have len: "length (sp_options sp) = 34" "length ?opts < 2 ^ 32"
    using ok length_filter_le [of "\<lambda>p. is_socket_option (prop_type p)" "sp_options sp"] by (auto simp: sp_ok_def)
  have "reads D (decode_options (mpack_codec L) (length ?opts) option (replicate 34 property_zero))
      (map (\<lambda>p. obj_bytes L (prop_fields L p)) ?opts) M (map option_canon (sp_options sp)) M"
    using reads_options [OF L, of ?opts D option "replicate 34 property_zero" M] sp_option_ok [OF ok]
      options_restored [OF ok, of 34 null_ptr] len by simp
  then have "reads D (act_bind (io_decode_array (mpack_codec L) (Some ''options'')) (\<lambda>(sz, arr).
       act_in arr (decode_options (mpack_codec L) sz option (replicate 34 property_zero))))
     [cmp_bytes L (cmp_array (of_nat (length ?opts))) @ concat (map (\<lambda>p. obj_bytes L (prop_fields L p)) ?opts)] M
     (map option_canon (sp_options sp)) M"
    using reads_array [where a = "\<lambda>sz. decode_options (mpack_codec L) sz option (replicate 34 property_zero)", OF L,
        of "map (\<lambda>p. obj_bytes L (prop_fields L p)) ?opts"] len(2) by simp
  then show ?thesis
    unfolding io_decode_prx_socket_properties_def sp_fields_def sp_canon_def socket_properties_zero_def
    using ok L M
    by (simp add: reads_rules sp_ok_def reads_bind [where a = "act_bind (io_decode_array (mpack_codec L) (Some ''options'')) h" for h])
qed

end

section \<open>Contents\<close>

definition content_fields :: "cmp_lib \<Rightarrow> u8 list option io_content \<Rightarrow> u8 list list" where
  "content_fields L c = (case c of
     content_zero \<Rightarrow> []
   | ping_request a \<Rightarrow> [obj_bytes L (addr_fields L a)]
   | ping_response r \<Rightarrow> [obj_bytes L (addr_fields L (pr_address r)), w_bin L (pr_physical_address r), w_u32 L (pr_time_ms r)]
   | link_request r \<Rightarrow> [w_u8 L (lr_version r), obj_bytes L (sp_fields L (lr_props r))]
   | link_response r \<Rightarrow> [obj_bytes L (ref_fields L (lp_link_id r)), obj_bytes L (addr_fields L (lp_local_address r)),
       obj_bytes L (addr_fields L (lp_peer_address r))]
   | setopt_request p \<Rightarrow> [obj_bytes L (prop_fields L p)]
   | getopt_request t \<Rightarrow> [w_i32 L t]
   | getopt_response p \<Rightarrow> [obj_bytes L (prop_fields L p)]
   | open_request r \<Rightarrow> [obj_bytes L (ref_fields L (or_stream_id r)), w_i32 L (or_type r),
       w_str L (ptr_chars (or_connection_string r)), w_bool L (or_polled r), w_u32 L (or_max_recv r)]
   | poll_message m \<Rightarrow> [w_u64 L (pm_sequence_number m), w_u64 L (pm_timeout m)]
   | data_message m \<Rightarrow> [w_u64 L (dm_sequence_number m), obj_bytes L (addr_fields L (dm_source_address m)),
       w_bin L (bin_bytes (dm_buffer m)), w_bin L (bin_bytes (dm_control_buffer m))]
   | close_response r \<Rightarrow> [w_u64 L (cr_time_open r), w_u64 L (cr_bytes_received r), w_u64 L (cr_bytes_sent r),
       w_i32 L (cr_error_code r)])"

definition content_wire :: "cmp_lib \<Rightarrow> u8 list option io_content \<Rightarrow> u8 list" where
  "content_wire L c = (if c = content_zero then cmp_bytes L cmp_nil else obj_bytes L (content_fields L c))"

text \<open>
  Well-formed contents. Of the two buffers of a data message one is empty: the decoder takes both from one
  growing allocation.
\<close>

definition bin_ok :: "nat \<Rightarrow> u8 list option \<Rightarrow> bool" where
  "bin_ok n d \<longleftrightarrow> n = length (bin_bytes d) \<and> n < 2 ^ 32"

definition content_ok :: "u8 list option io_content \<Rightarrow> bool" where
  "content_ok c \<longleftrightarrow> (case c of
     content_zero \<Rightarrow> True
   | ping_request a \<Rightarrow> addr_ok a
   | ping_response r \<Rightarrow> addr_ok (pr_address r) \<and> length (pr_physical_address r) = 8
   | link_request r \<Rightarrow> sp_ok (lr_props r)
   | link_response r \<Rightarrow> addr_ok (lp_local_address r) \<and> addr_ok (lp_peer_address r)
   | setopt_request p \<Rightarrow> prop_ok p
   | getopt_request t \<Rightarrow> True
   | getopt_response p \<Rightarrow> prop_ok p
   | open_request r \<Rightarrow> or_connection_string r \<noteq> None \<and> ptr_ok (or_connection_string r) \<and>
       length (ptr_chars (or_connection_string r)) + 1 < 2 ^ 32
   | poll_message m \<Rightarrow> True
   | data_message m \<Rightarrow> addr_ok (dm_source_address m) \<and> bin_ok (dm_buffer_length m) (dm_buffer m) \<and>
       bin_ok (dm_control_buffer_length m) (dm_control_buffer m) \<and>
       (bin_bytes (dm_buffer m) = [] \<or> bin_bytes (dm_control_buffer m) = [])
   | close_response r \<Rightarrow> True)"

text \<open>The bytes of variable size, and the decoded content, where \<open>q\<close> is the address of those bytes.\<close>

definition content_payload :: "u8 list option io_content \<Rightarrow> u8 list" where
  "content_payload c = (case c of
     setopt_request p \<Rightarrow> prop_payload p
   | getopt_response p \<Rightarrow> prop_payload p
   | open_request r \<Rightarrow> ptr_chars (or_connection_string r) @ [0]
   | data_message m \<Rightarrow> bin_bytes (dm_buffer m) @ bin_bytes (dm_control_buffer m)
   | _ \<Rightarrow> [])"

definition content_at :: "mem_ptr \<Rightarrow> u8 list option io_content \<Rightarrow> mem_ptr io_content" where
  "content_at q c = (case c of
     content_zero \<Rightarrow> content_zero
   | ping_request a \<Rightarrow> ping_request (addr_canon a)
   | ping_response r \<Rightarrow> ping_response (r\<lparr>pr_address := addr_canon (pr_address r)\<rparr>)
   | link_request r \<Rightarrow> link_request \<lparr>lr_version = lr_version r, lr_props = sp_canon (lr_props r)\<rparr>
   | link_response r \<Rightarrow> link_response \<lparr>lp_link_id = lp_link_id r, lp_local_address = addr_canon (lp_local_address r),
       lp_peer_address = addr_canon (lp_peer_address r)\<rparr>
   | setopt_request p \<Rightarrow> setopt_request (prop_at q p)
   | getopt_request t \<Rightarrow> getopt_request t
   | getopt_response p \<Rightarrow> getopt_response (prop_at q p)
   | open_request r \<Rightarrow> open_request \<lparr>or_stream_id = or_stream_id r, or_type = or_type r, or_connection_string = q,
       or_polled = or_polled r, or_max_send = 0, or_max_recv = or_max_recv r\<rparr>
   | poll_message m \<Rightarrow> poll_message m
   | data_message m \<Rightarrow> data_message \<lparr>dm_sequence_number = dm_sequence_number m,
       dm_source_address = addr_canon (dm_source_address m),
       dm_control_buffer_length = dm_control_buffer_length m,
       dm_control_buffer = (if dm_control_buffer_length m = 0 then null_ptr else q),
       dm_buffer_length = dm_buffer_length m,
       dm_buffer = (if dm_buffer_length m = 0 then null_ptr else q)\<rparr>
   | close_response r \<Rightarrow> close_response r)"

text \<open>
  Which content a message of a type carries: none for the requests and responses that are only signals, and
  nothing at all for an unknown type. A zeroed content is the zero of the kind expected.
\<close>

definition zero_content :: "'p \<Rightarrow> bool \<Rightarrow> u32 \<Rightarrow> 'p io_content option" where
  "zero_content null response t = (
     if t = io_message_type_data then Some (data_message (data_message_zero null))
     else if t = io_message_type_close then Some (if response then close_response close_response_zero else content_zero)
     else if t = io_message_type_ping then Some (if response then ping_response ping_response_zero else ping_request zero_addr)
     else if t = io_message_type_poll then Some (if response then content_zero else poll_message poll_message_zero)
     else if t = io_message_type_link then Some (if response then link_response link_response_zero else link_request link_request_zero)
     else if t = io_message_type_open then Some (if response then content_zero else open_request (open_request_zero null))
     else if t = io_message_type_setopt then Some (if response then content_zero else setopt_request property_zero)
     else if t = io_message_type_getopt then Some (if response then getopt_response property_zero else getopt_request 0)
     else None)"

primrec content_kind :: "'p io_content \<Rightarrow> nat" where
  "content_kind content_zero = 0"
| "content_kind (ping_request a) = 1"
| "content_kind (ping_response r) = 2"
| "content_kind (link_request r) = 3"
| "content_kind (link_response r) = 4"
| "content_kind (setopt_request p) = 5"
| "content_kind (getopt_request t) = 6"
| "content_kind (getopt_response p) = 7"
| "content_kind (open_request r) = 8"
| "content_kind (poll_message m) = 9"
| "content_kind (data_message m) = 10"
| "content_kind (close_response r) = 11"

definition wire_content :: "u8 list option io_message \<Rightarrow> u8 list option io_content option" where
  "wire_content msg = (case zero_content None (msg_is_response msg) (msg_type msg) of
     None \<Rightarrow> None
   | Some z \<Rightarrow> if z = content_zero \<or> msg_content msg = content_zero then Some z
       else if content_kind (msg_content msg) = content_kind z then Some (msg_content msg) else None)"

context sink
begin

lemma emits_bin_ptr [emits_rules]:
  "cmp_laws L \<Longrightarrow> bin_ok n d \<Longrightarrow> w = w_bin L (bin_bytes d) \<Longrightarrow> emits (io_encode_bin (mpack_codec L) name d n) w"
  by (cases d) (simp_all add: bin_ok_def bin_bytes_def emits_rules)

lemma emits_given_ptr:
  "cmp_laws L \<Longrightarrow> p \<noteq> None \<Longrightarrow> ptr_ok p \<Longrightarrow> w = w_str L (ptr_chars p) \<Longrightarrow>
     emits (io_encode_string (mpack_codec L) name p) w"
  by (cases p) (simp_all add: ptr_ok_def ptr_chars_def emits_rules)

lemma emits_contents:
  assumes L: "cmp_laws L"
  shows "content_ok (ping_request a) \<Longrightarrow> emits (io_encode_ping_request (mpack_codec L) a) (obj_bytes L (content_fields L (ping_request a)))"
    and "content_ok (ping_response r) \<Longrightarrow> emits (io_encode_ping_response (mpack_codec L) r) (obj_bytes L (content_fields L (ping_response r)))"
    and "content_ok (link_request lr) \<Longrightarrow> emits (io_encode_link_request (mpack_codec L) lr) (obj_bytes L (content_fields L (link_request lr)))"
    and "content_ok (link_response lp) \<Longrightarrow> emits (io_encode_link_response (mpack_codec L) E lp) (obj_bytes L (content_fields L (link_response lp)))"
    and "content_ok (setopt_request p) \<Longrightarrow> emits (io_encode_setopt_request (mpack_codec L) p) (obj_bytes L (content_fields L (setopt_request p)))"
    and "emits (io_encode_getopt_request (mpack_codec L) t) (obj_bytes L (content_fields L (getopt_request t)))"
    and "content_ok (getopt_response p) \<Longrightarrow> emits (io_encode_getopt_response (mpack_codec L) p) (obj_bytes L (content_fields L (getopt_response p)))"
    and "content_ok (open_request r8) \<Longrightarrow> emits (io_encode_open_request (mpack_codec L) E r8) (obj_bytes L (content_fields L (open_request r8)))"
    and "emits (io_encode_poll_message (mpack_codec L) pm) (obj_bytes L (content_fields L (poll_message pm)))"
    and "content_ok (data_message m) \<Longrightarrow> emits (io_encode_data_message (mpack_codec L) m) (obj_bytes L (content_fields L (data_message m)))"
    and "emits (io_encode_close_response (mpack_codec L) cr) (obj_bytes L (content_fields L (close_response cr)))"
  unfolding io_encode_ping_request_def io_encode_ping_response_def io_encode_link_request_def io_encode_link_response_def
    io_encode_setopt_request_def io_encode_getopt_request_def io_encode_getopt_response_def io_encode_open_request_def
    io_encode_poll_message_def io_encode_data_message_def io_encode_close_response_def content_ok_def content_fields_def
  by (simp_all add: emits_typeI L emits_rules emits_given_ptr bin_ok_def del: not_None_eq)

end

lemmas content_zeros = data_message_zero_def close_response_zero_def ping_response_zero_def poll_message_zero_def
  link_response_zero_def link_request_zero_def open_request_zero_def zero_addr_def

text \<open>The types of messages that exist.\<close>

lemma zero_content_type:
  assumes "zero_content null response t = Some z"
  obtains "t = io_message_type_data" | "t = io_message_type_close" | "t = io_message_type_ping" | "t = io_message_type_poll"
    | "t = io_message_type_link" | "t = io_message_type_open" | "t = io_message_type_setopt" | "t = io_message_type_getopt"
  using assms by (auto simp: zero_content_def split: if_splits)

context sink
begin

lemma emits_null_content:
  "cmp_laws L \<Longrightarrow> emits (encode_null_content (mpack_codec L)) (cmp_bytes L cmp_nil)"
  using emits_bind [OF emits_write_object [of L "Some ''content''" True] emits_return]
  by (simp add: encode_null_content_def codec_unfold)

lemma emits_content:
  assumes "cmp_laws L" "emits a (obj_bytes L (content_fields L c))" "c \<noteq> content_zero"
  shows "emits (encode_content (mpack_codec L) (Some a)) (content_wire L c)"
  using assms by (simp add: encode_content_def content_wire_def emits_member)

lemma emits_message_content:
  assumes L: "cmp_laws L" and c: "wire_content msg = Some c" "content_ok c"
  shows "emits (io_encode_message_content (mpack_codec L) E msg) (content_wire L c)"
proof -
  obtain z :: "u8 list option io_content" where z: "zero_content None (msg_is_response msg) (msg_type msg) = Some z"
    using c(1) by (auto simp: wire_content_def split: option.splits)
  note simps = io_encode_message_content_def io_encode_response_content_def io_encode_request_content_def Let_def
    encode_data_content_def wire_content_def zero_content_def content_wire_def
  show ?thesis
    using z
  proof (cases rule: zero_content_type)
    case 1
    then show ?thesis
      using c emits_contents(10) [OF L] emits_content [OF L]
      by (cases "msg_content msg") (auto simp: simps split: if_splits)
  next
    case 2
    then show ?thesis
      using c emits_contents(11) [OF L] emits_content [OF L] emits_null_content [OF L]
      by (cases "msg_content msg"; cases "msg_is_response msg") (auto simp: simps split: if_splits)
  next
    case 3
    then show ?thesis
      using c emits_contents(1,2) [OF L] emits_content [OF L]
      by (cases "msg_content msg"; cases "msg_is_response msg") (auto simp: simps split: if_splits)
  next
    case 4
    then show ?thesis
      using c emits_contents(9) [OF L] emits_content [OF L] emits_null_content [OF L]
      by (cases "msg_content msg"; cases "msg_is_response msg") (auto simp: simps split: if_splits)
  next
    case 5
    then show ?thesis
      using c emits_contents(3,4) [OF L] emits_content [OF L]
      by (cases "msg_content msg"; cases "msg_is_response msg") (auto simp: simps split: if_splits)
  next
    case 6
    then show ?thesis
      using c emits_contents(8) [OF L] emits_content [OF L] emits_null_content [OF L]
      by (cases "msg_content msg"; cases "msg_is_response msg") (auto simp: simps split: if_splits)
  next
    case 7
    then show ?thesis
      using c emits_contents(5) [OF L] emits_content [OF L] emits_null_content [OF L]
      by (cases "msg_content msg"; cases "msg_is_response msg") (auto simp: simps split: if_splits)
  next
    case 8
    then show ?thesis
      using c emits_contents(6,7) [OF L] emits_content [OF L]
      by (cases "msg_content msg"; cases "msg_is_response msg") (auto simp: simps split: if_splits)
  qed
qed

end

lemma sp_fields_length: "length (sp_fields L sp) < 2 ^ 32 - 1"
  by (simp add: sp_fields_def)

lemma prop_fields_less: "length (prop_fields L p) < 2 ^ 32 - 1"
  by simp

lemma content_fields_length: "length (content_fields L c) < 2 ^ 32 - 1"
  by (cases c) (simp_all add: content_fields_def)

context in_stream
begin

lemma reads_socket_properties_step [reads_rules]:
  assumes "cmp_laws L" "sp_ok sp" "mm_field M = []" "reads D (f (sp_canon sp)) fs M w M'"
  shows "reads D (act_bind (decode_member (mpack_codec L) name (io_decode_prx_socket_properties (mpack_codec L) option) socket_properties_zero) f)
    (obj_bytes L (sp_fields L sp) # fs) M w M'"
  by (rule reads_member_step [where a = "io_decode_prx_socket_properties (mpack_codec L) option"])
    (rule assms sp_fields_length reads_socket_properties)+

lemma reads_property_step [reads_rules]:
  assumes "cmp_laws L" "prop_ok p" "mm_field M = []" "message_stored M (prop_payload p) = Some (q, M1)"
    "reads (Some use_message) (f (prop_at q p)) fs M1 w M'"
  shows "reads (Some use_message) (act_bind (decode_member (mpack_codec L) name (io_decode_prx_property (mpack_codec L)) property_zero) f)
    (obj_bytes L (prop_fields L p) # fs) M w M'"
proof (rule reads_member_step [where a = "io_decode_prx_property (mpack_codec L)"])
  show "reads (Some use_message) (io_decode_prx_property (mpack_codec L) property_zero) (prop_fields L p) M (prop_at q p) M1"
    by (rule reads_property [OF assms(1-4)]) (simp add: property_zero_def)
qed (rule assms prop_fields_less)+

lemma reads_contents:
  assumes L: "cmp_laws L" and M: "mm_field M = []"
  shows "content_ok (ping_request a) \<Longrightarrow>
      reads D (io_decode_ping_request (mpack_codec L) zero_addr) (content_fields L (ping_request a)) M (addr_canon a) M"
    and "content_ok (ping_response r) \<Longrightarrow>
      reads D (io_decode_ping_response (mpack_codec L) ping_response_zero) (content_fields L (ping_response r)) M
        (r\<lparr>pr_address := addr_canon (pr_address r)\<rparr>) M"
    and "content_ok (link_request lr) \<Longrightarrow>
      reads D (io_decode_link_request (mpack_codec L) option link_request_zero) (content_fields L (link_request lr)) M
        \<lparr>lr_version = lr_version lr, lr_props = sp_canon (lr_props lr)\<rparr> M"
    and "content_ok (link_response lp) \<Longrightarrow>
      reads D (io_decode_link_response (mpack_codec L) E link_response_zero) (content_fields L (link_response lp)) M
        \<lparr>lp_link_id = lp_link_id lp, lp_local_address = addr_canon (lp_local_address lp), lp_peer_address = addr_canon (lp_peer_address lp)\<rparr> M"
    and "reads D (io_decode_getopt_request (mpack_codec L) 0) (content_fields L (getopt_request t)) M t M"
    and "reads D (io_decode_poll_message (mpack_codec L) poll_message_zero) (content_fields L (poll_message pm)) M pm M"
    and "reads D (io_decode_close_response (mpack_codec L) close_response_zero) (content_fields L (close_response cr)) M cr M"
  unfolding io_decode_ping_request_def io_decode_ping_response_def io_decode_link_request_def io_decode_link_response_def
    io_decode_getopt_request_def io_decode_poll_message_def io_decode_close_response_def content_ok_def content_fields_def content_zeros
  by (simp_all add: L M reads_rules del: act_bind_return_right)

lemma reads_payload_contents:
  assumes L: "cmp_laws L" and M: "mm_field M = []" "message_stored M (content_payload c) = Some (q, M')" and ok: "content_ok c"
  shows "c = setopt_request p \<Longrightarrow>
      reads (Some use_message) (io_decode_setopt_request (mpack_codec L) property_zero) (content_fields L c) M (prop_at q p) M'"
    and "c = getopt_response p \<Longrightarrow>
      reads (Some use_message) (io_decode_getopt_response (mpack_codec L) property_zero) (content_fields L c) M (prop_at q p) M'"
    and "c = open_request r \<Longrightarrow>
      reads (Some use_message) (io_decode_open_request (mpack_codec L) E (open_request_zero null_ptr)) (content_fields L c) M
        \<lparr>or_stream_id = or_stream_id r, or_type = or_type r, or_connection_string = q,
         or_polled = or_polled r, or_max_send = 0, or_max_recv = or_max_recv r\<rparr> M'"
  using ok M reads_property_step [OF L, of p M q M'] reads_ptr_step [OF L, of "ptr_chars (or_connection_string r)" M q M']
  unfolding io_decode_setopt_request_def io_decode_getopt_response_def io_decode_open_request_def open_request_zero_def
  by (simp_all add: content_ok_def content_fields_def content_payload_def L reads_rules del: act_bind_return_right)

text \<open>Of the two buffers one is empty, so that the other one keeps its address.\<close>

lemma reads_data_message:
  assumes L: "cmp_laws L" and M: "mm_field M = []" "message_stored M (content_payload (data_message m)) = Some (q, M')"
    and ok: "content_ok (data_message m)"
  shows "reads (Some use_message) (act_map data_message (io_decode_data_message (mpack_codec L) (data_message_zero null_ptr)))
    (content_fields L (data_message m)) M (content_at q (data_message m)) M'"
proof -
  have b: "bin_ok (dm_buffer_length m) (dm_buffer m)" "bin_ok (dm_control_buffer_length m) (dm_control_buffer m)"
    "addr_ok (dm_source_address m)"
    using ok by (simp_all add: content_ok_def)
  show ?thesis
  proof (cases "bin_bytes (dm_buffer m) = []")
    case True
    then show ?thesis
      using ok M b reads_bin_ptr_step [OF L, of "bin_bytes (dm_control_buffer m)" M q M'] reads_bin_ptr_step [OF L, of "[]" M null_ptr M]
      unfolding io_decode_data_message_def act_map_def data_message_zero_def zero_addr_def
      by (auto simp: content_fields_def content_at_def content_payload_def bin_ok_def act_bind_assoc L reads_rules)
  next
    case False
    then show ?thesis
      using ok M b reads_bin_ptr_step [OF L, of "bin_bytes (dm_buffer m)" M q M'] reads_bin_ptr_step [OF L, of "[]" M' null_ptr M']
      unfolding io_decode_data_message_def act_map_def data_message_zero_def zero_addr_def
      by (auto simp: content_ok_def content_fields_def content_at_def content_payload_def bin_ok_def act_bind_assoc L reads_rules)
  qed
qed

end

lemma wire_content_kind:
  assumes "wire_content msg = Some c"
  obtains z :: "u8 list option io_content" where "zero_content None (msg_is_response msg) (msg_type msg) = Some z" "content_kind c = content_kind z"
  using assms by (auto simp: wire_content_def split: option.splits if_splits)

context in_stream
begin

lemma reads_map: "reads D a fs M v M' \<Longrightarrow> reads D (act_map k a) fs M (k v) M'"
  unfolding act_map_def by (rule reads_then [where f = "\<lambda>v. act_return (k v)", OF _ reads_return])

lemma reads_content:
  assumes "cmp_laws L" "reads D a (content_fields L c) M v M'" "c \<noteq> content_zero"
  shows "reads D (decode_content (mpack_codec L) (Some a)) [content_wire L c] M v M'"
  unfolding decode_content_def content_wire_def
  using assms(3) reads_in_object [OF assms(1) content_fields_length assms(2)] by simp

lemma reads_null_content:
  "cmp_laws L \<Longrightarrow> reads D (decode_null_content (mpack_codec L) c) [content_wire L content_zero] M c M"
  unfolding decode_null_content_def content_wire_def by (simp add: reads_null reads_return)

lemma reads_message_content:
  assumes L: "cmp_laws L" and c: "zero_content None resp t = Some z" "content_kind c = content_kind z" "content_ok c"
    and M: "mm_field M = []" "message_stored M (content_payload c) = Some (q, M')"
  shows "reads (Some use_message) (if resp then io_decode_response_content (mpack_codec L) E t content_zero
      else io_decode_request_content (mpack_codec L) E option t content_zero) [content_wire L c] M (content_at q c) M'"
proof -
  note simps = io_decode_response_content_def io_decode_request_content_def decode_data_content_def zero_content_def
    content_at_def content_payload_def
  note contents = reads_contents [OF L M(1)] and payloads = reads_payload_contents [OF L M(1) _ c(3)]
  show ?thesis
    using c(1)
  proof (cases rule: zero_content_type)
    case 1
    then obtain m where m: "c = data_message m"
      using c by (cases c) (auto simp: zero_content_def)
    then have "reads (Some use_message) (decode_data_content (mpack_codec L) content_zero) [content_wire L c] M (content_at q c) M'"
      unfolding decode_data_content_def
      using reads_content [OF L reads_data_message [OF L M(1)]] M(2) c(3) by simp
    then show ?thesis
      using 1 by (simp add: io_decode_response_content_def io_decode_request_content_def)
  next
    case 2
    then show ?thesis
      using c M(2) reads_content [OF L reads_map [OF contents(7)]] reads_null_content [OF L]
      by (cases c; cases resp) (auto simp: simps)
  next
    case 3
    then show ?thesis
      using c M(2) reads_content [OF L reads_map [OF contents(1)]] reads_content [OF L reads_map [OF contents(2)]]
      by (cases c; cases resp) (auto simp: simps)
  next
    case 4
    then show ?thesis
      using c M(2) reads_content [OF L reads_map [OF contents(6)]] reads_null_content [OF L]
      by (cases c; cases resp) (auto simp: simps)
  next
    case 5
    then show ?thesis
      using c M(2) reads_content [OF L reads_map [OF contents(3)]] reads_content [OF L reads_map [OF contents(4)]]
      by (cases c; cases resp) (auto simp: simps)
  next
    case 6
    then show ?thesis
      using c M(2) reads_content [OF L reads_map [OF payloads(3)]] reads_null_content [OF L]
      by (cases c; cases resp) (auto simp: simps)
  next
    case 7
    then show ?thesis
      using c M(2) reads_content [OF L reads_map [OF payloads(1)]] reads_null_content [OF L]
      by (cases c; cases resp) (auto simp: simps)
  next
    case 8
    then show ?thesis
      using c M(2) reads_content [OF L reads_map [OF payloads(2)]] reads_content [OF L reads_map [OF contents(5)]]
      by (cases c; cases resp) (auto simp: simps)
  qed
qed

end

section \<open>Messages\<close>

definition header_fields :: "cmp_lib \<Rightarrow> u32 \<Rightarrow> 'p io_message \<Rightarrow> u8 list list" where
  "header_fields L version msg = [w_u32 L version, obj_bytes L (ref_fields L (msg_source_id msg)),
     obj_bytes L (ref_fields L (msg_proxy_id msg)), obj_bytes L (ref_fields L (msg_target_id msg)),
     w_i32 L (msg_error_code msg), w_bool L (msg_is_response msg), w_u32 L (msg_type msg)]"

definition message_fields :: "cmp_lib \<Rightarrow> u8 list option io_message \<Rightarrow> u8 list option io_content \<Rightarrow> u8 list list" where
  "message_fields L msg c = header_fields L MODULE_VER_NUM msg @ [content_wire L c]"

definition message_bytes :: "cmp_lib \<Rightarrow> u8 list option io_message \<Rightarrow> u8 list option io_content \<Rightarrow> u8 list" where
  "message_bytes L msg c = obj_bytes L (message_fields L msg c)"

definition message_header :: "'p io_message \<Rightarrow> 'q io_message \<Rightarrow> 'q io_message" where
  "message_header msg new = new\<lparr>msg_source_id := msg_source_id msg, msg_proxy_id := msg_proxy_id msg,
     msg_target_id := msg_target_id msg, msg_error_code := msg_error_code msg, msg_is_response := msg_is_response msg,
     msg_type := msg_type msg\<rparr>"

context sink
begin

lemma emits_message:
  assumes "cmp_laws L" "wire_content msg = Some c" "content_ok c"
  shows "emits (io_encode_message (mpack_codec L) E msg) (message_bytes L msg c)"
  unfolding io_encode_message_def message_bytes_def message_fields_def header_fields_def
  using assms emits_message_content [OF assms] by (simp add: emits_typeI emits_rules)

end

text \<open>The decoder up to the content, which changes the allocator of its context.\<close>

definition decode_header :: "('k, 'x, 's) io_codec \<Rightarrow> string_env \<Rightarrow> 'p io_message \<Rightarrow> ('k, 'x, 'p io_message) act" where
  "decode_header C E msg =
     act_bind (io_decode_type_begin C) (\<lambda>_.
     act_bind (io_decode_uint32 C (Some ''version'')) (\<lambda>version.
     if version AND 0xffff0000 \<noteq> MODULE_VER_NUM AND 0xffff0000 then act_fail er_invalid_format
     else
     act_bind (decode_member C (Some ''source_id'') (io_decode_ref C E) (msg_source_id msg)) (\<lambda>source_id.
     act_bind (decode_member C (Some ''proxy_id'') (io_decode_ref C E) (msg_proxy_id msg)) (\<lambda>proxy_id.
     act_bind (decode_member C (Some ''target_id'') (io_decode_ref C E) (msg_target_id msg)) (\<lambda>target_id.
     act_bind (io_decode_int32 C (Some ''error_code'')) (\<lambda>error_code.
     act_bind (io_decode_bool C (Some ''is_response'')) (\<lambda>is_response.
     act_bind (io_decode_uint32 C (Some ''type'')) (\<lambda>type.
     act_return (msg\<lparr>msg_source_id := source_id, msg_proxy_id := proxy_id,
         msg_target_id := target_id, msg_error_code := error_code, msg_is_response := is_response,
         msg_type := type\<rparr>)))))))))"

lemma act_bind_fail [simp]: "act_bind (act_fail e) f = act_fail e"
  by (rule ext) (simp add: act_bind_def act_fail_def)

lemma act_bind_if: "act_bind (if b then x else y) f = (if b then act_bind x f else act_bind y f)"
  by simp

lemma io_decode_message_header:
  "io_decode_message C E option msg = act_bind (decode_header C E msg) (\<lambda>msg.
     act_bind (io_decode_message_content C E option msg) (\<lambda>msg. act_bind (io_decode_type_end C) (\<lambda>_. act_return msg)))"
  unfolding io_decode_message_def decode_header_def by (simp add: act_bind_assoc act_bind_if cong: if_cong)

context in_stream
begin

lemma reads_header:
  assumes "cmp_laws L" "mm_field M = []" "version AND 0xffff0000 = MODULE_VER_NUM AND 0xffff0000"
  shows "reads D (decode_header (mpack_codec L) E new) (header_fields L version msg) M (message_header msg new) M"
  unfolding decode_header_def header_fields_def message_header_def using assms by (simp add: reads_rules)

lemma io_decode_message_reads:
  assumes L: "cmp_laws L" and c: "wire_content msg = Some c" "content_ok c"
    and version: "version AND 0xffff0000 = MODULE_VER_NUM AND 0xffff0000"
    and new: "msg_content new = content_zero"
    and M: "mm_field M = []" "message_stored (M\<lparr>mm_buffer := msg_buffer new\<rparr>) (content_payload c) = Some (q, M')"
    and s: "8 \<le> ctx_index ctx" "source m (concat (header_fields L version msg @ [content_wire L c]) @ rest)" "cs_mem m = M"
  shows "\<exists>ctx' m'. io_decode_message (mpack_codec L) E option new (ctx, m) =
      (Ok ((message_header msg new)\<lparr>msg_content := content_at q c, msg_buffer := mm_buffer M'\<rparr>), ctx', m') \<and>
    source m' rest \<and> cs_mem m' = M'"
proof -
  let ?h = "message_header msg new" and ?ctx = "ctx\<lparr>ctx_index := ctx_index ctx - 7\<rparr>"
  obtain m1 where m1: "decode_header (mpack_codec L) E new (ctx, m) = (Ok ?h, ?ctx, m1)"
      "source m1 (content_wire L c @ rest)" "cs_mem m1 = M"
    using readsD [where ctx = ctx and m = m and rest = "content_wire L c @ rest", OF reads_header [OF L M(1) version, of _ E new msg]] s
    by (auto simp: header_fields_def)
  obtain z :: "u8 list option io_content" where z: "zero_content None (msg_is_response msg) (msg_type msg) = Some z" "content_kind c = content_kind z"
    using wire_content_kind [OF c(1)] by blast
  let ?ctx2 = "?ctx\<lparr>ctx_default_allocator := Some use_message\<rparr>"
  let ?m2 = "m1\<lparr>cs_mem := M\<lparr>mm_buffer := msg_buffer new\<rparr>\<rparr>"
  have "source ?m2 (concat [content_wire L c] @ rest)"
    using m1(2) by (simp add: source_def)
  moreover have i: "Suc 0 \<le> ctx_index ctx - 7" using s(1) by simp
  ultimately obtain m3 where m3: "(if msg_is_response msg then io_decode_response_content (mpack_codec L) E (msg_type msg) content_zero
      else io_decode_request_content (mpack_codec L) E option (msg_type msg) content_zero) (?ctx2, ?m2) =
        (Ok (content_at q c), ?ctx2\<lparr>ctx_index := ctx_index ?ctx2 - 1\<rparr>, m3)" "source m3 rest" "cs_mem m3 = M'"
    using readsD [OF reads_message_content [OF L z c(2) _ M(2), of E option], of ?ctx2 ?m2 rest] M(1) i by auto
  have h: "msg_is_response ?h = msg_is_response msg" "msg_type ?h = msg_type msg" "msg_content ?h = content_zero"
      "msg_buffer ?h = msg_buffer new"
    using new by (simp_all add: message_header_def)
  have "io_decode_message_content (mpack_codec L) E option ?h (?ctx, m1) =
      (Ok (?h\<lparr>msg_content := content_at q c, msg_buffer := mm_buffer M'\<rparr>), ?ctx2\<lparr>ctx_index := ctx_index ?ctx2 - 1\<rparr>, m3)"
    unfolding io_decode_message_content_def h
    using m1(3) m3 by (simp add: act_bind_def act_use_message_def act_mem_def h)
  then show ?thesis
    unfolding io_decode_message_header using m1(1) m3(2,3) by (simp add: act_bind_def act_return_def)
qed

end

end
