(* ===== verification/Pool_Supply.thy ===== *)
theory Pool_Supply
  imports Prelude Prx_Err Prx_Buffer
begin

text \<open>
  Liveness of the buffer pools of \<open>src/prx_buffer.c\<close>: an unbounded pool that has a free buffer keeps having
  one as long as the allocator does not refuse, so that no checkout and no new buffer fails.
\<close>

definition al_total :: "allocator \<Rightarrow> bool" where
  "al_total A \<longleftrightarrow> (\<forall>n sz. al_ok A n sz)"

definition pool_supplied :: "prx_buffer_pool \<Rightarrow> bool" where
  "pool_supplied p \<longleftrightarrow> pool_inv p \<and> pool_free_list p \<noteq> [] \<and> max_count (pool_config p) = 0 \<and> 0 < initial_count (pool_config p)"

lemma pool_add_free_list [simp]: "pool_free_list (pool_add_free a mem p) = pool_free_list p @ [a]"
  by (simp add: pool_add_free_def)

lemma prx_dynamic_pool_grow_loop_list:
  "al_total A \<Longrightarrow> length (pool_free_list (prx_dynamic_pool_grow_loop A n p)) = length (pool_free_list p) + n"
  by (induction n arbitrary: p) (simp_all add: Let_def mem_alloc_def al_total_def)

lemma prx_fixed_pool_grow_loop_list:
  "length (pool_free_list (prx_fixed_pool_grow_loop n mem i k p)) = length (pool_free_list p) + k"
  by (induction k arbitrary: i p) (simp_all add: Let_def)

lemma pool_grow_supplies:
  assumes "al_total A" "max_count (pool_config p) = 0" "0 < initial_count (pool_config p)"
  shows "pool_free_list (snd (prx_dynamic_pool_grow_no_lock A p)) \<noteq> []"
    "pool_free_list (snd (prx_fixed_pool_grow_no_lock A p)) \<noteq> []"
proof -
  have i: "pool_grow_items p = initial_count (pool_config p)"
    using assms by (simp add: pool_grow_items_def)
  show "pool_free_list (snd (prx_dynamic_pool_grow_no_lock A p)) \<noteq> []"
    using assms prx_dynamic_pool_grow_loop_list [of A "pool_grow_items p" p] i
    by (auto simp: prx_dynamic_pool_grow_no_lock_def Let_def simp flip: length_0_conv)
  show "pool_free_list (snd (prx_fixed_pool_grow_no_lock A p)) \<noteq> []"
    using assms i by (auto simp: prx_fixed_pool_grow_no_lock_def Let_def mem_alloc_def al_total_def
        prx_fixed_pool_grow_loop_list simp flip: length_0_conv)
qed

lemma prx_buffer_alloc_supplied:
  assumes A: "al_total A" and p: "pool_supplied p"
  shows "\<exists>a q. prx_buffer_alloc A factory p None = (Some a, q) \<and> pool_supplied q \<and>
    pool_live p a = 0 \<and> pool_live q = (pool_live p)(a := 1)"
proof -
  define grow where "grow = (case factory of dynamic_pool \<Rightarrow> prx_dynamic_pool_grow_no_lock A | fixed_pool \<Rightarrow> prx_fixed_pool_grow_no_lock A)"
  have g: "prx_buffer_alloc A factory p None = prx_buffer_pool_alloc_buffer grow p None"
    by (cases factory) (simp_all add: grow_def prx_buffer_alloc_def)
  obtain out rest where l: "pool_free_list p = out # rest"
    using p by (cases "pool_free_list p") (simp_all add: pool_supplied_def)
  have c: "pool_free_count p = Suc (length rest)" "max_count (pool_config p) = 0" "0 < initial_count (pool_config p)"
    using p l by (simp_all add: pool_supplied_def pool_inv_defs)
  obtain q where q: "prx_buffer_alloc A factory p None = (Some out, q)"
    using g l by (simp add: prx_buffer_pool_alloc_buffer_def Let_def)
  have "pool_free_list (snd (grow p')) \<noteq> []" if "pool_config p' = pool_config p" for p'
    using pool_grow_supplies [OF A, of p'] c that by (cases factory) (simp_all add: grow_def)
  then have "pool_free_list q \<noteq> []"
    using q g l c(1) by (auto simp: prx_buffer_pool_alloc_buffer_def Let_def size_simps split: if_splits)
  moreover note prx_buffer_alloc_new_inv [OF _ q]
  ultimately show ?thesis
    using p q c by (auto simp: pool_supplied_def)
qed

lemma prx_buffer_new_supplied:
  assumes A: "al_total A" and p: "pool_supplied p"
  shows "\<exists>a q. prx_buffer_new A dynamic_pool p len = (Some a, q) \<and> pool_supplied q"
proof -
  obtain a q where q: "prx_buffer_alloc A dynamic_pool p None = (Some a, q)" "pool_supplied q" "pool_live q = (pool_live p)(a := 1)"
    using prx_buffer_alloc_supplied [OF assms] by blast
  have inv: "pool_inv q" and live: "0 < pool_live q a"
    using q by (simp_all add: pool_supplied_def)
  have a: "a \<in> set (pool_checked_out q)"
    using pool_live_checked_out [OF inv] live by simp
  then have free: "a \<notin> set (pool_free_list q)" and heap: "a \<in> dom (pool_heap q)"
    using inv by (auto simp: pool_inv_defs)
  obtain b r where s: "prx_buffer_set_size A dynamic_pool q (Some a) len = (er_ok, Some b, r)"
    and r: "pool_free_list r = pool_free_list q"
    using A heap free by (auto simp: prx_buffer_set_size_def prx_dynamic_buffer_set_size_def mem_realloc_def
        al_total_def pool_unlink_def remove1_idem Let_def)
  then show ?thesis
    using q prx_buffer_set_size_inv [OF inv live s] by (simp add: prx_buffer_new_def pool_supplied_def)
qed

lemma prx_buffer_release_supplied:
  assumes "pool_supplied p" "0 < pool_live p a"
  shows "pool_supplied (prx_buffer_release factory p a)"
proof -
  have "pool_inv (prx_buffer_release factory p a)" "pool_config (prx_buffer_release factory p a) = pool_config p"
    using pool_factory.release_one [of p a factory] assms by (simp_all add: pool_supplied_def)
  moreover have "a \<notin> set (pool_free_list p)"
    using pool_live_checked_out [of p a] assms by (auto simp: pool_supplied_def pool_inv_defs)
  then have "pool_free_list (prx_buffer_release factory p a) \<noteq> []"
    using assms(1) by (auto simp: prx_buffer_release_def prx_buffer_pool_free_buffer_def pool_unlink_def
        pool_supplied_def remove1_idem Let_def)
  ultimately show ?thesis
    using assms(1) by (simp add: pool_supplied_def)
qed

lemma prx_dynamic_pool_create_supplied:
  assumes "al_total A" "prx_dynamic_pool_create A zalloc_ok lock_result item_size None = (er_ok, Some p)"
  shows "pool_supplied p"
proof -
  have "zalloc_ok" "lock_result = er_ok"
    using assms(2) by (auto simp: prx_dynamic_pool_create_def prx_buffer_pool_init_def Let_def split: if_splits)
  then have "pool_created A dynamic_pool item_size None p"
    using assms(2) by (simp add: pool_created_def)
  from pool_created_inv [OF this] have inv: "pool_inv p" "pool_config p = prx_pool_config_init None"
    by simp_all
  then have "max_count (pool_config p) = 0" "0 < initial_count (pool_config p)"
    by (simp_all add: prx_pool_config_init_def Let_def)
  moreover have "pool_free_count p \<noteq> 0"
    using assms(2) by (auto simp: prx_dynamic_pool_create_def prx_dynamic_pool_grow_no_lock_def Let_def
        split: prod.splits if_splits)
  ultimately show ?thesis
    using inv(1) by (auto simp: pool_supplied_def pool_inv_defs)
qed

lemma prx_fixed_pool_create_supplied:
  assumes "al_total A" "prx_fixed_pool_create A zalloc_ok lock_result item_size (Some config) = (er_ok, Some p)" "max_count config = 0"
  shows "pool_supplied p"
proof -
  have "zalloc_ok" "lock_result = er_ok"
    using assms(2) by (auto simp: prx_fixed_pool_create_def prx_buffer_pool_init_def Let_def split: if_splits)
  then have "pool_created A fixed_pool item_size (Some config) p"
    using assms(2) by (simp add: pool_created_def)
  from pool_created_inv [OF this] have inv: "pool_inv p" "pool_config p = prx_pool_config_init (Some config)"
    by simp_all
  then have c: "max_count (pool_config p) = 0" "0 < initial_count (pool_config p)"
    using assms(3) by (simp_all add: prx_pool_config_init_def Let_def)
  define z where "z = snd (prx_buffer_pool_init er_ok prx_pool_zero item_size (Some config))"
  have "p = snd (prx_fixed_pool_grow_no_lock A z)" "pool_config z = prx_pool_config_init (Some config)"
    using assms(2) \<open>lock_result = er_ok\<close> by (auto simp: z_def prx_fixed_pool_create_def prx_buffer_pool_init_def Let_def
        split: prod.splits if_splits)
  then have "pool_free_list p \<noteq> []"
    using pool_grow_supplies(2) [OF assms(1), of z] c inv(2) by simp
  then show ?thesis
    using inv(1) c by (simp add: pool_supplied_def)
qed

end
