(* ===== verification/Io_Ws.thy ===== *)
theory Io_Ws
  imports Prelude Prx_Err Prx_Buffer Io_Queue Io_Stream
begin

text \<open>
  The websocket connection of \<open>src/io_ws.c\<close>: messages are written to and read from streams that cut them
  into frames of at most 4096 bytes, kept in the outbound and the inbound queue. The platform's
  websocket client (\<open>pal_wsclient_*\<close>) calls the event handler to get and return frames; its results are
  parameters and the calls made to it are recorded in \<open>ws_pal\<close>. The tasks of the connection that its
  scheduler has not run yet are \<open>ws_tasks\<close>, with their delays in milliseconds. Callbacks are pointers,
  0 being \<open>NULL\<close>; completed sends are recorded in \<open>ws_completed\<close>.
\<close>

section \<open>State\<close>

definition DEFAULT_FRAME_SIZE :: nat where
  "DEFAULT_FRAME_SIZE = 0x1000"

datatype io_ws_connection_status =
    io_ws_connection_status_connected
  | io_ws_connection_status_disconnected
  | io_ws_connection_status_closing
  | io_ws_connection_status_closed

abbreviation "pal_wsclient_buffer_type_unknown \<equiv> (0 :: i32)"
abbreviation "pal_wsclient_buffer_type_binary_msg \<equiv> (1 :: i32)"
abbreviation "pal_wsclient_buffer_type_binary_fragment \<equiv> (2 :: i32)"
abbreviation "pal_wsclient_buffer_type_utf8_msg \<equiv> (3 :: i32)"
abbreviation "pal_wsclient_buffer_type_utf8_fragment \<equiv> (4 :: i32)"

record io_ws_stream =
  wst_queue :: io_queue
  wst_current :: "addr option"
  wst_readable :: nat

datatype io_ws_task =
    task_disconnect | task_free | task_reset | task_reconnect | task_deliver_stream
  | task_deliver_send_results | task_on_disconnected | task_on_connected | task_monitor

datatype pal_ws_call = call_disconnect | call_close | call_can_send | call_can_recv | call_connect

text \<open>
  \<open>ws_freed\<close> tells that the memory of the connection has been given back. \<open>ticks_t\<close> is a 64 bit count of
  milliseconds.
\<close>

record io_ws_connection =
  ws_expiry :: int
  ws_keep_alive_interval :: u32
  ws_wsclient :: bool
  ws_outbound :: io_ws_stream
  ws_inbound :: io_ws_stream
  ws_last_activity :: int
  ws_last_success :: int
  ws_reconnect_cb :: nat
  ws_back_off_in_seconds :: int
  ws_status :: io_ws_connection_status
  ws_tasks :: "(io_ws_task \<times> int) list"
  ws_pal :: "pal_ws_call list"
  ws_completed :: "(nat \<times> nat \<times> prx_error) list"
  ws_freed :: bool

definition ws_do_next :: "io_ws_task \<Rightarrow> io_ws_connection \<Rightarrow> io_ws_connection" where
  "ws_do_next t c = c\<lparr>ws_tasks := ws_tasks c @ [(t, 0)]\<rparr>"

definition ws_do_later :: "io_ws_task \<Rightarrow> int \<Rightarrow> io_ws_connection \<Rightarrow> io_ws_connection" where
  "ws_do_later t d c = c\<lparr>ws_tasks := filter (\<lambda>(t', _). t' \<noteq> t) (ws_tasks c) @ [(t, d)]\<rparr>"

definition ws_pal_call :: "pal_ws_call \<Rightarrow> io_ws_connection \<Rightarrow> io_ws_connection" where
  "ws_pal_call p c = c\<lparr>ws_pal := ws_pal c @ [p]\<rparr>"

section \<open>The inbound stream\<close>

definition q_put_buffer :: "addr \<Rightarrow> io_queue_buffer \<Rightarrow> io_queue \<Rightarrow> io_queue" where
  "q_put_buffer a b q = q\<lparr>q_bufs := (q_bufs q)(a \<mapsto> b)\<rparr>"

text \<open>
  The loop of the reader. Equality of the unsigned \<open>length\<close> and \<open>read_offset\<close> is a difference of zero. A
  current buffer that does not exist any more is an access to freed memory, which ends the run here
  with \<^const>\<open>er_fatal\<close>.
\<close>

function io_ws_reader_loop :: "nat \<Rightarrow> u8 list \<Rightarrow> io_ws_stream \<Rightarrow> prx_error \<times> u8 list \<times> io_ws_stream" where
  "io_ws_reader_loop count read s = (
     if count = 0 then (er_ok, read, s)
     else
       let s = (if wst_current s = None
                then case io_queue_pop_inprogress (wst_queue s) of (a, q) \<Rightarrow> s\<lparr>wst_queue := q, wst_current := a\<rparr>
                else s)
       in case wst_current s of
            None \<Rightarrow> (er_reading, read, s)
          | Some a \<Rightarrow> (case q_bufs (wst_queue s) a of
              None \<Rightarrow> (er_fatal, read, s)
            | Some b \<Rightarrow> (case io_queue_buffer_stream_reader b count of
                (result, data, was_read, b') \<Rightarrow>
                  let q = q_put_buffer a b' (wst_queue s);
                      n = (case was_read of None \<Rightarrow> 0 | Some n \<Rightarrow> n)
                  in if result \<noteq> er_ok then (result, read, s\<lparr>wst_queue := q\<rparr>)
                     else io_ws_reader_loop (count - n) (read @ data)
                            ((if size_sub (qb_length b') (qb_read_offset b') = 0
                              then s\<lparr>wst_queue := io_queue_buffer_release q a, wst_current := None\<rparr>
                              else s\<lparr>wst_queue := q\<rparr>)
                             \<lparr>wst_readable := size_sub (wst_readable s) n\<rparr>))))"
  by pat_completeness auto

lemma io_queue_buffer_release_inprogress:
  "length (q_inprogress (io_queue_buffer_release q a)) \<le> length (q_inprogress q)"
  by (auto simp: io_queue_buffer_release_def io_queue_release_buffer_no_lock_def q_unlink_def Let_def
      length_remove1 split: option.splits)

lemma io_queue_buffer_stream_reader_progress:
  assumes "io_queue_buffer_stream_reader b count = (result, data, was_read, b')" "count \<noteq> 0"
    "size_sub (qb_length b') (qb_read_offset b') \<noteq> 0"
  shows "\<exists>n. was_read = Some n \<and> 0 < n \<and> n \<le> count"
  using assms by (auto simp: io_queue_buffer_stream_reader_def Let_def split: if_splits)

termination io_ws_reader_loop
proof (relation "measure (\<lambda>(count, read, s). count + length (q_inprogress (wst_queue s)) + (if wst_current s = None then 0 else 1))",
    goal_cases)
  case (2 count read s t a b result y data ya was_read b' q n)
  note r = 2
  have t: "length (q_inprogress (wst_queue t)) + 1 \<le>
      length (q_inprogress (wst_queue s)) + (if wst_current s = None then 0 else 1)"
    using r(2,3) by (auto simp: io_queue_pop_inprogress_def io_queue_state_pop_def split: if_splits list.splits)
  have q: "q_inprogress q = q_inprogress (wst_queue t)"
    using r by (simp add: q_put_buffer_def)
  show ?case
  proof (cases "size_sub (qb_length b') (qb_read_offset b') = 0")
    case True
    then show ?thesis
      using t q r(1,3) io_queue_buffer_release_inprogress [of q a] by simp
  next
    case False
    then obtain k where "was_read = Some k" "0 < k" "k \<le> count"
      using io_queue_buffer_stream_reader_progress [of b count result data was_read b'] r by auto
    then show ?thesis
      using t q r False by simp
  qed
qed simp


definition io_ws_connection_stream_reader ::
  "io_ws_connection \<Rightarrow> nat \<Rightarrow> prx_error \<times> u8 list \<times> io_ws_connection" where
  "io_ws_connection_stream_reader c count = (case io_ws_reader_loop count [] (ws_inbound c) of
     (result, read, s) \<Rightarrow> (result, read, c\<lparr>ws_inbound := s\<rparr>))"

definition io_ws_connection_stream_readable :: "io_ws_connection \<Rightarrow> nat" where
  "io_ws_connection_stream_readable c = wst_readable (ws_inbound c)"

section \<open>The outbound stream\<close>

lemma io_queue_buffer_release_ready:
  "length (q_ready (io_queue_buffer_release q a)) \<le> length (q_ready q)"
  by (auto simp: io_queue_buffer_release_def io_queue_release_buffer_no_lock_def q_unlink_def Let_def
      length_remove1 split: option.splits)

function io_ws_release_ready :: "io_queue \<Rightarrow> io_queue" where
  "io_ws_release_ready q = (case io_queue_pop_ready q of
     (None, q) \<Rightarrow> q
   | (Some a, q) \<Rightarrow> io_ws_release_ready (io_queue_buffer_release q a))"
  by pat_completeness auto
termination io_ws_release_ready
proof (relation "measure (\<lambda>q. length (q_ready q))", goal_cases)
  case (2 q r q' a)
  then have "length (q_ready q') < length (q_ready q)"
    by (auto simp: io_queue_pop_ready_def io_queue_state_pop_def split: list.splits)
  then show ?case
    using io_queue_buffer_release_ready [of q' a] by simp
qed simp

text \<open>The reset of the outbound stream, which takes the ready buffers of the inbound queue.\<close>

definition io_ws_connection_stream_reset :: "io_ws_connection \<Rightarrow> prx_error \<times> io_ws_connection" where
  "io_ws_connection_stream_reset c = (
     let c = c\<lparr>ws_inbound := (ws_inbound c)\<lparr>wst_queue := io_ws_release_ready (wst_queue (ws_inbound c))\<rparr>\<rparr>;
         out = ws_outbound c
     in (er_ok, c\<lparr>ws_outbound := (case wst_current out of
           None \<Rightarrow> out
         | Some a \<Rightarrow> out\<lparr>wst_current := None, wst_queue := io_queue_buffer_release (wst_queue out) a\<rparr>)\<rparr>))"

definition q_set_flags :: "addr \<Rightarrow> i32 \<Rightarrow> io_queue \<Rightarrow> io_queue" where
  "q_set_flags a f q = (case q_bufs q a of
     None \<Rightarrow> q
   | Some b \<Rightarrow> q_put_buffer a (b\<lparr>qb_flags := f\<rparr>) q)"

text \<open>A full current buffer becomes a ready fragment.\<close>

definition io_ws_flush_full :: "io_ws_stream \<Rightarrow> io_ws_stream" where
  "io_ws_flush_full s = (case wst_current s of
     None \<Rightarrow> s
   | Some a \<Rightarrow> (case q_bufs (wst_queue s) a of
       None \<Rightarrow> s
     | Some b \<Rightarrow> if size_sub (qb_length b) (qb_write_offset b) = 0
         then s\<lparr>wst_queue := io_queue_buffer_set_ready
                    (q_set_flags a pal_wsclient_buffer_type_binary_fragment (wst_queue s)) a,
                wst_current := None\<rparr>
         else s))"

definition io_ws_new_frame :: "allocator \<Rightarrow> io_ws_stream \<Rightarrow> prx_error \<times> io_ws_stream" where
  "io_ws_new_frame A s = (
     if wst_current s \<noteq> None then (er_ok, s)
     else case io_queue_create_buffer A (wst_queue s) None DEFAULT_FRAME_SIZE of
       (result, a, q) \<Rightarrow> (result, s\<lparr>wst_queue := q, wst_current := a\<rparr>))"

text \<open>
  The loop of the writer. The branches that end with \<^const>\<open>er_fatal\<close> stand for a current buffer that is
  gone or still full, which the two steps before them exclude for a stream in order.
\<close>

function io_ws_writer_loop :: "allocator \<Rightarrow> u8 list \<Rightarrow> io_ws_stream \<Rightarrow> prx_error \<times> io_ws_stream" where
  "io_ws_writer_loop A data s = (
     if data = [] then (er_ok, s)
     else case io_ws_new_frame A (io_ws_flush_full s) of
       (result, s) \<Rightarrow>
         if result \<noteq> er_ok then (result, s)
         else case wst_current s of
           None \<Rightarrow> (er_fatal, s)
         | Some a \<Rightarrow> (case q_bufs (wst_queue s) a of
             None \<Rightarrow> (er_fatal, s)
           | Some b \<Rightarrow>
               let avail = size_sub (qb_length b) (qb_write_offset b); to_write = min avail (length data)
               in if avail = 0 then (er_fatal, s)
                  else case io_queue_buffer_stream_writer b (Some data) to_write of
                    (result, b) \<Rightarrow>
                      if result \<noteq> er_ok then (result, s\<lparr>wst_queue := q_put_buffer a b (wst_queue s)\<rparr>)
                      else io_ws_writer_loop A (drop to_write data) (s\<lparr>wst_queue := q_put_buffer a b (wst_queue s)\<rparr>)))"
  by pat_completeness auto
termination io_ws_writer_loop
  by (relation "measure (\<lambda>(A, data, s). length data)") auto

definition io_ws_connection_stream_writer ::
  "allocator \<Rightarrow> io_ws_connection \<Rightarrow> u8 list \<Rightarrow> prx_error \<times> io_ws_connection" where
  "io_ws_connection_stream_writer A c data = (case io_ws_writer_loop A data (ws_outbound c) of
     (result, s) \<Rightarrow> (result, c\<lparr>ws_outbound := s\<rparr>))"

definition io_ws_connection_stream_writeable :: "io_ws_connection \<Rightarrow> nat" where
  "io_ws_connection_stream_writeable c = SIZE_MOD - 1"

text \<open>The interfaces of the two streams; their context is the connection.\<close>

definition io_ws_inbound_itf :: "io_ws_connection \<Rightarrow> io_ws_connection io_stream" where
  "io_ws_inbound_itf c = \<lparr>st_context = c, st_readable = Some io_ws_connection_stream_readable,
     st_reader = Some io_ws_connection_stream_reader, st_reset = None, st_writeable = None, st_writer = None,
     st_close = None\<rparr>"

definition io_ws_outbound_itf :: "allocator \<Rightarrow> io_ws_connection \<Rightarrow> io_ws_connection io_stream" where
  "io_ws_outbound_itf A c = \<lparr>st_context = c, st_readable = None, st_reader = None,
     st_reset = Some io_ws_connection_stream_reset, st_writeable = Some io_ws_connection_stream_writeable,
     st_writer = Some (io_ws_connection_stream_writer A), st_close = None\<rparr>"


section \<open>Tasks of the connection\<close>

definition io_ws_connection_disconnect :: "io_ws_connection \<Rightarrow> io_ws_connection" where
  "io_ws_connection_disconnect c = (
     let c = c\<lparr>ws_outbound := (ws_outbound c)\<lparr>wst_queue := io_queue_rollback (wst_queue (ws_outbound c))\<rparr>\<rparr>
     in if ws_status c = io_ws_connection_status_connected then ws_pal_call call_disconnect c else c)"

definition io_ws_stream_free :: "io_ws_stream \<Rightarrow> io_ws_stream" where
  "io_ws_stream_free s = s\<lparr>wst_queue := io_queue_free (case wst_current s of
     None \<Rightarrow> wst_queue s | Some a \<Rightarrow> io_queue_buffer_release (wst_queue s) a)\<rparr>"

text \<open>The status is set before it is tested, as in the code.\<close>

definition io_ws_connection_free :: "io_ws_connection \<Rightarrow> io_ws_connection" where
  "io_ws_connection_free c = (
     let c = c\<lparr>ws_status := io_ws_connection_status_closing\<rparr>
     in if ws_status c = io_ws_connection_status_connected then ws_pal_call call_disconnect c
        else if ws_wsclient c then ws_pal_call call_close c
        else c\<lparr>ws_status := io_ws_connection_status_closed, ws_tasks := [],
               ws_inbound := io_ws_stream_free (ws_inbound c), ws_outbound := io_ws_stream_free (ws_outbound c),
               ws_freed := True\<rparr>)"

definition io_ws_connection_clear_failures :: "int \<Rightarrow> io_ws_connection \<Rightarrow> io_ws_connection" where
  "io_ws_connection_clear_failures now c =
     c\<lparr>ws_last_success := now, ws_last_activity := now, ws_back_off_in_seconds := 0\<rparr>"

text \<open>\<open>again\<close> is what the reconnect callback returns.\<close>

definition io_ws_connection_reset :: "bool \<Rightarrow> io_ws_connection \<Rightarrow> io_ws_connection" where
  "io_ws_connection_reset again c = (
     let c = c\<lparr>ws_tasks := []\<rparr>
     in if ws_reconnect_cb c \<noteq> 0 \<and> \<not> again then c
        else
          let c = ws_do_later task_reconnect (ws_back_off_in_seconds c * 1000) c;
              c = (if ws_back_off_in_seconds c = 0 then c\<lparr>ws_back_off_in_seconds := 1\<rparr> else c);
              c = c\<lparr>ws_back_off_in_seconds := ws_back_off_in_seconds c * 2\<rparr>;
              c = (if 1 * 60 * 60 < ws_back_off_in_seconds c then c\<lparr>ws_back_off_in_seconds := 1 * 60 * 60\<rparr> else c)
          in c\<lparr>ws_status := io_ws_connection_status_disconnected\<rparr>)"

text \<open>
  The receiver of a message: it gets its own context and the connection as the inbound stream. The task
  returns nothing where it would use a null pointer, which happens when no ready buffer is the end of a
  message.
\<close>

type_synonym 'x ws_stream_handler = "'x \<Rightarrow> io_ws_connection \<Rightarrow> prx_error \<times> 'x \<times> io_ws_connection"

definition io_ws_stream_delivered :: "io_ws_connection \<Rightarrow> io_ws_connection" where
  "io_ws_stream_delivered c = (
     let s = ws_inbound c
     in c\<lparr>ws_inbound := s\<lparr>wst_queue := (case wst_current s of
            None \<Rightarrow> wst_queue s | Some a \<Rightarrow> io_queue_buffer_release (wst_queue s) a),
          wst_current := None, wst_readable := 0\<rparr>\<rparr>)"

lemma q_set_state_ready_length: "st \<noteq> qs_ready \<Longrightarrow> length (q_ready (q_set_state st q a)) \<le> length (q_ready q)"
  by (cases st) (auto simp: q_set_state_def io_queue_state_push_def q_unlink_def Let_def length_remove1
      split: option.splits)

function io_ws_deliver_loop ::
  "'x ws_stream_handler \<Rightarrow> int \<Rightarrow> 'x \<Rightarrow> io_ws_connection \<Rightarrow> ('x \<times> io_ws_connection) option" where
  "io_ws_deliver_loop receiver_cb now x c = (case io_queue_pop_ready (wst_queue (ws_inbound c)) of
     (None, q) \<Rightarrow> None
   | (Some a, q) \<Rightarrow> (case q_bufs q a of
       None \<Rightarrow> None
     | Some b \<Rightarrow>
         let c = c\<lparr>ws_inbound := (ws_inbound c)\<lparr>wst_queue := io_queue_buffer_set_inprogress q a,
                    wst_readable := size_add (wst_readable (ws_inbound c)) (qb_length b)\<rparr>\<rparr>
         in if qb_flags b \<noteq> pal_wsclient_buffer_type_binary_msg then io_ws_deliver_loop receiver_cb now x c
            else case receiver_cb x c of
              (result, x, c) \<Rightarrow>
                let c = io_ws_stream_delivered c
                in if result \<noteq> er_ok then Some (x, ws_do_next task_disconnect c)
                   else Some (x, io_ws_connection_clear_failures now c)))"
  by pat_completeness auto
termination io_ws_deliver_loop
proof (relation "measure (\<lambda>(receiver_cb, now, x, c). length (q_ready (wst_queue (ws_inbound c))))", goal_cases)
  case (2 receiver_cb now x c r q a b c')
  then have "length (q_ready q) < length (q_ready (wst_queue (ws_inbound c)))"
    by (auto simp: io_queue_pop_ready_def io_queue_state_pop_def split: list.splits)
  then show ?case
    using 2 q_set_state_ready_length [of qs_inprogress q a] by (simp add: io_queue_buffer_set_inprogress_def)
qed simp

definition io_ws_connection_deliver_stream ::
  "'x ws_stream_handler \<Rightarrow> int \<Rightarrow> 'x \<Rightarrow> io_ws_connection \<Rightarrow> ('x \<times> io_ws_connection) option" where
  "io_ws_connection_deliver_stream receiver_cb now x c =
     io_ws_deliver_loop receiver_cb now x (c\<lparr>ws_inbound := (ws_inbound c)\<lparr>wst_readable := 0\<rparr>\<rparr>)"


text \<open>The callback of a done buffer is taken out before the buffer is released.\<close>

lemma io_queue_buffer_release_done:
  "length (q_done (io_queue_buffer_release q a)) \<le> length (q_done q)"
  by (auto simp: io_queue_buffer_release_def io_queue_release_buffer_no_lock_def q_unlink_def Let_def
      length_remove1 split: option.splits)

function io_ws_deliver_results_loop ::
  "io_queue \<Rightarrow> (nat \<times> nat \<times> prx_error) list \<Rightarrow> io_queue \<times> (nat \<times> nat \<times> prx_error) list" where
  "io_ws_deliver_results_loop q calls = (case io_queue_pop_done q of
     (None, q) \<Rightarrow> (q, calls)
   | (Some a, q) \<Rightarrow> (case q_bufs q a of
       None \<Rightarrow> (q, calls)
     | Some b \<Rightarrow>
         io_ws_deliver_results_loop
           (io_queue_buffer_release (q_put_buffer a (b\<lparr>qb_cb_ptr := 0, qb_ctx := 0, qb_code := er_ok\<rparr>) q) a)
           (if qb_cb_ptr b \<noteq> 0 then calls @ [(qb_cb_ptr b, qb_ctx b, qb_code b)] else calls)))"
  by pat_completeness auto
termination io_ws_deliver_results_loop
proof (relation "measure (\<lambda>(q, calls). length (q_done q))", goal_cases)
  case (2 q calls r q' a b)
  then have "length (q_done q') < length (q_done q)"
    by (auto simp: io_queue_pop_done_def io_queue_state_pop_def split: list.splits)
  then show ?case
    using io_queue_buffer_release_done [of "q_put_buffer a (b\<lparr>qb_cb_ptr := 0, qb_ctx := 0, qb_code := er_ok\<rparr>) q'" a]
    by (simp add: q_put_buffer_def)
qed simp

definition io_ws_connection_deliver_send_results :: "io_ws_connection \<Rightarrow> io_ws_connection" where
  "io_ws_connection_deliver_send_results c = (
     case io_ws_deliver_results_loop (wst_queue (ws_outbound c)) (ws_completed c) of
       (q, calls) \<Rightarrow> c\<lparr>ws_outbound := (ws_outbound c)\<lparr>wst_queue := q\<rparr>, ws_completed := calls\<rparr>)"

definition io_ws_connection_on_disconnected :: "io_ws_connection \<Rightarrow> io_ws_connection" where
  "io_ws_connection_on_disconnected c = (
     if ws_status c = io_ws_connection_status_closing then ws_do_next task_free c
     else if ws_status c = io_ws_connection_status_connected
     then ws_do_next task_reset (c\<lparr>ws_status := io_ws_connection_status_disconnected\<rparr>)
     else c)"

definition io_ws_connection_on_connected :: "int \<Rightarrow> io_ws_connection \<Rightarrow> io_ws_connection" where
  "io_ws_connection_on_connected now c =
     ws_pal_call call_can_recv (ws_pal_call call_can_send
       (c\<lparr>ws_status := io_ws_connection_status_connected, ws_last_activity := now\<rparr>))"

section \<open>Callbacks of the websocket client\<close>

text \<open>A buffer handed out is its address, its length and its type; no buffer is \<^const>\<open>None\<close>.\<close>

definition io_ws_connection_on_begin_receive ::
  "allocator \<Rightarrow> io_ws_connection \<Rightarrow> (addr option \<times> nat) \<times> io_ws_connection" where
  "io_ws_connection_on_begin_receive A c = (
     case io_queue_create_buffer A (wst_queue (ws_inbound c)) None DEFAULT_FRAME_SIZE of
       (result, a, q) \<Rightarrow> ((if result \<noteq> er_ok then (None, 0) else (a, DEFAULT_FRAME_SIZE)),
         c\<lparr>ws_inbound := (ws_inbound c)\<lparr>wst_queue := q\<rparr>\<rparr>))"

definition io_ws_connection_on_end_receive ::
  "io_ws_connection \<Rightarrow> addr option \<Rightarrow> nat \<Rightarrow> i32 \<Rightarrow> prx_error \<Rightarrow> io_ws_connection" where
  "io_ws_connection_on_end_receive c buf len type result = (case buf of
     None \<Rightarrow> c
   | Some a \<Rightarrow>
       let q = wst_queue (ws_inbound c)
       in if result \<noteq> er_ok
          then let c = c\<lparr>ws_inbound := (ws_inbound c)\<lparr>wst_queue := io_queue_buffer_release q a\<rparr>\<rparr>
               in if result \<noteq> er_aborted then ws_do_next task_disconnect c else c
          else
            let q = (case q_bufs q a of
                       None \<Rightarrow> q | Some b \<Rightarrow> q_put_buffer a (b\<lparr>qb_flags := type, qb_length := len\<rparr>) q);
                c = c\<lparr>ws_inbound := (ws_inbound c)\<lparr>wst_queue := io_queue_buffer_set_ready q a\<rparr>\<rparr>
            in if type = pal_wsclient_buffer_type_binary_msg then ws_do_next task_deliver_stream c else c)"

definition io_ws_connection_on_begin_send ::
  "io_ws_connection \<Rightarrow> (addr option \<times> nat \<times> i32) \<times> io_ws_connection" where
  "io_ws_connection_on_begin_send c = (
     case io_queue_pop_ready (wst_queue (ws_outbound c)) of
       (r, q) \<Rightarrow> ((case r of
           None \<Rightarrow> (None, 0, pal_wsclient_buffer_type_unknown)
         | Some a \<Rightarrow> (case q_bufs q a of
             None \<Rightarrow> (Some a, 0, 0) | Some b \<Rightarrow> (Some a, qb_write_offset b, qb_flags b))),
         c\<lparr>ws_outbound := (ws_outbound c)\<lparr>wst_queue := q\<rparr>\<rparr>))"

lemma q_set_state_inprogress_length:
  "st \<noteq> qs_inprogress \<Longrightarrow> length (q_inprogress (q_set_state st q a)) \<le> length (q_inprogress q)"
  by (cases st) (auto simp: q_set_state_def io_queue_state_push_def q_unlink_def Let_def length_remove1
      split: option.splits)

function io_ws_all_done :: "io_queue \<Rightarrow> io_queue" where
  "io_ws_all_done q = (case io_queue_pop_inprogress q of
     (None, q) \<Rightarrow> q
   | (Some a, q) \<Rightarrow> io_ws_all_done (io_queue_buffer_set_done q a))"
  by pat_completeness auto
termination io_ws_all_done
proof (relation "measure (\<lambda>q. length (q_inprogress q))", goal_cases)
  case (2 q r q' a)
  then have "length (q_inprogress q') < length (q_inprogress q)"
    by (auto simp: io_queue_pop_inprogress_def io_queue_state_pop_def split: list.splits)
  then show ?case
    using q_set_state_inprogress_length [of qs_done q' a] by (simp add: io_queue_buffer_set_done_def)
qed simp

definition io_ws_connection_on_end_send ::
  "io_ws_connection \<Rightarrow> addr option \<Rightarrow> prx_error \<Rightarrow> io_ws_connection" where
  "io_ws_connection_on_end_send c buf result = (case buf of
     None \<Rightarrow> c
   | Some a \<Rightarrow> (case q_bufs (wst_queue (ws_outbound c)) a of
       None \<Rightarrow> c
     | Some b \<Rightarrow>
         let q = io_queue_buffer_set_inprogress (q_put_buffer a (b\<lparr>qb_code := result\<rparr>) (wst_queue (ws_outbound c))) a;
             with_queue = (\<lambda>q. c\<lparr>ws_outbound := (ws_outbound c)\<lparr>wst_queue := q\<rparr>\<rparr>)
         in if result = er_ok \<and> qb_flags b = pal_wsclient_buffer_type_binary_msg
            then ws_do_next task_deliver_send_results (with_queue (io_ws_all_done q))
            else if result \<noteq> er_ok \<and> result \<noteq> er_aborted then ws_do_next task_disconnect (with_queue q)
            else with_queue q))"

datatype pal_ws_event =
    pal_wsclient_event_connected prx_error
  | pal_wsclient_event_begin_recv
  | pal_wsclient_event_end_recv "addr option" nat i32 prx_error
  | pal_wsclient_event_begin_send
  | pal_wsclient_event_end_send "addr option" prx_error
  | pal_wsclient_event_disconnected
  | pal_wsclient_event_closed

text \<open>A failed connect is treated as a disconnect of a connected client.\<close>

definition io_ws_connection_event_handler ::
  "allocator \<Rightarrow> pal_ws_event \<Rightarrow> io_ws_connection \<Rightarrow> (addr option \<times> nat \<times> i32) \<times> io_ws_connection" where
  "io_ws_connection_event_handler A ev c = (case ev of
     pal_wsclient_event_connected error \<Rightarrow> ((None, 0, 0),
       if error = er_ok then ws_do_next task_on_connected c
       else ws_do_next task_on_disconnected (c\<lparr>ws_status := io_ws_connection_status_connected\<rparr>))
   | pal_wsclient_event_disconnected \<Rightarrow> ((None, 0, 0), ws_do_next task_on_disconnected c)
   | pal_wsclient_event_closed \<Rightarrow> ((None, 0, 0), ws_do_next task_free (c\<lparr>ws_wsclient := False\<rparr>))
   | pal_wsclient_event_begin_recv \<Rightarrow>
       (case io_ws_connection_on_begin_receive A c of ((a, n), c) \<Rightarrow> ((a, n, 0), c))
   | pal_wsclient_event_end_recv a n type error \<Rightarrow> ((None, 0, 0), io_ws_connection_on_end_receive c a n type error)
   | pal_wsclient_event_begin_send \<Rightarrow> io_ws_connection_on_begin_send c
   | pal_wsclient_event_end_send a error \<Rightarrow> ((None, 0, 0), io_ws_connection_on_end_send c a error))"


section \<open>Monitoring and connecting\<close>

definition io_ws_connection_monitor :: "int \<Rightarrow> io_ws_connection \<Rightarrow> io_ws_connection" where
  "io_ws_connection_monitor now c = (
     if ws_expiry c \<noteq> 0 \<and> ws_expiry c < now then ws_do_next task_disconnect c
     else
       let time_diff = (of_int (now - ws_last_activity c) :: u32); interval = ws_keep_alive_interval c
       in if interval \<le> time_diff \<and> 2 * interval \<le> time_diff then ws_do_next task_disconnect c
          else
            let time_to_wait = (if interval \<le> time_diff then interval else interval - time_diff);
                time_to_wait = (if ws_expiry c \<noteq> 0
                                then min time_to_wait (of_int (ws_expiry c - now)) else time_to_wait)
            in ws_do_later task_monitor (uint time_to_wait) c)"

text \<open>
  What the task that connects depends on: the results of the websocket client, of the token provider of
  the address, and which of the user name, the password and their header keys are given.
\<close>

record ws_reconnect_env =
  re_create :: prx_error
  re_token_provider :: bool
  re_token :: prx_error
  re_ttl :: int
  re_policy :: bool
  re_user_name :: bool
  re_password :: bool
  re_user_header_key :: bool
  re_pwd_header_key :: bool
  re_add_user :: prx_error
  re_add_password :: prx_error
  re_connect :: prx_error

definition ws_add_header :: "bool \<Rightarrow> bool \<Rightarrow> prx_error \<Rightarrow> prx_error" where
  "ws_add_header value key add = (if \<not> value then er_ok else if \<not> key then er_arg else add)"

text \<open>The first block of the task: a client with its authorization headers. A client that exists is kept as it is.\<close>

definition io_ws_connection_setup :: "ws_reconnect_env \<Rightarrow> int \<Rightarrow> io_ws_connection \<Rightarrow> prx_error \<times> io_ws_connection" where
  "io_ws_connection_setup R now c = (
     if ws_wsclient c then (er_ok, c)
     else if re_create R \<noteq> er_ok then (re_create R, c)
     else
       let c = c\<lparr>ws_wsclient := True\<rparr>
       in if re_token_provider R \<and> re_token R \<noteq> er_ok then (re_token R, c)
          else
            let c = (if re_token_provider R then c\<lparr>ws_expiry := now + re_ttl R\<rparr> else c);
                username = (re_token_provider R \<and> re_policy R \<or> re_user_name R);
                password = (re_token_provider R \<or> re_password R);
                result = ws_add_header username (re_user_header_key R) (re_add_user R)
            in if result \<noteq> er_ok then (result, c)
               else (ws_add_header password (re_pwd_header_key R) (re_add_password R), c))"

definition io_ws_connection_reconnect :: "ws_reconnect_env \<Rightarrow> int \<Rightarrow> io_ws_connection \<Rightarrow> io_ws_connection" where
  "io_ws_connection_reconnect R now c = (case io_ws_connection_setup R now c of
     (result, c) \<Rightarrow>
       if result \<noteq> er_ok then ws_do_next task_reset c
       else
         let c = ws_pal_call call_connect c
         in if re_connect R \<noteq> er_ok then ws_do_next task_reset c
            else ws_do_next task_monitor ((ws_pal_call call_can_recv c)\<lparr>ws_last_activity := now\<rparr>))"

text \<open>
  The outcomes of cloning the address, of making the header key strings and the scheduler, and of the two
  queues. A connection that cannot be completed is freed again.
\<close>

definition io_ws_connection_create ::
  "allocator \<Rightarrow> bool \<Rightarrow> prx_error \<Rightarrow> bool \<Rightarrow> prx_error \<Rightarrow> bool \<times> prx_error \<times> bool \<times> prx_error \<Rightarrow>
     bool \<times> prx_error \<times> bool \<times> prx_error \<Rightarrow> prx_error \<times> io_ws_connection option" where
  "io_ws_connection_create A zalloc_ok clone_result keys_ok sched_result inq outq = (
     if \<not> zalloc_ok then (er_out_of_memory, None)
     else if clone_result \<noteq> er_ok then (clone_result, None)
     else if \<not> keys_ok then (er_out_of_memory, None)
     else if sched_result \<noteq> er_ok then (sched_result, None)
     else case inq of (za, lk, pza, plk) \<Rightarrow> (case io_queue_create A za lk pza plk of
       (result, None) \<Rightarrow> (result, None)
     | (_, Some inbound) \<Rightarrow> (case outq of (za, lk, pza, plk) \<Rightarrow> (case io_queue_create A za lk pza plk of
         (result, None) \<Rightarrow> (result, None)
       | (_, Some outbound) \<Rightarrow> (er_ok, Some \<lparr>
           ws_expiry = 0, ws_keep_alive_interval = 60 * 1000, ws_wsclient = False,
           ws_outbound = \<lparr>wst_queue = outbound, wst_current = None, wst_readable = 0\<rparr>,
           ws_inbound = \<lparr>wst_queue = inbound, wst_current = None, wst_readable = 0\<rparr>,
           ws_last_activity = 0, ws_last_success = 0, ws_reconnect_cb = 0, ws_back_off_in_seconds = 0,
           ws_status = io_ws_connection_status_disconnected, ws_tasks = [], ws_pal = [], ws_completed = [],
           ws_freed = False\<rparr>)))))"

definition io_ws_connection_connect :: "nat \<Rightarrow> io_ws_connection \<Rightarrow> prx_error \<times> io_ws_connection" where
  "io_ws_connection_connect reconnect_cb c =
     (er_ok, ws_do_next task_reconnect (c\<lparr>ws_reconnect_cb := reconnect_cb\<rparr>))"

section \<open>Sending and closing\<close>

text \<open>\<open>can_send\<close> is the result of asking the client to send.\<close>

definition io_ws_connection_send ::
  "'x ws_stream_handler \<Rightarrow> nat \<Rightarrow> nat \<Rightarrow> prx_error \<Rightarrow> 'x \<Rightarrow> io_ws_connection \<Rightarrow> prx_error \<times> 'x \<times> io_ws_connection" where
  "io_ws_connection_send sender_cb complete_cb complete_ctx can_send x c = (
     case sender_cb x c of (result, x, c) \<Rightarrow>
       if result \<noteq> er_ok \<or> wst_current (ws_outbound c) = None
       then (result, x, if complete_cb \<noteq> 0
               then c\<lparr>ws_completed := ws_completed c @ [(complete_cb, complete_ctx, result)]\<rparr> else c)
       else
         let out = ws_outbound c; a = the (wst_current out);
             q = io_queue_buffer_set_cb (q_set_flags a pal_wsclient_buffer_type_binary_msg (wst_queue out)) a
                   complete_cb complete_ctx;
             c = c\<lparr>ws_outbound := out\<lparr>wst_queue := io_queue_buffer_set_ready q a, wst_current := None\<rparr>\<rparr>
         in if \<not> ws_wsclient c then (er_ok, x, c)
            else
              let c = ws_pal_call call_can_send c
              in (can_send, x, if can_send = er_ok then ws_pal_call call_can_recv c else c))"

definition io_ws_connection_close :: "io_ws_connection \<Rightarrow> prx_error \<times> io_ws_connection" where
  "io_ws_connection_close c = (
     let c = c\<lparr>ws_reconnect_cb := 0,
               ws_outbound := (ws_outbound c)\<lparr>wst_queue := io_queue_abort (wst_queue (ws_outbound c))\<rparr>\<rparr>
     in (er_ok, io_ws_connection_free c))"

declare io_ws_reader_loop.simps [simp del] io_ws_release_ready.simps [simp del] io_ws_writer_loop.simps [simp del]
  io_ws_deliver_loop.simps [simp del] io_ws_deliver_results_loop.simps [simp del] io_ws_all_done.simps [simp del]

end
