(* ===== verification/Ws_Stream.thy ===== *)
theory Ws_Stream
  imports Prelude Pool_Supply Io_Ws
begin

text \<open>
  The two streams of a websocket connection meet the stream contracts: what was received is read in order
  across the frames, and what is written is what the frames hold.
\<close>

section \<open>The stream in order\<close>

definition wst_ok :: "io_ws_stream \<Rightarrow> bool" where
  "wst_ok s \<longleftrightarrow> q_inv (wst_queue s) \<and>
     (\<forall>a. wst_current s = Some a \<longrightarrow> a \<in> dom (q_bufs (wst_queue s)) \<and> a \<notin> set (q_linked (wst_queue s)))"

lemma q_put_buffer_sel [simp]:
  "q_ready (q_put_buffer a b q) = q_ready q" "q_inprogress (q_put_buffer a b q) = q_inprogress q"
  "q_done (q_put_buffer a b q) = q_done q" "q_factory (q_put_buffer a b q) = q_factory q"
  "q_linked (q_put_buffer a b q) = q_linked q" "q_bufs (q_put_buffer a b q) = (q_bufs q)(a \<mapsto> b)"
  "q_calls (q_put_buffer a b q) = q_calls q"
  by (simp_all add: q_put_buffer_def q_linked_def)

lemma q_put_buffer_inv: "q_inv q \<Longrightarrow> a \<in> dom (q_bufs q) \<Longrightarrow> qb_ok b \<Longrightarrow> q_inv (q_put_buffer a b q)"
  using q_bufs_update_inv [of q a] by (auto simp: q_put_buffer_def)

text \<open>Releasing a buffer that is in no list.\<close>

lemma io_queue_buffer_release_unlinked:
  assumes q: "q_inv q" and a: "a \<in> dom (q_bufs q)" "a \<notin> set (q_linked q)"
  shows "q_inv (io_queue_buffer_release q a)" "q_bufs (io_queue_buffer_release q a) = (q_bufs q)(a := None)"
    "q_ready (io_queue_buffer_release q a) = q_ready q" "q_inprogress (io_queue_buffer_release q a) = q_inprogress q"
    "q_done (io_queue_buffer_release q a) = q_done q"
    "pool_supplied (q_factory q) \<Longrightarrow> pool_supplied (q_factory (io_queue_buffer_release q a))"
proof -
  obtain b where b: "q_bufs q a = Some b" "qb_queue b"
    using q a(1) q_inv_buf_ok [of q a] by (auto simp: qb_ok_def)
  note e = io_queue_buffer_release_eq [OF b]
  show "q_inv (io_queue_buffer_release q a)" "q_bufs (io_queue_buffer_release q a) = (q_bufs q)(a := None)"
    using io_queue_release_buffer_inv [OF q a(1)] io_queue_release_buffer_effect [OF a(1)] by (simp_all add: e)
  have "0 < pool_live (q_factory q) a"
    using q a(1) by (auto simp: q_inv_def q_owns_def)
  then show "pool_supplied (q_factory (io_queue_buffer_release q a))" if "pool_supplied (q_factory q)"
    using prx_buffer_release_supplied [OF that] by (simp add: e io_queue_release_buffer_no_lock_def Let_def)
  show "q_ready (io_queue_buffer_release q a) = q_ready q" "q_inprogress (io_queue_buffer_release q a) = q_inprogress q"
    "q_done (io_queue_buffer_release q a) = q_done q"
    using io_queue_release_buffer_lists [OF a(2), of qs_ready] io_queue_release_buffer_lists [OF a(2), of qs_inprogress]
      io_queue_release_buffer_lists [OF a(2), of qs_done] by (simp_all add: e)
qed

section \<open>Reading\<close>

definition buf_input :: "io_queue \<Rightarrow> addr \<Rightarrow> u8 list" where
  "buf_input q a = (case q_bufs q a of None \<Rightarrow> [] | Some b \<Rightarrow> qb_input b)"

definition wst_input :: "io_ws_stream \<Rightarrow> u8 list" where
  "wst_input s = (case wst_current s of None \<Rightarrow> [] | Some a \<Rightarrow> buf_input (wst_queue s) a) @
     concat (map (buf_input (wst_queue s)) (q_inprogress (wst_queue s)))"

lemma buf_input_cong: "q_bufs q a = q_bufs q' a \<Longrightarrow> buf_input q a = buf_input q' a"
  by (simp add: buf_input_def)

text \<open>No buffer in progress is empty: one that has been read out is released.\<close>

definition wst_solid :: "io_ws_stream \<Rightarrow> bool" where
  "wst_solid s \<longleftrightarrow> (\<forall>a \<in> set (q_inprogress (wst_queue s)). buf_input (wst_queue s) a \<noteq> [])"

text \<open>What reading leaves alone.\<close>

definition wst_kept :: "io_ws_stream \<Rightarrow> io_ws_stream \<Rightarrow> bool" where
  "wst_kept s s' \<longleftrightarrow> q_ready (wst_queue s') = q_ready (wst_queue s) \<and> q_done (wst_queue s') = q_done (wst_queue s) \<and>
     (\<forall>a \<in> set (q_ready (wst_queue s)). q_bufs (wst_queue s') a = q_bufs (wst_queue s) a) \<and>
     (wst_solid s \<longrightarrow> wst_solid s') \<and>
     (pool_supplied (q_factory (wst_queue s)) \<longrightarrow> pool_supplied (q_factory (wst_queue s')))"

lemma wst_kept_refl [simp]: "wst_kept s s"
  by (simp add: wst_kept_def)

lemma wst_kept_trans: "wst_kept s t \<Longrightarrow> wst_kept t u \<Longrightarrow> wst_kept s u"
  by (auto simp: wst_kept_def)

lemma wst_solid_end: "wst_solid s \<Longrightarrow> wst_input s = [] \<Longrightarrow> q_inprogress (wst_queue s) = []"
  by (cases "q_inprogress (wst_queue s)") (auto simp: wst_solid_def wst_input_def)

text \<open>The step that makes the oldest buffer in progress the current one.\<close>

definition wst_replenish :: "io_ws_stream \<Rightarrow> io_ws_stream" where
  "wst_replenish s = (if wst_current s = None
     then case io_queue_pop_inprogress (wst_queue s) of (a, q) \<Rightarrow> s\<lparr>wst_queue := q, wst_current := a\<rparr> else s)"

lemma wst_replenish_ok:
  assumes "wst_ok s"
  shows "wst_ok (wst_replenish s)" "wst_input (wst_replenish s) = wst_input s"
    "wst_current (wst_replenish s) = None \<Longrightarrow> wst_input s = []"
    "wst_kept s (wst_replenish s)"
    "length (q_inprogress (wst_queue (wst_replenish s))) + (if wst_current (wst_replenish s) = None then 0 else 1) =
       length (q_inprogress (wst_queue s)) + (if wst_current s = None then 0 else 1)"
proof -
  show "wst_ok (wst_replenish s)"
    "length (q_inprogress (wst_queue (wst_replenish s))) + (if wst_current (wst_replenish s) = None then 0 else 1) =
       length (q_inprogress (wst_queue s)) + (if wst_current s = None then 0 else 1)"
    using assms by (auto simp: wst_replenish_def wst_ok_def io_queue_pop_inprogress_def io_queue_state_pop_def
        q_inv_def q_linked_def split: list.splits)
  have [simp]: "buf_input (q\<lparr>q_inprogress := xs\<rparr>) = buf_input q" for q xs
    by (simp add: buf_input_def fun_eq_iff)
  show "wst_kept s (wst_replenish s)"
    by (cases "q_inprogress (wst_queue s)")
       (auto simp: wst_replenish_def wst_kept_def wst_solid_def io_queue_pop_inprogress_def io_queue_state_pop_def)
  show "wst_input (wst_replenish s) = wst_input s"
    by (cases "q_inprogress (wst_queue s)")
       (auto simp: wst_replenish_def wst_input_def io_queue_pop_inprogress_def io_queue_state_pop_def)
  show "wst_input s = []" if "wst_current (wst_replenish s) = None"
    using that by (cases "q_inprogress (wst_queue s)")
       (auto simp: wst_replenish_def wst_input_def io_queue_pop_inprogress_def io_queue_state_pop_def split: if_splits)
qed

lemma wst_read_current:
  assumes s: "wst_ok s" "wst_current s = Some a" "q_bufs (wst_queue s) a = Some b"
    and r: "io_queue_buffer_stream_reader b n = (e, data, was_read, b')" "0 < n"
    and s': "s' = (if size_sub (qb_length b') (qb_read_offset b') = 0
        then s\<lparr>wst_queue := io_queue_buffer_release (q_put_buffer a b' (wst_queue s)) a, wst_current := None\<rparr>
        else s\<lparr>wst_queue := q_put_buffer a b' (wst_queue s)\<rparr>)"
  shows "e = er_ok" "\<exists>k \<le> n. was_read = Some k \<and> data = take k (wst_input s) \<and> length data = k \<and> wst_input s' = drop k (wst_input s)"
    "wst_ok s'" "wst_kept s s'" "q_inprogress (wst_queue s') = q_inprogress (wst_queue s)"
proof -
  let ?q = "q_put_buffer a b' (wst_queue s)"
  have b: "qb_ok b" and a: "a \<in> dom (q_bufs (wst_queue s))" "a \<notin> set (q_linked (wst_queue s))"
    using s q_inv_buf_ok [of "wst_queue s" a b] by (auto simp: wst_ok_def)
  have c: "e = er_ok" "data = take n (qb_input b)" "qb_ok b'" "qb_input b' = drop n (qb_input b)"
    using qb_reader_contract [OF b r(1)] by simp_all
  show "e = er_ok" by (rule c)
  have q: "q_inv ?q" "a \<in> dom (q_bufs ?q)" "a \<notin> set (q_linked ?q)"
    using s a c(3) q_put_buffer_inv [of "wst_queue s" a b'] by (auto simp: wst_ok_def)
  note rel = io_queue_buffer_release_unlinked [OF q]
  have w: "was_read = Some (length data)"
    using r b by (auto simp: io_queue_buffer_stream_reader_def qb_ok_def mem_get_def size_simps Let_def split: if_splits)
  have zero: "size_sub (qb_length b') (qb_read_offset b') = 0 \<longleftrightarrow> qb_input b' = []"
    using c(3) by (auto simp: qb_ok_def qb_input_def size_simps)
  have inp: "wst_input s = qb_input b @ concat (map (buf_input (wst_queue s)) (q_inprogress (wst_queue s)))"
    using s by (simp add: wst_input_def buf_input_def)
  have rest: "map (buf_input (wst_queue s')) (q_inprogress (wst_queue s)) = map (buf_input (wst_queue s)) (q_inprogress (wst_queue s))"
    using a(2) rel(2) by (intro map_cong refl buf_input_cong) (auto simp: s' q_linked_def)
  have head: "(case wst_current s' of None \<Rightarrow> [] | Some a \<Rightarrow> buf_input (wst_queue s') a) = qb_input b'"
    using s(2) zero by (simp add: s' buf_input_def)
  have "q_inprogress (wst_queue s') = q_inprogress (wst_queue s)"
    using rel(4) by (simp add: s')
  then have "wst_input s' = qb_input b' @ concat (map (buf_input (wst_queue s)) (q_inprogress (wst_queue s)))"
    unfolding wst_input_def [of s'] head by (simp only: rest)
  then show "\<exists>k \<le> n. was_read = Some k \<and> data = take k (wst_input s) \<and> length data = k \<and> wst_input s' = drop k (wst_input s)"
    using w c(2,4) inp by (intro exI [of _ "length data"]) (auto simp: min_def)
  show "wst_ok s'"
    using q rel s(2) by (auto simp: wst_ok_def s')
  show "q_inprogress (wst_queue s') = q_inprogress (wst_queue s)"
    using rel by (auto simp: s')
  then have "wst_solid s' = wst_solid s"
    using rest by (simp add: wst_solid_def)
  moreover have "\<forall>x \<in> set (q_ready (wst_queue s)). q_bufs (wst_queue s') x = q_bufs (wst_queue s) x"
    using a(2) rel(2) by (auto simp: s' q_linked_def)
  ultimately show "wst_kept s s'"
    using rel by (simp add: wst_kept_def s')
qed


lemma io_ws_reader_loop_ok:
  "wst_ok s \<Longrightarrow> n \<le> length (wst_input s) \<Longrightarrow>
     \<exists>s'. io_ws_reader_loop n acc s = (er_ok, acc @ take n (wst_input s), s') \<and> wst_ok s' \<and>
       wst_input s' = drop n (wst_input s) \<and> wst_kept s s'"
proof (induction "n + length (q_inprogress (wst_queue s)) + (if wst_current s = None then 0 else 1)"
    arbitrary: n acc s rule: less_induct)
  case less
  show ?case
  proof (cases "n = 0")
    case True
    then show ?thesis
      using less.prems by (simp add: io_ws_reader_loop.simps [of 0])
  next
    case False
    define t where "t = wst_replenish s"
    note t = wst_replenish_ok [OF less.prems(1), folded t_def]
    have "wst_current t \<noteq> None"
      using t(3) less.prems(2) False by force
    then obtain a where a: "wst_current t = Some a" by blast
    then obtain b where b: "q_bufs (wst_queue t) a = Some b"
      using t(1) by (auto simp: wst_ok_def)
    obtain e data was_read b' where r: "io_queue_buffer_stream_reader b n = (e, data, was_read, b')"
      by (cases "io_queue_buffer_stream_reader b n")
    define u where "u = (if size_sub (qb_length b') (qb_read_offset b') = 0
        then t\<lparr>wst_queue := io_queue_buffer_release (q_put_buffer a b' (wst_queue t)) a, wst_current := None\<rparr>
        else t\<lparr>wst_queue := q_put_buffer a b' (wst_queue t)\<rparr>)"
    have n: "0 < n" using False by simp
    note u = wst_read_current [OF t(1) a b r n u_def]
    obtain k where k: "k \<le> n" "was_read = Some k" "data = take k (wst_input s)" "length data = k" "wst_input u = drop k (wst_input s)"
      using u(2) unfolding t(2) by blast
    define v where "v = u\<lparr>wst_readable := size_sub (wst_readable t) k\<rparr>"
    have v: "wst_ok v" "wst_input v = wst_input u" "wst_queue v = wst_queue u" "wst_current v = wst_current u"
        "wst_kept u v"
      using u(3) by (simp_all add: v_def wst_ok_def wst_input_def wst_solid_def wst_kept_def split: option.splits)
    have step: "io_ws_reader_loop n acc s = io_ws_reader_loop (n - k) (acc @ data) v"
      using False a b r u(1) k(2)
      by (subst io_ws_reader_loop.simps) (simp add: t_def [symmetric] wst_replenish_def [symmetric] Let_def u_def v_def)
    have "wst_current u \<noteq> None \<Longrightarrow> 0 < k"
      using io_queue_buffer_stream_reader_progress [OF r False] k(2) a by (auto simp: u_def split: if_splits)
    then have "n - k + length (q_inprogress (wst_queue v)) + (if wst_current v = None then 0 else 1) <
        n + length (q_inprogress (wst_queue s)) + (if wst_current s = None then 0 else 1)"
      using t(5) a u(5) k(1) v(3,4) by (auto split: if_splits)
    moreover have "n - k \<le> length (wst_input v)"
      using less.prems(2) v(2) k(5) by simp
    ultimately obtain s' where "io_ws_reader_loop (n - k) (acc @ data) v = (er_ok, (acc @ data) @ take (n - k) (wst_input v), s')"
        "wst_ok s'" "wst_input s' = drop (n - k) (wst_input v)" "wst_kept v s'"
      using less.hyps [OF _ v(1)] by blast
    moreover have "take k (wst_input s) @ take (n - k) (drop k (wst_input s)) = take n (wst_input s)"
      using k(1) by (metis le_add_diff_inverse take_add)
    moreover have "wst_kept s v"
      using t(4) u(4) v(5) wst_kept_trans by blast
    ultimately show ?thesis
      using step k v(2) wst_kept_trans [of s v s'] by (auto simp: add.commute)
  qed
qed

text \<open>The inbound stream of a connection, whose other parts a reader leaves alone.\<close>

definition ws_in_ok :: "io_ws_connection \<Rightarrow> io_ws_connection \<Rightarrow> bool" where
  "ws_in_ok c0 c \<longleftrightarrow> wst_ok (ws_inbound c) \<and> (\<exists>s. c = c0\<lparr>ws_inbound := s\<rparr>) \<and> wst_kept (ws_inbound c0) (ws_inbound c)"

definition ws_input :: "io_ws_connection \<Rightarrow> u8 list" where
  "ws_input c = wst_input (ws_inbound c)"

interpretation ws_in: in_stream "ws_in_ok c0" ws_input io_ws_connection_stream_reader for c0
proof unfold_locales
  fix c n assume c: "ws_in_ok c0 c" and n: "n \<le> length (ws_input c)"
  obtain s' where "io_ws_reader_loop n [] (ws_inbound c) = (er_ok, [] @ take n (wst_input (ws_inbound c)), s')" "wst_ok s'"
      "wst_input s' = drop n (wst_input (ws_inbound c))" "wst_kept (ws_inbound c) s'"
    using io_ws_reader_loop_ok [of "ws_inbound c" n "[]"] c n by (auto simp: ws_in_ok_def ws_input_def)
  then show "\<exists>c'. io_ws_connection_stream_reader c n = (er_ok, take n (ws_input c), c') \<and> ws_in_ok c0 c' \<and>
      ws_input c' = drop n (ws_input c)"
    using c wst_kept_trans [of "ws_inbound c0" "ws_inbound c" s']
    by (auto simp: io_ws_connection_stream_reader_def ws_in_ok_def ws_input_def)
qed

section \<open>Writing\<close>

text \<open>A frame as the websocket client gets it: its type and its bytes.\<close>

definition buf_frame :: "io_queue \<Rightarrow> addr \<Rightarrow> i32 \<times> u8 list" where
  "buf_frame q a = (case q_bufs q a of
     None \<Rightarrow> (0, []) | Some b \<Rightarrow> (qb_flags b, take (qb_write_offset b) (qb_data b)))"

definition ws_frames :: "io_queue \<Rightarrow> (i32 \<times> u8 list) list" where
  "ws_frames q = map (buf_frame q) (q_ready q)"

lemma buf_frame_cong: "q_bufs q a = q_bufs q' a \<Longrightarrow> buf_frame q a = buf_frame q' a"
  by (simp add: buf_frame_def)

lemma ws_frames_cong: "q_ready q = q_ready q' \<Longrightarrow> (\<And>a. a \<in> set (q_ready q) \<Longrightarrow> q_bufs q a = q_bufs q' a) \<Longrightarrow> ws_frames q = ws_frames q'"
  unfolding ws_frames_def by (auto intro: buf_frame_cong)

definition wst_unflushed :: "io_ws_stream \<Rightarrow> u8 list" where
  "wst_unflushed s = (case wst_current s of None \<Rightarrow> [] | Some a \<Rightarrow> snd (buf_frame (wst_queue s) a))"

definition wst_written :: "io_queue \<Rightarrow> io_ws_stream \<Rightarrow> u8 list" where
  "wst_written q0 s = concat (map snd (drop (length (q_ready q0)) (ws_frames (wst_queue s)))) @ wst_unflushed s"

text \<open>
  The outbound stream while a message is written: since the queue was \<open>q0\<close>, only full fragments have been
  made ready behind its frames, and the current buffer is a frame of the default size.
\<close>

definition wst_out_ok :: "allocator \<Rightarrow> io_queue \<Rightarrow> io_ws_stream \<Rightarrow> bool" where
  "wst_out_ok A q0 s \<longleftrightarrow> wst_ok s \<and> (al_total A \<longrightarrow> pool_supplied (q_factory (wst_queue s))) \<and>
     q_inprogress (wst_queue s) = q_inprogress q0 \<and> q_done (wst_queue s) = q_done q0 \<and>
     (\<exists>F. ws_frames (wst_queue s) = ws_frames q0 @ map (Pair pal_wsclient_buffer_type_binary_fragment) F \<and>
          (\<forall>f \<in> set F. length f = DEFAULT_FRAME_SIZE)) \<and>
     (\<forall>a b. wst_current s = Some a \<longrightarrow> q_bufs (wst_queue s) a = Some b \<longrightarrow> qb_length b = DEFAULT_FRAME_SIZE)"

lemma length_ws_frames [simp]: "length (ws_frames q) = length (q_ready q)"
  by (simp add: ws_frames_def)

lemma ws_frames_split:
  assumes "ws_frames q = ws_frames q0 @ map (Pair t) F"
  shows "drop (length (q_ready q0)) (ws_frames q) = map (Pair t) F"
  using assms length_ws_frames [of q0] by (metis append_eq_conv_conj)

text \<open>Making the current buffer ready, with a new header.\<close>

definition wst_flush :: "io_queue_buffer \<Rightarrow> io_ws_stream \<Rightarrow> addr \<Rightarrow> io_ws_stream" where
  "wst_flush b s a = s\<lparr>wst_queue := io_queue_buffer_set_ready (q_put_buffer a b (wst_queue s)) a, wst_current := None\<rparr>"

lemma wst_flush_ok:
  assumes s: "wst_ok s" "wst_current s = Some a" "q_bufs (wst_queue s) a = Some b0"
    and b: "qb_ok b" "qb_write_offset b = qb_write_offset b0" "qb_data b = qb_data b0"
  shows "wst_ok (wst_flush b s a)"
    "ws_frames (wst_queue (wst_flush b s a)) = ws_frames (wst_queue s) @ [(qb_flags b, wst_unflushed s)]"
    "q_inprogress (wst_queue (wst_flush b s a)) = q_inprogress (wst_queue s)"
    "q_done (wst_queue (wst_flush b s a)) = q_done (wst_queue s)"
    "q_factory (wst_queue (wst_flush b s a)) = q_factory (wst_queue s)"
    "q_ready (wst_queue (wst_flush b s a)) = q_ready (wst_queue s) @ [a]"
    "q_bufs (wst_queue (wst_flush b s a)) = (q_bufs (wst_queue s))(a \<mapsto> b)"
proof -
  have a: "a \<notin> set (q_linked (wst_queue s))" and q: "q_inv (wst_queue s)"
    using s by (auto simp: wst_ok_def)
  let ?q = "q_put_buffer a b (wst_queue s)"
  have e: "wst_queue (wst_flush b s a) = q_set_state qs_ready ?q a"
    by (simp add: wst_flush_def io_queue_buffer_set_ready_def)
  have l: "q_ready (q_set_state qs_ready ?q a) = q_ready (wst_queue s) @ [a]"
      "q_inprogress (q_set_state qs_ready ?q a) = q_inprogress (wst_queue s)"
      "q_done (q_set_state qs_ready ?q a) = q_done (wst_queue s)"
      "q_factory (q_set_state qs_ready ?q a) = q_factory (wst_queue s)"
      "q_bufs (q_set_state qs_ready ?q a) = q_bufs ?q"
    using a b(1) by (auto simp: qb_ok_def q_set_state_def io_queue_state_push_def q_unlink_def q_linked_def remove1_idem Let_def)
  show "q_inprogress (wst_queue (wst_flush b s a)) = q_inprogress (wst_queue s)"
    "q_done (wst_queue (wst_flush b s a)) = q_done (wst_queue s)"
    "q_factory (wst_queue (wst_flush b s a)) = q_factory (wst_queue s)"
    "q_ready (wst_queue (wst_flush b s a)) = q_ready (wst_queue s) @ [a]"
    "q_bufs (wst_queue (wst_flush b s a)) = (q_bufs (wst_queue s))(a \<mapsto> b)"
    using e l by simp_all
  have "q_inv (wst_queue (wst_flush b s a))"
    using q_set_state_inv [OF q_put_buffer_inv [OF q _ b(1), of a]] s(3) e by simp blast
  then show "wst_ok (wst_flush b s a)"
    by (simp add: wst_ok_def wst_flush_def)
  have "map (buf_frame (wst_queue (wst_flush b s a))) (q_ready (wst_queue s)) = map (buf_frame (wst_queue s)) (q_ready (wst_queue s))"
    using a e l(5) by (intro map_cong refl buf_frame_cong) (auto simp: q_linked_def)
  then show "ws_frames (wst_queue (wst_flush b s a)) = ws_frames (wst_queue s) @ [(qb_flags b, wst_unflushed s)]"
    using e l b s by (simp add: ws_frames_def wst_unflushed_def) (simp add: buf_frame_def)
qed

lemma io_ws_flush_full_ok:
  assumes s: "wst_out_ok A q0 s"
  shows "wst_out_ok A q0 (io_ws_flush_full s)" "wst_written q0 (io_ws_flush_full s) = wst_written q0 s"
    "\<forall>a b. wst_current (io_ws_flush_full s) = Some a \<longrightarrow> q_bufs (wst_queue (io_ws_flush_full s)) a = Some b \<longrightarrow>
       qb_write_offset b < qb_length b"
proof -
  have ok: "wst_ok s"
    using s by (simp add: wst_out_ok_def)
  have "wst_out_ok A q0 (io_ws_flush_full s) \<and> wst_written q0 (io_ws_flush_full s) = wst_written q0 s \<and>
      (\<forall>a b. wst_current (io_ws_flush_full s) = Some a \<longrightarrow> q_bufs (wst_queue (io_ws_flush_full s)) a = Some b \<longrightarrow>
         qb_write_offset b < qb_length b)"
  proof (cases "wst_current s")
    case None
    then show ?thesis using s by (simp add: io_ws_flush_full_def)
  next
    case (Some a)
    then obtain b where b: "q_bufs (wst_queue s) a = Some b" and qb: "qb_ok b" "qb_length b = DEFAULT_FRAME_SIZE"
      using s ok q_inv_buf_ok [of "wst_queue s" a] by (auto simp: wst_ok_def wst_out_ok_def)
    show ?thesis
    proof (cases "size_sub (qb_length b) (qb_write_offset b) = 0")
      case False
      then have "qb_write_offset b < qb_length b"
        using qb by (auto simp: qb_ok_def size_simps)
      then show ?thesis using s Some b False by (simp add: io_ws_flush_full_def)
    next
      case True
      let ?t = "wst_flush (b\<lparr>qb_flags := pal_wsclient_buffer_type_binary_fragment\<rparr>) s a"
      have e: "io_ws_flush_full s = ?t"
        using True Some b by (simp add: io_ws_flush_full_def wst_flush_def q_set_flags_def)
      obtain F where F: "ws_frames (wst_queue s) = ws_frames q0 @ map (Pair pal_wsclient_buffer_type_binary_fragment) F"
          "\<forall>f \<in> set F. length f = DEFAULT_FRAME_SIZE"
        using s by (auto simp: wst_out_ok_def)
      have u: "length (wst_unflushed s) = DEFAULT_FRAME_SIZE"
        using True qb Some b by (simp add: wst_unflushed_def buf_frame_def qb_ok_def size_simps)
      note f = wst_flush_ok [OF ok Some b, of "b\<lparr>qb_flags := pal_wsclient_buffer_type_binary_fragment\<rparr>"]
      have frames: "ws_frames (wst_queue ?t) = ws_frames q0 @ map (Pair pal_wsclient_buffer_type_binary_fragment) (F @ [wst_unflushed s])"
        using f(2) F(1) qb(1) by (simp add: qb_ok_def)
      have cur: "wst_current ?t = None"
        by (simp add: wst_flush_def)
      have "\<exists>F. ws_frames (wst_queue ?t) = ws_frames q0 @ map (Pair pal_wsclient_buffer_type_binary_fragment) F \<and>
          (\<forall>f \<in> set F. length f = DEFAULT_FRAME_SIZE)"
        using frames u F(2) by (intro exI [of _ "F @ [wst_unflushed s]"]) auto
      then have "wst_out_ok A q0 ?t"
        using s f qb(1) cur by (simp add: wst_out_ok_def qb_ok_def)
      moreover have "wst_written q0 ?t = wst_written q0 s"
        using ws_frames_split [OF frames] ws_frames_split [OF F(1)] cur
        by (simp add: wst_written_def wst_unflushed_def comp_def)
      ultimately show ?thesis
        using e cur by simp
    qed
  qed
  then show "wst_out_ok A q0 (io_ws_flush_full s)" "wst_written q0 (io_ws_flush_full s) = wst_written q0 s"
    "\<forall>a b. wst_current (io_ws_flush_full s) = Some a \<longrightarrow> q_bufs (wst_queue (io_ws_flush_full s)) a = Some b \<longrightarrow>
       qb_write_offset b < qb_length b"
    by simp_all
qed


lemma io_queue_create_buffer_empty:
  assumes "io_queue_create_buffer A q None len = (result, r, q')"
  shows "q_ready q' = q_ready q" "q_inprogress q' = q_inprogress q" "q_done q' = q_done q"
    "prx_buffer_new A dynamic_pool (q_factory q) (size_add len SIZEOF_IO_QUEUE_BUFFER) = (r, q_factory q')"
    "r = None \<Longrightarrow> result = er_out_of_memory \<and> q_bufs q' = q_bufs q"
    "r = Some a \<Longrightarrow> result = er_ok \<and> (\<exists>b. q_bufs q' = (q_bufs q)(a \<mapsto> b) \<and> qb_write_offset b = 0 \<and> qb_length b = len \<and> qb_read_offset b = 0)"
  using assms by (auto simp: io_queue_create_buffer_def Let_def split: prod.splits option.splits)

lemma frame_size_small: "DEFAULT_FRAME_SIZE + SIZEOF_IO_QUEUE_BUFFER + SIZEOF_PRX_BUFFER < SIZE_MOD"
  by (simp add: DEFAULT_FRAME_SIZE_def SIZEOF_IO_QUEUE_BUFFER_def SIZEOF_PRX_BUFFER_def SIZE_MOD_def)

lemma io_queue_create_frame_inv:
  assumes "q_inv q" "io_queue_create_buffer A q None DEFAULT_FRAME_SIZE = (result, r, q')"
  shows "q_inv q'" "r = Some a \<Longrightarrow> q_bufs q a = None"
  using io_queue_create_buffer_inv [OF assms(1) frame_size_small _ assms(2)] by (auto split: option.splits)

lemma io_ws_new_frame_ok:
  assumes s: "wst_out_ok A q0 s"
    and avail: "\<forall>a b. wst_current s = Some a \<longrightarrow> q_bufs (wst_queue s) a = Some b \<longrightarrow> qb_write_offset b < qb_length b"
    and new: "io_ws_new_frame A s = (result, s')"
  shows "wst_out_ok A q0 s'" "wst_written q0 s' = wst_written q0 s"
    "if result = er_ok then \<exists>a b. wst_current s' = Some a \<and> q_bufs (wst_queue s') a = Some b \<and> qb_write_offset b < qb_length b
     else \<not> al_total A"
proof -
  have ok: "wst_ok s"
    using s by (simp add: wst_out_ok_def)
  have "wst_out_ok A q0 s' \<and> wst_written q0 s' = wst_written q0 s \<and> (if result = er_ok
      then \<exists>a b. wst_current s' = Some a \<and> q_bufs (wst_queue s') a = Some b \<and> qb_write_offset b < qb_length b else \<not> al_total A)"
  proof (cases "wst_current s")
    case (Some a)
    then show ?thesis
      using new s ok avail by (auto simp: io_ws_new_frame_def wst_ok_def)
  next
    case None
    obtain r q where c: "io_queue_create_buffer A (wst_queue s) None DEFAULT_FRAME_SIZE = (result, r, q)"
        and s': "s' = s\<lparr>wst_queue := q, wst_current := r\<rparr>"
      using new None by (auto simp: io_ws_new_frame_def split: prod.splits)
    note e = io_queue_create_buffer_empty [OF c]
    have inv: "q_inv q" and fresh: "\<And>a. r = Some a \<Longrightarrow> q_bufs (wst_queue s) a = None"
      using io_queue_create_frame_inv [OF _ c] ok by (auto simp: wst_ok_def)
    have linked: "set (q_linked (wst_queue s)) \<subseteq> dom (q_bufs (wst_queue s))"
      using ok by (auto simp: wst_ok_def q_inv_def)
    have bufs: "q_bufs q a = q_bufs (wst_queue s) a" if "a \<in> set (q_ready (wst_queue s))" for a
    proof (cases r)
      case (Some a')
      then show ?thesis
        using e(6) [OF Some] fresh [OF Some] linked that by (auto simp: q_linked_def)
    qed (use e(5) in simp)
    have frames: "ws_frames q = ws_frames (wst_queue s)"
      using bufs by (intro ws_frames_cong) (simp_all add: e(1))
    have sup: "pool_supplied (q_factory q)" "r \<noteq> None" if "al_total A"
      using prx_buffer_new_supplied [OF that, of "q_factory (wst_queue s)" "size_add DEFAULT_FRAME_SIZE SIZEOF_IO_QUEUE_BUFFER"]
        e(4) s that by (auto simp: wst_out_ok_def)
    have cur: "a \<in> dom (q_bufs q) \<and> a \<notin> set (q_linked q) \<and> (\<forall>b. q_bufs q a = Some b \<longrightarrow> qb_write_offset b = 0 \<and> qb_length b = DEFAULT_FRAME_SIZE)"
      if "r = Some a" for a
      using e(6) [OF that] fresh [OF that] linked e(1-3) by (auto simp: q_linked_def)
    have "wst_ok s'"
      using inv cur by (auto simp: wst_ok_def s')
    then have "wst_out_ok A q0 s'"
      using s frames sup cur e(2,3) by (auto simp: wst_out_ok_def s')
    moreover have "wst_unflushed s' = []"
      using cur by (auto simp: wst_unflushed_def s' buf_frame_def split: option.splits)
    then have "wst_written q0 s' = wst_written q0 s"
      using frames None by (simp add: wst_written_def s' wst_unflushed_def)
    moreover have "result = er_ok \<Longrightarrow> r \<noteq> None" "result \<noteq> er_ok \<Longrightarrow> r = None"
      using e(5,6) by (cases r; auto)+
    ultimately show ?thesis
      using cur sup(2) by (auto simp: s' DEFAULT_FRAME_SIZE_def)
  qed
  then show "wst_out_ok A q0 s'" "wst_written q0 s' = wst_written q0 s"
    "if result = er_ok then \<exists>a b. wst_current s' = Some a \<and> q_bufs (wst_queue s') a = Some b \<and> qb_write_offset b < qb_length b
     else \<not> al_total A" by blast+
qed

lemma wst_write_current:
  assumes s: "wst_out_ok A q0 s" "wst_current s = Some a" "q_bufs (wst_queue s) a = Some b"
    and n: "qb_write_offset b + n \<le> qb_length b" "n \<le> length data" "0 < n"
  shows "\<exists>b'. io_queue_buffer_stream_writer b (Some data) n = (er_ok, b') \<and>
    wst_out_ok A q0 (s\<lparr>wst_queue := q_put_buffer a b' (wst_queue s)\<rparr>) \<and>
    wst_unflushed (s\<lparr>wst_queue := q_put_buffer a b' (wst_queue s)\<rparr>) = wst_unflushed s @ take n data \<and>
    wst_written q0 (s\<lparr>wst_queue := q_put_buffer a b' (wst_queue s)\<rparr>) = wst_written q0 s @ take n data"
proof -
  let ?b = "b\<lparr>qb_data := mem_put (qb_data b) (qb_write_offset b) data n, qb_write_offset := qb_write_offset b + n\<rparr>"
  let ?s = "s\<lparr>wst_queue := q_put_buffer a ?b (wst_queue s)\<rparr>"
  have ok: "wst_ok s" and b: "qb_ok b" and a: "a \<notin> set (q_linked (wst_queue s))"
    using s q_inv_buf_ok [of "wst_queue s" a b] by (auto simp: wst_out_ok_def wst_ok_def)
  have "min (size_sub (qb_length b) (qb_write_offset b)) n = n"
    using n(1) by (simp add: size_simps)
  then have w: "io_queue_buffer_stream_writer b (Some data) n = (er_ok, ?b)"
    using n(3) by (simp add: io_queue_buffer_stream_writer_def)
  have "qb_ok ?b"
    using b n by (simp add: qb_ok_def buf_simps)
  then have "q_inv (wst_queue ?s)"
    using ok q_put_buffer_inv [of "wst_queue s" a ?b] s(3) by (auto simp: wst_ok_def)
  then have ok': "wst_ok ?s"
    using a s(2) by (simp add: wst_ok_def)
  have frames: "ws_frames (wst_queue ?s) = ws_frames (wst_queue s)"
    using a by (intro ws_frames_cong) (auto simp: q_linked_def)
  have "take (qb_write_offset b + n) (mem_put (qb_data b) (qb_write_offset b) data n) =
      take (qb_write_offset b) (qb_data b) @ take n data"
    using b n by (simp add: mem_put_def qb_ok_def)
  then have unf: "wst_unflushed ?s = wst_unflushed s @ take n data"
    using s(2,3) by (simp add: wst_unflushed_def buf_frame_def)
  then have "wst_written q0 ?s = wst_written q0 s @ take n data"
    using frames by (simp add: wst_written_def)
  moreover have "wst_out_ok A q0 ?s"
    using s ok' frames unfolding wst_out_ok_def by simp
  ultimately show ?thesis
    using w unf by blast
qed

lemma io_ws_writer_loop_ok:
  "wst_out_ok A q0 s \<Longrightarrow> io_ws_writer_loop A data s = (result, s') \<Longrightarrow>
     if result = er_ok then wst_out_ok A q0 s' \<and> wst_written q0 s' = wst_written q0 s @ data \<and>
         (data \<noteq> [] \<longrightarrow> wst_current s' \<noteq> None \<and> wst_unflushed s' \<noteq> [])
     else wst_out_ok A q0 s' \<and> \<not> al_total A \<and> data \<noteq> []"
proof (induction "length data" arbitrary: data s rule: less_induct)
  case less
  show ?case
  proof (cases "data = []")
    case True
    then show ?thesis
      using less.prems by (simp add: io_ws_writer_loop.simps [of A "[]"])
  next
    case False
    note f = io_ws_flush_full_ok [OF less.prems(1)]
    obtain e t where t: "io_ws_new_frame A (io_ws_flush_full s) = (e, t)"
      by (cases "io_ws_new_frame A (io_ws_flush_full s)")
    note g = io_ws_new_frame_ok [OF f(1,3) t]
    show ?thesis
    proof (cases "e = er_ok")
      case e: False
      then have "io_ws_writer_loop A data s = (e, t)"
        using False t by (simp add: io_ws_writer_loop.simps [of A data])
      then show ?thesis
        using less.prems(2) g e False by simp
    next
      case True
      then obtain a b where b: "wst_current t = Some a" "q_bufs (wst_queue t) a = Some b" "qb_write_offset b < qb_length b"
        using g(3) by auto
      define n where "n = min (size_sub (qb_length b) (qb_write_offset b)) (length data)"
      have n: "qb_write_offset b + n \<le> qb_length b" "n \<le> length data" "0 < n" "size_sub (qb_length b) (qb_write_offset b) \<noteq> 0"
        using b(3) False by (auto simp: n_def size_simps)
      obtain b' where w: "io_queue_buffer_stream_writer b (Some data) n = (er_ok, b')"
        and u: "wst_out_ok A q0 (t\<lparr>wst_queue := q_put_buffer a b' (wst_queue t)\<rparr>)"
          "wst_written q0 (t\<lparr>wst_queue := q_put_buffer a b' (wst_queue t)\<rparr>) = wst_written q0 t @ take n data"
          "wst_unflushed (t\<lparr>wst_queue := q_put_buffer a b' (wst_queue t)\<rparr>) = wst_unflushed t @ take n data"
        using wst_write_current [OF g(1) b(1,2) n(1-3)] by blast
      let ?u = "t\<lparr>wst_queue := q_put_buffer a b' (wst_queue t)\<rparr>"
      have step: "io_ws_writer_loop A data s = io_ws_writer_loop A (drop n data) ?u"
        using False t True b n(4) w by (simp add: io_ws_writer_loop.simps [of A data] n_def [symmetric] Let_def)
      have unf: "wst_current ?u \<noteq> None" "wst_unflushed ?u \<noteq> []"
        using b(1) u(3) n(3) False by simp_all
      have IH: "if result = er_ok then wst_out_ok A q0 s' \<and> wst_written q0 s' = wst_written q0 ?u @ drop n data \<and>
          (drop n data \<noteq> [] \<longrightarrow> wst_current s' \<noteq> None \<and> wst_unflushed s' \<noteq> []) else wst_out_ok A q0 s' \<and> \<not> al_total A \<and> drop n data \<noteq> []"
        by (rule less.hyps [of "drop n data", OF _ u(1)]) (use less.prems(2) step n(2,3) in simp_all)
      show ?thesis
      proof (cases "drop n data = []")
        case True
        then have "result = er_ok" "s' = ?u"
          using less.prems(2) step by (simp_all add: io_ws_writer_loop.simps [of A "[]"])
        then show ?thesis
          using IH unf u(2) g(2) f(2) by simp
      next
        case rest: False
        then show ?thesis
          using IH u(2) g(2) f(2) False by (simp split: if_splits)
      qed
    qed
  qed
qed


text \<open>The outbound stream of a connection.\<close>

definition ws_out_ok :: "allocator \<Rightarrow> io_ws_connection \<Rightarrow> io_ws_connection \<Rightarrow> bool" where
  "ws_out_ok A c0 c \<longleftrightarrow> wst_out_ok A (wst_queue (ws_outbound c0)) (ws_outbound c) \<and> (\<exists>s. c = c0\<lparr>ws_outbound := s\<rparr>) \<and>
     (wst_written (wst_queue (ws_outbound c0)) (ws_outbound c) \<noteq> [] \<longrightarrow> wst_unflushed (ws_outbound c) \<noteq> [])"

definition ws_output :: "io_ws_connection \<Rightarrow> io_ws_connection \<Rightarrow> u8 list" where
  "ws_output c0 c = wst_written (wst_queue (ws_outbound c0)) (ws_outbound c)"

interpretation ws_out: sink "ws_out_ok A c0" "ws_output c0" "\<lambda>_. if al_total A then k else 0" "io_ws_connection_stream_writer A"
  for A c0 k
proof unfold_locales
  fix c d e c' assume c: "ws_out_ok A c0 c" and w: "io_ws_connection_stream_writer A c d = (e, c')"
  obtain s' where l: "io_ws_writer_loop A d (ws_outbound c) = (e, s')" and c': "c' = c\<lparr>ws_outbound := s'\<rparr>"
    using w by (auto simp: io_ws_connection_stream_writer_def split: prod.splits)
  show "if e = er_ok then ws_out_ok A c0 c' \<and> ws_output c0 c' = ws_output c0 c @ d \<and>
        (if al_total A then k else 0) \<le> (if al_total A then k else 0) + length d
      else (if al_total A then k else 0) < length d"
  proof (cases "d = []")
    case True
    then have "e = er_ok" "c' = c"
      using l by (simp_all add: c' io_ws_writer_loop.simps [of A "[]"])
    then show ?thesis
      using c True by simp
  next
    case False
    have ok: "wst_out_ok A (wst_queue (ws_outbound c0)) (ws_outbound c)" and s: "\<exists>s. c = c0\<lparr>ws_outbound := s\<rparr>"
      using c by (simp_all add: ws_out_ok_def)
    note r = io_ws_writer_loop_ok [OF ok l]
    from s have s': "\<exists>s. c' = c0\<lparr>ws_outbound := s\<rparr>"
      by (auto simp: c')
    show ?thesis
    proof (cases "e = er_ok")
      case True
      then have "ws_out_ok A c0 c'" "ws_output c0 c' = ws_output c0 c @ d"
        using r False s' by (simp_all add: ws_out_ok_def ws_output_def c')
      with True show ?thesis by simp
    next
      case e: False
      then show ?thesis
        using r False by simp
    qed
  qed
qed

end
