(* ===== verification/Io_Transport.thy ===== *)
theory Io_Transport
  imports Prelude Prx_Err Io_Proto Io_Mpack Io_Ws
begin

text \<open>
  The websocket transport of \<open>src/io_transport.c\<close>: protocol messages are encoded into the outbound stream
  and decoded from the inbound stream of a websocket connection. \<open>L\<close> is the MessagePack library, \<open>E\<close> the
  formatting of references, and \<open>handler_cb\<close> the connection callback of the module that uses the
  transport. The pointers of a message to be sent are the memory they refer to; those of a received one
  lead into the pool of its factory.
\<close>

section \<open>Connection base\<close>

datatype io_connection_event = io_connection_received | io_connection_reconnecting | io_connection_closed

text \<open>\<open>handler_result\<close> is what the connection callback returns, \<^const>\<open>None\<close> when there is no callback.\<close>

definition io_iot_hub_connection_base_reconnect_handler :: "prx_error option \<Rightarrow> bool" where
  "io_iot_hub_connection_base_reconnect_handler handler_result = (case handler_result of
     None \<Rightarrow> False
   | Some result \<Rightarrow> result = er_ok)"

definition io_iot_hub_connection_base_init ::
  "bool \<Rightarrow> allocator \<times> bool \<times> prx_error \<Rightarrow> allocator \<times> bool \<times> prx_error \<Rightarrow> nat \<Rightarrow> prx_error \<times> 'p io_message_factory option" where
  "io_iot_hub_connection_base_init zalloc_ok M B sizeof_message =
     io_message_factory_create zalloc_ok M B sizeof_message 100 0 0 False"

definition io_iot_hub_connection_base_deinit :: "'p io_message_factory option \<Rightarrow> (prx_buffer_pool \<times> prx_buffer_pool) option" where
  "io_iot_hub_connection_base_deinit message_pool = map_option io_message_factory_free message_pool"

section \<open>Sending\<close>

text \<open>The result code of an action; an access out of bounds ends the run, here with \<^const>\<open>er_fatal\<close>.\<close>

fun res_code :: "'a res \<Rightarrow> prx_error" where
  "res_code (Ok v) = er_ok"
| "res_code (Err e) = e"
| "res_code Crash = er_fatal"

text \<open>The stream behind a codec context, which the calls of the codec have moved on.\<close>

definition codec_stream :: "'s io_stream \<Rightarrow> 's cmp_ctx option codec_store \<Rightarrow> 's io_stream" where
  "codec_stream stream st = (case cs_state st of
     None \<Rightarrow> stream
   | Some c \<Rightarrow> (case cmp_buf c of None \<Rightarrow> stream | Some stream \<Rightarrow> stream))"

definition encode_root ::
  "cmp_lib \<Rightarrow> string_env \<Rightarrow> u8 list option io_message \<Rightarrow> ('s, unit) mpack_act" where
  "encode_root L E message = act_bind (io_encode_object (mpack_codec L) None False) (\<lambda>obj.
     act_in obj (io_encode_message (mpack_codec L) E message))"

definition io_iot_hub_ws_connection_send_handler ::
  "cmp_lib \<Rightarrow> string_env \<Rightarrow> u8 list option io_message \<Rightarrow> dec_mem \<Rightarrow> 's io_stream \<Rightarrow> prx_error \<times> dec_mem \<times> 's io_stream" where
  "io_iot_hub_ws_connection_send_handler L E message m stream = (
     let (result, m, stream) = (case io_codec_ctx_init (mpack_codec L) (Some stream) False m of
            (Ok s, m) \<Rightarrow> (case encode_root L E message s of
                (Ok v, ctx, st) \<Rightarrow>
                  let stream = codec_stream stream st
                  in (case io_codec_ctx_fini (mpack_codec L) (Some stream) True (ctx, st) of
                        (r, _, st) \<Rightarrow> (res_code r, cs_mem st, stream))
              | (r, ctx, st) \<Rightarrow> (res_code r, cs_mem st, codec_stream stream st))
          | (r, m) \<Rightarrow> (res_code r, m, stream))
     in if result \<noteq> er_ok
        then (result, m, case io_stream_reset (Some stream) of (_, None) \<Rightarrow> stream | (_, Some stream) \<Rightarrow> stream)
        else (result, m, stream))"

text \<open>The handler as the sender callback of the websocket connection.\<close>

definition io_iot_hub_ws_sender ::
  "allocator \<Rightarrow> cmp_lib \<Rightarrow> string_env \<Rightarrow> u8 list option io_message \<Rightarrow> dec_mem ws_stream_handler" where
  "io_iot_hub_ws_sender A L E message m c = (
     case io_iot_hub_ws_connection_send_handler L E message m (io_ws_outbound_itf A c) of
       (result, m, stream) \<Rightarrow> (result, m, st_context stream))"

definition io_iot_hub_ws_connection_on_send_complete :: "'p io_message_factory \<Rightarrow> addr \<Rightarrow> 'p io_message_factory" where
  "io_iot_hub_ws_connection_on_send_complete fac message = io_message_release fac (Some message)"

text \<open>
  The message is sent under a reference of its own. \<open>complete_cb\<close> and \<open>ctx\<close> are the addresses of the completion
  callback and of the message; the callback has run when the call returns if the connection recorded it.
\<close>

definition io_iot_hub_ws_connection_on_send ::
  "allocator \<Rightarrow> allocator \<Rightarrow> allocator \<Rightarrow> cmp_lib \<Rightarrow> string_env \<Rightarrow> nat \<Rightarrow> (addr \<Rightarrow> nat) \<Rightarrow> prx_error \<Rightarrow>
     u8 list option io_message_factory \<Rightarrow> addr \<Rightarrow> dec_mem \<Rightarrow> io_ws_connection \<Rightarrow>
     prx_error \<times> u8 list option io_message_factory \<times> dec_mem \<times> io_ws_connection" where
  "io_iot_hub_ws_connection_on_send A M B L E complete_cb ctx can_send fac message m c = (
     case io_message_clone M B fac message of
       (result, None, fac) \<Rightarrow> (result, fac, m, c)
     | (result, Some a, fac) \<Rightarrow> (
         case io_ws_connection_send (io_iot_hub_ws_sender A L E (the (fac_store fac a))) complete_cb (ctx a) can_send m c of
           (result, m, c') \<Rightarrow>
             (result,
              if ws_completed c' = ws_completed c then fac else io_iot_hub_ws_connection_on_send_complete fac a,
              m, c')))"

section \<open>Receiving\<close>

definition decode_root ::
  "cmp_lib \<Rightarrow> string_env \<Rightarrow> mem_ptr prx_property \<Rightarrow> mem_ptr io_message \<Rightarrow> ('s, mem_ptr io_message) mpack_act" where
  "decode_root L E option message = act_bind (io_decode_object (mpack_codec L) None) (\<lambda>(is_null, obj).
     if is_null then act_fail er_invalid_format
     else act_in obj (io_decode_message (mpack_codec L) E option message))"

text \<open>
  While a message is decoded its buffer is in the memory of the decoder; a decoder that fails leaves what
  it had allocated in the message, which is then released.
\<close>

type_synonym 'h recv_state = "'h \<times> mem_ptr io_message_factory \<times> dec_mem"

definition io_iot_hub_ws_connection_receive_handler ::
  "allocator \<Rightarrow> cmp_lib \<Rightarrow> string_env \<Rightarrow> mem_ptr prx_property \<Rightarrow>
     (addr \<Rightarrow> 'h \<times> mem_ptr io_message_factory \<Rightarrow> prx_error \<times> 'h \<times> mem_ptr io_message_factory) \<Rightarrow>
     'h recv_state \<Rightarrow> 's io_stream \<Rightarrow> prx_error \<times> 'h recv_state \<times> 's io_stream" where
  "io_iot_hub_ws_connection_receive_handler M L E option handler_cb x stream = (case x of (h, fac, m) \<Rightarrow>
     (case io_codec_ctx_init (mpack_codec L) (Some stream) True m of
        (Ok (ctx, st), m) \<Rightarrow> (case io_message_create_empty M fac of
            (result, None, fac) \<Rightarrow> (
              case io_codec_ctx_fini (mpack_codec L) (Some stream) False (ctx, st) of
                (_, _, st) \<Rightarrow> (result, (h, fac, cs_mem st), codec_stream stream st))
          | (result, Some a, fac) \<Rightarrow> (
              let message = the (fac_store fac a);
                  st = st\<lparr>cs_mem := (cs_mem st)\<lparr>mm_pool := fac_buffers fac, mm_buffer := msg_buffer message\<rparr>\<rparr>;
                  (r, ctx, st) = decode_root L E option message (ctx, st);
                  message = (case r of Ok message \<Rightarrow> message | _ \<Rightarrow> message\<lparr>msg_buffer := mm_buffer (cs_mem st)\<rparr>);
                  fac = fac\<lparr>fac_buffers := mm_pool (cs_mem st), fac_store := (fac_store fac)(a \<mapsto> message)\<rparr>;
                  (result, h, fac) = (case r of Ok _ \<Rightarrow> handler_cb a (h, fac) | _ \<Rightarrow> (res_code r, h, fac));
                  stream = codec_stream stream st;
                  (_, _, st) = io_codec_ctx_fini (mpack_codec L) (Some stream) False (ctx, st)
              in (result, (h, io_message_release fac (Some a), cs_mem st), stream)))
      | (r, m) \<Rightarrow> (res_code r, (h, fac, m), stream)))"

definition io_iot_hub_ws_receiver ::
  "allocator \<Rightarrow> cmp_lib \<Rightarrow> string_env \<Rightarrow> mem_ptr prx_property \<Rightarrow>
     (addr \<Rightarrow> 'h \<times> mem_ptr io_message_factory \<Rightarrow> prx_error \<times> 'h \<times> mem_ptr io_message_factory) \<Rightarrow>
     'h recv_state ws_stream_handler" where
  "io_iot_hub_ws_receiver M L E option handler_cb x c = (
     case io_iot_hub_ws_connection_receive_handler M L E option handler_cb x (io_ws_inbound_itf c) of
       (result, x, stream) \<Rightarrow> (result, x, st_context stream))"

end
