(* ===== verification/Ws_Transport.thy ===== *)
theory Ws_Transport
  imports Prelude Pool_Supply Io_Transport Ws_Stream Proto_Message
begin

text \<open>
  The websocket transport end to end: a message encoded into frames by one connection is decoded from
  them by another.
\<close>

section \<open>The buffer of a received message\<close>

lemma pool_data_supplied:
  assumes "pool_supplied p" "pool_heap p a = Some b"
  shows "pool_supplied (p\<lparr>pool_heap := (pool_heap p)(a \<mapsto> b\<lparr>pb_data := d\<rparr>)\<rparr>)"
    "pool_live (p\<lparr>pool_heap := (pool_heap p)(a \<mapsto> b\<lparr>pb_data := d\<rparr>)\<rparr>) = pool_live p"
proof -
  let ?p = "p\<lparr>pool_heap := (pool_heap p)(a \<mapsto> b\<lparr>pb_data := d\<rparr>)\<rparr>"
  have refs: "pool_refs ?p x = pool_refs p x" for x
    using assms(2) by (simp add: pool_refs_def)
  then show "pool_live ?p = pool_live p"
    by (simp add: pool_live_def fun_eq_iff)
  have dom: "dom (pool_heap ?p) = dom (pool_heap p)"
    using assms(2) by auto
  have "pool_lists_ok ?p = pool_lists_ok p" "pool_signals_ok ?p = pool_signals_ok p" "pool_resumed ?p = pool_resumed p"
    by (simp_all add: pool_lists_ok_def pool_signals_ok_def pool_resumed_def)
  moreover have "pool_heap_ok ?p = pool_heap_ok p"
    unfolding pool_heap_ok_def refs dom by simp
  ultimately show "pool_supplied ?p"
    using assms(1) by (simp add: pool_supplied_def pool_inv_def)
qed

lemma message_stored_fresh:
  assumes A: "al_total (mm_alloc M)" and p: "pool_supplied (mm_pool M)" and b: "mm_buffer M = None"
    and d: "SIZEOF_PRX_BUFFER + length d < SIZE_MOD"
  shows "\<exists>q M'. message_stored M d = Some (q, M') \<and> mem_load M' q (length d) = Some d \<and> pool_supplied (mm_pool M') \<and>
    (if d = [] then q = null_ptr \<and> M' = M
     else \<exists>a. q = pool_ptr a 0 \<and> mm_buffer M' = Some a \<and> M' = M\<lparr>mm_pool := mm_pool M', mm_buffer := Some a\<rparr> \<and> pool_live (mm_pool M) a = 0 \<and>
       pool_live (mm_pool M') = (pool_live (mm_pool M))(a := 1))"
proof (cases "d = []")
  case True
  then show ?thesis using p by (simp add: mem_load_def)
next
  case False
  obtain a pool where n: "prx_buffer_new (mm_alloc M) dynamic_pool (mm_pool M) (length d) = (Some a, pool)" "pool_supplied pool"
    using prx_buffer_new_supplied [OF A p] by blast
  obtain pb where pb: "pool_heap pool a = Some pb" "length (pb_data pb) = length d"
    using prx_buffer_new_data [OF n(1) d] by blast
  have live: "pool_live (mm_pool M) a = 0" "pool_live pool = (pool_live (mm_pool M))(a := 1)"
    using prx_buffer_new_inv [OF _ n(1)] p by (simp_all add: pool_supplied_def)
  note s = pool_data_supplied [OF n(2) pb(1), of d]
  show ?thesis
    using False b n(1) pb live s
    by (simp add: message_stored_def io_message_allocate_buffer_def mem_store_def mem_load_def mem_put_def mem_get_def)
qed


section \<open>Sending a message\<close>

lemma obj_bytes_not_Nil:
  assumes "cmp_laws L"
  shows "obj_bytes L fs \<noteq> []"
proof
  assume "obj_bytes L fs = []"
  then have e: "cmp_bytes L (cmp_array (of_nat (length fs) + 1)) = []" "cmp_bytes L cmp_nil = []"
    by (simp_all add: obj_bytes_def)
  show False
    using struct_laws_readers(2) [OF assms, of "of_nat (length fs) + 1" "[]"]
      struct_laws_readers(3) [OF assms, of "[]"] e by simp
qed

context sink
begin

lemma emits_root:
  assumes "cmp_laws L" "wire_content msg = Some c" "content_ok c"
  shows "emits (encode_root L E msg) (message_bytes L msg c)"
  using emits_member [OF assms(1) emits_message [OF assms], of None] by (simp add: encode_root_def encode_member_def)

lemma send_handler_emits:
  assumes L: "cmp_laws L" "wire_content msg = Some c" "content_ok c"
    and m: "al_ok (mm_alloc m) (mm_count m) (cmp_ctx_size L)"
    and st: "st_writer stream = Some wr" "ok (st_context stream)" "length (message_bytes L msg c) \<le> room (st_context stream)"
  shows "\<exists>m' stream'. io_iot_hub_ws_connection_send_handler L E msg m stream = (er_ok, m', stream') \<and>
    ok (st_context stream') \<and> out (st_context stream') = out (st_context stream) @ message_bytes L msg c"
proof -
  let ?ctx = "\<lparr>ctx_context = (), ctx_index = 1, ctx_default_allocator = None\<rparr> :: unit io_codec_ctx"
  let ?m = "m\<lparr>mm_count := mm_count m + 1\<rparr>"
  let ?st = "\<lparr>cs_state = Some \<lparr>cmp_buf = Some stream, cmp_error = 0\<rparr>, cs_mem = ?m\<rparr>"
  have init: "io_codec_ctx_init (mpack_codec L) (Some stream) False m = (Ok (?ctx, ?st), ?m)"
    using m by (simp add: io_codec_ctx_init_def mpack_codec_def mpack_init_ctx_def Let_def)
  have "sinks (snd (?ctx, ?st)) (out (st_context stream)) (room (st_context stream))"
    using st by (simp add: sinks_def sinks_ctx_def)
  with emits_root [OF L, of E] obtain v s' k where r: "encode_root L E msg (?ctx, ?st) = (Ok v, s')"
      "sinks (snd s') (out (st_context stream) @ message_bytes L msg c) k"
    by (rule emitsE) (use st(3) in auto)
  obtain cc stream' where s': "cs_state (snd s') = Some cc" "cmp_buf cc = Some stream'" "ok (st_context stream')"
      "out (st_context stream') = out (st_context stream) @ message_bytes L msg c"
    using r(2) by (auto simp: sinks_def sinks_ctx_def)
  then have "codec_stream stream (snd s') = stream'"
    by (simp add: codec_stream_def)
  then have "io_iot_hub_ws_connection_send_handler L E msg m stream = (er_ok, cs_mem (snd s'), stream')"
    using init r(1) by (cases s') (simp add: io_iot_hub_ws_connection_send_handler_def io_codec_ctx_fini_def
        mpack_codec_def mpack_fini_ctx_def)
  then show ?thesis
    using s' by blast
qed

end

text \<open>
  The frames of a message: full fragments and a last frame that is not empty.
\<close>

definition message_frames :: "u8 list \<Rightarrow> (i32 \<times> u8 list) list \<Rightarrow> bool" where
  "message_frames bytes fr \<longleftrightarrow> (\<exists>F last. fr = map (Pair pal_wsclient_buffer_type_binary_fragment) F @
       [(pal_wsclient_buffer_type_binary_msg, last)] \<and> concat F @ last = bytes \<and> last \<noteq> [] \<and>
     length last \<le> DEFAULT_FRAME_SIZE \<and> (\<forall>f \<in> set F. length f = DEFAULT_FRAME_SIZE))"

definition ws_sending :: "io_ws_connection \<Rightarrow> bool" where
  "ws_sending c \<longleftrightarrow> wst_ok (ws_outbound c) \<and> wst_current (ws_outbound c) = None \<and>
     pool_supplied (q_factory (wst_queue (ws_outbound c)))"

lemma wst_unflushed_length:
  assumes "wst_out_ok A q0 s"
  shows "length (wst_unflushed s) \<le> DEFAULT_FRAME_SIZE"
  using assms q_inv_buf_ok [of "wst_queue s" "the (wst_current s)"]
  by (auto simp: wst_unflushed_def buf_frame_def wst_out_ok_def wst_ok_def qb_ok_def split: option.splits)

lemma ws_sending_start:
  "ws_sending c \<Longrightarrow> ws_out_ok A c c \<and> ws_output c c = []"
  by (auto simp: ws_sending_def ws_out_ok_def ws_output_def wst_out_ok_def wst_written_def wst_unflushed_def
      intro: exI [of _ "[]"] exI [of _ "ws_outbound c"])

lemma io_ws_connection_send_frames:
  assumes c: "ws_sending c" and A: "al_total A"
    and sender: "sender_cb x c = (er_ok, x', c1)" "ws_out_ok A c c1" "ws_output c c1 = bytes" "bytes \<noteq> []"
  shows "\<exists>c'. io_ws_connection_send sender_cb cb ctx can_send x c = (if ws_wsclient c then can_send else er_ok, x', c') \<and>
    ws_sending c' \<and> (\<exists>fr. ws_frames (wst_queue (ws_outbound c')) = ws_frames (wst_queue (ws_outbound c)) @ fr \<and> message_frames bytes fr) \<and>
    q_inprogress (wst_queue (ws_outbound c')) = q_inprogress (wst_queue (ws_outbound c)) \<and> ws_completed c' = ws_completed c"
proof -
  let ?s = "ws_outbound c1" and ?q0 = "wst_queue (ws_outbound c)"
  have ok: "wst_out_ok A ?q0 ?s" "wst_ok ?s"
    using sender(2) by (simp_all add: ws_out_ok_def wst_out_ok_def)
  obtain s1 where c1: "c1 = c\<lparr>ws_outbound := s1\<rparr>"
    using sender(2) by (auto simp: ws_out_ok_def)
  have unf: "wst_unflushed ?s \<noteq> []"
    using sender(2-4) by (simp add: ws_out_ok_def ws_output_def)
  then obtain a where a: "wst_current ?s = Some a"
    by (auto simp: wst_unflushed_def split: option.splits)
  obtain b where b: "q_bufs (wst_queue ?s) a = Some b" "qb_ok b"
    using ok(2) a q_inv_buf_ok [of "wst_queue ?s" a] by (auto simp: wst_ok_def)
  let ?b = "b\<lparr>qb_flags := pal_wsclient_buffer_type_binary_msg, qb_cb_ptr := cb, qb_ctx := ctx\<rparr>"
  let ?t = "wst_flush ?b ?s a"
  note f = wst_flush_ok [OF ok(2) a b(1), of ?b]
  have qb: "qb_ok ?b" using b(2) by (simp add: qb_ok_def)
  let ?c = "c1\<lparr>ws_outbound := ?t\<rparr>"
  have send: "io_ws_connection_send sender_cb cb ctx can_send x c =
      (if ws_wsclient c then can_send else er_ok, x', if \<not> ws_wsclient c then ?c
       else if can_send = er_ok then ws_pal_call call_can_recv (ws_pal_call call_can_send ?c) else ws_pal_call call_can_send ?c)"
    using sender(1) a b(1) by (simp add: io_ws_connection_send_def c1 q_set_flags_def io_queue_buffer_set_cb_def
        q_put_buffer_def wst_flush_def Let_def)
  obtain F where F: "ws_frames (wst_queue ?s) = ws_frames ?q0 @ map (Pair pal_wsclient_buffer_type_binary_fragment) F"
      "\<forall>f \<in> set F. length f = DEFAULT_FRAME_SIZE"
    using ok(1) by (auto simp: wst_out_ok_def)
  have bytes: "concat F @ wst_unflushed ?s = bytes"
    using sender(3) ws_frames_split [OF F(1)] by (simp add: ws_output_def wst_written_def comp_def)
  have fr: "ws_frames (wst_queue ?t) = ws_frames ?q0 @ (map (Pair pal_wsclient_buffer_type_binary_fragment) F @ [(pal_wsclient_buffer_type_binary_msg, wst_unflushed ?s)])"
    using f(2) [OF qb] F(1) by simp
  have mf: "message_frames bytes (map (Pair pal_wsclient_buffer_type_binary_fragment) F @ [(pal_wsclient_buffer_type_binary_msg, wst_unflushed ?s)])"
    using bytes unf F(2) wst_unflushed_length [OF ok(1)] unfolding message_frames_def by blast
  have sup: "pool_supplied (q_factory (wst_queue ?t))"
    using f(5) [OF qb] ok(1) A by (simp add: wst_out_ok_def)
  have cur: "wst_current ?t = None"
    by (simp add: wst_flush_def)
  have "wst_ok ?t" "q_inprogress (wst_queue ?t) = q_inprogress ?q0"
    using f(1,3) [OF qb] ok(1) by (simp_all add: wst_out_ok_def)
  then show ?thesis
    using send fr mf sup cur c1
    by (auto simp: ws_sending_def ws_pal_call_def)
qed


section \<open>Receiving a message\<close>

lemma content_payload_small:
  assumes "content_ok c"
  shows "SIZEOF_PRX_BUFFER + length (content_payload c) < SIZE_MOD"
proof -
  have "length (content_payload c) \<le> 2 ^ 32"
    using assms by (auto simp: content_ok_def content_payload_def prop_ok_def prop_payload_def bin_ok_def
        split: io_content.splits prx_property_value.splits)
  then show ?thesis
    by (simp add: SIZEOF_PRX_BUFFER_def SIZE_MOD_def)
qed

lemma message_fields_length [simp]: "length (message_fields L msg c) = 8"
  by (simp add: message_fields_def header_fields_def)

context in_stream
begin

lemma decode_root_reads:
  assumes L: "cmp_laws L" and c: "wire_content msg = Some c" "content_ok c"
    and new: "msg_content new = content_zero" "msg_buffer new = None"
    and M: "mm_field M = []" "mm_buffer M = None" "message_stored M (content_payload c) = Some (q, M')"
    and s: "0 < ctx_index ctx" "source m (message_bytes L msg c @ rest)" "cs_mem m = M"
  shows "\<exists>ctx' m'. decode_root L E option new (ctx, m) =
      (Ok ((message_header msg new)\<lparr>msg_content := content_at q c, msg_buffer := mm_buffer M'\<rparr>), ctx', m') \<and>
    source m' rest \<and> cs_mem m' = M'"
proof -
  have n: "length (message_fields L msg c) < 2 ^ 32 - 1" by simp
  obtain m1 where m1: "mpack_read_object L None (ctx, m) =
      (Ok (False, ctx\<lparr>ctx_index := 8\<rparr>), ctx\<lparr>ctx_index := ctx_index ctx - 1\<rparr>, m1)"
      "source m1 (concat (message_fields L msg c) @ rest)" "cs_mem m1 = M"
    using mpack_read_object_source [OF L n s(1), of m rest None] s(2,3) by (auto simp: message_bytes_def)
  have "M\<lparr>mm_buffer := msg_buffer new\<rparr> = M"
    using M(2) new(2) by simp
  then have M2: "message_stored (M\<lparr>mm_buffer := msg_buffer new\<rparr>) (content_payload c) = Some (q, M')"
    by (simp only: M(3))
  have "\<exists>ctx' m'. io_decode_message (mpack_codec L) E option new (ctx\<lparr>ctx_index := 8\<rparr>, m1) =
      (Ok ((message_header msg new)\<lparr>msg_content := content_at q c, msg_buffer := mm_buffer M'\<rparr>), ctx', m') \<and>
      source m' rest \<and> cs_mem m' = M'"
    by (rule io_decode_message_reads [OF L c _ new(1) M(1) M2, where version = MODULE_VER_NUM])
       (use m1 in \<open>simp_all add: message_fields_def\<close>)
  then show ?thesis
    using m1(1) by (auto simp: decode_root_def codec_unfold act_bind_def act_in_def)
qed

lemma receive_handler_reads:
  assumes L: "cmp_laws L" and c: "wire_content msg = Some c" "content_ok c"
    and A: "al_total M" "pool_supplied (fac_messages fac)"
    and m: "al_total (mm_alloc m)" "pool_supplied (fac_buffers fac)" "mm_field m = []"
    and st: "st_reader stream = Some rd" "ok (st_context stream)" "inp (st_context stream) = message_bytes L msg c @ rest"
  obtains a fac1 q m1 stream' where
    "io_iot_hub_ws_connection_receive_handler M L E option handler_cb (h, fac, m) stream =
       (case handler_cb a (h, fac1) of (result, h', fac2) \<Rightarrow>
          (result, (h', io_message_release fac2 (Some a), m1), stream'))"
    "ok (st_context stream')" "inp (st_context stream') = rest"
    "fac_store fac1 a = Some ((message_header msg message_zero)\<lparr>msg_content := content_at q c, msg_buffer := mm_buffer m1\<rparr>)"
    "fac_buffers fac1 = mm_pool m1" "mem_load m1 q (length (content_payload c)) = Some (content_payload c)"
    "pool_supplied (fac_buffers fac1)" "pool_supplied (fac_messages fac1)"
    "pool_live (fac_messages fac) a = 0" "pool_live (fac_messages fac1) = (pool_live (fac_messages fac))(a := 1)"
    "if content_payload c = [] then mm_buffer m1 = None \<and> pool_live (fac_buffers fac1) = pool_live (fac_buffers fac)
     else \<exists>b. mm_buffer m1 = Some b \<and> q = pool_ptr b 0 \<and> pool_live (fac_buffers fac) b = 0 \<and>
       pool_live (fac_buffers fac1) = (pool_live (fac_buffers fac))(b := 1)"
proof -
  let ?ctx = "\<lparr>ctx_context = (), ctx_index = 1, ctx_default_allocator = None\<rparr> :: unit io_codec_ctx"
  let ?m = "m\<lparr>mm_count := mm_count m + 1\<rparr>"
  let ?st = "\<lparr>cs_state = Some \<lparr>cmp_buf = Some stream, cmp_error = 0\<rparr>, cs_mem = ?m\<rparr>"
  have init: "io_codec_ctx_init (mpack_codec L) (Some stream) True m = (Ok (?ctx, ?st), ?m)"
    using m(1) by (simp add: io_codec_ctx_init_def mpack_codec_def mpack_init_ctx_def al_total_def Let_def)
  obtain a pool where a: "prx_buffer_alloc M fixed_pool (fac_messages fac) None = (Some a, pool)" "pool_supplied pool"
      "pool_live (fac_messages fac) a = 0" "pool_live pool = (pool_live (fac_messages fac))(a := 1)"
    using prx_buffer_alloc_supplied [OF A, of fixed_pool] by blast
  let ?fac = "fac\<lparr>fac_messages := pool, fac_store := (fac_store fac)(a \<mapsto> message_zero)\<rparr>"
  have create: "io_message_create_empty M fac = (er_ok, Some a, ?fac)"
    using a(1) by (simp add: io_message_create_empty_def)
  let ?M = "?m\<lparr>mm_pool := fac_buffers fac, mm_buffer := None\<rparr>"
  obtain q M' where q: "message_stored ?M (content_payload c) = Some (q, M')"
      "mem_load M' q (length (content_payload c)) = Some (content_payload c)" "pool_supplied (mm_pool M')"
      "if content_payload c = [] then q = null_ptr \<and> M' = ?M
       else \<exists>b. q = pool_ptr b 0 \<and> mm_buffer M' = Some b \<and> M' = ?M\<lparr>mm_pool := mm_pool M', mm_buffer := Some b\<rparr> \<and> pool_live (mm_pool ?M) b = 0 \<and>
         pool_live (mm_pool M') = (pool_live (mm_pool ?M))(b := 1)"
    using message_stored_fresh [of ?M "content_payload c"] m content_payload_small [OF c(2)] by auto
  let ?st1 = "?st\<lparr>cs_mem := ?M\<rparr>"
  have src: "source ?st1 (message_bytes L msg c @ rest)"
    using st by (simp add: source_def feeds_def)
  let ?msg = "(message_header msg message_zero)\<lparr>msg_content := content_at q c, msg_buffer := mm_buffer M'\<rparr>"
  have "\<exists>ctx' st'. decode_root L E option message_zero (?ctx, ?st1) = (Ok ?msg, ctx', st') \<and> source st' rest \<and> cs_mem st' = M'"
    by (rule decode_root_reads [OF L c _ _ _ _ q(1)]) (use m(3) src in \<open>simp_all add: message_zero_def\<close>)
  then obtain ctx' st' where d: "decode_root L E option message_zero (?ctx, ?st1) = (Ok ?msg, ctx', st')" "source st' rest" "cs_mem st' = M'"
    by blast
  obtain cc stream' where s': "cs_state st' = Some cc" "cmp_buf cc = Some stream'" "ok (st_context stream')" "inp (st_context stream') = rest"
    using d(2) by (auto simp: source_def feeds_def)
  let ?fac1 = "?fac\<lparr>fac_buffers := mm_pool M', fac_store := (fac_store ?fac)(a \<mapsto> ?msg)\<rparr>"
  have zero: "msg_buffer (message_zero :: mem_ptr io_message) = None" by (simp add: message_zero_def)
  have st1: "?st\<lparr>cs_mem := ?m\<lparr>mm_pool := fac_buffers fac, mm_buffer := None\<rparr>\<rparr> = ?st1" by simp
  have "io_iot_hub_ws_connection_receive_handler M L E option handler_cb (h, fac, m) stream =
      (case handler_cb a (h, ?fac1) of (result, h', fac2) \<Rightarrow> (result, (h', io_message_release fac2 (Some a), M'), stream'))"
  proof -
    obtain result h' fac2 where "handler_cb a (h, ?fac1) = (result, h', fac2)"
      by (cases "handler_cb a (h, ?fac1)")
    then show ?thesis
      unfolding io_iot_hub_ws_connection_receive_handler_def prod.case init create
      using d s' zero by (simp add: codec_stream_def io_codec_ctx_fini_def mpack_codec_def mpack_fini_ctx_def Let_def)
  qed
  then show ?thesis
  proof (rule that)
    show "if content_payload c = [] then mm_buffer M' = None \<and> pool_live (fac_buffers ?fac1) = pool_live (fac_buffers fac)
        else \<exists>b. mm_buffer M' = Some b \<and> q = pool_ptr b 0 \<and> pool_live (fac_buffers fac) b = 0 \<and>
          pool_live (fac_buffers ?fac1) = (pool_live (fac_buffers fac))(b := 1)"
      using q(4) by (cases "content_payload c = []") auto
  qed (use s' q(2,3) a in simp_all)
qed

end

end
