(* ===== verification/Cmp_Model.thy ===== *)
theory Cmp_Model
  imports Prelude Mpack_Laws
begin

text \<open>
  A library in the place of \<open>cmp\<close>, used where a concrete one is needed: it writes every item in the
  longest format of the MessagePack specification for its kind and reads back only that format. It
  satisfies the laws the development assumes of the library.
\<close>

fun nat_bytes :: "nat \<Rightarrow> nat \<Rightarrow> u8 list" where
  "nat_bytes 0 v = []"
| "nat_bytes (Suc n) v = of_nat (v mod 256) # nat_bytes n (v div 256)"

fun bytes_nat :: "u8 list \<Rightarrow> nat" where
  "bytes_nat [] = 0"
| "bytes_nat (b # bs) = unat b + 256 * bytes_nat bs"

lemma length_nat_bytes [simp]: "length (nat_bytes n v) = n"
  by (induction n arbitrary: v) simp_all

lemma bytes_nat_bytes: "v < 256 ^ n \<Longrightarrow> bytes_nat (nat_bytes n v) = v"
proof (induction n arbitrary: v)
  case (Suc n)
  have "v div 256 < 256 ^ n"
    using Suc.prems by (simp add: less_mult_imp_div_less mult.commute)
  then show ?case
    using Suc.IH by (simp add: unat_of_nat)
qed simp

definition be_bytes :: "nat \<Rightarrow> 'a::len word \<Rightarrow> u8 list" where
  "be_bytes n w = rev (nat_bytes n (unat w))"

definition be_word :: "u8 list \<Rightarrow> 'a::len word" where
  "be_word bs = of_nat (bytes_nat (rev bs))"

lemma length_be_bytes [simp]: "length (be_bytes n w) = n"
  by (simp add: be_bytes_def)

lemma be_word_bytes:
  "be_word (be_bytes 8 (u :: u64)) = u" "be_word (be_bytes 4 (v :: u32)) = v"
proof -
  have "unat u < 256 ^ 8" "unat v < 256 ^ 4"
    using unsigned_less [of u, where ?'a = nat] unsigned_less [of v, where ?'a = nat] by simp_all
  then show "be_word (be_bytes 8 u) = u" "be_word (be_bytes 4 v) = v"
    by (simp_all add: be_word_def be_bytes_def bytes_nat_bytes)
qed

text \<open>A tag byte, then a number of the given size.\<close>

definition demo_number :: "u8 \<Rightarrow> nat \<Rightarrow> 'a::len word cmp_reader" where
  "demo_number tag n = rd_need 7 1 (\<lambda>t. if t = [tag] then rd_need 9 n (\<lambda>d. rd_done (be_word d)) else rd_fail 13)"

primrec demo_item :: "cmp_item \<Rightarrow> u8 list" where
  "demo_item (cmp_integer i) = 0xd3 # be_bytes 8 i"
| "demo_item (cmp_uinteger u) = 0xcf # be_bytes 8 u"
| "demo_item (cmp_decimal d) = 0xcb # be_bytes 8 d"
| "demo_item (cmp_bool b) = [if b then 0xc3 else 0xc2]"
| "demo_item (cmp_str s) = (0xdb # be_bytes 4 (of_nat (length s) :: u32)) @ s"
| "demo_item (cmp_bin d) = (0xc6 # be_bytes 4 (of_nat (length d) :: u32)) @ d"
| "demo_item (cmp_array n) = 0xdd # be_bytes 4 n"
| "demo_item cmp_nil = [0xc0]"

definition demo_object :: "cmp_object cmp_reader" where
  "demo_object = rd_need 7 1 (\<lambda>t.
     if t = [0xc0] then rd_done obj_nil
     else if t = [0xdd] then rd_need 9 4 (\<lambda>d. rd_done (obj_array (be_word d)))
     else if t = [0xdf] then rd_done obj_map
     else rd_done obj_other)"

definition demo_cmp :: cmp_lib where
  "demo_cmp = \<lparr>cmp_ctx_size = 40,
     cmp_write = (\<lambda>item. [(10, demo_item item)]),
     cmp_read_integer = demo_number 0xd3 8,
     cmp_read_uinteger = demo_number 0xcf 8,
     cmp_read_decimal = demo_number 0xcb 8,
     cmp_read_bool = rd_need 7 1 (\<lambda>t. if t = [0xc3] then rd_done True else if t = [0xc2] then rd_done False else rd_fail 13),
     cmp_read_str_size = demo_number 0xdb 4,
     cmp_read_bin_size = demo_number 0xc6 4,
     cmp_read_array = demo_number 0xdd 4,
     cmp_read_object = demo_object,
     cmp_read_nil = rd_need 7 1 (\<lambda>t. if t = [0xc0] then rd_done () else rd_fail 13)\<rparr>"

lemma demo_number_reads: "length bs = n \<Longrightarrow> rd_list (demo_number tag n) (tag # bs @ rest) = Some (be_word bs, rest)"
  by (simp add: demo_number_def)

lemma demo_bytes [simp]: "cmp_bytes demo_cmp item = demo_item item"
  by (simp add: cmp_bytes_def demo_cmp_def)

lemma demo_cmp_laws: "cmp_laws demo_cmp"
proof -
  have "scalar_laws demo_cmp"
    by (simp add: scalar_laws_def) (simp add: demo_cmp_def demo_number_reads be_word_bytes)
  moreover have "sized_laws demo_cmp"
    by (simp add: sized_laws_def) (simp add: demo_cmp_def demo_number_reads be_word_bytes)
  moreover have "struct_laws demo_cmp"
    by (simp add: struct_laws_def) (simp add: demo_cmp_def demo_object_def demo_number_reads be_word_bytes)
  ultimately show ?thesis
    by (simp add: cmp_laws_def) (simp add: demo_cmp_def)
qed

end
