(* ===== verification/Ws_Delivery.thy ===== *)
theory Ws_Delivery
  imports Prelude Cmp_Model Ws_Transport
begin

text \<open>
  The way of the frames of a message from the outbound queue of one connection to the inbound queue of
  another, and its delivery there.
\<close>

section \<open>Frames in transit\<close>

text \<open>
  The websocket clients of the two ends: one frame is taken from the sender, put into a buffer of the
  receiver and completed on both sides. Without a frame or a buffer nothing happens.
\<close>

definition q_fill :: "addr \<Rightarrow> u8 list \<Rightarrow> io_queue \<Rightarrow> io_queue" where
  "q_fill a data q = (case q_bufs q a of
     None \<Rightarrow> q
   | Some b \<Rightarrow> q_put_buffer a (b\<lparr>qb_data := mem_put (qb_data b) 0 data (length data)\<rparr>) q)"

definition ws_fill :: "addr \<Rightarrow> u8 list \<Rightarrow> io_ws_connection \<Rightarrow> io_ws_connection" where
  "ws_fill a data c = c\<lparr>ws_inbound := (ws_inbound c)\<lparr>wst_queue := q_fill a data (wst_queue (ws_inbound c))\<rparr>\<rparr>"

definition ws_transfer :: "allocator \<Rightarrow> io_ws_connection \<times> io_ws_connection \<Rightarrow> io_ws_connection \<times> io_ws_connection" where
  "ws_transfer A = (\<lambda>(c, r). case io_ws_connection_event_handler A pal_wsclient_event_begin_recv r of
     ((None, _, _), _) \<Rightarrow> (c, r)
   | ((Some a', _, _), r') \<Rightarrow> (case io_ws_connection_event_handler A pal_wsclient_event_begin_send c of
       ((None, _, _), _) \<Rightarrow> (c, r)
     | ((Some a, n, t), c') \<Rightarrow>
         let data = (case q_bufs (wst_queue (ws_outbound c')) a of None \<Rightarrow> [] | Some b \<Rightarrow> take n (qb_data b))
         in (snd (io_ws_connection_event_handler A (pal_wsclient_event_end_send (Some a) er_ok) c'),
             snd (io_ws_connection_event_handler A (pal_wsclient_event_end_recv (Some a') n t er_ok) (ws_fill a' data r')))))"

section \<open>Queue lemmas\<close>

lemma q_put_buffer_twice [simp]: "q_put_buffer a b (q_put_buffer a b' q) = q_put_buffer a b q"
  by (simp add: q_put_buffer_def)

lemma q_set_state_unlinked:
  assumes "q_inv q" "a \<in> dom (q_bufs q)" "a \<notin> set (q_linked q)"
  shows "q_set_state st q a = q_set_list st (q_list st q @ [a]) q"
proof -
  have "qb_queue (the (q_bufs q a))"
    using assms q_inv_buf_ok [of q a] by (auto simp: qb_ok_def)
  moreover have "q_unlink a q = q"
    using assms(3) by (simp add: q_unlink_def q_linked_def remove1_idem)
  ultimately show ?thesis
    using assms(2) by (auto simp: q_set_state_def io_queue_state_push_def Let_def)
qed

lemma q_pop_ready_inv:
  assumes "q_inv q" "q_ready q = a # rest"
  shows "q_inv (q\<lparr>q_ready := rest\<rparr>)" "a \<in> dom (q_bufs q)" "a \<notin> set (q_linked (q\<lparr>q_ready := rest\<rparr>))"
  using assms by (auto simp: q_inv_def q_linked_def)

lemma q_start_one:
  assumes "q_inv q" "q_ready q = a # rest"
  shows "io_queue_buffer_set_inprogress (q\<lparr>q_ready := rest\<rparr>) a = q\<lparr>q_ready := rest, q_inprogress := q_inprogress q @ [a]\<rparr>"
  using q_pop_ready_inv [OF assms] q_set_state_unlinked [of "q\<lparr>q_ready := rest\<rparr>" a qs_inprogress]
  by (simp add: io_queue_buffer_set_inprogress_def)

lemma io_ws_all_done_eq:
  "q_inv q \<Longrightarrow> io_ws_all_done q = q\<lparr>q_inprogress := [], q_done := q_done q @ q_inprogress q\<rparr>"
proof (induction "q_inprogress q" arbitrary: q)
  case Nil
  then show ?case
    by (subst io_ws_all_done.simps) (simp add: io_queue_pop_inprogress_def io_queue_state_pop_def)
next
  case (Cons a rest)
  let ?q = "q\<lparr>q_inprogress := rest\<rparr>"
  have q: "q_inv ?q" "a \<in> dom (q_bufs ?q)" "a \<notin> set (q_linked ?q)"
    using Cons.prems Cons.hyps(2) [symmetric] by (auto simp: q_inv_def q_linked_def)
  have s: "io_queue_buffer_set_done ?q a = ?q\<lparr>q_done := q_done q @ [a]\<rparr>"
    using q_set_state_unlinked [OF q, of qs_done] by (simp add: io_queue_buffer_set_done_def)
  have inv: "q_inv (?q\<lparr>q_done := q_done q @ [a]\<rparr>)"
    using q_set_state_inv [OF q(1), of qs_done a] s by (simp add: io_queue_buffer_set_done_def)
  have "io_ws_all_done q = io_ws_all_done (?q\<lparr>q_done := q_done q @ [a]\<rparr>)"
    using Cons.hyps(2) [symmetric] s
    by (subst io_ws_all_done.simps) (simp add: io_queue_pop_inprogress_def io_queue_state_pop_def)
  then show ?case
    using Cons.hyps(1) [of "?q\<lparr>q_done := q_done q @ [a]\<rparr>"] inv Cons.hyps(2) [symmetric] by simp
qed

section \<open>One frame\<close>

definition ws_receiving :: "io_ws_connection \<Rightarrow> bool" where
  "ws_receiving r \<longleftrightarrow> wst_ok (ws_inbound r) \<and> wst_current (ws_inbound r) = None \<and>
     pool_supplied (q_factory (wst_queue (ws_inbound r)))"

definition received_frames :: "io_queue \<Rightarrow> (i32 \<times> u8 list) list" where
  "received_frames q = map (\<lambda>a. (case q_bufs q a of None \<Rightarrow> 0 | Some b \<Rightarrow> qb_flags b, buf_input q a)) (q_ready q)"

lemma ws_send_one:
  assumes c: "ws_sending c" "ws_frames (wst_queue (ws_outbound c)) = (t, d) # fr"
  obtains a c1 b where
    "io_ws_connection_event_handler A pal_wsclient_event_begin_send c = ((Some a, length d, t), c1)"
    "q_bufs (wst_queue (ws_outbound c1)) a = Some b" "take (length d) (qb_data b) = d"
    "ws_sending (snd (io_ws_connection_event_handler A (pal_wsclient_event_end_send (Some a) er_ok) c1))"
    "ws_frames (wst_queue (ws_outbound (snd (io_ws_connection_event_handler A (pal_wsclient_event_end_send (Some a) er_ok) c1)))) = fr"
proof -
  let ?q = "wst_queue (ws_outbound c)"
  have inv: "q_inv ?q" and sup: "pool_supplied (q_factory ?q)"
    using c(1) by (auto simp: ws_sending_def wst_ok_def)
  obtain a rest where r: "q_ready ?q = a # rest" and a: "buf_frame ?q a = (t, d)" and fr: "map (buf_frame ?q) rest = fr"
    using c(2) by (auto simp: ws_frames_def)
  note p = q_pop_ready_inv [OF inv r]
  obtain b where b: "q_bufs ?q a = Some b" using p(2) by auto
  have ok: "qb_ok b" by (rule q_inv_buf_ok [OF inv b])
  have td: "t = qb_flags b" "d = take (qb_write_offset b) (qb_data b)" "length d = qb_write_offset b"
    using a b ok by (auto simp: buf_frame_def qb_ok_def)
  let ?q1 = "?q\<lparr>q_ready := rest\<rparr>"
  let ?c1 = "c\<lparr>ws_outbound := (ws_outbound c)\<lparr>wst_queue := ?q1\<rparr>\<rparr>"
  have first: "io_ws_connection_event_handler A pal_wsclient_event_begin_send c = ((Some a, length d, t), ?c1)"
    using r b td by (simp add: io_ws_connection_event_handler_def io_ws_connection_on_begin_send_def
        io_queue_pop_ready_def io_queue_state_pop_def)
  let ?b = "b\<lparr>qb_code := er_ok\<rparr>"
  let ?q2 = "q_put_buffer a ?b ?q1"
  have q2: "q_inv ?q2" "a \<in> dom (q_bufs ?q2)" "a \<notin> set (q_linked ?q2)"
    using q_put_buffer_inv [OF p(1) _, of a ?b] p ok by (auto simp: qb_ok_def)
  let ?q3 = "?q2\<lparr>q_inprogress := q_inprogress ?q @ [a]\<rparr>"
  have s3: "io_queue_buffer_set_inprogress ?q2 a = ?q3"
    using q_set_state_unlinked [OF q2, of qs_inprogress] by (simp add: io_queue_buffer_set_inprogress_def)
  have inv3: "q_inv ?q3"
    using q_set_state_inv [OF q2(1), of qs_inprogress a] s3 by (simp add: io_queue_buffer_set_inprogress_def)
  define q4 where "q4 = (if t = pal_wsclient_buffer_type_binary_msg then io_ws_all_done ?q3 else ?q3)"
  have q4: "q_inv q4" "q_ready q4 = rest" "q_bufs q4 = (q_bufs ?q)(a \<mapsto> ?b)" "q_factory q4 = q_factory ?q"
  proof -
    have "q_inv (io_ws_all_done ?q3)"
      using inv3 unfolding io_ws_all_done_eq [OF inv3] by (auto simp: q_inv_def q_linked_def)
    then show "q_inv q4" "q_ready q4 = rest" "q_bufs q4 = (q_bufs ?q)(a \<mapsto> ?b)" "q_factory q4 = q_factory ?q"
      using inv3 io_ws_all_done_eq [OF inv3] by (simp_all add: q4_def)
  qed
  let ?c2 = "snd (io_ws_connection_event_handler A (pal_wsclient_event_end_send (Some a) er_ok) ?c1)"
  have out: "ws_outbound ?c2 = (ws_outbound c)\<lparr>wst_queue := q4\<rparr>"
    using b s3 td(1) by (simp add: io_ws_connection_event_handler_def io_ws_connection_on_end_send_def Let_def
        ws_do_next_def q4_def)
  have "map (buf_frame q4) rest = fr"
    unfolding fr [symmetric] using p(3) q4(3) by (intro map_cong refl buf_frame_cong) (auto simp: q_linked_def)
  then have "ws_frames q4 = fr"
    by (simp add: ws_frames_def q4(2))
  moreover have "ws_sending ?c2"
    using c(1) out q4 sup by (simp add: ws_sending_def wst_ok_def)
  ultimately show ?thesis
    using that [OF first, of b] b td out by simp
qed


lemma ws_receive_one:
  assumes A: "al_total A" and r: "ws_receiving r" and d: "length d \<le> DEFAULT_FRAME_SIZE"
  obtains a r1 where
    "io_ws_connection_event_handler A pal_wsclient_event_begin_recv r = ((Some a, DEFAULT_FRAME_SIZE, 0), r1)"
    "ws_receiving (snd (io_ws_connection_event_handler A (pal_wsclient_event_end_recv (Some a) (length d) t er_ok) (ws_fill a d r1)))"
    "received_frames (wst_queue (ws_inbound (snd (io_ws_connection_event_handler A
        (pal_wsclient_event_end_recv (Some a) (length d) t er_ok) (ws_fill a d r1))))) =
      received_frames (wst_queue (ws_inbound r)) @ [(t, d)]"
    "q_inprogress (wst_queue (ws_inbound (snd (io_ws_connection_event_handler A
        (pal_wsclient_event_end_recv (Some a) (length d) t er_ok) (ws_fill a d r1))))) = q_inprogress (wst_queue (ws_inbound r))"
proof -
  let ?q = "wst_queue (ws_inbound r)"
  have inv: "q_inv ?q" and sup: "pool_supplied (q_factory ?q)"
    using r by (auto simp: ws_receiving_def wst_ok_def)
  obtain e x q1 where n: "io_queue_create_buffer A ?q None DEFAULT_FRAME_SIZE = (e, x, q1)"
    by (cases "io_queue_create_buffer A ?q None DEFAULT_FRAME_SIZE")
  note m = io_queue_create_buffer_empty [OF n]
  have sup1: "x \<noteq> None" "pool_supplied (q_factory q1)"
    using prx_buffer_new_supplied [OF A sup, of "size_add DEFAULT_FRAME_SIZE SIZEOF_IO_QUEUE_BUFFER"] m(4) by auto
  then obtain a where x: "x = Some a" by blast
  obtain b where e: "e = er_ok" and b: "q_bufs q1 = (q_bufs ?q)(a \<mapsto> b)" "qb_length b = DEFAULT_FRAME_SIZE" "qb_read_offset b = 0"
      "qb_write_offset b = 0"
    using m(6) [OF x] by auto
  have inv1: "q_inv q1" and fresh: "q_bufs ?q a = None"
    using io_queue_create_frame_inv [OF inv n] x by auto
  have a: "a \<notin> set (q_linked q1)"
    using fresh inv m(1-3) by (auto simp: q_linked_def q_inv_def)
  have "qb_ok b"
    using q_inv_buf_ok [OF inv1, of a b] b(1) by simp
  then have len: "DEFAULT_FRAME_SIZE \<le> length (qb_data b)" "qb_queue b"
    using b(2) by (simp_all add: qb_ok_def)
  let ?b = "b\<lparr>qb_data := mem_put (qb_data b) 0 d (length d), qb_flags := t, qb_length := length d\<rparr>"
  have okb: "qb_ok ?b"
    using len d b(3,4) by (simp add: qb_ok_def mem_put_def)
  let ?q2 = "q_put_buffer a ?b q1"
  have q2: "q_inv ?q2" "a \<in> dom (q_bufs ?q2)" "a \<notin> set (q_linked ?q2)"
    using q_put_buffer_inv [OF inv1 _ okb, of a] a b(1) by auto
  have s: "io_queue_buffer_set_ready ?q2 a = ?q2\<lparr>q_ready := q_ready q1 @ [a]\<rparr>"
    using q_set_state_unlinked [OF q2, of qs_ready] by (simp add: io_queue_buffer_set_ready_def)
  have inv3: "q_inv (?q2\<lparr>q_ready := q_ready q1 @ [a]\<rparr>)"
    using q_set_state_inv [OF q2(1), of qs_ready a] s by (simp add: io_queue_buffer_set_ready_def)
  let ?r1 = "r\<lparr>ws_inbound := (ws_inbound r)\<lparr>wst_queue := q1\<rparr>\<rparr>"
  have first: "io_ws_connection_event_handler A pal_wsclient_event_begin_recv r = ((Some a, DEFAULT_FRAME_SIZE, 0), ?r1)"
    using n x e by (simp add: io_ws_connection_event_handler_def io_ws_connection_on_begin_receive_def)
  let ?r2 = "snd (io_ws_connection_event_handler A (pal_wsclient_event_end_recv (Some a) (length d) t er_ok) (ws_fill a d ?r1))"
  have "ws_inbound ?r2 = (ws_inbound r)\<lparr>wst_queue := ?q2\<lparr>q_ready := q_ready q1 @ [a]\<rparr>\<rparr>"
    using b(1) s by (cases "t = pal_wsclient_buffer_type_binary_msg") (simp_all add: io_ws_connection_event_handler_def
        io_ws_connection_on_end_receive_def ws_fill_def q_fill_def ws_do_next_def Let_def)
  moreover have "received_frames (?q2\<lparr>q_ready := q_ready q1 @ [a]\<rparr>) = received_frames ?q @ [(t, d)]"
  proof -
    have "(case q_bufs ?q2 z of None \<Rightarrow> 0 | Some b \<Rightarrow> qb_flags b, buf_input (?q2\<lparr>q_ready := q_ready q1 @ [a]\<rparr>) z) =
        (case q_bufs ?q z of None \<Rightarrow> 0 | Some b \<Rightarrow> qb_flags b, buf_input ?q z)" if "z \<in> set (q_ready ?q)" for z
    proof -
      have "z \<noteq> a" using that a m(1) by (auto simp: q_linked_def)
      then show ?thesis by (simp add: buf_input_def b(1))
    qed
    moreover have "buf_input (?q2\<lparr>q_ready := q_ready q1 @ [a]\<rparr>) a = d"
      using b(3) d len by (simp add: buf_input_def qb_input_def mem_put_def)
    ultimately show ?thesis
      by (simp add: received_frames_def m(1))
  qed
  moreover have "ws_receiving ?r2"
    using calculation(1) inv3 sup1(2) r by (simp add: ws_receiving_def wst_ok_def)
  ultimately show ?thesis
    using that [OF first] m(2) by simp
qed

lemma ws_transfer_one:
  assumes A: "al_total A" and c: "ws_sending c" "ws_frames (wst_queue (ws_outbound c)) = (t, d) # fr"
    and r: "ws_receiving r" and d: "length d \<le> DEFAULT_FRAME_SIZE"
  shows "case ws_transfer A (c, r) of (c', r') \<Rightarrow> ws_sending c' \<and> ws_frames (wst_queue (ws_outbound c')) = fr \<and> ws_receiving r' \<and>
    received_frames (wst_queue (ws_inbound r')) = received_frames (wst_queue (ws_inbound r)) @ [(t, d)] \<and>
    q_inprogress (wst_queue (ws_inbound r')) = q_inprogress (wst_queue (ws_inbound r))"
proof -
  obtain a c1 b where s: "io_ws_connection_event_handler A pal_wsclient_event_begin_send c = ((Some a, length d, t), c1)"
    "q_bufs (wst_queue (ws_outbound c1)) a = Some b" "take (length d) (qb_data b) = d"
    "ws_sending (snd (io_ws_connection_event_handler A (pal_wsclient_event_end_send (Some a) er_ok) c1))"
    "ws_frames (wst_queue (ws_outbound (snd (io_ws_connection_event_handler A (pal_wsclient_event_end_send (Some a) er_ok) c1)))) = fr"
    using ws_send_one [OF c, of A] by blast
  obtain a' r1 where t:
    "io_ws_connection_event_handler A pal_wsclient_event_begin_recv r = ((Some a', DEFAULT_FRAME_SIZE, 0), r1)"
    "ws_receiving (snd (io_ws_connection_event_handler A (pal_wsclient_event_end_recv (Some a') (length d) t er_ok) (ws_fill a' d r1)))"
    "received_frames (wst_queue (ws_inbound (snd (io_ws_connection_event_handler A
        (pal_wsclient_event_end_recv (Some a') (length d) t er_ok) (ws_fill a' d r1))))) =
      received_frames (wst_queue (ws_inbound r)) @ [(t, d)]"
    "q_inprogress (wst_queue (ws_inbound (snd (io_ws_connection_event_handler A
        (pal_wsclient_event_end_recv (Some a') (length d) t er_ok) (ws_fill a' d r1))))) = q_inprogress (wst_queue (ws_inbound r))"
    using ws_receive_one [OF A r d, of t] by blast
  show ?thesis
    using s t by (simp add: ws_transfer_def)
qed

lemma ws_transfer_all:
  assumes A: "al_total A"
  shows "ws_sending c \<Longrightarrow> ws_receiving r \<Longrightarrow> ws_frames (wst_queue (ws_outbound c)) = fr @ fr' \<Longrightarrow>
    \<forall>f \<in> set fr. length (snd f) \<le> DEFAULT_FRAME_SIZE \<Longrightarrow>
    case (ws_transfer A ^^ length fr) (c, r) of (c', r') \<Rightarrow> ws_sending c' \<and> ws_frames (wst_queue (ws_outbound c')) = fr' \<and>
      ws_receiving r' \<and> received_frames (wst_queue (ws_inbound r')) = received_frames (wst_queue (ws_inbound r)) @ fr \<and>
      q_inprogress (wst_queue (ws_inbound r')) = q_inprogress (wst_queue (ws_inbound r))"
proof (induction fr arbitrary: c r)
  case (Cons f fr)
  obtain t d where f: "f = (t, d)" by (cases f)
  obtain c1 r1 where t: "ws_transfer A (c, r) = (c1, r1)" by (cases "ws_transfer A (c, r)")
  have one: "ws_sending c1" "ws_frames (wst_queue (ws_outbound c1)) = fr @ fr'" "ws_receiving r1"
      "received_frames (wst_queue (ws_inbound r1)) = received_frames (wst_queue (ws_inbound r)) @ [(t, d)]"
      "q_inprogress (wst_queue (ws_inbound r1)) = q_inprogress (wst_queue (ws_inbound r))"
    using ws_transfer_one [OF A Cons.prems(1), of t d "fr @ fr'" r] Cons.prems f t by simp_all
  have "(ws_transfer A ^^ length (f # fr)) (c, r) = (ws_transfer A ^^ length fr) (c1, r1)"
    using t by (simp add: funpow_swap1)
  then show ?case
    using Cons.IH [OF one(1,3,2)] Cons.prems(4) one f by (simp split: prod.splits)
qed simp


section \<open>Delivery\<close>

definition ws_start :: "addr list \<Rightarrow> addr list \<Rightarrow> nat \<Rightarrow> io_ws_connection \<Rightarrow> io_ws_connection" where
  "ws_start xs rest n c = c\<lparr>ws_inbound := (ws_inbound c)\<lparr>wst_queue := (wst_queue (ws_inbound c))
     \<lparr>q_ready := rest, q_inprogress := q_inprogress (wst_queue (ws_inbound c)) @ xs\<rparr>, wst_readable := n\<rparr>\<rparr>"

definition ws_finish :: "int \<Rightarrow> prx_error \<times> 'x \<times> io_ws_connection \<Rightarrow> 'x \<times> io_ws_connection" where
  "ws_finish now = (\<lambda>(result, x, c). (x, if result \<noteq> er_ok then ws_do_next task_disconnect (io_ws_stream_delivered c)
     else io_ws_connection_clear_failures now (io_ws_stream_delivered c)))"

lemma q_start_inv:
  "q_inv q \<Longrightarrow> q_ready q = xs @ rest \<Longrightarrow> q_inv (q\<lparr>q_ready := rest, q_inprogress := q_inprogress q @ xs\<rparr>)"
  by (auto simp: q_inv_def q_linked_def)

lemma io_ws_deliver_loop_frames:
  "q_inv (wst_queue (ws_inbound c)) \<Longrightarrow> q_ready (wst_queue (ws_inbound c)) = xs @ z # rest \<Longrightarrow>
    \<forall>a \<in> set xs. \<forall>b. q_bufs (wst_queue (ws_inbound c)) a = Some b \<longrightarrow> qb_flags b \<noteq> pal_wsclient_buffer_type_binary_msg \<Longrightarrow>
    \<forall>b. q_bufs (wst_queue (ws_inbound c)) z = Some b \<longrightarrow> qb_flags b = pal_wsclient_buffer_type_binary_msg \<Longrightarrow>
    \<exists>n. io_ws_deliver_loop recv now x c = Some (ws_finish now (recv x (ws_start (xs @ [z]) rest n c)))"
proof (induction xs arbitrary: c)
  case Nil
  let ?q = "wst_queue (ws_inbound c)"
  obtain b where b: "q_bufs ?q z = Some b"
    using Nil.prems(1,2) by (auto simp: q_inv_def q_linked_def)
  have s: "io_queue_buffer_set_inprogress (?q\<lparr>q_ready := rest\<rparr>) z = ?q\<lparr>q_ready := rest, q_inprogress := q_inprogress ?q @ [z]\<rparr>"
    using q_start_one [OF Nil.prems(1)] Nil.prems(2) by simp
  have "io_ws_deliver_loop recv now x c =
      Some (ws_finish now (recv x (ws_start [z] rest (size_add (wst_readable (ws_inbound c)) (qb_length b)) c)))"
    using Nil.prems(2,4) b s by (subst io_ws_deliver_loop.simps)
      (simp add: io_queue_pop_ready_def io_queue_state_pop_def ws_start_def ws_finish_def Let_def split: prod.splits)
  then show ?case by auto
next
  case (Cons a xs)
  let ?q = "wst_queue (ws_inbound c)"
  obtain b where b: "q_bufs ?q a = Some b"
    using Cons.prems(1,2) by (auto simp: q_inv_def q_linked_def)
  let ?q1 = "?q\<lparr>q_ready := xs @ z # rest, q_inprogress := q_inprogress ?q @ [a]\<rparr>"
  let ?c = "c\<lparr>ws_inbound := (ws_inbound c)\<lparr>wst_queue := ?q1, wst_readable := size_add (wst_readable (ws_inbound c)) (qb_length b)\<rparr>\<rparr>"
  have s: "io_queue_buffer_set_inprogress (?q\<lparr>q_ready := xs @ z # rest\<rparr>) a = ?q1"
    using q_start_one [OF Cons.prems(1)] Cons.prems(2) by simp
  have "io_ws_deliver_loop recv now x c = io_ws_deliver_loop recv now x ?c"
    using Cons.prems(2,3) b s by (subst io_ws_deliver_loop.simps) (simp add: io_queue_pop_ready_def io_queue_state_pop_def)
  moreover have "q_inv ?q1"
    using q_start_inv [OF Cons.prems(1), of "[a]"] Cons.prems(2) by simp
  ultimately show ?case
    using Cons.IH [of ?c] Cons.prems(3,4) by (simp add: ws_start_def)
qed


lemma io_ws_stream_delivered_ok:
  assumes c0: "pool_supplied (q_factory (wst_queue (ws_inbound c0)))" "wst_solid (ws_inbound c0)"
    and c: "ws_in_ok c0 c" "ws_input c = []"
  shows "ws_receiving (io_ws_stream_delivered c)" "q_inprogress (wst_queue (ws_inbound (io_ws_stream_delivered c))) = []"
    "received_frames (wst_queue (ws_inbound (io_ws_stream_delivered c))) = received_frames (wst_queue (ws_inbound c0))"
proof -
  let ?s = "ws_inbound c" and ?t = "ws_inbound (io_ws_stream_delivered c)"
  have k: "wst_ok ?s" "wst_kept (ws_inbound c0) ?s"
    using c(1) by (auto simp: ws_in_ok_def)
  have ip: "q_inprogress (wst_queue ?s) = []"
    using wst_solid_end [of ?s] c k(2) c0 by (simp add: ws_input_def wst_kept_def)
  have sup: "pool_supplied (q_factory (wst_queue ?s))"
    using k(2) c0 by (simp add: wst_kept_def)
  have bufs: "q_ready (wst_queue ?s) = q_ready (wst_queue (ws_inbound c0))"
      "\<And>a. a \<in> set (q_ready (wst_queue (ws_inbound c0))) \<Longrightarrow> q_bufs (wst_queue ?s) a = q_bufs (wst_queue (ws_inbound c0)) a"
    using k(2) by (auto simp: wst_kept_def)
  have t: "wst_current ?t = None" "wst_ok ?t" "pool_supplied (q_factory (wst_queue ?t))" "q_inprogress (wst_queue ?t) = []"
      "q_ready (wst_queue ?t) = q_ready (wst_queue ?s)"
      "\<And>a. a \<in> set (q_ready (wst_queue ?s)) \<Longrightarrow> q_bufs (wst_queue ?t) a = q_bufs (wst_queue ?s) a"
  proof -
    have "wst_current ?t = None \<and> wst_ok ?t \<and> pool_supplied (q_factory (wst_queue ?t)) \<and> q_inprogress (wst_queue ?t) = [] \<and>
      q_ready (wst_queue ?t) = q_ready (wst_queue ?s) \<and>
      (\<forall>a \<in> set (q_ready (wst_queue ?s)). q_bufs (wst_queue ?t) a = q_bufs (wst_queue ?s) a)"
    proof (cases "wst_current ?s")
      case None
      then show ?thesis
        using k(1) sup ip by (simp add: io_ws_stream_delivered_def Let_def wst_ok_def)
    next
      case (Some a)
      then have a: "q_inv (wst_queue ?s)" "a \<in> dom (q_bufs (wst_queue ?s))" "a \<notin> set (q_linked (wst_queue ?s))"
        using k(1) by (auto simp: wst_ok_def)
      note r = io_queue_buffer_release_unlinked [OF a]
      have "a \<notin> set (q_ready (wst_queue ?s))"
        using a(3) by (simp add: q_linked_def)
      then show ?thesis
        using Some r sup ip by (auto simp: io_ws_stream_delivered_def Let_def wst_ok_def)
    qed
    then show "wst_current ?t = None" "wst_ok ?t" "pool_supplied (q_factory (wst_queue ?t))" "q_inprogress (wst_queue ?t) = []"
      "q_ready (wst_queue ?t) = q_ready (wst_queue ?s)"
      "\<And>a. a \<in> set (q_ready (wst_queue ?s)) \<Longrightarrow> q_bufs (wst_queue ?t) a = q_bufs (wst_queue ?s) a" by blast+
  qed
  show "ws_receiving (io_ws_stream_delivered c)"
    using t by (simp add: ws_receiving_def)
  show "q_inprogress (wst_queue ?t) = []" by (rule t(4))
  show "received_frames (wst_queue ?t) = received_frames (wst_queue (ws_inbound c0))"
    unfolding received_frames_def t(5) bufs(1) using t(6) bufs by (auto simp: buf_input_def)
qed

lemma message_frames_nonempty: "message_frames bytes fr \<Longrightarrow> f \<in> set fr \<Longrightarrow> snd f \<noteq> [] \<and> length (snd f) \<le> DEFAULT_FRAME_SIZE"
  by (fastforce simp: message_frames_def DEFAULT_FRAME_SIZE_def)

lemma message_frames_concat: "message_frames bytes fr \<Longrightarrow> concat (map snd fr) = bytes"
  by (auto simp: message_frames_def comp_def)

lemma buf_input_update [simp]: "buf_input (q\<lparr>q_ready := x, q_inprogress := y\<rparr>) = buf_input q"
  by (simp add: buf_input_def fun_eq_iff)

text \<open>A complete message at the head of the received frames is the input of the receiver.\<close>

lemma ws_message_ready:
  assumes r: "ws_receiving r" "q_inprogress (wst_queue (ws_inbound r)) = []"
    and fr: "received_frames (wst_queue (ws_inbound r)) = fr @ fr'" "message_frames bytes fr"
  obtains c0 where "io_ws_connection_deliver_stream recv now x r = Some (ws_finish now (recv x c0))"
    "ws_in_ok c0 c0" "ws_input c0 = bytes" "wst_solid (ws_inbound c0)"
    "pool_supplied (q_factory (wst_queue (ws_inbound c0)))" "received_frames (wst_queue (ws_inbound c0)) = fr'"
proof -
  let ?q = "wst_queue (ws_inbound r)"
  let ?f = "\<lambda>a. (case q_bufs ?q a of None \<Rightarrow> 0 | Some b \<Rightarrow> qb_flags b, buf_input ?q a)"
  have inv: "q_inv ?q"
    using r by (simp add: ws_receiving_def wst_ok_def)
  obtain ys rest where ys: "q_ready ?q = ys @ rest" "map ?f ys = fr" "map ?f rest = fr'"
    using fr(1) by (auto simp: received_frames_def map_eq_append_conv)
  obtain F last where F: "fr = map (Pair pal_wsclient_buffer_type_binary_fragment) F @ [(pal_wsclient_buffer_type_binary_msg, last)]"
    using fr(2) by (auto simp: message_frames_def)
  obtain xs z where xs: "ys = xs @ [z]" "map ?f xs = map (Pair pal_wsclient_buffer_type_binary_fragment) F"
      "?f z = (pal_wsclient_buffer_type_binary_msg, last)"
    using ys(2) unfolding F by (auto simp: map_eq_append_conv)
  let ?r0 = "r\<lparr>ws_inbound := (ws_inbound r)\<lparr>wst_readable := 0\<rparr>\<rparr>"
  have "\<forall>a \<in> set xs. fst (?f a) = pal_wsclient_buffer_type_binary_fragment"
  proof
    fix a assume "a \<in> set xs"
    then have "?f a \<in> set (map (Pair pal_wsclient_buffer_type_binary_fragment) F)"
      unfolding xs(2) [symmetric] by simp
    then show "fst (?f a) = pal_wsclient_buffer_type_binary_fragment" by auto
  qed
  then have frag: "\<forall>a \<in> set xs. \<forall>b. q_bufs ?q a = Some b \<longrightarrow> qb_flags b \<noteq> pal_wsclient_buffer_type_binary_msg"
    by (auto split: option.splits)
  have msg: "\<forall>b. q_bufs ?q z = Some b \<longrightarrow> qb_flags b = pal_wsclient_buffer_type_binary_msg"
    using xs(3) by auto
  obtain n where n: "io_ws_deliver_loop recv now x ?r0 = Some (ws_finish now (recv x (ws_start ys rest n ?r0)))"
    using io_ws_deliver_loop_frames [of ?r0 xs z rest recv now x] inv ys(1) xs(1) frag msg by auto
  let ?c0 = "ws_start ys rest n ?r0"
  have q0: "wst_queue (ws_inbound ?c0) = ?q\<lparr>q_ready := rest, q_inprogress := ys\<rparr>" "wst_current (ws_inbound ?c0) = None"
    using r by (simp_all add: ws_start_def ws_receiving_def)
  have "wst_ok (ws_inbound ?c0)"
    using q_start_inv [OF inv ys(1)] r(2) q0 by (simp add: wst_ok_def)
  moreover have "\<exists>s. ?c0 = ?c0\<lparr>ws_inbound := s\<rparr>"
    by (intro exI [of _ "ws_inbound ?c0"]) simp
  ultimately have "ws_in_ok ?c0 ?c0"
    by (simp add: ws_in_ok_def)
  moreover have inputs: "map (buf_input ?q) ys = map snd fr"
    unfolding ys(2) [symmetric] by (simp add: comp_def)
  then have "ws_input ?c0 = bytes"
    using message_frames_concat [OF fr(2)] by (simp add: ws_input_def wst_input_def q0)
  moreover have "wst_solid (ws_inbound ?c0)"
  proof -
    have "buf_input ?q a \<noteq> []" if "a \<in> set ys" for a
    proof -
      have "?f a \<in> set fr" unfolding ys(2) [symmetric] using that by simp
      then show ?thesis using message_frames_nonempty [OF fr(2)] by fastforce
    qed
    then show ?thesis by (simp add: wst_solid_def q0)
  qed
  moreover have "pool_supplied (q_factory (wst_queue (ws_inbound ?c0)))"
    using r(1) by (simp add: q0 ws_receiving_def)
  moreover have "received_frames (wst_queue (ws_inbound ?c0)) = fr'"
    using ys(3) by (simp add: q0 received_frames_def)
  ultimately show ?thesis
    using that [of ?c0] n by (simp add: io_ws_connection_deliver_stream_def)
qed


lemma io_iot_hub_ws_sender_writes:
  assumes L: "cmp_laws L" "wire_content msg = Some cnt" "content_ok cnt"
    and A: "al_total A" "al_total (mm_alloc m)" and c: "ws_sending c"
  shows "\<exists>m' c1. io_iot_hub_ws_sender A L E msg m c = (er_ok, m', c1) \<and> ws_out_ok A c c1 \<and> ws_output c c1 = message_bytes L msg cnt"
proof -
  have al: "al_ok (mm_alloc m) (mm_count m) (cmp_ctx_size L)"
    using A(2) by (simp add: al_total_def)
  obtain m' st where "io_iot_hub_ws_connection_send_handler L E msg m (io_ws_outbound_itf A c) = (er_ok, m', st)"
      "ws_out_ok A c (st_context st)" "ws_output c (st_context st) = [] @ message_bytes L msg cnt"
    using ws_out.send_handler_emits [OF L al, where A = A and ?c0.0 = c and k = "length (message_bytes L msg cnt)"
        and stream = "io_ws_outbound_itf A c" and E = E] A ws_sending_start [OF c, of A]
    by (auto simp: io_ws_outbound_itf_def)
  then show ?thesis
    by (simp add: io_iot_hub_ws_sender_def)
qed

lemma ws_message_received:
  assumes L: "cmp_laws L" "wire_content msg = Some cnt" "content_ok cnt"
    and A: "al_total M" "pool_supplied (fac_messages fac)"
    and m: "al_total (mm_alloc m)" "pool_supplied (fac_buffers fac)" "mm_field m = []"
    and r: "ws_receiving r" "q_inprogress (wst_queue (ws_inbound r)) = []"
    and fr: "received_frames (wst_queue (ws_inbound r)) = fr @ fr'" "message_frames (message_bytes L msg cnt) fr"
  shows "\<exists>a fac1 q m1 r'.
    io_ws_connection_deliver_stream (io_iot_hub_ws_receiver M L E option handler_cb) now (h, fac, m) r =
      Some (case handler_cb a (h, fac1) of (result, h', fac2) \<Rightarrow> ((h', io_message_release fac2 (Some a), m1),
        if result \<noteq> er_ok then ws_do_next task_disconnect r' else io_ws_connection_clear_failures now r')) \<and>
    fac_store fac1 a = Some ((message_header msg message_zero)\<lparr>msg_content := content_at q cnt, msg_buffer := mm_buffer m1\<rparr>) \<and>
    fac_buffers fac1 = mm_pool m1 \<and> mem_load m1 q (length (content_payload cnt)) = Some (content_payload cnt) \<and>
    ws_receiving r' \<and> q_inprogress (wst_queue (ws_inbound r')) = [] \<and> received_frames (wst_queue (ws_inbound r')) = fr'"
proof -
  let ?recv = "io_iot_hub_ws_receiver M L E option handler_cb"
  obtain c0 where d: "io_ws_connection_deliver_stream ?recv now (h, fac, m) r = Some (ws_finish now (?recv (h, fac, m) c0))"
    and c0: "ws_in_ok c0 c0" "ws_input c0 = message_bytes L msg cnt @ []" "wst_solid (ws_inbound c0)"
      "pool_supplied (q_factory (wst_queue (ws_inbound c0)))" "received_frames (wst_queue (ws_inbound c0)) = fr'"
    using ws_message_ready [OF r fr, of ?recv now "(h, fac, m)"] by auto
  have st: "st_reader (io_ws_inbound_itf c0) = Some io_ws_connection_stream_reader" "st_context (io_ws_inbound_itf c0) = c0"
    by (simp_all add: io_ws_inbound_itf_def)
  obtain a fac1 q m1 stream' where h:
    "io_iot_hub_ws_connection_receive_handler M L E option handler_cb (h, fac, m) (io_ws_inbound_itf c0) =
       (case handler_cb a (h, fac1) of (result, h', fac2) \<Rightarrow> (result, (h', io_message_release fac2 (Some a), m1), stream'))"
    "ws_in_ok c0 (st_context stream')" "ws_input (st_context stream') = []"
    "fac_store fac1 a = Some ((message_header msg message_zero)\<lparr>msg_content := content_at q cnt, msg_buffer := mm_buffer m1\<rparr>)"
    "fac_buffers fac1 = mm_pool m1" "mem_load m1 q (length (content_payload cnt)) = Some (content_payload cnt)"
    by (rule ws_in.receive_handler_reads [OF L A m st(1), where ?c0.0 = c0 and rest = "[]" and E = E and option = option
        and handler_cb = handler_cb and h = h]) (use c0(1,2) in \<open>auto simp: st(2)\<close>)
  let ?r = "io_ws_stream_delivered (st_context stream')"
  have "io_ws_connection_deliver_stream ?recv now (h, fac, m) r =
      Some (case handler_cb a (h, fac1) of (result, h', fac2) \<Rightarrow> ((h', io_message_release fac2 (Some a), m1),
        if result \<noteq> er_ok then ws_do_next task_disconnect ?r else io_ws_connection_clear_failures now ?r))"
    using d h(1) by (simp add: io_iot_hub_ws_receiver_def ws_finish_def split: prod.splits)
  then show ?thesis
    using h(4-6) io_ws_stream_delivered_ok [OF c0(4,3) h(2,3)] c0(5) by blast
qed

section \<open>Properties\<close>



text \<open>A connection, a message factory and a data message for the witness.\<close>

definition ws_demo :: io_ws_connection where
  "ws_demo = the (snd (io_ws_connection_create pool_demo_allocator True er_ok True er_ok
     (True, er_ok, True, er_ok) (True, er_ok, True, er_ok)))"

definition fac_demo :: "mem_ptr io_message_factory" where
  "fac_demo = the (snd (io_iot_hub_connection_base_init True (pool_demo_allocator, True, er_ok) (pool_demo_allocator, True, er_ok) 400))"

definition mem_demo :: dec_mem where
  "mem_demo = \<lparr>mm_alloc = pool_demo_allocator, mm_count = 0, mm_heap = Map.empty, mm_field = [], mm_pool = prx_pool_zero,
     mm_buffer = None\<rparr>"

definition content_demo :: "u8 list option io_content" where
  "content_demo = data_message ((data_message_zero None)\<lparr>dm_sequence_number := 7,
     dm_buffer_length := 3, dm_buffer := Some [1, 2, 3]\<rparr>)"

definition message_demo :: "u8 list option io_message" where
  "message_demo = message_zero\<lparr>msg_type := io_message_type_data, msg_content := content_demo\<rparr>"

lemma demo_allocator_total: "al_total pool_demo_allocator"
  by (simp add: al_total_def pool_demo_allocator_def)

lemma ws_demo_ready:
  "ws_sending ws_demo" "ws_receiving ws_demo" "q_ready (wst_queue (ws_outbound ws_demo)) = []"
  "q_ready (wst_queue (ws_inbound ws_demo)) = []" "q_inprogress (wst_queue (ws_inbound ws_demo)) = []"
proof -
  obtain p where p: "prx_dynamic_pool_create pool_demo_allocator True er_ok 0 None = (er_ok, Some p)"
      "q_demo0 = \<lparr>q_factory = p, q_ready = [], q_inprogress = [], q_done = [], q_bufs = Map.empty, q_calls = []\<rparr>"
    using q_demo0_created by (auto simp: io_queue_create_def prx_dynamic_pool_create_def split: prod.splits option.splits if_splits)
  have q: "q_inv q_demo0" "pool_supplied (q_factory q_demo0)" "q_ready q_demo0 = []" "q_inprogress q_demo0 = []"
    using io_queue_create_inv [OF q_demo0_created] prx_dynamic_pool_create_supplied [OF demo_allocator_total p(1)]
    unfolding p(2) by simp_all
  have "ws_outbound ws_demo = \<lparr>wst_queue = q_demo0, wst_current = None, wst_readable = 0\<rparr>"
      "ws_inbound ws_demo = \<lparr>wst_queue = q_demo0, wst_current = None, wst_readable = 0\<rparr>"
    by (simp_all add: ws_demo_def io_ws_connection_create_def q_demo0_created)
  then show "ws_sending ws_demo" "ws_receiving ws_demo" "q_ready (wst_queue (ws_outbound ws_demo)) = []"
    "q_ready (wst_queue (ws_inbound ws_demo)) = []" "q_inprogress (wst_queue (ws_inbound ws_demo)) = []"
    using q by (simp_all add: ws_sending_def ws_receiving_def wst_ok_def)
qed


lemma fac_demo_supplied: "pool_supplied (fac_messages fac_demo)" "pool_supplied (fac_buffers fac_demo)"
proof -
  let ?config = "\<lparr>initial_count = 100, max_count = 0, low_watermark = 0, high_watermark = 0\<rparr>"
  let ?z = "prx_pool_zero\<lparr>pool_checked_out := [], pool_free_list := [], pool_item_size := 400, pool_count := 0, pool_config := ?config\<rparr>"
  have "fst (prx_fixed_pool_grow_no_lock pool_demo_allocator ?z) = er_ok"
    by (simp add: prx_fixed_pool_grow_no_lock_def pool_grow_items_def mem_alloc_def pool_demo_allocator_def Let_def)
  then have "\<exists>p. prx_fixed_pool_grow_no_lock pool_demo_allocator ?z = (er_ok, p)"
    by (metis prod.collapse)
  then obtain p where p: "prx_fixed_pool_create pool_demo_allocator True er_ok 400 (Some ?config) = (er_ok, Some p)"
    by (auto simp: prx_fixed_pool_create_def prx_buffer_pool_init_def prx_pool_config_init_def Let_def)
  obtain b where b: "prx_dynamic_pool_create pool_demo_allocator True er_ok 0 None = (er_ok, Some b)"
    using q_demo0_created by (auto simp: io_queue_create_def prx_dynamic_pool_create_def split: prod.splits option.splits if_splits)
  have "fac_messages fac_demo = p" "fac_buffers fac_demo = b"
    using p b by (simp_all add: fac_demo_def io_iot_hub_connection_base_init_def io_message_factory_create_def)
  then show "pool_supplied (fac_messages fac_demo)" "pool_supplied (fac_buffers fac_demo)"
    using prx_fixed_pool_create_supplied [OF demo_allocator_total p] prx_dynamic_pool_create_supplied [OF demo_allocator_total b]
    by simp_all
qed

lemma message_demo_ok: "wire_content message_demo = Some content_demo" "content_ok content_demo" "content_payload content_demo = [1, 2, 3]"
  by (simp_all add: wire_content_def message_demo_def message_zero_def content_demo_def zero_content_def data_message_zero_def
      content_ok_def addr_ok_def zero_addr_def bin_ok_def bin_bytes_def content_payload_def)

definition handler_demo ::
  "addr \<Rightarrow> mem_ptr io_message option \<times> mem_ptr io_message_factory \<Rightarrow> prx_error \<times> mem_ptr io_message option \<times> mem_ptr io_message_factory" where
  "handler_demo a = (\<lambda>(h, fac). (er_ok, fac_store fac a, fac))"


end
