(* ===== verification/Ws_Properties.thy ===== *)
theory Ws_Properties
  imports Prelude Ws_Delivery
begin

text \<open>
  What the connection tasks and the stream reset of \<open>src/io_ws.c\<close> do to the queues, the status and the
  time to the next attempt.
\<close>

section \<open>Reset of the outbound stream\<close>

lemma io_ws_release_ready_ok:
  "q_inv q \<Longrightarrow> q_inv (io_ws_release_ready q) \<and> q_ready (io_ws_release_ready q) = [] \<and>
     q_inprogress (io_ws_release_ready q) = q_inprogress q \<and> q_bufs (io_ws_release_ready q) = q_bufs q |` (- set (q_ready q))"
proof (induction "q_ready q" arbitrary: q)
  case Nil
  then show ?case
    by (subst (1 2 3 4) io_ws_release_ready.simps) (simp add: io_queue_pop_ready_def io_queue_state_pop_def restrict_map_def)
next
  case (Cons a rest)
  let ?q = "q\<lparr>q_ready := rest\<rparr>"
  note r = Cons.hyps(2) [symmetric]
  note p = q_pop_ready_inv [OF Cons.prems r]
  have dom: "a \<in> dom (q_bufs ?q)" using p(2) by simp
  note u = io_queue_buffer_release_unlinked [OF p(1) dom p(3)]
  have "io_ws_release_ready q = io_ws_release_ready (io_queue_buffer_release ?q a)"
    using r by (subst io_ws_release_ready.simps) (simp add: io_queue_pop_ready_def io_queue_state_pop_def)
  moreover have "(q_bufs q)(a := None) |` (- set rest) = q_bufs q |` (- set (a # rest))"
    by (auto simp: restrict_map_def)
  ultimately show ?case
    using Cons.hyps(1) [of "io_queue_buffer_release ?q a"] u r by simp
qed

text \<open>
  C11. When a message cannot be encoded the send handler resets the outbound stream so that nothing of it
  is sent. The reset drops the buffer being written, but the full fragments of the message that are ready
  already stay in the outbound queue, and what it empties is the ready list of the inbound queue: every
  frame received and not yet delivered is lost, and a delivery task that is still pending then finds no
  buffer and uses a null pointer.
\<close>

theorem io_ws_stream_reset_wrong_queue:
  assumes "q_inv (wst_queue (ws_inbound c))" "wst_ok (ws_outbound c)"
    and "io_ws_connection_stream_reset c = (e, c')"
  shows "e = er_ok \<and> q_ready (wst_queue (ws_outbound c')) = q_ready (wst_queue (ws_outbound c)) \<and>
    wst_current (ws_outbound c') = None \<and>
    q_ready (wst_queue (ws_inbound c')) = [] \<and>
    dom (q_bufs (wst_queue (ws_inbound c'))) = dom (q_bufs (wst_queue (ws_inbound c))) - set (q_ready (wst_queue (ws_inbound c))) \<and>
    io_ws_connection_deliver_stream receiver_cb now x c' = None"
proof -
  note i = io_ws_release_ready_ok [OF assms(1)]
  have c': "e = er_ok" "ws_inbound c' = (ws_inbound c)\<lparr>wst_queue := io_ws_release_ready (wst_queue (ws_inbound c))\<rparr>"
    using assms(3) by (auto simp: io_ws_connection_stream_reset_def Let_def)
  have out: "q_ready (wst_queue (ws_outbound c')) = q_ready (wst_queue (ws_outbound c)) \<and> wst_current (ws_outbound c') = None"
  proof (cases "wst_current (ws_outbound c)")
    case None
    then show ?thesis
      using assms(3) by (auto simp: io_ws_connection_stream_reset_def Let_def)
  next
    case (Some a)
    have "a \<in> dom (q_bufs (wst_queue (ws_outbound c)))" "a \<notin> set (q_linked (wst_queue (ws_outbound c)))"
        "q_inv (wst_queue (ws_outbound c))"
      using Some assms(2) by (auto simp: wst_ok_def)
    then show ?thesis
      using Some assms(3) io_queue_buffer_release_unlinked(3) [of "wst_queue (ws_outbound c)" a] by (auto simp: io_ws_connection_stream_reset_def Let_def)
  qed
  have "io_ws_connection_deliver_stream receiver_cb now x c' = None"
    using i c'(2) by (simp add: io_ws_connection_deliver_stream_def io_ws_deliver_loop.simps io_queue_pop_ready_def
        io_queue_state_pop_def)
  then show ?thesis
    using i c' out by auto
qed

theorem io_ws_stream_reset_wrong_queue_witness:
  "\<exists>c c'. length (q_ready (wst_queue (ws_inbound c))) = 1 \<and> io_ws_connection_stream_reset c = (er_ok, c') \<and>
    q_ready (wst_queue (ws_inbound c')) = [] \<and> io_ws_connection_deliver_stream (\<lambda>x c. (er_ok, x, c)) 0 () c' = None"
proof -
  have d: "length [1, 2, 3 :: u8] \<le> DEFAULT_FRAME_SIZE" by (simp add: DEFAULT_FRAME_SIZE_def)
  have "received_frames (wst_queue (ws_inbound ws_demo)) = []"
    using ws_demo_ready(4) by (simp add: received_frames_def)
  then obtain r where r: "ws_receiving r" "received_frames (wst_queue (ws_inbound r)) = [] @ [(1, [1, 2, 3])]"
    by (metis ws_receive_one [OF demo_allocator_total ws_demo_ready(2) d, of 1])
  have "length (received_frames (wst_queue (ws_inbound r))) = 1"
    unfolding r(2) by simp
  then have l: "length (q_ready (wst_queue (ws_inbound r))) = 1"
    unfolding received_frames_def by simp
  let ?c = "ws_demo\<lparr>ws_inbound := ws_inbound r\<rparr>"
  obtain e c' where c': "io_ws_connection_stream_reset ?c = (e, c')"
    by (cases "io_ws_connection_stream_reset ?c")
  have "q_inv (wst_queue (ws_inbound ?c))" "wst_ok (ws_outbound ?c)"
    using r(1) ws_demo_ready(1) by (simp_all add: ws_receiving_def ws_sending_def wst_ok_def)
  from io_ws_stream_reset_wrong_queue [OF this c', of "\<lambda>x c. (er_ok, x, c)" 0 "()"] show ?thesis
    using l c' by (intro exI [of _ ?c] exI [of _ c'] conjI) simp_all
qed

section \<open>Expired credentials\<close>

text \<open>
  C12. The monitor disconnects when the token of the connection has expired, for new credentials. The
  connect task makes a token only together with a new client, though, and keeps the client it has: it
  connects again with the old headers and the old time of expiry. From then on every run of the monitor
  finds the token expired and disconnects again, however often the connection is made.
\<close>

theorem io_ws_expired_token_not_renewed:
  assumes "ws_wsclient c" "ws_expiry c \<noteq> 0" "ws_expiry c < now"
  shows "ws_expiry (io_ws_connection_reconnect R t c) = ws_expiry c \<and>
    ws_wsclient (io_ws_connection_reconnect R t c) \<and>
    (re_connect R = er_ok \<longrightarrow> call_connect \<in> set (ws_pal (io_ws_connection_reconnect R t c))) \<and>
    ws_tasks (io_ws_connection_monitor now (io_ws_connection_reconnect R t c)) =
      ws_tasks (io_ws_connection_reconnect R t c) @ [(task_disconnect, 0)]"
  using assms
  by (simp add: io_ws_connection_reconnect_def io_ws_connection_setup_def io_ws_connection_monitor_def ws_do_next_def
      ws_pal_call_def Let_def)

definition ws_env_demo :: ws_reconnect_env where
  "ws_env_demo = \<lparr>re_create = er_ok, re_token_provider = True, re_token = er_ok, re_ttl = 100, re_policy = True,
     re_user_name = True, re_password = False, re_user_header_key = True, re_pwd_header_key = True, re_add_user = er_ok,
     re_add_password = er_ok, re_connect = er_ok\<rparr>"

text \<open>A connection that connected at time 1 with a token for 100 ms, at time 200 and at time 5000.\<close>

theorem io_ws_expired_token_not_renewed_witness:
  "ws_expiry (io_ws_connection_reconnect ws_env_demo 1 ws_demo) = 101 \<and>
   ws_expiry (io_ws_connection_reconnect ws_env_demo 200 (io_ws_connection_reconnect ws_env_demo 1 ws_demo)) = 101 \<and>
   (task_disconnect, 0) \<in> set (ws_tasks (io_ws_connection_monitor 5000
      (io_ws_connection_reconnect ws_env_demo 200 (io_ws_connection_reconnect ws_env_demo 1 ws_demo))))"
proof -
  let ?c = "io_ws_connection_reconnect ws_env_demo 1 ws_demo"
  have "ws_wsclient ws_demo = False"
    by (simp add: ws_demo_def io_ws_connection_create_def q_demo0_created)
  then have "ws_wsclient ?c" "ws_expiry ?c = 101"
    by (simp_all add: io_ws_connection_reconnect_def io_ws_connection_setup_def ws_env_demo_def ws_add_header_def
        ws_do_next_def ws_pal_call_def Let_def)
  then show ?thesis
    using io_ws_expired_token_not_renewed [of ?c 5000 ws_env_demo 200] by simp
qed

section \<open>Time to the next attempt\<close>

text \<open>
  C13. After the k-th failure in a row the connection is disconnected, its only pending task is to connect
  again, and the time until then doubles from 2 seconds on up to one hour; the first attempt is made
  at once.
\<close>

theorem io_ws_back_off:
  assumes "ws_back_off_in_seconds c = 0"
  shows "ws_back_off_in_seconds ((io_ws_connection_reset True ^^ k) c) = (if k = 0 then 0 else min 3600 (2 ^ k)) \<and>
    (0 < k \<longrightarrow> ws_status ((io_ws_connection_reset True ^^ k) c) = io_ws_connection_status_disconnected \<and>
      ws_tasks ((io_ws_connection_reset True ^^ k) c) =
        [(task_reconnect, (if k = 1 then 0 else min 3600 (2 ^ (k - 1))) * 1000)])"
proof (induction k)
  case 0
  then show ?case using assms by simp
next
  case (Suc k)
  let ?c = "(io_ws_connection_reset True ^^ k) c"
  have p: "(1 :: int) \<le> 2 ^ k" by simp
  have b: "ws_back_off_in_seconds ?c = (if k = 0 then 0 else min 3600 (2 ^ k))"
    using Suc by simp
  have r: "ws_back_off_in_seconds (io_ws_connection_reset True ?c) =
      min 3600 (2 * (if ws_back_off_in_seconds ?c = 0 then 1 else ws_back_off_in_seconds ?c))"
      "ws_status (io_ws_connection_reset True ?c) = io_ws_connection_status_disconnected"
      "ws_tasks (io_ws_connection_reset True ?c) = [(task_reconnect, ws_back_off_in_seconds ?c * 1000)]"
    by (auto simp: io_ws_connection_reset_def ws_do_later_def Let_def)
  have "min 3600 (2 * min 3600 (2 ^ k)) = min 3600 (2 * 2 ^ k :: int)"
    by (simp add: min_def)
  then show ?case
    using r b p by (cases k) (simp_all split: if_splits)
qed

theorem io_ws_back_off_witness:
  "ws_tasks ((io_ws_connection_reset True ^^ 13) ws_demo) = [(task_reconnect, 3600 * 1000)] \<and>
   ws_tasks ((io_ws_connection_reset True ^^ 3) ws_demo) = [(task_reconnect, 4 * 1000)]"
proof -
  have "ws_back_off_in_seconds ws_demo = 0"
    by (simp add: ws_demo_def io_ws_connection_create_def q_demo0_created)
  from io_ws_back_off [OF this, of 13] io_ws_back_off [OF this, of 3] show ?thesis by simp
qed

end
