(* ===== verification/Srv_State.thy ===== *)
theory Srv_State
  imports Prelude Prx_Err Io_Ref Io_Proto Io_Transport Util_String "HOL-Library.Monad_Syntax"
begin

text \<open>
  State of the proxy server of \<open>src/prx_server.c\<close> and the steps its handlers are made of. All of them run on
  one scheduler thread, so the state is passed from call to call; a socket object, a message and a
  connection are addresses into the maps of the state. An operation has no result when it would use
  memory that was freed, or a member of the content union that was not written. The platform
  sockets, the transports and the hash table are not part of the server: what they return is the
  environment of a call, what they are asked is recorded.
\<close>

section \<open>State\<close>

text \<open>A message is addressed by its factory, the member \<open>owner\<close>, and its place there.\<close>

type_synonym msg_ptr = "nat \<times> addr"

datatype prx_server_socket_state =
    prx_server_socket_created
  | prx_server_socket_opened
  | prx_server_socket_collect
  | prx_server_socket_closing
  | prx_server_socket_closed

text \<open>
  The member \<open>client_itf\<close> is represented by its properties; the locks and the log, and the back pointer to
  the one server, are left out.
\<close>

record prx_server_socket =
  ss_sock :: "nat option"
  ss_props :: "mem_ptr prx_socket_properties"
  ss_link_message :: "msg_ptr option"
  ss_state :: prx_server_socket_state
  ss_last_error :: prx_error
  ss_last_activity :: int
  ss_time_opened :: int
  ss_id :: io_ref
  ss_owner :: io_ref
  ss_stream_id :: io_ref
  ss_server_stream :: bool
  ss_stream :: "nat option"
  ss_polled :: bool
  ss_read_queue :: "msg_ptr list"
  ss_write_queue :: "msg_ptr list"
  ss_bytes_sent :: nat
  ss_send_queue :: "msg_ptr list"
  ss_bytes_recvd :: nat
  ss_recv_queue :: "msg_ptr list"
  ss_message_pool :: "nat option"
  ss_buffer_size :: nat
  ss_pool_size :: nat

datatype srv_task =
    task_worker
  | task_socket_free nat
  | task_deliver_results nat
  | task_open_complete nat
  | task_close_complete nat
  | task_timeout_pollrequest nat

primrec task_socket :: "srv_task \<Rightarrow> nat option" where
  "task_socket task_worker = None"
| "task_socket (task_socket_free p) = Some p"
| "task_socket (task_deliver_results p) = Some p"
| "task_socket (task_open_complete p) = Some p"
| "task_socket (task_close_complete p) = Some p"
| "task_socket (task_timeout_pollrequest p) = Some p"

text \<open>Requests to the platform and to connections.\<close>

datatype srv_call =
    pal_socket_close "nat option"
  | pal_socket_free nat
  | pal_socket_can_recv "nat option" bool
  | pal_socket_can_send "nat option" bool
  | pal_socket_shutdown "nat option"
  | conn_close nat
  | conn_free nat

text \<open>The handler a connection was created with, and the socket that is its context.\<close>

datatype conn_handler = server_handler | control_handler nat | stream_handler nat

text \<open>
  \<open>sv_sockets\<close> are the entries of the hash table in the order of its iterator, \<open>sv_heap\<close> and \<open>sv_fac\<close> the
  socket objects and message factories that exist, \<open>sv_sent\<close> the messages given to connections with what
  the connection answered.
\<close>

record prx_server =
  sv_id :: io_ref
  sv_listener :: "nat option"
  sv_browser :: bool
  sv_restricted_ports :: "int list"
  sv_restricted_port_count :: nat
  sv_sockets :: "(io_ref \<times> nat) list"
  sv_scheduler :: bool
  sv_exit :: bool
  sv_freed :: bool
  sv_heap :: "nat \<Rightarrow> prx_server_socket option"
  sv_next :: nat
  sv_fac :: "nat \<Rightarrow> mem_ptr io_message_factory option"
  sv_next_fac :: nat
  sv_conns :: "nat \<Rightarrow> conn_handler option"
  sv_tasks :: "(srv_task \<times> nat) list"
  sv_sent :: "(nat \<times> mem_ptr io_message \<times> prx_error) list"
  sv_calls :: "srv_call list"

text \<open>What the calls out of the server return; a platform call gets the socket it is made on.\<close>

record srv_env =
  ev_now :: int
  ev_alloc :: allocator
  ev_send :: "nat \<Rightarrow> mem_ptr io_message \<Rightarrow> prx_error"
  ev_iterator :: bool
  ev_insert :: "io_ref \<times> nat \<Rightarrow> (io_ref \<times> nat) list \<Rightarrow> (io_ref \<times> nat) list"
  ev_zalloc :: bool
  ev_rand :: "nat \<Rightarrow> prx_error \<times> u8 list"
  ev_send_lock :: prx_error
  ev_recv_lock :: prx_error
  ev_scheduler :: prx_error
  ev_factory :: "bool \<times> (bool \<times> prx_error) \<times> (bool \<times> prx_error) \<times> nat"
  ev_getsockopt :: "nat option \<Rightarrow> i32 \<Rightarrow> prx_error \<times> u64"
  ev_setsockopt :: "nat option \<Rightarrow> i32 \<Rightarrow> u64 \<Rightarrow> prx_error"
  ev_join :: "nat option \<Rightarrow> prx_error"
  ev_leave :: "nat option \<Rightarrow> prx_error"
  ev_getsockname :: "nat option \<Rightarrow> prx_error \<times> prx_socket_address"
  ev_getpeername :: "nat option \<Rightarrow> prx_error \<times> prx_socket_address"
  ev_get_properties :: "nat option \<Rightarrow> prx_error \<times> mem_ptr prx_socket_properties"
  ev_can_recv :: "nat option \<Rightarrow> prx_error"
  ev_socket_create :: "prx_error \<times> nat"
  ev_socket_open :: "nat \<Rightarrow> prx_error"
  ev_socket_pair :: "prx_error \<times> nat"
  ev_browse_accept :: "u16 \<Rightarrow> prx_error"
  ev_wsclient :: bool
  ev_cs_create :: prx_error
  ev_entry_create :: prx_error
  ev_transport_create :: "prx_error \<times> nat"
  ev_ntop :: prx_error
  ev_getaddrinfo :: "prx_error \<times> prx_socket_address"

section \<open>Results and addresses\<close>

text \<open>The number that goes into the member \<open>error_code\<close>.\<close>

definition err_code :: "prx_error \<Rightarrow> i32" where
  "err_code e = word_of_int (prx_error_code e)"

text \<open>
  \<open>un.ip.port\<close>, \<open>un.proxy.flags\<close> and the first byte of \<open>un.proxy.host\<close> are read whatever the family of the
  address is: they lie at the offsets 4, 6 and 12 of every member of the union.
\<close>

definition sa_port :: "prx_socket_address \<Rightarrow> u16" where
  "sa_port sa = (case sa of
     sa_ip a \<Rightarrow> in_port a
   | sa_proxy a \<Rightarrow> px_port a
   | sa_ux a \<Rightarrow> ucast (ux_path a ! 0) OR push_bit 8 (ucast (ux_path a ! 1))
   | sa_family_only f \<Rightarrow> 0)"

definition sa_flags :: "prx_socket_address \<Rightarrow> u16" where
  "sa_flags sa = (case sa of
     sa_ip a \<Rightarrow> in_padding a
   | sa_proxy a \<Rightarrow> px_flags a
   | sa_ux a \<Rightarrow> ucast (ux_path a ! 2) OR push_bit 8 (ucast (ux_path a ! 3))
   | sa_family_only f \<Rightarrow> 0)"

definition sa_host_0 :: "prx_socket_address \<Rightarrow> u8" where
  "sa_host_0 sa = (case sa of
     sa_ip a \<Rightarrow> in_addr a ! 0
   | sa_proxy a \<Rightarrow> px_host a ! 0
   | sa_ux a \<Rightarrow> ux_path a ! 8
   | sa_family_only f \<Rightarrow> 0)"

text \<open>The members of the content union the handlers read and write; a zeroed union is zero in every member.\<close>

definition content_poll :: "'p io_content \<Rightarrow> io_poll_message option" where
  "content_poll c = (case c of poll_message m \<Rightarrow> Some m | content_zero \<Rightarrow> Some poll_message_zero | _ \<Rightarrow> None)"

definition content_data :: "mem_ptr io_content \<Rightarrow> mem_ptr io_data_message option" where
  "content_data c = (case c of data_message m \<Rightarrow> Some m | content_zero \<Rightarrow> Some (data_message_zero null_ptr) | _ \<Rightarrow> None)"

definition content_open :: "mem_ptr io_content \<Rightarrow> mem_ptr io_open_request option" where
  "content_open c = (case c of open_request m \<Rightarrow> Some m | content_zero \<Rightarrow> Some (open_request_zero null_ptr) | _ \<Rightarrow> None)"

definition content_link :: "mem_ptr io_content \<Rightarrow> mem_ptr io_link_request option" where
  "content_link c = (case c of link_request m \<Rightarrow> Some m | content_zero \<Rightarrow> Some link_request_zero | _ \<Rightarrow> None)"

definition content_setopt :: "mem_ptr io_content \<Rightarrow> mem_ptr prx_property option" where
  "content_setopt c = (case c of setopt_request m \<Rightarrow> Some m | content_zero \<Rightarrow> Some property_zero | _ \<Rightarrow> None)"

definition content_getopt :: "mem_ptr io_content \<Rightarrow> i32 option" where
  "content_getopt c = (case c of getopt_request v \<Rightarrow> Some v | content_zero \<Rightarrow> Some 0 | _ \<Rightarrow> None)"

definition content_ping :: "mem_ptr io_content \<Rightarrow> prx_socket_address option" where
  "content_ping c = (case c of ping_request a \<Rightarrow> Some a | content_zero \<Rightarrow> Some (sa_family_only 0) | _ \<Rightarrow> None)"

section \<open>Sockets, tasks and messages\<close>

definition sock_upd :: "nat \<Rightarrow> (prx_server_socket \<Rightarrow> prx_server_socket) \<Rightarrow> prx_server \<Rightarrow> prx_server option" where
  "sock_upd p f s = do {
     k \<leftarrow> sv_heap s p;
     Some (s\<lparr>sv_heap := (sv_heap s)(p \<mapsto> f k)\<rparr>)
   }"

text \<open>Without a scheduler the task is not queued.\<close>

definition srv_do_next :: "srv_task \<Rightarrow> prx_server \<Rightarrow> prx_server" where
  "srv_do_next t s = (if sv_scheduler s then s\<lparr>sv_tasks := sv_tasks s @ [(t, 0)]\<rparr> else s)"

definition srv_do_later :: "srv_task \<Rightarrow> nat \<Rightarrow> prx_server \<Rightarrow> prx_server" where
  "srv_do_later t d s = (if sv_scheduler s
     then s\<lparr>sv_tasks := filter (\<lambda>(t', _). t' \<noteq> t) (sv_tasks s) @ [(t, d)]\<rparr> else s)"

definition srv_call :: "srv_call \<Rightarrow> prx_server \<Rightarrow> prx_server" where
  "srv_call c s = s\<lparr>sv_calls := sv_calls s @ [c]\<rparr>"

definition msg_get :: "prx_server \<Rightarrow> msg_ptr \<Rightarrow> mem_ptr io_message option" where
  "msg_get s q = Option.bind (sv_fac s (fst q)) (\<lambda>fac. fac_store fac (snd q))"

definition msg_put :: "msg_ptr \<Rightarrow> mem_ptr io_message \<Rightarrow> prx_server \<Rightarrow> prx_server option" where
  "msg_put q m s = do {
     fac \<leftarrow> sv_fac s (fst q);
     Some (s\<lparr>sv_fac := (sv_fac s)(fst q \<mapsto> fac\<lparr>fac_store := (fac_store fac)(snd q \<mapsto> m)\<rparr>)\<rparr>)
   }"

definition msg_upd :: "msg_ptr \<Rightarrow> (mem_ptr io_message \<Rightarrow> mem_ptr io_message) \<Rightarrow> prx_server \<Rightarrow> prx_server option" where
  "msg_upd q f s = do { m \<leftarrow> msg_get s q; msg_put q (f m) s }"

text \<open>The message operations of \<open>io_proto.c\<close> on the factory of the message.\<close>

definition msg_release :: "msg_ptr \<Rightarrow> prx_server \<Rightarrow> prx_server option" where
  "msg_release q s = do {
     fac \<leftarrow> sv_fac s (fst q);
     Some (s\<lparr>sv_fac := (sv_fac s)(fst q \<mapsto> io_message_release fac (Some (snd q)))\<rparr>)
   }"

definition msg_clone :: "srv_env \<Rightarrow> msg_ptr \<Rightarrow> prx_server \<Rightarrow> (prx_error \<times> prx_server) option" where
  "msg_clone E q s = do {
     fac \<leftarrow> sv_fac s (fst q);
     (case io_message_clone (ev_alloc E) (ev_alloc E) fac (snd q) of (result, _, fac) \<Rightarrow>
        Some (result, s\<lparr>sv_fac := (sv_fac s)(fst q \<mapsto> fac)\<rparr>))
   }"

definition msg_create ::
  "srv_env \<Rightarrow> nat option \<Rightarrow> u32 \<Rightarrow> io_ref \<Rightarrow> io_ref \<Rightarrow> prx_server \<Rightarrow> (prx_error \<times> msg_ptr option \<times> prx_server) option" where
  "msg_create E pool type source target s = (case pool of
     None \<Rightarrow> Some (er_fault, None, s)
   | Some n \<Rightarrow> do {
       fac \<leftarrow> sv_fac s n;
       (case io_message_create (ev_alloc E) fac type (Some source) (Some target) of (result, a, fac) \<Rightarrow>
          Some (result, map_option (Pair n) a, s\<lparr>sv_fac := (sv_fac s)(n \<mapsto> fac)\<rparr>))
     })"

fun msg_release_all :: "msg_ptr list \<Rightarrow> prx_server \<Rightarrow> prx_server option" where
  "msg_release_all [] s = Some s"
| "msg_release_all (q # qs) s = do { s \<leftarrow> msg_release q s; msg_release_all qs s }"

text \<open>Whether a message is in use: it has been taken from the pool of its factory and not been returned.\<close>

definition msg_live :: "prx_server \<Rightarrow> msg_ptr \<Rightarrow> bool" where
  "msg_live s q = (case sv_fac s (fst q) of None \<Rightarrow> False | Some fac \<Rightarrow> snd q \<in> set (pool_checked_out (fac_messages fac)))"

text \<open>Sending over a connection; the transport takes its own reference to a message it keeps.\<close>

definition io_connection_send :: "srv_env \<Rightarrow> nat option \<Rightarrow> msg_ptr \<Rightarrow> prx_server \<Rightarrow> (prx_error \<times> prx_server) option" where
  "io_connection_send E connection q s = (case connection of
     None \<Rightarrow> Some (er_fault, s)
   | Some c \<Rightarrow> do {
       m \<leftarrow> msg_get s q;
       let result = ev_send E c m;
       Some (result, s\<lparr>sv_sent := sv_sent s @ [(c, m, result)]\<rparr>)
     })"

end
