(* ===== verification/Prx_Server.thy ===== *)
theory Prx_Server
  imports Srv_State
begin

text \<open>
  The handlers and tasks of \<open>src/prx_server.c\<close>, in the order of the file but for the definitions a handler
  needs: freeing, delivery of results, the worker, the callbacks of the platform socket, the requests of
  the peer and the server itself.
\<close>

section \<open>Freeing\<close>

definition prx_server_socket_free :: "nat \<Rightarrow> prx_server \<Rightarrow> prx_server option" where
  "prx_server_socket_free p s = do {
     k \<leftarrow> sv_heap s p;
     let s = (case ss_sock k of None \<Rightarrow> s | Some h \<Rightarrow> srv_call (pal_socket_free h) s);
     let s = (case ss_stream k of
                None \<Rightarrow> s | Some c \<Rightarrow> if ss_server_stream k then s else srv_call (conn_free c) s);
     s \<leftarrow> msg_release_all (ss_write_queue k) s;
     s \<leftarrow> msg_release_all (ss_send_queue k) s;
     s \<leftarrow> msg_release_all (ss_read_queue k) s;
     s \<leftarrow> msg_release_all (ss_recv_queue k) s;
     s \<leftarrow> (case ss_link_message k of None \<Rightarrow> Some s | Some q \<Rightarrow> msg_release q s);
     let s = (case ss_message_pool k of None \<Rightarrow> s | Some n \<Rightarrow> s\<lparr>sv_fac := (sv_fac s)(n := None)\<rparr>);
     Some (s\<lparr>sv_tasks := filter (\<lambda>(t, _). task_socket t \<noteq> Some p) (sv_tasks s), sv_heap := (sv_heap s)(p := None)\<rparr>)
   }"

definition prx_server_free :: "prx_server \<Rightarrow> prx_server" where
  "prx_server_free s = s\<lparr>sv_browser := False, sv_scheduler := False, sv_tasks := [], sv_sockets := [],
     sv_restricted_ports := [], sv_freed := True\<rparr>"

section \<open>Restricted ports\<close>

text \<open>
  The index moves with every access; the second bound is only read when the port is not below the first.
  An index behind the array is an access out of bounds.
\<close>

function check_restricted_loop :: "int list \<Rightarrow> nat \<Rightarrow> int \<Rightarrow> nat \<Rightarrow> prx_error option" where
  "check_restricted_loop ports count port index = (
     if index < count * 2 then
       if length ports \<le> index then None
       else if ports ! index \<le> port then
         if length ports \<le> index + 1 then None
         else if port \<le> ports ! (index + 1) then Some er_refused
         else check_restricted_loop ports count port (index + 2)
       else check_restricted_loop ports count port (index + 1)
     else Some er_ok)"
  by pat_completeness auto
termination check_restricted_loop
  by (relation "measure (\<lambda>(ports, count, port, index). count * 2 - index)") auto

definition prx_server_check_restricted_port :: "u16 \<Rightarrow> prx_server \<Rightarrow> prx_error option" where
  "prx_server_check_restricted_port port s =
     check_restricted_loop (sv_restricted_ports s) (sv_restricted_port_count s) (uint port) 0"

section \<open>Delivery\<close>

text \<open>
  The pass over the poll requests. The deadline is a \<open>uint64_t\<close> that is compared as a \<open>long\<close> of 64 bits.
\<close>

fun manage_read_loop :: "srv_env \<Rightarrow> nat \<Rightarrow> bool \<Rightarrow> msg_ptr list \<Rightarrow> prx_server \<Rightarrow> prx_server option" where
  "manage_read_loop E p close [] s = Some s"
| "manage_read_loop E p close (q # qs) s = do {
     m \<leftarrow> msg_get s q;
     expired \<leftarrow> (if close then Some True
                else do { c \<leftarrow> content_poll (msg_content m); Some (sint (pm_timeout c) \<ge> ev_now E) });
     s \<leftarrow> (if expired then do {
              s \<leftarrow> sock_upd p (\<lambda>k. k\<lparr>ss_read_queue := remove1 q (ss_read_queue k)\<rparr>) s;
              s \<leftarrow> msg_put q ((io_message_as_response m)\<lparr>msg_error_code := err_code (if close then er_closed else er_timeout)\<rparr>) s;
              k \<leftarrow> sv_heap s p;
              (result, s) \<leftarrow> io_connection_send E (ss_stream k) q s;
              msg_release q s
            } else Some s);
     manage_read_loop E p close qs s
   }"

definition prx_server_socket_manage_read_queue :: "srv_env \<Rightarrow> nat \<Rightarrow> bool \<Rightarrow> prx_server \<Rightarrow> prx_server option" where
  "prx_server_socket_manage_read_queue E p close s = do {
     k \<leftarrow> sv_heap s p;
     manage_read_loop E p close (ss_read_queue k) s
   }"

text \<open>
  The two loops of the delivery run over the queue they take from. A message that cannot be sent goes back
  to the front of its queue, with the poll request it was to answer.
\<close>

fun deliver_recv_loop :: "srv_env \<Rightarrow> nat \<Rightarrow> msg_ptr list \<Rightarrow> prx_server \<Rightarrow> prx_server option" where
  "deliver_recv_loop E p [] s = Some s"
| "deliver_recv_loop E p (q # qs) s = do {
     k \<leftarrow> sv_heap s p;
     if ss_polled k \<and> ss_read_queue k = [] then Some s
     else do {
       let poll = (if ss_polled k then Some (hd (ss_read_queue k)) else None);
       s \<leftarrow> sock_upd p (\<lambda>k. k\<lparr>ss_recv_queue := qs\<rparr>) s;
       s \<leftarrow> (case poll of None \<Rightarrow> Some s
             | Some r \<Rightarrow> do {
                 s \<leftarrow> sock_upd p (\<lambda>k. k\<lparr>ss_read_queue := tl (ss_read_queue k)\<rparr>) s;
                 s \<leftarrow> msg_upd r io_message_as_response s;
                 m \<leftarrow> msg_get s r;
                 msg_upd q (\<lambda>x. x\<lparr>msg_correlation_id := msg_correlation_id m\<rparr>) s
               });
       s \<leftarrow> msg_upd q (\<lambda>x. x\<lparr>msg_proxy_id := sv_id s, msg_target_id := ss_stream_id k, msg_source_id := ss_id k\<rparr>) s;
       (result, s) \<leftarrow> io_connection_send E (ss_stream k) q s;
       if result \<noteq> er_ok
       then sock_upd p (\<lambda>k. k\<lparr>ss_recv_queue := q # ss_recv_queue k,
              ss_read_queue := (case poll of None \<Rightarrow> ss_read_queue k | Some r \<Rightarrow> r # ss_read_queue k)\<rparr>) s
       else do {
         s \<leftarrow> msg_release q s;
         s \<leftarrow> (case poll of None \<Rightarrow> Some s | Some r \<Rightarrow> msg_release r s);
         deliver_recv_loop E p qs s
       }
     }
   }"

fun deliver_write_loop :: "srv_env \<Rightarrow> nat \<Rightarrow> msg_ptr list \<Rightarrow> prx_server \<Rightarrow> prx_server option" where
  "deliver_write_loop E p [] s = Some s"
| "deliver_write_loop E p (q # qs) s = do {
     s \<leftarrow> sock_upd p (\<lambda>k. k\<lparr>ss_write_queue := qs\<rparr>) s;
     k \<leftarrow> sv_heap s p;
     (result, s) \<leftarrow> io_connection_send E (ss_stream k) q s;
     if result \<noteq> er_ok then sock_upd p (\<lambda>k. k\<lparr>ss_write_queue := q # qs\<rparr>) s
     else do {
       s \<leftarrow> msg_release q s;
       deliver_write_loop E p qs s
     }
   }"

definition prx_server_socket_deliver_results :: "srv_env \<Rightarrow> nat \<Rightarrow> prx_server \<Rightarrow> prx_server option" where
  "prx_server_socket_deliver_results E p s = do {
     k \<leftarrow> sv_heap s p;
     s \<leftarrow> deliver_recv_loop E p (ss_recv_queue k) s;
     k \<leftarrow> sv_heap s p;
     deliver_write_loop E p (ss_write_queue k) s
   }"

section \<open>The worker\<close>

definition socket_timedout :: "srv_env \<Rightarrow> prx_server_socket \<Rightarrow> bool" where
  "socket_timedout E k \<longleftrightarrow> \<not> (ss_last_activity k = 0 \<or>
     (word_of_int (ev_now E - ss_last_activity k) :: u64) < sp_timeout (ss_props k))"

text \<open>
  Closing a connection raises its closed event: the handler of a stream schedules the free of its
  socket, the control handler ignores the event, and the server handler starts the shutdown.
\<close>

definition io_connection_close :: "nat \<Rightarrow> prx_server \<Rightarrow> prx_server" where
  "io_connection_close c s = (
     let s = srv_call (conn_close c) s
     in case sv_conns s c of
          Some (stream_handler p) \<Rightarrow> srv_do_later (task_socket_free p) 2000 s
        | Some server_handler \<Rightarrow> srv_do_next task_worker
            ((case sv_listener s of None \<Rightarrow> s | Some l \<Rightarrow> srv_call (conn_free l) s)\<lparr>sv_listener := None, sv_exit := True\<rparr>)
        | _ \<Rightarrow> s)"

text \<open>The cases of the worker; the result tells whether the entry was removed from the table.\<close>

definition worker_closed :: "nat \<Rightarrow> io_ref \<times> nat \<Rightarrow> prx_server \<Rightarrow> (bool \<times> prx_server) option" where
  "worker_closed p entry s = do {
     k \<leftarrow> sv_heap s p;
     s \<leftarrow> (case ss_stream k of
         Some c \<Rightarrow> if \<not> ss_server_stream k then Some (io_connection_close c s)
                  else do { s \<leftarrow> sock_upd p (\<lambda>k. k\<lparr>ss_stream := None\<rparr>) s;
                            Some (srv_do_later (task_socket_free p) 2000 s) }
       | None \<Rightarrow> Some (srv_do_later (task_socket_free p) 2000 s));
     Some (True, s\<lparr>sv_sockets := remove1 entry (sv_sockets s)\<rparr>)
   }"

definition worker_collect :: "srv_env \<Rightarrow> bool \<Rightarrow> nat \<Rightarrow> prx_server \<Rightarrow> (bool \<times> prx_server) option" where
  "worker_collect E timedout p s = do {
     k \<leftarrow> sv_heap s p;
     if ss_sock k = None
     then do { s \<leftarrow> sock_upd p (\<lambda>k. k\<lparr>ss_state := prx_server_socket_closed\<rparr>) s; Some (False, s) }
     else if (ss_send_queue k \<noteq> [] \<or> ss_recv_queue k \<noteq> []) \<and> \<not> timedout \<and> \<not> sv_exit s then Some (False, s)
     else do {
       s \<leftarrow> sock_upd p (\<lambda>k. k\<lparr>ss_props := (ss_props k)\<lparr>sp_timeout := 5 * 60 * 1000\<rparr>, ss_last_activity := ev_now E,
                               ss_state := prx_server_socket_closing\<rparr>) s;
       s \<leftarrow> prx_server_socket_manage_read_queue E p True s;
       Some (False, srv_call (pal_socket_close (ss_sock k)) s)
     }
   }"

definition worker_created :: "srv_env \<Rightarrow> bool \<Rightarrow> nat \<Rightarrow> prx_server \<Rightarrow> (bool \<times> prx_server) option" where
  "worker_created E timedout p s = (
     if \<not> timedout \<and> \<not> sv_exit s then Some (False, s)
     else do {
       s \<leftarrow> sock_upd p (\<lambda>k. k\<lparr>ss_state := prx_server_socket_collect\<rparr>) s;
       k \<leftarrow> sv_heap s p;
       s \<leftarrow> msg_release_all (ss_send_queue k) s;
       s \<leftarrow> sock_upd p (\<lambda>k. k\<lparr>ss_send_queue := []\<rparr>) s;
       s \<leftarrow> msg_release_all (ss_recv_queue k) s;
       s \<leftarrow> sock_upd p (\<lambda>k. k\<lparr>ss_recv_queue := []\<rparr>) s;
       worker_collect E timedout p s
     })"

definition worker_opened :: "srv_env \<Rightarrow> bool \<Rightarrow> nat \<Rightarrow> prx_server \<Rightarrow> (bool \<times> prx_server) option" where
  "worker_opened E timedout p s = (
     if \<not> timedout \<and> \<not> sv_exit s then Some (False, s)
     else do {
       s \<leftarrow> sock_upd p (\<lambda>k. k\<lparr>ss_state := prx_server_socket_created\<rparr>) s;
       if timedout \<and> \<not> sv_exit s then do {
         k \<leftarrow> sv_heap s p;
         (result, closerequest, s) \<leftarrow> msg_create E (ss_message_pool k) io_message_type_close (ss_id k) (ss_stream_id k) s;
         (case closerequest of
            Some q \<Rightarrow> do {
              s \<leftarrow> sock_upd p (\<lambda>k. k\<lparr>ss_recv_queue := ss_recv_queue k @ [q]\<rparr>) s;
              s \<leftarrow> prx_server_socket_deliver_results E p s;
              s \<leftarrow> sock_upd p (\<lambda>k. k\<lparr>ss_last_activity := ev_now E\<rparr>) s;
              Some (False, s)
            }
          | None \<Rightarrow> worker_created E timedout p s)
       } else worker_created E timedout p s
     })"

definition worker_socket :: "srv_env \<Rightarrow> io_ref \<times> nat \<Rightarrow> prx_server \<Rightarrow> (bool \<times> prx_server) option" where
  "worker_socket E entry s = do {
     let p = snd entry;
     k \<leftarrow> sv_heap s p;
     let timedout = socket_timedout E k;
     (case ss_state k of
        prx_server_socket_closing \<Rightarrow>
          if \<not> timedout then Some (False, s)
          else do { s \<leftarrow> sock_upd p (\<lambda>k. k\<lparr>ss_state := prx_server_socket_closed\<rparr>) s; worker_closed p entry s }
      | prx_server_socket_closed \<Rightarrow> worker_closed p entry s
      | prx_server_socket_opened \<Rightarrow> worker_opened E timedout p s
      | prx_server_socket_created \<Rightarrow> worker_created E timedout p s
      | prx_server_socket_collect \<Rightarrow> worker_collect E timedout p s)
   }"

text \<open>Removing an entry moves the iterator on, and the loop advances it once more.\<close>

fun worker_loop :: "srv_env \<Rightarrow> (io_ref \<times> nat) list \<Rightarrow> prx_server \<Rightarrow> prx_server option" where
  "worker_loop E [] s = Some s"
| "worker_loop E (entry # rest) s = do {
     (removed, s) \<leftarrow> worker_socket E entry s;
     worker_loop E (if removed then tl rest else rest) s
   }"

definition prx_server_worker :: "srv_env \<Rightarrow> prx_server \<Rightarrow> prx_server option" where
  "prx_server_worker E s = do {
     let s = srv_do_later task_worker 5000 s;
     s \<leftarrow> (if ev_iterator E then worker_loop E (sv_sockets s) s else Some s);
     Some (if sv_sockets s = [] \<and> sv_exit s then prx_server_free s else s)
   }"

end
