(* ===== verification/Srv_Handlers.thy ===== *)
theory Srv_Handlers
  imports Prx_Server
begin

text \<open>
  The callbacks of the platform socket and the requests of the peer in \<open>src/prx_server.c\<close>, with the
  creation and release of the server.
\<close>

section \<open>Completion of open and close\<close>

abbreviation "MAX_BUF_SIZE \<equiv> (0x10000 :: nat)"
abbreviation "RECV_POOL_MIN \<equiv> (4 :: nat)"
abbreviation "RECV_POOL_MAX \<equiv> (0x20000 :: nat)"
abbreviation "RECV_POOL_LWM \<equiv> (1 :: nat)"
abbreviation "RECV_POOL_HWM \<equiv> (1 :: nat)"
abbreviation "MIN_GC_TIMEOUT \<equiv> (30000 :: u64)"
abbreviation "DEFAULT_GC_TIMEOUT \<equiv> (120000 :: u64)"

text \<open>The buffer size; a division by a size of zero has no result.\<close>

definition open_pool_size :: "srv_env \<Rightarrow> prx_server_socket \<Rightarrow> (nat \<times> nat) option" where
  "open_pool_size E k = do {
     let buffer_size = (if ss_buffer_size k = 0
           then (case ev_getsockopt E (ss_sock k) prx_so_rcvbuf of (result, value) \<Rightarrow>
                   if result \<noteq> er_ok then MAX_BUF_SIZE else unat value)
           else ss_buffer_size k);
     if buffer_size = 0 then None
     else Some (buffer_size, max RECV_POOL_MIN (RECV_POOL_MAX div buffer_size))
   }"

definition open_link_response :: "srv_env \<Rightarrow> prx_server_socket \<Rightarrow> prx_error \<times> io_link_response" where
  "open_link_response E k = (
     let r = link_response_zero
     in case ev_getsockname E (ss_sock k) of (result, local) \<Rightarrow>
          if result \<noteq> er_ok then (result, r)
          else let r = r\<lparr>lp_local_address := local\<rparr>
               in case ev_getpeername E (ss_sock k) of (result, peer) \<Rightarrow>
                    if result \<noteq> er_ok then (result, r)
                    else (er_ok, r\<lparr>lp_peer_address := peer, lp_link_id := ss_id k\<rparr>))"

text \<open>\<open>responder\<close> is the connection that was saved in the \<open>context\<close> of the link message.\<close>

definition prx_server_socket_open_complete :: "srv_env \<Rightarrow> nat option \<Rightarrow> nat \<Rightarrow> prx_server \<Rightarrow> prx_server option" where
  "prx_server_socket_open_complete E responder p s = do {
     k \<leftarrow> sv_heap s p;
     q \<leftarrow> ss_link_message k;
     let result = ss_last_error k;
     s \<leftarrow> sock_upd p (\<lambda>k. k\<lparr>ss_link_message := None, ss_last_error := er_ok\<rparr>) s;
     s \<leftarrow> msg_upd q io_message_as_response s;
     (result, s) \<leftarrow> (if result \<noteq> er_ok then Some (result, s)
       else do {
         (buffer_size, pool_size) \<leftarrow> open_pool_size E k;
         s \<leftarrow> sock_upd p (\<lambda>k. k\<lparr>ss_buffer_size := buffer_size, ss_pool_size := pool_size\<rparr>) s;
         let (result, response) = open_link_response E k;
         s \<leftarrow> msg_upd q (\<lambda>m. m\<lparr>msg_content := link_response response\<rparr>) s;
         Some (result, s)
       });
     s \<leftarrow> (if result \<noteq> er_ok then do {
              s \<leftarrow> msg_upd q (\<lambda>m. m\<lparr>msg_error_code := err_code result\<rparr>) s;
              s \<leftarrow> sock_upd p (\<lambda>k. k\<lparr>ss_state := prx_server_socket_collect\<rparr>) s;
              Some (srv_do_next task_worker s)
            } else Some s);
     (if responder = None then Some s
      else do { (result, s) \<leftarrow> io_connection_send E responder q s; Some s })
   }"

definition prx_server_socket_close_complete :: "nat \<Rightarrow> prx_server \<Rightarrow> prx_server option" where
  "prx_server_socket_close_complete p s = do {
     s \<leftarrow> sock_upd p (\<lambda>k. k\<lparr>ss_state := prx_server_socket_closed\<rparr>) s;
     Some (srv_do_next task_worker s)
   }"

section \<open>Receiving from the socket\<close>

text \<open>\<open>io_message_allocate_buffer\<close> on a message of the state.\<close>

definition msg_allocate_buffer :: "srv_env \<Rightarrow> msg_ptr \<Rightarrow> nat \<Rightarrow> prx_server \<Rightarrow> (prx_error \<times> mem_ptr \<times> prx_server) option" where
  "msg_allocate_buffer E q len s = do {
     fac \<leftarrow> sv_fac s (fst q);
     m \<leftarrow> msg_get s q;
     let M = \<lparr>mm_alloc = ev_alloc E, mm_count = 0, mm_heap = Map.empty, mm_field = [], mm_pool = fac_buffers fac,
              mm_buffer = msg_buffer m\<rparr>;
     (case io_message_allocate_buffer len null_ptr M of (result, ptr, M) \<Rightarrow>
        Some (result, ptr, s\<lparr>sv_fac := (sv_fac s)(fst q \<mapsto> fac\<lparr>fac_buffers := mm_pool M,
          fac_store := (fac_store fac)(snd q \<mapsto> m\<lparr>msg_buffer := mm_buffer M\<rparr>)\<rparr>)\<rparr>))
   }"

text \<open>
  The buffer, its size and the message that is the context of the operation; nothing when the message or its
  buffer cannot be had.
\<close>

definition prx_server_socket_on_begin_receive ::
  "srv_env \<Rightarrow> nat \<Rightarrow> prx_server \<Rightarrow> ((mem_ptr \<times> nat \<times> msg_ptr) option \<times> prx_server) option" where
  "prx_server_socket_on_begin_receive E p s = do {
     k \<leftarrow> sv_heap s p;
     (result, message, s) \<leftarrow> msg_create E (ss_message_pool k) io_message_type_data (ss_id k) (ss_stream_id k) s;
     (case message of
        None \<Rightarrow> Some (None, s)
      | Some q \<Rightarrow> do {
          (result, ptr, s) \<leftarrow> msg_allocate_buffer E q (ss_buffer_size k) s;
          if result \<noteq> er_ok then Some (None, s)
          else do {
            s \<leftarrow> msg_upd q (\<lambda>m. m\<lparr>msg_content := data_message ((data_message_zero null_ptr)\<lparr>dm_buffer := ptr,
                   dm_buffer_length := ss_buffer_size k\<rparr>)\<rparr>) s;
            Some (Some (ptr, ss_buffer_size k, q), s)
          }
        })
   }"

definition prx_server_socket_on_end_receive ::
  "srv_env \<Rightarrow> nat \<Rightarrow> nat \<Rightarrow> prx_socket_address option \<Rightarrow> prx_error \<Rightarrow> msg_ptr \<Rightarrow> prx_server \<Rightarrow> prx_server option" where
  "prx_server_socket_on_end_receive E p len addr result q s = (
     if result = er_aborted \<or> result = er_retry then msg_release q s
     else do {
       m \<leftarrow> msg_get s q;
       d \<leftarrow> content_data (msg_content m);
       let d = d\<lparr>dm_buffer_length := len\<rparr>;
       let d = (if result \<noteq> er_ok then d
                else case addr of
                  Some a \<Rightarrow> d\<lparr>dm_source_address := a\<rparr>
                | None \<Rightarrow> d\<lparr>dm_source_address := sa_family_only prx_address_family_unspec\<rparr>);
       s \<leftarrow> msg_put q (m\<lparr>msg_content := data_message d, msg_error_code := err_code result\<rparr>) s;
       s \<leftarrow> sock_upd p (\<lambda>k. k\<lparr>ss_last_activity := ev_now E, ss_bytes_recvd := size_add (ss_bytes_recvd k) len,
                               ss_recv_queue := ss_recv_queue k @ [q]\<rparr>) s;
       Some (srv_do_next (task_deliver_results p) s)
     })"

section \<open>Sending to the socket\<close>

definition prx_server_socket_on_begin_send ::
  "nat \<Rightarrow> prx_server \<Rightarrow> ((mem_ptr \<times> nat \<times> prx_socket_address \<times> msg_ptr) option \<times> prx_server) option" where
  "prx_server_socket_on_begin_send p s = do {
     k \<leftarrow> sv_heap s p;
     (case ss_send_queue k of
        [] \<Rightarrow> Some (None, s)
      | q # qs \<Rightarrow> do {
          s \<leftarrow> sock_upd p (\<lambda>k. k\<lparr>ss_send_queue := qs\<rparr>) s;
          m \<leftarrow> msg_get s q;
          d \<leftarrow> content_data (msg_content m);
          Some (Some (dm_buffer d, dm_buffer_length d, dm_source_address d, q), s)
        })
   }"

definition prx_server_socket_on_end_send :: "srv_env \<Rightarrow> nat \<Rightarrow> prx_error \<Rightarrow> msg_ptr \<Rightarrow> prx_server \<Rightarrow> prx_server option" where
  "prx_server_socket_on_end_send E p result q s = (
     if result = er_retry then sock_upd p (\<lambda>k. k\<lparr>ss_send_queue := q # ss_send_queue k\<rparr>) s
     else do {
       s \<leftarrow> sock_upd p (\<lambda>k. if result = er_ok then k\<lparr>ss_last_activity := ev_now E\<rparr> else k) s;
       k \<leftarrow> sv_heap s p;
       if (result = er_ok \<or> result = er_aborted) \<and> \<not> ss_polled k then msg_release q s
       else do {
         s \<leftarrow> msg_upd q (\<lambda>m. (io_message_as_response m)\<lparr>msg_type := io_message_type_poll, msg_error_code := err_code result\<rparr>) s;
         s \<leftarrow> sock_upd p (\<lambda>k. k\<lparr>ss_write_queue := ss_write_queue k @ [q]\<rparr>) s;
         Some (srv_do_next (task_deliver_results p) s)
       }
     })"

section \<open>Socket objects\<close>

definition server_socket_zero :: prx_server_socket where
  "server_socket_zero = \<lparr>ss_sock = None, ss_props = socket_properties_zero, ss_link_message = None,
     ss_state = prx_server_socket_created, ss_last_error = er_ok, ss_last_activity = 0, ss_time_opened = 0,
     ss_id = io_ref_null, ss_owner = io_ref_null, ss_stream_id = io_ref_null, ss_server_stream = False,
     ss_stream = None, ss_polled = False, ss_read_queue = [], ss_write_queue = [], ss_bytes_sent = 0,
     ss_send_queue = [], ss_bytes_recvd = 0, ss_recv_queue = [], ss_message_pool = None, ss_buffer_size = 0,
     ss_pool_size = 0\<rparr>"

text \<open>The outcome of the steps that can fail: the reference, the two locks, the scheduler.\<close>

definition socket_create_result :: "srv_env \<Rightarrow> prx_error" where
  "socket_create_result E = (
     if fst (io_ref_new (ev_rand E) (Some io_ref_null)) \<noteq> er_ok then fst (io_ref_new (ev_rand E) (Some io_ref_null))
     else if ev_send_lock E \<noteq> er_ok then ev_send_lock E
     else if ev_recv_lock E \<noteq> er_ok then ev_recv_lock E
     else ev_scheduler E)"

definition prx_server_socket_create ::
  "srv_env \<Rightarrow> io_ref \<Rightarrow> prx_server \<Rightarrow> (prx_error \<times> nat option \<times> prx_server) option" where
  "prx_server_socket_create E owner s = (
     if \<not> ev_zalloc E then Some (er_out_of_memory, None, s)
     else
       let p = sv_next s; id = the (snd (io_ref_new (ev_rand E) (Some io_ref_null)));
           k = server_socket_zero\<lparr>ss_owner := owner, ss_id := id\<rparr>;
           s = s\<lparr>sv_next := p + 1, sv_heap := (sv_heap s)(p \<mapsto> k)\<rparr>
       in if socket_create_result E \<noteq> er_ok
          then do { s \<leftarrow> prx_server_socket_free p s; Some (socket_create_result E, None, s) }
          else Some (er_ok, Some p, s\<lparr>sv_sockets := ev_insert E (id, p) (sv_sockets s)\<rparr>))"

section \<open>Accepting\<close>

definition prx_server_socket_on_begin_accept ::
  "srv_env \<Rightarrow> nat \<Rightarrow> prx_server \<Rightarrow> (nat option \<times> prx_server) option" where
  "prx_server_socket_on_begin_accept E p s = do {
     k \<leftarrow> sv_heap s p;
     (result, accepted, s) \<leftarrow> prx_server_socket_create E (ss_owner k) s;
     (case accepted of
        None \<Rightarrow> Some (None, s)
      | Some a \<Rightarrow> do {
          (result, message, s) \<leftarrow> msg_create E (ss_message_pool k) io_message_type_link (ss_id k) (ss_stream_id k) s;
          (case message of
             None \<Rightarrow> Some (None, s)
           | Some q \<Rightarrow> do {
               s \<leftarrow> sock_upd a (\<lambda>x. x\<lparr>ss_link_message := Some q, ss_props := ss_props k\<rparr>) s;
               Some (Some a, s)
             })
        })
   }"

text \<open>
  \<open>op_context\<close> is the argument of the callback, the address of the cell that holds the context. The code
  uses this address itself as the accepted socket.
\<close>

definition prx_server_socket_on_end_accept ::
  "srv_env \<Rightarrow> nat \<Rightarrow> nat \<Rightarrow> prx_error \<Rightarrow> nat \<Rightarrow> prx_server \<Rightarrow> prx_server option" where
  "prx_server_socket_on_end_accept E p sock result op_context s = do {
     let accepted = op_context;
     (if result \<noteq> er_ok then prx_server_socket_free accepted s
      else do {
        s \<leftarrow> sock_upd accepted (\<lambda>k. k\<lparr>ss_sock := Some sock\<rparr>) s;
        k \<leftarrow> sv_heap s accepted;
        q \<leftarrow> ss_link_message k;
        s \<leftarrow> sock_upd accepted (\<lambda>k. k\<lparr>ss_link_message := None, ss_last_activity := ev_now E\<rparr>) s;
        s \<leftarrow> sock_upd p (\<lambda>k. k\<lparr>ss_last_activity := ev_now E\<rparr>) s;
        let (result, props) = ev_get_properties E (Some sock);
        s \<leftarrow> msg_upd q (\<lambda>m. m\<lparr>msg_content := link_request \<lparr>lr_version = 7, lr_props = props\<rparr>\<rparr>) s;
        if result \<noteq> er_ok then do { s \<leftarrow> msg_release q s; prx_server_socket_free accepted s }
        else do {
          s \<leftarrow> msg_upd q (\<lambda>m. m\<lparr>msg_error_code := err_code result\<rparr>) s;
          s \<leftarrow> sock_upd p (\<lambda>k. k\<lparr>ss_recv_queue := ss_recv_queue k @ [q]\<rparr>) s;
          Some (srv_do_next (task_deliver_results p) s)
        }
      })
   }"

definition prx_server_socket_flow_control :: "nat \<Rightarrow> bool \<Rightarrow> prx_server \<Rightarrow> prx_server option" where
  "prx_server_socket_flow_control p low_mem s = do {
     k \<leftarrow> sv_heap s p;
     Some (if ss_state k = prx_server_socket_opened then srv_call (pal_socket_can_recv (ss_sock k) (\<not> low_mem)) s else s)
   }"

end
