(* ===== verification/Srv_Requests.thy ===== *)
theory Srv_Requests
  imports Srv_Handlers
begin

text \<open>
  The requests of the peer in \<open>src/prx_server.c\<close>: open, data, poll, close and options of a socket, link and
  ping of the server, the dispatch of messages and events, and the creation and release of the server.
\<close>

section \<open>Open\<close>

text \<open>\<open>strlen(string) > 0\<close> of a string in the buffer of a message.\<close>

definition str_not_empty :: "msg_ptr \<Rightarrow> mem_ptr \<Rightarrow> prx_server \<Rightarrow> bool option" where
  "str_not_empty q ptr s = (case ptr of
     pool_ptr a base \<Rightarrow> do {
       fac \<leftarrow> sv_fac s (fst q);
       b \<leftarrow> pool_heap (fac_buffers fac) a;
       if base < length (pb_data b) then Some (pb_data b ! base \<noteq> 0) else None
     }
   | null_ptr \<Rightarrow> Some False
   | _ \<Rightarrow> None)"

definition open_factory :: "srv_env \<Rightarrow> nat \<Rightarrow> prx_server \<Rightarrow> (prx_error \<times> prx_server) option" where
  "open_factory E p s = do {
     k \<leftarrow> sv_heap s p;
     (case ev_factory E of (zalloc_ok, (m_ok, m_res), (b_ok, b_res), sizeof_message) \<Rightarrow>
        (case io_message_factory_create zalloc_ok (ev_alloc E, m_ok, m_res) (ev_alloc E, b_ok, b_res) sizeof_message
                (ss_pool_size k) RECV_POOL_LWM (size_sub (ss_pool_size k) RECV_POOL_HWM) True of
           (result, None) \<Rightarrow> Some (result, s)
         | (result, Some fac) \<Rightarrow> do {
             let n = sv_next_fac s;
             s \<leftarrow> sock_upd p (\<lambda>k. k\<lparr>ss_message_pool := Some n\<rparr>) s;
             Some (er_ok, s\<lparr>sv_next_fac := n + 1, sv_fac := (sv_fac s)(n \<mapsto> fac)\<rparr>)
           }))
   }"

text \<open>The entry of the stream, if the request names one: the result and whether there is an entry.\<close>

definition open_entry :: "srv_env \<Rightarrow> msg_ptr \<Rightarrow> mem_ptr io_open_request \<Rightarrow> prx_server \<Rightarrow> (prx_error \<times> bool) option" where
  "open_entry E q r s = do {
     given \<leftarrow> str_not_empty q (or_connection_string r) s;
     Some (if given then
             if or_type r = 0 then
               if ev_cs_create E \<noteq> er_ok then (ev_cs_create E, False)
               else if ev_entry_create E \<noteq> er_ok then (ev_entry_create E, False)
               else (er_ok, True)
             else (er_not_supported, False)
           else if \<not> or_polled r then (er_invalid_format, False)
           else (er_ok, False))
   }"

definition open_stream :: "srv_env \<Rightarrow> nat \<Rightarrow> bool \<Rightarrow> bool \<Rightarrow> prx_server \<Rightarrow> (prx_error \<times> prx_server) option" where
  "open_stream E p entry polled s = (
     if \<not> entry then do {
       s \<leftarrow> sock_upd p (\<lambda>k. k\<lparr>ss_stream := sv_listener s, ss_server_stream := True\<rparr>) s;
       Some (er_ok, s)
     }
     else if \<not> polled \<and> \<not> ev_wsclient E then Some (er_not_supported, s)
     else case ev_transport_create E of (result, c) \<Rightarrow>
       if result \<noteq> er_ok then Some (result, s)
       else do {
         s \<leftarrow> sock_upd p (\<lambda>k. k\<lparr>ss_stream := Some c\<rparr>) s;
         Some (er_ok, s\<lparr>sv_conns := (sv_conns s)(c \<mapsto> (if polled then control_handler p else stream_handler p))\<rparr>)
       })"

definition open_socket :: "srv_env \<Rightarrow> nat \<Rightarrow> msg_ptr \<Rightarrow> prx_server \<Rightarrow> (prx_error \<times> prx_server) option" where
  "open_socket E p q s = do {
     k \<leftarrow> sv_heap s p;
     if ss_state k = prx_server_socket_opened then Some (er_bad_state, s)
     else if ss_state k \<noteq> prx_server_socket_created then Some (er_closed, s)
     else do {
       m \<leftarrow> msg_get s q;
       r \<leftarrow> content_open (msg_content m);
       s \<leftarrow> sock_upd p (\<lambda>k. k\<lparr>ss_stream_id := or_stream_id r, ss_polled := or_polled r,
                               ss_buffer_size := unat (or_max_recv r)\<rparr>) s;
       (result, s) \<leftarrow> open_factory E p s;
       if result \<noteq> er_ok then Some (result, s)
       else do {
         (result, entry) \<leftarrow> open_entry E q r s;
         if result \<noteq> er_ok then Some (result, s)
         else do {
           (result, s) \<leftarrow> open_stream E p entry (or_polled r) s;
           if result \<noteq> er_ok then Some (result, s)
           else do {
             let s = srv_call (pal_socket_can_recv (ss_sock k) True) s;
             if ev_can_recv E (ss_sock k) \<noteq> er_ok then Some (ev_can_recv E (ss_sock k), s)
             else do {
               s \<leftarrow> sock_upd p (\<lambda>k. k\<lparr>ss_time_opened := ev_now E, ss_last_activity := ev_now E,
                                       ss_state := prx_server_socket_opened\<rparr>) s;
               Some (er_ok, s)
             }
           }
         }
       }
     }
   }"

definition prx_server_socket_handle_openrequest ::
  "srv_env \<Rightarrow> nat \<Rightarrow> nat option \<Rightarrow> msg_ptr \<Rightarrow> prx_server \<Rightarrow> (prx_error \<times> prx_server) option" where
  "prx_server_socket_handle_openrequest E p responder q s = do {
     (result, s) \<leftarrow> open_socket E p q s;
     s \<leftarrow> msg_upd q io_message_as_response s;
     s \<leftarrow> (if result = er_ok then Some s
           else do {
             s \<leftarrow> sock_upd p (\<lambda>k. k\<lparr>ss_state := prx_server_socket_collect\<rparr>) s;
             Some (srv_do_next task_worker s)
           });
     k \<leftarrow> sv_heap s p;
     s \<leftarrow> msg_upd q (\<lambda>m. m\<lparr>msg_error_code := err_code result, msg_target_id := ss_owner k\<rparr>) s;
     io_connection_send E responder q s
   }"

section \<open>Data and poll\<close>

text \<open>The answer to a request on a socket that is not open; only a polled one answers.\<close>

definition socket_not_open ::
  "srv_env \<Rightarrow> nat \<Rightarrow> nat option \<Rightarrow> msg_ptr \<Rightarrow> prx_server \<Rightarrow> (prx_error \<times> prx_server) option" where
  "socket_not_open E p responder q s = do {
     k \<leftarrow> sv_heap s p;
     if ss_polled k then do {
       s \<leftarrow> msg_upd q (\<lambda>m. (io_message_as_response m)\<lparr>msg_error_code := err_code er_closed\<rparr>) s;
       io_connection_send E responder q s
     } else Some (er_ok, s)
   }"

definition prx_server_socket_handle_datamessage ::
  "srv_env \<Rightarrow> nat \<Rightarrow> nat option \<Rightarrow> msg_ptr \<Rightarrow> prx_server \<Rightarrow> (prx_error \<times> prx_server) option" where
  "prx_server_socket_handle_datamessage E p responder q s = do {
     k \<leftarrow> sv_heap s p;
     if ss_state k \<noteq> prx_server_socket_opened then socket_not_open E p responder q s
     else do {
       (result, s) \<leftarrow> msg_clone E q s;
       if result \<noteq> er_ok then Some (result, s)
       else do {
         s \<leftarrow> sock_upd p (\<lambda>k. k\<lparr>ss_send_queue := ss_send_queue k @ [q]\<rparr>) s;
         Some (er_ok, srv_call (pal_socket_can_send (ss_sock k) True) s)
       }
     }
   }"

definition prx_server_socket_timeout_pollrequest :: "srv_env \<Rightarrow> nat \<Rightarrow> prx_server \<Rightarrow> prx_server option" where
  "prx_server_socket_timeout_pollrequest E p s = prx_server_socket_manage_read_queue E p False s"

definition prx_server_socket_handle_pollrequest ::
  "srv_env \<Rightarrow> nat \<Rightarrow> nat option \<Rightarrow> msg_ptr \<Rightarrow> prx_server \<Rightarrow> (prx_error \<times> prx_server) option" where
  "prx_server_socket_handle_pollrequest E p responder q s = do {
     k \<leftarrow> sv_heap s p;
     if ss_state k \<noteq> prx_server_socket_opened then socket_not_open E p responder q s
     else do {
       (result, s) \<leftarrow> msg_clone E q s;
       if result \<noteq> er_ok then Some (result, s)
       else do {
         m \<leftarrow> msg_get s q;
         c \<leftarrow> content_poll (msg_content m);
         let timeout = pm_timeout c;
         s \<leftarrow> msg_put q (m\<lparr>msg_content := poll_message (c\<lparr>pm_timeout := word_of_int (ev_now E) + timeout\<rparr>)\<rparr>) s;
         s \<leftarrow> sock_upd p (\<lambda>k. k\<lparr>ss_props := (ss_props k)\<lparr>sp_timeout := ucast ((ucast timeout :: u32) * 3)\<rparr>,
                                 ss_last_activity := ev_now E, ss_read_queue := ss_read_queue k @ [q]\<rparr>) s;
         s \<leftarrow> prx_server_socket_deliver_results E p s;
         k \<leftarrow> sv_heap s p;
         Some (er_ok, if ss_read_queue k \<noteq> []
                      then srv_do_later (task_timeout_pollrequest p) (unat (ucast timeout :: u32))
                             (srv_call (pal_socket_can_recv (ss_sock k) True) s)
                      else s)
       }
     }
   }"

section \<open>Close and options\<close>

definition prx_server_socket_handle_closerequest ::
  "srv_env \<Rightarrow> nat \<Rightarrow> nat option \<Rightarrow> msg_ptr \<Rightarrow> prx_server \<Rightarrow> (prx_error \<times> prx_server) option" where
  "prx_server_socket_handle_closerequest E p responder q s = do {
     k \<leftarrow> sv_heap s p;
     let closes = (ss_state k = prx_server_socket_created \<or> ss_state k = prx_server_socket_opened);
     s \<leftarrow> (if closes then do {
              s \<leftarrow> sock_upd p (\<lambda>k. k\<lparr>ss_state := prx_server_socket_collect\<rparr>) (srv_call (pal_socket_shutdown (ss_sock k)) s);
              Some (srv_do_next task_worker s)
            } else Some s);
     s \<leftarrow> msg_upd q (\<lambda>m. (io_message_as_response m)\<lparr>msg_content := close_response
            \<lparr>cr_time_open = word_of_int (ev_now E - ss_time_opened k), cr_bytes_sent = of_nat (ss_bytes_sent k),
             cr_bytes_received = of_nat (ss_bytes_recvd k), cr_error_code = err_code (if closes then er_ok else er_closed)\<rparr>\<rparr>) s;
     (if responder = None then Some (er_ok, s)
      else do {
        s \<leftarrow> msg_upd q (\<lambda>m. m\<lparr>msg_error_code := err_code er_ok\<rparr>) s;
        io_connection_send E responder q s
      })
   }"

text \<open>The option of a set request; the timeout of the socket is the server's own.\<close>

definition set_option :: "srv_env \<Rightarrow> nat \<Rightarrow> mem_ptr prx_property \<Rightarrow> prx_server \<Rightarrow> (prx_error \<times> prx_server) option" where
  "set_option E p so_val s = do {
     k \<leftarrow> sv_heap s p;
     if prop_type so_val = prx_so_ip_multicast_join then Some (ev_join E (ss_sock k), s)
     else if prop_type so_val = prx_so_ip_multicast_leave then Some (ev_leave E (ss_sock k), s)
     else if prop_type so_val = prx_so_props_timeout then
       (case prop_property so_val of
          prop_value v \<Rightarrow> do {
            s \<leftarrow> sock_upd p (\<lambda>k. k\<lparr>ss_props := (ss_props k)\<lparr>sp_timeout := v\<rparr>\<rparr>) s;
            Some (er_ok, s)
          }
        | _ \<Rightarrow> None)
     else if lt_i32 (prop_type so_val) prx_so_max then
       (case prop_property so_val of
          prop_value v \<Rightarrow> Some (ev_setsockopt E (ss_sock k) (prop_type so_val) v, s)
        | _ \<Rightarrow> None)
     else Some (er_not_supported, s)
   }"

definition prx_server_socket_handle_setoptrequest ::
  "srv_env \<Rightarrow> nat \<Rightarrow> nat option \<Rightarrow> msg_ptr \<Rightarrow> prx_server \<Rightarrow> (prx_error \<times> prx_server) option" where
  "prx_server_socket_handle_setoptrequest E p responder q s = do {
     k \<leftarrow> sv_heap s p;
     m \<leftarrow> msg_get s q;
     (result, s) \<leftarrow> (
       if ss_state k \<noteq> prx_server_socket_created \<and> ss_state k \<noteq> prx_server_socket_opened then Some (er_closed, s)
       else do {
         s \<leftarrow> sock_upd p (\<lambda>k. k\<lparr>ss_last_activity := ev_now E\<rparr>) s;
         so_val \<leftarrow> content_setopt (msg_content m);
         set_option E p so_val s
       });
     (if responder = None then Some (er_ok, s)
      else do {
        s \<leftarrow> msg_upd q (\<lambda>m. (io_message_as_response m)\<lparr>msg_error_code := err_code result\<rparr>) s;
        io_connection_send E responder q s
      })
   }"

text \<open>The options are an enumeration, which the compiler keeps in an unsigned integer.\<close>

definition get_option :: "srv_env \<Rightarrow> prx_server_socket \<Rightarrow> i32 \<Rightarrow> prx_error \<times> mem_ptr io_content" where
  "get_option E k so_opt = (
     if so_opt = prx_so_ip_multicast_join \<or> so_opt = prx_so_ip_multicast_leave then (er_not_supported, content_zero)
     else if so_opt = prx_so_props_timeout
     then (er_ok, getopt_response \<lparr>prop_type = so_opt, prop_property = prop_value (sp_timeout (ss_props k))\<rparr>)
     else if so_opt < prx_so_max
     then (case ev_getsockopt E (ss_sock k) so_opt of (result, value) \<Rightarrow>
             if result \<noteq> er_ok then (result, content_zero)
             else (er_ok, getopt_response \<lparr>prop_type = so_opt, prop_property = prop_value value\<rparr>))
     else (er_not_supported, content_zero))"

definition prx_server_socket_handle_getoptrequest ::
  "srv_env \<Rightarrow> nat \<Rightarrow> nat option \<Rightarrow> msg_ptr \<Rightarrow> prx_server \<Rightarrow> (prx_error \<times> prx_server) option" where
  "prx_server_socket_handle_getoptrequest E p responder q s = (
     if responder = None then Some (er_ok, s)
     else do {
       k \<leftarrow> sv_heap s p;
       m \<leftarrow> msg_get s q;
       so_opt \<leftarrow> content_getopt (msg_content m);
       (result, content, s) \<leftarrow> (
         if ss_state k \<noteq> prx_server_socket_created \<and> ss_state k \<noteq> prx_server_socket_opened
         then Some (er_closed, content_zero, s)
         else do {
           s \<leftarrow> sock_upd p (\<lambda>k. k\<lparr>ss_last_activity := ev_now E\<rparr>) s;
           let (result, content) = get_option E k so_opt;
           Some (result, content, s)
         });
       s \<leftarrow> msg_upd q (\<lambda>m. (io_message_as_response m)\<lparr>msg_content := content, msg_error_code := err_code result\<rparr>) s;
       io_connection_send E responder q s
     })"

section \<open>Dispatch to a socket\<close>

definition prx_server_socket_stream_handler ::
  "srv_env \<Rightarrow> nat \<Rightarrow> io_connection_event \<Rightarrow> msg_ptr option \<Rightarrow> prx_server \<Rightarrow> (prx_error \<times> prx_server) option" where
  "prx_server_socket_stream_handler E p ev message s = (case ev of
     io_connection_received \<Rightarrow> do {
       q \<leftarrow> message;
       m \<leftarrow> msg_get s q;
       if msg_type m = io_message_type_close then prx_server_socket_handle_closerequest E p None q s
       else if msg_type m = io_message_type_poll then prx_server_socket_handle_pollrequest E p None q s
       else if msg_type m = io_message_type_data then prx_server_socket_handle_datamessage E p None q s
       else Some (er_not_supported, s)
     }
   | io_connection_reconnecting \<Rightarrow> do {
       k \<leftarrow> sv_heap s p;
       Some (if ss_state k = prx_server_socket_opened then er_ok else er_closed, s)
     }
   | io_connection_closed \<Rightarrow> Some (er_ok, srv_do_later (task_socket_free p) 2000 s))"

definition prx_server_socket_control_handler ::
  "srv_env \<Rightarrow> nat \<Rightarrow> io_connection_event \<Rightarrow> msg_ptr option \<Rightarrow> prx_server \<Rightarrow> (prx_error \<times> prx_server) option" where
  "prx_server_socket_control_handler E p ev message s = (case ev of
     io_connection_received \<Rightarrow> do {
       let listener = sv_listener s;
       q \<leftarrow> message;
       m \<leftarrow> msg_get s q;
       if msg_type m = io_message_type_close then prx_server_socket_handle_closerequest E p listener q s
       else if msg_type m = io_message_type_open then prx_server_socket_handle_openrequest E p listener q s
       else if msg_type m = io_message_type_getopt then prx_server_socket_handle_getoptrequest E p listener q s
       else if msg_type m = io_message_type_setopt then prx_server_socket_handle_setoptrequest E p listener q s
       else if msg_type m = io_message_type_poll then prx_server_socket_handle_pollrequest E p listener q s
       else if msg_type m = io_message_type_data then prx_server_socket_handle_datamessage E p listener q s
       else Some (er_not_supported, s)
     }
   | _ \<Rightarrow> Some (er_ok, s))"

text \<open>
  The events of the platform socket, each with the arguments its handler uses; what the handler puts into
  the arguments is part of the result.
\<close>

datatype pal_socket_event =
    pal_socket_event_opened prx_error
  | pal_socket_event_begin_accept
  | pal_socket_event_end_accept nat prx_error nat
  | pal_socket_event_begin_recv
  | pal_socket_event_end_recv nat "prx_socket_address option" prx_error msg_ptr
  | pal_socket_event_begin_send
  | pal_socket_event_end_send prx_error msg_ptr
  | pal_socket_event_closed prx_error

datatype pal_socket_reply =
    reply_none
  | reply_buffer "(mem_ptr \<times> nat \<times> msg_ptr) option"
  | reply_send "(mem_ptr \<times> nat \<times> prx_socket_address \<times> msg_ptr) option"
  | reply_client "nat option"

definition prx_server_socket_event_handler ::
  "srv_env \<Rightarrow> nat \<Rightarrow> pal_socket_event \<Rightarrow> prx_server \<Rightarrow> (pal_socket_reply \<times> prx_server) option" where
  "prx_server_socket_event_handler E p ev s = (case ev of
     pal_socket_event_opened error \<Rightarrow> do {
       s \<leftarrow> sock_upd p (\<lambda>k. k\<lparr>ss_last_error := error\<rparr>) s;
       Some (reply_none, srv_do_next (task_open_complete p) s)
     }
   | pal_socket_event_begin_recv \<Rightarrow> map_option (\<lambda>(r, s). (reply_buffer r, s)) (prx_server_socket_on_begin_receive E p s)
   | pal_socket_event_end_recv len addr error q \<Rightarrow>
       map_option (Pair reply_none) (prx_server_socket_on_end_receive E p len addr error q s)
   | pal_socket_event_begin_accept \<Rightarrow> map_option (\<lambda>(r, s). (reply_client r, s)) (prx_server_socket_on_begin_accept E p s)
   | pal_socket_event_end_accept sock error op_context \<Rightarrow>
       map_option (Pair reply_none) (prx_server_socket_on_end_accept E p sock error op_context s)
   | pal_socket_event_begin_send \<Rightarrow> map_option (\<lambda>(r, s). (reply_send r, s)) (prx_server_socket_on_begin_send p s)
   | pal_socket_event_end_send error q \<Rightarrow> map_option (Pair reply_none) (prx_server_socket_on_end_send E p error q s)
   | pal_socket_event_closed error \<Rightarrow> do {
       s \<leftarrow> sock_upd p (\<lambda>k. k\<lparr>ss_last_error := error\<rparr>) s;
       Some (reply_none, srv_do_next (task_close_complete p) s)
     })"

section \<open>Requests of the server\<close>

text \<open>Freeing the sockets of the table, which stops when the iterator has none left.\<close>

fun free_sockets_loop :: "(io_ref \<times> nat) list \<Rightarrow> prx_server \<Rightarrow> prx_server option" where
  "free_sockets_loop [] s = Some s"
| "free_sockets_loop (entry # rest) s = do {
     k \<leftarrow> sv_heap s (snd entry);
     s \<leftarrow> prx_server_socket_free (snd entry) (srv_call (pal_socket_close (ss_sock k)) s);
     free_sockets_loop rest (s\<lparr>sv_sockets := rest\<rparr>)
   }"

definition prx_server_free_sockets :: "prx_server \<Rightarrow> prx_server option" where
  "prx_server_free_sockets s = free_sockets_loop (sv_sockets s) s"

definition gc_timeout :: "u64 \<Rightarrow> u64" where
  "gc_timeout t = (if t = 0 then DEFAULT_GC_TIMEOUT else if t < MIN_GC_TIMEOUT then MIN_GC_TIMEOUT else t)"

abbreviation "prx_socket_flag_passive \<equiv> (1 :: u32)"
abbreviation "prx_socket_flag_internal \<equiv> (2 :: u32)"
abbreviation "prx_internal_service_port_browse \<equiv> (1 :: u16)"

text \<open>Making the platform socket of a link: the result and the socket, which exists even when its open fails.\<close>

definition link_socket :: "srv_env \<Rightarrow> mem_ptr prx_socket_properties \<Rightarrow> prx_error \<times> nat option" where
  "link_socket E props = (
     if sp_flags props AND prx_socket_flag_internal = 0 then
       (case ev_socket_create E of (result, h) \<Rightarrow>
          if result \<noteq> er_ok then (result, None) else (ev_socket_open E h, Some h))
     else if sa_host_0 (sp_address props) = 0 then
       if sa_port (sp_address props) = prx_internal_service_port_browse then
         if ev_browse_accept E (sa_flags (sp_address props)) \<noteq> er_ok
         then (ev_browse_accept E (sa_flags (sp_address props)), None)
         else (case ev_socket_pair E of (result, h) \<Rightarrow> if result \<noteq> er_ok then (result, None) else (er_ok, Some h))
       else (er_not_supported, None)
     else (er_invalid_format, None))"

text \<open>The answer to a link request that failed; the socket object, if there is one, is freed.\<close>

definition link_failed :: "srv_env \<Rightarrow> prx_error \<Rightarrow> nat option \<Rightarrow> msg_ptr \<Rightarrow> prx_server \<Rightarrow> prx_server option" where
  "link_failed E result server_sock q s = do {
     s \<leftarrow> msg_upd q (\<lambda>m. (io_message_as_response m)\<lparr>msg_error_code := err_code result\<rparr>) s;
     s \<leftarrow> (case server_sock of None \<Rightarrow> Some s | Some p \<Rightarrow> prx_server_socket_free p s);
     (result, s) \<leftarrow> io_connection_send E (sv_listener s) q s;
     Some s
   }"

definition prx_server_handle_linkrequest :: "srv_env \<Rightarrow> msg_ptr \<Rightarrow> prx_server \<Rightarrow> prx_server option" where
  "prx_server_handle_linkrequest E q s = do {
     m \<leftarrow> msg_get s q;
     r \<leftarrow> content_link (msg_content m);
     let props = lr_props r;
     result \<leftarrow> (if sp_flags props AND prx_socket_flag_internal = 0 \<and> sp_flags props AND prx_socket_flag_passive = 0
               then prx_server_check_restricted_port (sa_port (sp_address props)) s
               else Some er_ok);
     if result \<noteq> er_ok then link_failed E result None q s
     else do {
       (result, created, s) \<leftarrow> prx_server_socket_create E (msg_source_id m) s;
       (case created of
          None \<Rightarrow> link_failed E result None q s
        | Some p \<Rightarrow> do {
            let (result, sock) = link_socket E props;
            s \<leftarrow> sock_upd p (\<lambda>k. k\<lparr>ss_props := props\<lparr>sp_timeout := gc_timeout (sp_timeout props)\<rparr>, ss_sock := sock\<rparr>) s;
            if result \<noteq> er_ok then link_failed E result (Some p) q s
            else sock_upd p (\<lambda>k. k\<lparr>ss_link_message := Some q, ss_last_activity := ev_now E\<rparr>) s
          })
     }
   }"

text \<open>The name resolution of a ping; the address it resolves to.\<close>

definition ping_resolve :: "srv_env \<Rightarrow> prx_socket_address \<Rightarrow> prx_server \<Rightarrow> (prx_error \<times> prx_socket_address) option" where
  "ping_resolve E a s = (
     if sa_family a \<noteq> prx_address_family_inet6 \<and> sa_family a \<noteq> prx_address_family_inet \<and>
        sa_family a \<noteq> prx_address_family_proxy
     then Some (er_invalid_format, a)
     else do {
       result \<leftarrow> prx_server_check_restricted_port (sa_port a) s;
       Some (if result \<noteq> er_ok then (result, a)
             else if sa_family a = prx_address_family_proxy
             then (if sa_host_0 a = 0 then (er_invalid_format, a) else ev_getaddrinfo E)
             else if ev_ntop E \<noteq> er_ok then (ev_ntop E, a) else ev_getaddrinfo E)
     })"

definition prx_server_handle_pingrequest :: "srv_env \<Rightarrow> msg_ptr \<Rightarrow> prx_server \<Rightarrow> prx_server option" where
  "prx_server_handle_pingrequest E q s = do {
     m \<leftarrow> msg_get s q;
     a \<leftarrow> content_ping (msg_content m);
     (result, address) \<leftarrow> ping_resolve E a s;
     s \<leftarrow> msg_upd q (\<lambda>m. (io_message_as_response m)\<lparr>msg_error_code := err_code result\<rparr>) s;
     s \<leftarrow> (if result = er_ok
           then msg_upd q (\<lambda>m. m\<lparr>msg_content := ping_response (ping_response_zero\<lparr>pr_address := address\<rparr>)\<rparr>) s
           else Some s);
     (result, s) \<leftarrow> io_connection_send E (sv_listener s) q s;
     Some s
   }"

definition prx_server_handle_invalid_socket :: "srv_env \<Rightarrow> msg_ptr \<Rightarrow> prx_server \<Rightarrow> prx_server option" where
  "prx_server_handle_invalid_socket E q s = do {
     s \<leftarrow> msg_upd q (\<lambda>m. io_message_as_response (m\<lparr>msg_error_code := err_code er_closed\<rparr>)) s;
     (result, s) \<leftarrow> io_connection_send E (sv_listener s) q s;
     Some s
   }"

text \<open>The search in the table, which compares references.\<close>

definition prx_server_get :: "prx_server \<Rightarrow> io_ref \<Rightarrow> nat option" where
  "prx_server_get s ref = map_option snd (find (\<lambda>e. io_ref_equals (Some (fst e)) (Some ref)) (sv_sockets s))"

definition prx_server_handler ::
  "srv_env \<Rightarrow> io_connection_event \<Rightarrow> msg_ptr option \<Rightarrow> prx_server \<Rightarrow> (prx_error \<times> prx_server) option" where
  "prx_server_handler E ev message s = (case ev of
     io_connection_received \<Rightarrow> do {
       q \<leftarrow> message;
       m \<leftarrow> msg_get s q;
       if \<not> io_ref_equals (Some (msg_target_id m)) (Some io_ref_null) then
         (case prx_server_get s (msg_target_id m) of
            Some p \<Rightarrow> prx_server_socket_control_handler E p ev message s
          | None \<Rightarrow> map_option (Pair er_ok) (prx_server_handle_invalid_socket E q s))
       else if msg_type m = io_message_type_ping then map_option (Pair er_ok) (prx_server_handle_pingrequest E q s)
       else if msg_type m = io_message_type_link then map_option (Pair er_ok) (prx_server_handle_linkrequest E q s)
       else Some (er_not_supported, s)
     }
   | io_connection_closed \<Rightarrow> Some (er_ok, srv_do_next task_worker
       ((case sv_listener s of None \<Rightarrow> s | Some l \<Rightarrow> srv_call (conn_free l) s)\<lparr>sv_listener := None, sv_exit := True\<rparr>))
   | io_connection_reconnecting \<Rightarrow> Some (er_ok, s))"

section \<open>The server\<close>

definition prx_server_release :: "prx_server option \<Rightarrow> prx_server option" where
  "prx_server_release server = (case server of
     None \<Rightarrow> None
   | Some s \<Rightarrow> (case sv_listener s of
       Some l \<Rightarrow> Some (io_connection_close l s)
     | None \<Rightarrow> Some (srv_do_next task_worker (s\<lparr>sv_exit := True\<rparr>))))"

text \<open>
  The outcomes of the steps of the creation: the address of the entry, the configured ports with the
  allocation of their array, the table, the lock, the scheduler, the listener and the browse server.
\<close>

record srv_create_env =
  ce_zalloc :: bool
  ce_addr :: "prx_error \<times> io_ref"
  ce_ports :: cstr
  ce_ports_alloc :: bool
  ce_table :: bool
  ce_lock :: prx_error
  ce_scheduler :: prx_error
  ce_listener :: "prx_error \<times> nat"
  ce_browser :: prx_error

definition server_zero :: prx_server where
  "server_zero = \<lparr>sv_id = io_ref_null, sv_listener = None, sv_browser = False, sv_restricted_ports = [],
     sv_restricted_port_count = 0, sv_sockets = [], sv_scheduler = False, sv_exit = False, sv_freed = False,
     sv_heap = Map.empty, sv_next = 0, sv_fac = Map.empty, sv_next_fac = 0, sv_conns = Map.empty, sv_tasks = [],
     sv_sent = [], sv_calls = []\<rparr>"

text \<open>The steps after the ports have been parsed.\<close>

definition server_start :: "srv_create_env \<Rightarrow> prx_server \<Rightarrow> prx_error \<times> prx_server" where
  "server_start C s = (
     if \<not> ce_table C then (er_out_of_memory, s)
     else if ce_lock C \<noteq> er_ok then (ce_lock C, s)
     else if ce_scheduler C \<noteq> er_ok then (ce_scheduler C, s)
     else
       let s = s\<lparr>sv_scheduler := True\<rparr>
       in case ce_listener C of (result, l) \<Rightarrow>
            if result \<noteq> er_ok then (result, s)
            else
              let s = s\<lparr>sv_listener := Some l, sv_conns := (sv_conns s)(l \<mapsto> server_handler)\<rparr>
              in if ce_browser C \<noteq> er_ok then (ce_browser C, s)
                 else (er_ok, srv_do_next task_worker (s\<lparr>sv_browser := True\<rparr>)))"

text \<open>The result, whether the server is handed out, and the server as it is then.\<close>

definition prx_server_create :: "srv_create_env \<Rightarrow> (prx_error \<times> bool \<times> prx_server option) option" where
  "prx_server_create C = (
     if \<not> ce_zalloc C then Some (er_out_of_memory, False, None)
     else case ce_addr C of (result, ref) \<Rightarrow>
       if result \<noteq> er_ok then Some (result, False, prx_server_release (Some server_zero))
       else
         let s = server_zero\<lparr>sv_id := ref\<rparr>
         in case string_parse_range_list (ce_ports_alloc C) (Some (ce_ports C)) True True of
              Crash \<Rightarrow> None
            | Err e \<Rightarrow> Some (e, False, prx_server_release (Some s))
            | Ok tuples \<Rightarrow> (
                let tuples = (case tuples of None \<Rightarrow> [] | Some tuples \<Rightarrow> tuples);
                    s = s\<lparr>sv_restricted_ports := concat (map (\<lambda>(low, high). [low, high]) tuples),
                          sv_restricted_port_count := length tuples\<rparr>
                in case server_start C s of (result, s) \<Rightarrow>
                     if result \<noteq> er_ok then Some (result, False, prx_server_release (Some s))
                     else Some (er_ok, True, Some s)))"

end
