(* ===== verification/Srv_Ports.thy ===== *)
theory Srv_Ports
  imports Srv_Requests
begin

text \<open>
  The check for restricted ports against the ranges of the configuration: the loop of
  \<open>prx_server_check_restricted_port\<close> compares with the flat array of bounds, in which it is always at the
  start of a range or at the upper bound of one that lies above the port.
\<close>

definition flat_ranges :: "(int \<times> int) list \<Rightarrow> int list" where
  "flat_ranges ts = concat (map (\<lambda>(low, high). [low, high]) ts)"

lemma flat_ranges_length [simp]: "length (flat_ranges ts) = 2 * length ts"
  by (induction ts) (auto simp: flat_ranges_def)

lemma flat_ranges_nth:
  "i < length ts \<Longrightarrow> flat_ranges ts ! (2 * i) = fst (ts ! i) \<and> flat_ranges ts ! (2 * i + 1) = snd (ts ! i)"
proof (induction ts arbitrary: i)
  case (Cons t ts)
  then show ?case
    by (cases i) (auto simp: flat_ranges_def split: prod.splits)
qed simp

lemma check_restricted_loop_ranges:
  assumes "\<forall>t \<in> set ts. fst t \<le> snd t" "i \<le> length ts"
  shows "check_restricted_loop (flat_ranges ts) (length ts) port (2 * i) =
    Some (if \<exists>t \<in> set (drop i ts). fst t \<le> port \<and> port \<le> snd t then er_refused else er_ok)"
  using assms(2)
proof (induction "length ts - i" arbitrary: i)
  case 0
  then show ?case
    by (subst check_restricted_loop.simps) simp
next
  case (Suc n)
  then have i: "i < length ts" by simp
  have n: "check_restricted_loop (flat_ranges ts) (length ts) port (2 * i + 2) =
      Some (if \<exists>t \<in> set (drop (Suc i) ts). fst t \<le> port \<and> port \<le> snd t then er_refused else er_ok)"
    using Suc.hyps(1) [of "Suc i"] Suc.hyps(2) i by simp
  have d: "drop i ts = ts ! i # drop (Suc i) ts"
    using i by (rule Cons_nth_drop_Suc [symmetric])
  have le: "fst (ts ! i) \<le> snd (ts ! i)"
    using assms(1) i by simp
  have upper: "check_restricted_loop (flat_ranges ts) (length ts) port (2 * i + 1) =
      check_restricted_loop (flat_ranges ts) (length ts) port (2 * i + 2)" if "port < snd (ts ! i)"
    using that i flat_ranges_nth [OF i] by (subst check_restricted_loop.simps) simp
  show ?case
    using n d le upper i flat_ranges_nth [OF i]
    by (subst check_restricted_loop.simps) (auto simp del: check_restricted_loop.simps)
qed

declare check_restricted_loop.simps [simp del]

lemma string_parse_range_list_text:
  assumes "its \<noteq> []" "list_all item_ok its"
  shows "string_parse_range_list True (Some (range_text its)) True True = Ok (Some (map item_range its))"
  using range_pass_text [OF assms, of "[]" None "[]" 0] range_pass_text [OF assms, of "[]" "Some (length its)" "[]" 0] assms(1)
  by (simp add: string_parse_range_list_def)

lemma item_range_ordered: "fst (item_range it) \<le> snd (item_range it)"
  by (cases "snd it") (auto simp: item_range_def)

text \<open>
  C3. A server configured with a list of ports and port ranges refuses exactly the ports in one of the
  ranges, whatever their order and overlap: the check is membership in the union of the ranges that the
  text of the configuration lists, and it stays inside the array of bounds.
\<close>

theorem restricted_ports_are_the_configured_ranges:
  assumes "its \<noteq> []" "list_all item_ok its" "ce_ports C = range_text its"
    and "prx_server_create C = Some (er_ok, True, Some s)" "ce_ports_alloc C"
  shows "prx_server_check_restricted_port port s =
    Some (if \<exists>it \<in> set its. fst (item_range it) \<le> uint port \<and> uint port \<le> snd (item_range it) then er_refused else er_ok)"
proof -
  have "sv_restricted_ports s = flat_ranges (map item_range its) \<and> sv_restricted_port_count s = length its"
    using assms string_parse_range_list_text [OF assms(1,2)]
    by (auto simp: prx_server_create_def server_start_def srv_do_next_def Let_def flat_ranges_def
        split: prod.splits if_splits)
  then show ?thesis
    using check_restricted_loop_ranges [of "map item_range its" 0 "uint port"] item_range_ordered
    by (simp add: prx_server_check_restricted_port_def)
qed

definition create_env_demo :: srv_create_env where
  "create_env_demo = \<lparr>ce_zalloc = True, ce_addr = (er_ok, \<lparr>ref_0 = 1, ref_1 = 2\<rparr>),
     ce_ports = range_text [(8080, Some 8000), (22, None)], ce_ports_alloc = True, ce_table = True, ce_lock = er_ok,
     ce_scheduler = er_ok, ce_listener = (er_ok, 0), ce_browser = er_ok\<rparr>"

lemma create_env_demo_server:
  obtains s where "prx_server_create create_env_demo = Some (er_ok, True, Some s)"
    "sv_listener s = Some 0" "sv_sockets s = []" "sv_heap s = Map.empty" "sv_next s = 0" "sv_fac s = Map.empty"
    "sv_next_fac s = 0" "sv_restricted_ports s = [8000, 8080, 22, 22]" "sv_restricted_port_count s = 2"
  using string_parse_range_list_text [of "[(8080, Some 8000), (22, None)]"]
  by (simp add: prx_server_create_def create_env_demo_def server_start_def srv_do_next_def Let_def item_ok_def
      server_zero_def item_range_def)

theorem restricted_ports_are_the_configured_ranges_witness:
  "\<exists>s. prx_server_create create_env_demo = Some (er_ok, True, Some s) \<and>
     prx_server_check_restricted_port 8042 s = Some er_refused \<and> prx_server_check_restricted_port 22 s = Some er_refused \<and>
     prx_server_check_restricted_port 4840 s = Some er_ok"
proof -
  obtain s where s: "prx_server_create create_env_demo = Some (er_ok, True, Some s)"
    using create_env_demo_server by blast
  note ports = restricted_ports_are_the_configured_ranges [of "[(8080, Some 8000), (22, None)]", OF _ _ _ s]
  show ?thesis
    using s ports [of 8042] ports [of 22] ports [of 4840] by (simp add: create_env_demo_def item_ok_def item_range_def)
qed

end
