(* ===== verification/Srv_Invariant.thy ===== *)
theory Srv_Invariant
  imports Srv_Requests
begin

text \<open>
  The state machine of the proxy server and the invariant of its states. The preservation proofs go
  through the operations of \<open>Srv_State\<close> with one rule for each of them, in the style of a verification
  condition generator: a goal about what an operation returns becomes the goals about its parts.
\<close>

section \<open>Rules for operations that may have no result\<close>

named_theorems wf_intros \<open>rules for the operations on the state of the server\<close>

lemma pred_option_bind [simp]: "pred_option P (Option.bind m f) \<longleftrightarrow> pred_option (\<lambda>x. pred_option P (f x)) m"
  by (cases m) simp_all

lemma pred_option_map [simp]: "pred_option P (map_option f m) \<longleftrightarrow> pred_option (\<lambda>x. P (f x)) m"
  by (cases m) simp_all

lemma pred_option_someI: "(\<And>x. m = Some x \<Longrightarrow> P x) \<Longrightarrow> pred_option P m"
  by (cases m) simp_all

lemma pred_optionD: "pred_option P m \<Longrightarrow> m = Some x \<Longrightarrow> P x"
  by simp

lemma pred_option_mono_strong: "pred_option Q m \<Longrightarrow> (\<And>x. Q x \<Longrightarrow> P x) \<Longrightarrow> pred_option P m"
  by (cases m) simp_all

section \<open>Well-formed states\<close>

text \<open>
  Addresses below \<open>sv_next\<close> and \<open>sv_next_fac\<close> have been given out. An entry of the table names its socket by
  the id the socket has, as long as the socket exists. An open socket has a message pool.
\<close>

definition sock_wf :: "nat \<Rightarrow> prx_server_socket \<Rightarrow> bool" where
  "sock_wf next_fac k \<longleftrightarrow> ss_bytes_sent k = 0 \<and> (\<forall>n. ss_message_pool k = Some n \<longrightarrow> n < next_fac) \<and>
     (ss_state k = prx_server_socket_opened \<longrightarrow> ss_message_pool k \<noteq> None)"

definition srv_wf :: "prx_server \<Rightarrow> bool" where
  "srv_wf s \<longleftrightarrow> (\<forall>p k. sv_heap s p = Some k \<longrightarrow> p < sv_next s \<and> sock_wf (sv_next_fac s) k) \<and>
     (\<forall>n. sv_next_fac s \<le> n \<longrightarrow> sv_fac s n = None) \<and>
     (\<forall>r p. (r, p) \<in> set (sv_sockets s) \<longrightarrow> p < sv_next s \<and> (\<forall>k. sv_heap s p = Some k \<longrightarrow> ss_id k = r))"

text \<open>What the hash table promises of an insertion.\<close>

definition hash_laws :: "srv_env \<Rightarrow> bool" where
  "hash_laws E \<longleftrightarrow> (\<forall>e t. set (ev_insert E e t) = insert e (set t))"

lemma srv_wfD: "srv_wf s \<Longrightarrow> sv_heap s p = Some k \<Longrightarrow> sock_wf (sv_next_fac s) k"
  by (simp add: srv_wf_def)

text \<open>A message may be changed, released or created in a factory that exists.\<close>

lemma srv_wf_fac:
  "srv_wf s \<Longrightarrow> sv_fac s n \<noteq> None \<Longrightarrow> srv_wf (s\<lparr>sv_fac := (sv_fac s)(n \<mapsto> fac)\<rparr>)"
  by (auto simp: srv_wf_def)

lemma wf_sock_upd [wf_intros]:
  assumes "srv_wf s"
    and "\<And>k. sv_heap s p = Some k \<Longrightarrow> sock_wf (sv_next_fac s) k \<Longrightarrow> sock_wf (sv_next_fac s) (f k) \<and> ss_id (f k) = ss_id k"
    and "\<And>s'. srv_wf s' \<Longrightarrow> P s'"
  shows "pred_option P (sock_upd p f s)"
proof (rule pred_option_someI)
  fix s' assume "sock_upd p f s = Some s'"
  then obtain k where k: "sv_heap s p = Some k" "s' = s\<lparr>sv_heap := (sv_heap s)(p \<mapsto> f k)\<rparr>"
    by (auto simp: sock_upd_def split: bind_splits)
  have "srv_wf s'"
    using assms(1,2) k srv_wfD [OF assms(1) k(1)] by (auto simp: srv_wf_def)
  then show "P s'" by (rule assms(3))
qed

lemma wf_heap [wf_intros]: "(\<And>k. sv_heap s p = Some k \<Longrightarrow> P k) \<Longrightarrow> pred_option P (sv_heap s p)"
  by (rule pred_option_someI)

lemma wf_msg_get [wf_intros]: "(\<And>m. msg_get s q = Some m \<Longrightarrow> P m) \<Longrightarrow> pred_option P (msg_get s q)"
  by (rule pred_option_someI)

lemma wf_msg_put [wf_intros]: "srv_wf s \<Longrightarrow> (\<And>s'. srv_wf s' \<Longrightarrow> P s') \<Longrightarrow> pred_option P (msg_put q m s)"
  by (rule pred_option_someI) (auto simp: msg_put_def srv_wf_fac split: bind_splits)

lemma wf_msg_upd [wf_intros]: "srv_wf s \<Longrightarrow> (\<And>s'. srv_wf s' \<Longrightarrow> P s') \<Longrightarrow> pred_option P (msg_upd q f s)"
  unfolding msg_upd_def by (auto intro!: wf_intros)

lemma wf_msg_release [wf_intros]: "srv_wf s \<Longrightarrow> (\<And>s'. srv_wf s' \<Longrightarrow> P s') \<Longrightarrow> pred_option P (msg_release q s)"
  by (rule pred_option_someI) (auto simp: msg_release_def srv_wf_fac split: bind_splits)

lemma wf_msg_clone [wf_intros]:
  "srv_wf s \<Longrightarrow> (\<And>r s'. srv_wf s' \<Longrightarrow> P (r, s')) \<Longrightarrow> pred_option P (msg_clone E q s)"
  by (rule pred_option_someI) (auto simp: msg_clone_def srv_wf_fac split: bind_splits prod.splits)

lemma wf_msg_create [wf_intros]:
  "srv_wf s \<Longrightarrow> (\<And>r q s'. srv_wf s' \<Longrightarrow> P (r, q, s')) \<Longrightarrow> pred_option P (msg_create E pool t a b s)"
  by (rule pred_option_someI) (auto simp: msg_create_def srv_wf_fac split: bind_splits prod.splits option.splits)

lemma wf_msg_release_all [wf_intros]:
  "srv_wf s \<Longrightarrow> (\<And>s'. srv_wf s' \<Longrightarrow> P s') \<Longrightarrow> pred_option P (msg_release_all qs s)"
  by (induction qs arbitrary: s) (auto intro!: wf_intros)

lemma wf_send [wf_intros]:
  "srv_wf s \<Longrightarrow> (\<And>r s'. srv_wf s' \<Longrightarrow> P (r, s')) \<Longrightarrow> pred_option P (io_connection_send E c q s)"
  by (rule pred_option_someI)
    (auto simp: io_connection_send_def srv_wf_def Let_def split: bind_splits option.splits)

lemma wf_frame [simp]:
  "srv_wf (srv_do_next t s) \<longleftrightarrow> srv_wf s" "srv_wf (srv_do_later t d s) \<longleftrightarrow> srv_wf s" "srv_wf (srv_call c s) \<longleftrightarrow> srv_wf s"
  "srv_wf (s\<lparr>sv_conns := cs\<rparr>) \<longleftrightarrow> srv_wf s" "srv_wf (s\<lparr>sv_listener := l\<rparr>) \<longleftrightarrow> srv_wf s"
  "srv_wf (s\<lparr>sv_exit := x\<rparr>) \<longleftrightarrow> srv_wf s" "srv_wf (s\<lparr>sv_tasks := ts\<rparr>) \<longleftrightarrow> srv_wf s"
  by (simp_all add: srv_wf_def srv_do_next_def srv_do_later_def srv_call_def)

lemma srv_call_fields [simp]: "sv_heap (srv_call c s) = sv_heap s" "sv_next_fac (srv_call c s) = sv_next_fac s"
  by (simp_all add: srv_call_def)

lemma sock_wf_simps [simp]:
  "sock_wf n (k\<lparr>ss_sock := a\<rparr>) = sock_wf n k" "sock_wf n (k\<lparr>ss_props := b\<rparr>) = sock_wf n k"
  "sock_wf n (k\<lparr>ss_link_message := c\<rparr>) = sock_wf n k" "sock_wf n (k\<lparr>ss_last_error := d\<rparr>) = sock_wf n k"
  "sock_wf n (k\<lparr>ss_last_activity := e\<rparr>) = sock_wf n k" "sock_wf n (k\<lparr>ss_time_opened := e\<rparr>) = sock_wf n k"
  "sock_wf n (k\<lparr>ss_stream_id := f\<rparr>) = sock_wf n k" "sock_wf n (k\<lparr>ss_server_stream := g\<rparr>) = sock_wf n k"
  "sock_wf n (k\<lparr>ss_stream := h\<rparr>) = sock_wf n k" "sock_wf n (k\<lparr>ss_polled := i\<rparr>) = sock_wf n k"
  "sock_wf n (k\<lparr>ss_read_queue := j\<rparr>) = sock_wf n k" "sock_wf n (k\<lparr>ss_write_queue := j\<rparr>) = sock_wf n k"
  "sock_wf n (k\<lparr>ss_send_queue := j\<rparr>) = sock_wf n k" "sock_wf n (k\<lparr>ss_recv_queue := j\<rparr>) = sock_wf n k"
  "sock_wf n (k\<lparr>ss_bytes_recvd := l\<rparr>) = sock_wf n k" "sock_wf n (k\<lparr>ss_buffer_size := l\<rparr>) = sock_wf n k"
  "sock_wf n (k\<lparr>ss_pool_size := l\<rparr>) = sock_wf n k"
  by (simp_all add: sock_wf_def)

lemma sock_wf_state [simp]:
  "st \<noteq> prx_server_socket_opened \<Longrightarrow> sock_wf n k \<Longrightarrow> sock_wf n (k\<lparr>ss_state := st\<rparr>)"
  by (simp add: sock_wf_def)

section \<open>Delivery and worker\<close>

lemma wf_socket_free [wf_intros]:
  assumes "srv_wf s" "\<And>s'. srv_wf s' \<Longrightarrow> P s'"
  shows "pred_option P (prx_server_socket_free p s)"
proof -
  have drop: "srv_wf (s'\<lparr>sv_tasks := ts, sv_heap := (sv_heap s')(p := None)\<rparr>)"
    "srv_wf (s'\<lparr>sv_fac := (sv_fac s')(n := None), sv_tasks := ts, sv_heap := (sv_heap s')(p := None)\<rparr>)"
    if "srv_wf s'" for s' ts n
    using that by (auto simp: srv_wf_def)
  show ?thesis
    unfolding prx_server_socket_free_def
    by (auto intro!: wf_intros assms drop simp: Let_def split: option.split)
qed

lemma wf_manage_read_loop [wf_intros]:
  "srv_wf s \<Longrightarrow> (\<And>s'. srv_wf s' \<Longrightarrow> P s') \<Longrightarrow> pred_option P (manage_read_loop E p close qs s)"
proof (induction qs arbitrary: s)
  case (Cons q qs)
  then show ?case
    by (auto intro!: wf_intros pred_option_someI [of "content_poll _"])
qed simp

lemma wf_manage_read_queue [wf_intros]:
  "srv_wf s \<Longrightarrow> (\<And>s'. srv_wf s' \<Longrightarrow> P s') \<Longrightarrow> pred_option P (prx_server_socket_manage_read_queue E p close s)"
  unfolding prx_server_socket_manage_read_queue_def by (auto intro!: wf_intros)

lemma wf_deliver_recv_loop [wf_intros]:
  "srv_wf s \<Longrightarrow> (\<And>s'. srv_wf s' \<Longrightarrow> P s') \<Longrightarrow> pred_option P (deliver_recv_loop E p qs s)"
proof (induction qs arbitrary: s)
  case (Cons q qs)
  then show ?case
    by (auto intro!: wf_intros simp: Let_def split: option.split)
qed simp

lemma wf_deliver_write_loop [wf_intros]:
  "srv_wf s \<Longrightarrow> (\<And>s'. srv_wf s' \<Longrightarrow> P s') \<Longrightarrow> pred_option P (deliver_write_loop E p qs s)"
proof (induction qs arbitrary: s)
  case (Cons q qs)
  then show ?case
    by (auto intro!: wf_intros)
qed simp

lemma wf_deliver_results [wf_intros]:
  "srv_wf s \<Longrightarrow> (\<And>s'. srv_wf s' \<Longrightarrow> P s') \<Longrightarrow> pred_option P (prx_server_socket_deliver_results E p s)"
  unfolding prx_server_socket_deliver_results_def by (auto intro!: wf_intros)

lemma wf_connection_close [simp]: "srv_wf (io_connection_close c s) \<longleftrightarrow> srv_wf s"
  by (auto simp: io_connection_close_def Let_def split: option.splits conn_handler.splits)

lemma srv_wf_remove [simp]: "srv_wf s \<Longrightarrow> srv_wf (s\<lparr>sv_sockets := remove1 e (sv_sockets s)\<rparr>)"
  using set_remove1_subset [of e "sv_sockets s"] by (auto simp: srv_wf_def)

lemma wf_worker_closed [wf_intros]:
  "srv_wf s \<Longrightarrow> (\<And>r s'. srv_wf s' \<Longrightarrow> P (r, s')) \<Longrightarrow> pred_option P (worker_closed p e s)"
  unfolding worker_closed_def by (auto intro!: wf_intros split: option.split)

lemma wf_worker_collect [wf_intros]:
  "srv_wf s \<Longrightarrow> (\<And>r s'. srv_wf s' \<Longrightarrow> P (r, s')) \<Longrightarrow> pred_option P (worker_collect E t p s)"
  unfolding worker_collect_def by (auto intro!: wf_intros)

lemma wf_worker_created [wf_intros]:
  "srv_wf s \<Longrightarrow> (\<And>r s'. srv_wf s' \<Longrightarrow> P (r, s')) \<Longrightarrow> pred_option P (worker_created E t p s)"
  unfolding worker_created_def by (auto intro!: wf_intros)

lemma wf_worker_opened [wf_intros]:
  "srv_wf s \<Longrightarrow> (\<And>r s'. srv_wf s' \<Longrightarrow> P (r, s')) \<Longrightarrow> pred_option P (worker_opened E t p s)"
  unfolding worker_opened_def by (auto intro!: wf_intros split: option.split)

lemma wf_worker_socket [wf_intros]:
  "srv_wf s \<Longrightarrow> (\<And>r s'. srv_wf s' \<Longrightarrow> P (r, s')) \<Longrightarrow> pred_option P (worker_socket E e s)"
  unfolding worker_socket_def by (auto intro!: wf_intros simp: Let_def split: prx_server_socket_state.split)

lemma wf_worker_loop [wf_intros]:
  "srv_wf s \<Longrightarrow> (\<And>s'. srv_wf s' \<Longrightarrow> P s') \<Longrightarrow> pred_option P (worker_loop E es s)"
proof (induction "length es" arbitrary: es s rule: less_induct)
  case less
  show ?case
  proof (cases es)
    case (Cons e rest)
    then have "srv_wf s' \<Longrightarrow> pred_option P (worker_loop E (if r then tl rest else rest) s')" for r s'
      using less by simp
    then show ?thesis
      using Cons less.prems(1) by (auto intro!: wf_worker_socket)
  qed (simp add: less.prems)
qed

lemma wf_server_free: "srv_wf s \<Longrightarrow> srv_wf (prx_server_free s)"
  by (auto simp: srv_wf_def prx_server_free_def)

lemma wf_worker [wf_intros]:
  "srv_wf s \<Longrightarrow> (\<And>s'. srv_wf s' \<Longrightarrow> P s') \<Longrightarrow> pred_option P (prx_server_worker E s)"
  unfolding prx_server_worker_def by (auto intro!: wf_intros simp: Let_def wf_server_free)

section \<open>Callbacks and requests\<close>

lemma wf_pure [wf_intros]:
  "(\<And>x. content_open c = Some x \<Longrightarrow> P1 x) \<Longrightarrow> pred_option P1 (content_open c)"
  "(\<And>x. content_link c = Some x \<Longrightarrow> P2 x) \<Longrightarrow> pred_option P2 (content_link c)"
  "(\<And>x. content_data c = Some x \<Longrightarrow> P3 x) \<Longrightarrow> pred_option P3 (content_data c)"
  "(\<And>x. content_setopt c = Some x \<Longrightarrow> P4 x) \<Longrightarrow> pred_option P4 (content_setopt c)"
  "(\<And>x. content_getopt c = Some x \<Longrightarrow> P5 x) \<Longrightarrow> pred_option P5 (content_getopt c)"
  "(\<And>x. content_ping c = Some x \<Longrightarrow> P6 x) \<Longrightarrow> pred_option P6 (content_ping c)"
  "(\<And>x. content_poll d = Some x \<Longrightarrow> P7 x) \<Longrightarrow> pred_option P7 (content_poll d)"
  "(\<And>x. ss_link_message k = Some x \<Longrightarrow> P8 x) \<Longrightarrow> pred_option P8 (ss_link_message k)"
  "(\<And>x. open_pool_size E k = Some x \<Longrightarrow> P9 x) \<Longrightarrow> pred_option P9 (open_pool_size E k)"
  "(\<And>x. open_entry E q r s = Some x \<Longrightarrow> P10 x) \<Longrightarrow> pred_option P10 (open_entry E q r s)"
  "(\<And>x. ping_resolve E a s = Some x \<Longrightarrow> P11 x) \<Longrightarrow> pred_option P11 (ping_resolve E a s)"
  "(\<And>x. prx_server_check_restricted_port port s = Some x \<Longrightarrow> P12 x) \<Longrightarrow>
     pred_option P12 (prx_server_check_restricted_port port s)"
  by (rule pred_option_someI, simp)+

lemma wf_allocate_buffer [wf_intros]:
  "srv_wf s \<Longrightarrow> (\<And>r ptr s'. srv_wf s' \<Longrightarrow> P (r, ptr, s')) \<Longrightarrow> pred_option P (msg_allocate_buffer E q len s)"
  by (rule pred_option_someI)
    (auto simp: msg_allocate_buffer_def srv_wf_fac Let_def split: bind_splits prod.splits)

lemma wf_socket_create [wf_intros]:
  assumes "srv_wf s" "hash_laws E" "\<And>r p s'. srv_wf s' \<Longrightarrow> P (r, p, s')"
  shows "pred_option P (prx_server_socket_create E owner s)"
proof -
  have new: "srv_wf (s\<lparr>sv_next := Suc (sv_next s), sv_heap := (sv_heap s)(sv_next s \<mapsto> k)\<rparr>)"
    "srv_wf (s\<lparr>sv_next := Suc (sv_next s), sv_heap := (sv_heap s)(sv_next s \<mapsto> k),
        sv_sockets := ev_insert E (ss_id k, sv_next s) (sv_sockets s)\<rparr>)"
    if "sock_wf (sv_next_fac s) k" for k
    using that assms(1,2) by (auto simp: srv_wf_def hash_laws_def intro: less_SucI)
  have zero: "sock_wf (sv_next_fac s) (server_socket_zero\<lparr>ss_owner := owner, ss_id := r\<rparr>)" for r
    by (simp add: sock_wf_def server_socket_zero_def)
  show ?thesis
    using new(1) [OF zero] new(2) [OF zero] assms(1,3)
    by (auto intro!: wf_intros simp: prx_server_socket_create_def Let_def)
qed

lemma wf_callbacks [wf_intros]:
  "srv_wf s \<Longrightarrow> (\<And>s'. srv_wf s' \<Longrightarrow> P s') \<Longrightarrow> pred_option P (prx_server_socket_open_complete E responder p s)"
  "srv_wf s \<Longrightarrow> (\<And>s'. srv_wf s' \<Longrightarrow> P s') \<Longrightarrow> pred_option P (prx_server_socket_close_complete p s)"
  "srv_wf s \<Longrightarrow> (\<And>s'. srv_wf s' \<Longrightarrow> P s') \<Longrightarrow> pred_option P (prx_server_socket_on_end_receive E p len addr result q s)"
  "srv_wf s \<Longrightarrow> (\<And>s'. srv_wf s' \<Longrightarrow> P s') \<Longrightarrow> pred_option P (prx_server_socket_on_end_send E p result q s)"
  "srv_wf s \<Longrightarrow> (\<And>s'. srv_wf s' \<Longrightarrow> P s') \<Longrightarrow> pred_option P (prx_server_socket_on_end_accept E p sock result cell s)"
  "srv_wf s \<Longrightarrow> (\<And>s'. srv_wf s' \<Longrightarrow> P s') \<Longrightarrow> pred_option P (prx_server_socket_flow_control p low s)"
  "srv_wf s \<Longrightarrow> (\<And>s'. srv_wf s' \<Longrightarrow> P s') \<Longrightarrow> pred_option P (prx_server_socket_timeout_pollrequest E p s)"
  unfolding prx_server_socket_open_complete_def prx_server_socket_close_complete_def
    prx_server_socket_on_end_receive_def prx_server_socket_on_end_send_def prx_server_socket_on_end_accept_def
    prx_server_socket_flow_control_def prx_server_socket_timeout_pollrequest_def
  by (auto intro!: wf_intros simp: Let_def split: prod.split option.split)

lemma wf_begin_callbacks [wf_intros]:
  "srv_wf s \<Longrightarrow> (\<And>r s'. srv_wf s' \<Longrightarrow> P1 (r, s')) \<Longrightarrow> pred_option P1 (prx_server_socket_on_begin_receive E p s)"
  "srv_wf s \<Longrightarrow> (\<And>r s'. srv_wf s' \<Longrightarrow> P2 (r, s')) \<Longrightarrow> pred_option P2 (prx_server_socket_on_begin_send p s)"
  "srv_wf s \<Longrightarrow> hash_laws E \<Longrightarrow> (\<And>r s'. srv_wf s' \<Longrightarrow> P3 (r, s')) \<Longrightarrow>
     pred_option P3 (prx_server_socket_on_begin_accept E p s)"
  unfolding prx_server_socket_on_begin_receive_def prx_server_socket_on_begin_send_def
    prx_server_socket_on_begin_accept_def
  by (auto intro!: wf_intros split: option.split list.split)

text \<open>The pool of a socket that is about to be opened.\<close>

definition has_pool :: "nat \<Rightarrow> prx_server \<Rightarrow> bool" where
  "has_pool p s \<longleftrightarrow> (\<forall>k. sv_heap s p = Some k \<longrightarrow> ss_message_pool k \<noteq> None)"

lemma io_message_factory_create_ok [simp]: "io_message_factory_create z M B n a b c t \<noteq> (er_ok, None)"
  by (auto simp: io_message_factory_create_def Let_def prx_fixed_pool_create_def prx_dynamic_pool_create_def
      split: if_splits option.splits prod.splits)

lemma wf_open_factory:
  assumes "srv_wf s"
  shows "pred_option (\<lambda>(r, s'). srv_wf s' \<and> (r = er_ok \<longrightarrow> has_pool p s')) (open_factory E p s)"
proof -
  have new: "srv_wf (s\<lparr>sv_heap := (sv_heap s)(p \<mapsto> k\<lparr>ss_message_pool := Some (sv_next_fac s)\<rparr>),
      sv_next_fac := Suc (sv_next_fac s), sv_fac := (sv_fac s)(sv_next_fac s \<mapsto> fac)\<rparr>)"
    if "sv_heap s p = Some k" for k fac
    using assms that by (auto simp: srv_wf_def sock_wf_def intro: less_SucI)
  show ?thesis
    using assms new
    by (auto intro!: wf_heap simp: open_factory_def sock_upd_def has_pool_def Let_def split: prod.split option.split)
qed

lemma wf_open_stream:
  assumes "srv_wf s" "has_pool p s"
  shows "pred_option (\<lambda>(r, s'). srv_wf s' \<and> has_pool p s') (open_stream E p entry polled s)"
  using assms
  by (auto simp: open_stream_def sock_upd_def has_pool_def srv_wf_def intro!: wf_heap split: prod.split)

lemma wf_open_socket [wf_intros]:
  assumes "srv_wf s" "\<And>r s'. srv_wf s' \<Longrightarrow> P (r, s')"
  shows "pred_option P (open_socket E p q s)"
proof -
  have factory: "(\<And>r s'. srv_wf s' \<Longrightarrow> (r = er_ok \<Longrightarrow> has_pool p s') \<Longrightarrow> Q (r, s')) \<Longrightarrow> pred_option Q (open_factory E p s')"
    if "srv_wf s'" for Q s'
    by (rule pred_option_mono_strong [OF wf_open_factory [OF that, of p E]]) auto
  have stream: "(\<And>r s'. srv_wf s' \<Longrightarrow> has_pool p s' \<Longrightarrow> Q (r, s')) \<Longrightarrow> pred_option Q (open_stream E p e b s')"
    if "srv_wf s'" "has_pool p s'" for Q s' e b
    by (rule pred_option_mono_strong [OF wf_open_stream [OF that, of E e b]]) auto
  have opened: "(\<And>s''. srv_wf s'' \<Longrightarrow> Q s'') \<Longrightarrow> pred_option Q (sock_upd p (\<lambda>k. k\<lparr>ss_time_opened := a,
      ss_last_activity := a, ss_state := prx_server_socket_opened\<rparr>) (srv_call c s'))"
    if "srv_wf s'" "has_pool p s'" for Q s' a c
    using that by (intro wf_intros) (auto simp: has_pool_def sock_wf_def)
  show ?thesis
    unfolding open_socket_def
    by (auto intro!: wf_heap wf_msg_get wf_pure wf_sock_upd factory stream opened assms simp: Let_def)
qed

lemma wf_requests [wf_intros]:
  "srv_wf s \<Longrightarrow> (\<And>r s'. srv_wf s' \<Longrightarrow> P (r, s')) \<Longrightarrow> pred_option P (prx_server_socket_handle_openrequest E p responder q s)"
  "srv_wf s \<Longrightarrow> (\<And>r s'. srv_wf s' \<Longrightarrow> P (r, s')) \<Longrightarrow> pred_option P (socket_not_open E p responder q s)"
  unfolding prx_server_socket_handle_openrequest_def socket_not_open_def
  by (auto intro!: wf_intros simp: Let_def)

lemma wf_data_and_poll [wf_intros]:
  "srv_wf s \<Longrightarrow> (\<And>r s'. srv_wf s' \<Longrightarrow> P (r, s')) \<Longrightarrow> pred_option P (prx_server_socket_handle_datamessage E p responder q s)"
  "srv_wf s \<Longrightarrow> (\<And>r s'. srv_wf s' \<Longrightarrow> P (r, s')) \<Longrightarrow> pred_option P (prx_server_socket_handle_pollrequest E p responder q s)"
  unfolding prx_server_socket_handle_datamessage_def prx_server_socket_handle_pollrequest_def
  by (auto intro!: wf_intros simp: Let_def)

lemma wf_options [wf_intros]:
  "srv_wf s \<Longrightarrow> (\<And>r s'. srv_wf s' \<Longrightarrow> P (r, s')) \<Longrightarrow> pred_option P (prx_server_socket_handle_closerequest E p responder q s)"
  "srv_wf s \<Longrightarrow> (\<And>r s'. srv_wf s' \<Longrightarrow> P (r, s')) \<Longrightarrow> pred_option P (set_option E p so_val s)"
  unfolding prx_server_socket_handle_closerequest_def set_option_def
  by (auto intro!: wf_intros simp: Let_def split: prx_property_value.split)

lemma wf_option_requests [wf_intros]:
  "srv_wf s \<Longrightarrow> (\<And>r s'. srv_wf s' \<Longrightarrow> P (r, s')) \<Longrightarrow> pred_option P (prx_server_socket_handle_setoptrequest E p responder q s)"
  "srv_wf s \<Longrightarrow> (\<And>r s'. srv_wf s' \<Longrightarrow> P (r, s')) \<Longrightarrow> pred_option P (prx_server_socket_handle_getoptrequest E p responder q s)"
  unfolding prx_server_socket_handle_setoptrequest_def prx_server_socket_handle_getoptrequest_def
  by (auto intro!: wf_intros simp: Let_def split: prod.split)

lemma wf_link [wf_intros]:
  "srv_wf s \<Longrightarrow> (\<And>s'. srv_wf s' \<Longrightarrow> P s') \<Longrightarrow> pred_option P (link_failed E result sock q s)"
  unfolding link_failed_def by (auto intro!: wf_intros split: option.split)

lemma wf_server_requests [wf_intros]:
  "srv_wf s \<Longrightarrow> hash_laws E \<Longrightarrow> (\<And>s'. srv_wf s' \<Longrightarrow> P s') \<Longrightarrow> pred_option P (prx_server_handle_linkrequest E q s)"
  "srv_wf s \<Longrightarrow> (\<And>s'. srv_wf s' \<Longrightarrow> P s') \<Longrightarrow> pred_option P (prx_server_handle_pingrequest E q s)"
  "srv_wf s \<Longrightarrow> (\<And>s'. srv_wf s' \<Longrightarrow> P s') \<Longrightarrow> pred_option P (prx_server_handle_invalid_socket E q s)"
  unfolding prx_server_handle_linkrequest_def prx_server_handle_pingrequest_def prx_server_handle_invalid_socket_def
  by (auto intro!: wf_intros simp: Let_def split: prod.split option.split)

lemma wf_socket_handlers [wf_intros]:
  "srv_wf s \<Longrightarrow> (\<And>r s'. srv_wf s' \<Longrightarrow> P (r, s')) \<Longrightarrow> pred_option P (prx_server_socket_stream_handler E p ev message s)"
  "srv_wf s \<Longrightarrow> (\<And>r s'. srv_wf s' \<Longrightarrow> P (r, s')) \<Longrightarrow> pred_option P (prx_server_socket_control_handler E p ev message s)"
  unfolding prx_server_socket_stream_handler_def prx_server_socket_control_handler_def
  by (cases ev; cases message; auto intro!: wf_intros simp: Let_def)+

lemma wf_event_handler [wf_intros]:
  "srv_wf s \<Longrightarrow> hash_laws E \<Longrightarrow> (\<And>r s'. srv_wf s' \<Longrightarrow> P (r, s')) \<Longrightarrow>
     pred_option P (prx_server_socket_event_handler E p ev s)"
  unfolding prx_server_socket_event_handler_def by (cases ev; auto intro!: wf_intros)

lemma wf_handler [wf_intros]:
  "srv_wf s \<Longrightarrow> hash_laws E \<Longrightarrow> (\<And>r s'. srv_wf s' \<Longrightarrow> P (r, s')) \<Longrightarrow> pred_option P (prx_server_handler E ev message s)"
  unfolding prx_server_handler_def
  by (cases ev; cases message; cases "sv_listener s"; auto intro!: wf_intros split: option.split)

section \<open>Runs of the server\<close>

text \<open>
  A task of the scheduler; the responder of an open completion is the connection saved with the link request.
\<close>

definition run_task :: "srv_env \<Rightarrow> nat option \<Rightarrow> srv_task \<Rightarrow> prx_server \<Rightarrow> prx_server option" where
  "run_task E responder t s = (case t of
     task_worker \<Rightarrow> prx_server_worker E s
   | task_socket_free p \<Rightarrow> prx_server_socket_free p s
   | task_deliver_results p \<Rightarrow> prx_server_socket_deliver_results E p s
   | task_open_complete p \<Rightarrow> prx_server_socket_open_complete E responder p s
   | task_close_complete p \<Rightarrow> prx_server_socket_close_complete p s
   | task_timeout_pollrequest p \<Rightarrow> prx_server_socket_timeout_pollrequest E p s)"

lemma wf_run_task [wf_intros]:
  "srv_wf s \<Longrightarrow> (\<And>s'. srv_wf s' \<Longrightarrow> P s') \<Longrightarrow> pred_option P (run_task E responder t s)"
  unfolding run_task_def by (cases t; auto intro!: wf_intros)

text \<open>
  A step is an event of a connection or of a platform socket, a task, a call of the flow control, the
  release of the server, or a transport that makes a message factory or works on the messages of one.
\<close>

inductive srv_step :: "prx_server \<Rightarrow> prx_server \<Rightarrow> bool" where
  step_server: "hash_laws E \<Longrightarrow> prx_server_handler E ev message s = Some (r, s') \<Longrightarrow> srv_step s s'"
| step_stream: "prx_server_socket_stream_handler E p ev message s = Some (r, s') \<Longrightarrow> srv_step s s'"
| step_control: "prx_server_socket_control_handler E p ev message s = Some (r, s') \<Longrightarrow> srv_step s s'"
| step_event: "hash_laws E \<Longrightarrow> prx_server_socket_event_handler E p pev s = Some (reply, s') \<Longrightarrow> srv_step s s'"
| step_flow: "prx_server_socket_flow_control p low s = Some s' \<Longrightarrow> srv_step s s'"
| step_task: "(t, d) \<in> set (sv_tasks s) \<Longrightarrow>
    run_task E responder t (s\<lparr>sv_tasks := remove1 (t, d) (sv_tasks s)\<rparr>) = Some s' \<Longrightarrow> srv_step s s'"
| step_release: "prx_server_release (Some s) = Some s' \<Longrightarrow> srv_step s s'"
| step_factory: "srv_step s (s\<lparr>sv_fac := (sv_fac s)(sv_next_fac s \<mapsto> fac), sv_next_fac := Suc (sv_next_fac s)\<rparr>)"
| step_transport: "sv_fac s n \<noteq> None \<Longrightarrow> srv_step s (s\<lparr>sv_fac := (sv_fac s)(n \<mapsto> fac)\<rparr>)"

inductive srv_reachable :: "srv_create_env \<Rightarrow> prx_server \<Rightarrow> bool" for C where
  reach_created: "prx_server_create C = Some (er_ok, True, Some s) \<Longrightarrow> srv_reachable C s"
| reach_step: "srv_reachable C s \<Longrightarrow> srv_step s s' \<Longrightarrow> srv_reachable C s'"

lemma srv_step_wf: "srv_step s s' \<Longrightarrow> srv_wf s \<Longrightarrow> srv_wf s'"
proof (induction rule: srv_step.induct)
  case (step_server E ev message s r s')
  then show ?case using pred_optionD [OF wf_handler [of s E "\<lambda>(r, s). srv_wf s"]] by fastforce
next
  case (step_stream E p ev message s r s')
  then show ?case using pred_optionD [OF wf_socket_handlers(1) [of s "\<lambda>(r, s). srv_wf s"]] by fastforce
next
  case (step_control E p ev message s r s')
  then show ?case using pred_optionD [OF wf_socket_handlers(2) [of s "\<lambda>(r, s). srv_wf s"]] by fastforce
next
  case (step_event E p pev s reply s')
  then show ?case using pred_optionD [OF wf_event_handler [of s E "\<lambda>(r, s). srv_wf s"]] by fastforce
next
  case (step_flow p low s s')
  then show ?case using pred_optionD [OF wf_callbacks(6) [of s srv_wf]] by blast
next
  case (step_task t d s E responder s')
  then show ?case
    using pred_optionD [OF wf_run_task [of "s\<lparr>sv_tasks := remove1 (t, d) (sv_tasks s)\<rparr>" srv_wf]] by simp
next
  case (step_release s s')
  then show ?case by (auto simp: prx_server_release_def split: option.splits)
next
  case (step_factory s fac)
  then show ?case by (auto simp: srv_wf_def sock_wf_def intro: less_SucI)
next
  case (step_transport s n fac)
  then show ?case by (simp add: srv_wf_fac)
qed

lemma srv_reachable_wf: "srv_reachable C s \<Longrightarrow> srv_wf s"
proof (induction rule: srv_reachable.induct)
  case (reach_created s)
  then show ?case
    by (auto simp: prx_server_create_def server_start_def srv_wf_def server_zero_def Let_def srv_do_next_def
        split: if_splits prod.splits res.splits option.splits)
next
  case (reach_step s s')
  then show ?case using srv_step_wf by blast
qed

end
