(* ===== verification/Srv_Properties.thy ===== *)
theory Srv_Properties
  imports Srv_Ports Srv_Invariant
begin

text \<open>
  What the proxy server guarantees and where it fails: the well-formed states, the delivery to the
  stream, the answers to requests, and the ownership of sockets and messages.
\<close>

section \<open>An environment\<close>

definition srv_env_demo :: srv_env where
  "srv_env_demo = \<lparr>ev_now = 1000, ev_alloc = pool_demo_allocator, ev_send = (\<lambda>c m. er_ok), ev_iterator = True,
     ev_insert = (#), ev_zalloc = True, ev_rand = (\<lambda>n. (er_ok, replicate n 7)), ev_send_lock = er_ok,
     ev_recv_lock = er_ok, ev_scheduler = er_ok, ev_factory = (True, (True, er_ok), (True, er_ok), 1200),
     ev_getsockopt = (\<lambda>h opt. (er_ok, 8192)), ev_setsockopt = (\<lambda>h opt v. er_ok), ev_join = (\<lambda>h. er_ok),
     ev_leave = (\<lambda>h. er_ok), ev_getsockname = (\<lambda>h. (er_ok, sa_family_only 0)),
     ev_getpeername = (\<lambda>h. (er_ok, sa_family_only 0)), ev_get_properties = (\<lambda>h. (er_ok, socket_properties_zero)),
     ev_can_recv = (\<lambda>h. er_ok), ev_socket_create = (er_ok, 5), ev_socket_open = (\<lambda>h. er_ok), ev_socket_pair = (er_ok, 6),
     ev_browse_accept = (\<lambda>c. er_ok), ev_wsclient = True, ev_cs_create = er_ok, ev_entry_create = er_ok,
     ev_transport_create = (er_ok, 9), ev_ntop = er_ok, ev_getaddrinfo = (er_ok, sa_family_only 0)\<rparr>"

lemma srv_env_demo_laws [simp]: "hash_laws srv_env_demo"
  by (simp add: hash_laws_def srv_env_demo_def)

text \<open>A factory with one message, and a link request as it arrives from a client.\<close>

definition fac_one :: "mem_ptr io_message \<Rightarrow> mem_ptr io_message_factory" where
  "fac_one m = \<lparr>fac_messages = prx_pool_zero\<lparr>pool_checked_out := [(0, 0)],
       pool_heap := [(0, 0) \<mapsto> \<lparr>pb_length = 0, pb_refs = 1, pb_data = []\<rparr>]\<rparr>,
     fac_buffers = prx_pool_zero, fac_store = [(0, 0) \<mapsto> m]\<rparr>"

definition link_demo :: "mem_ptr io_message" where
  "link_demo = message_zero\<lparr>msg_source_id := \<lparr>ref_0 = 3, ref_1 = 4\<rparr>, msg_type := io_message_type_link,
     msg_content := link_request \<lparr>lr_version = 7, lr_props = socket_properties_zero\<rparr>\<rparr>"

definition server_demo :: prx_server where
  "server_demo = server_zero\<lparr>sv_id := \<lparr>ref_0 = 1, ref_1 = 2\<rparr>, sv_listener := Some 0, sv_scheduler := True,
     sv_fac := [0 \<mapsto> fac_one link_demo], sv_next_fac := 1\<rparr>"

definition id_demo :: io_ref where
  "id_demo = ref_of_u8 (replicate 16 7)"

text \<open>The server after the link request.\<close>

definition socket_demo :: prx_server_socket where
  "socket_demo = server_socket_zero\<lparr>ss_owner := \<lparr>ref_0 = 3, ref_1 = 4\<rparr>, ss_id := id_demo,
     ss_props := socket_properties_zero\<lparr>sp_timeout := 120000\<rparr>, ss_sock := Some 5, ss_link_message := Some (0, 0, 0),
     ss_last_activity := 1000\<rparr>"

lemma link_demo_handled:
  "prx_server_handler srv_env_demo io_connection_received (Some (0, 0, 0)) server_demo =
     Some (er_ok, server_demo\<lparr>sv_next := 1, sv_heap := [0 \<mapsto> socket_demo], sv_sockets := [(id_demo, 0)]\<rparr>)"
  by (simp add: prx_server_handler_def server_demo_def server_zero_def msg_get_def fac_one_def link_demo_def message_zero_def
      io_ref_equals_def io_ref_null_def prx_server_handle_linkrequest_def content_link_def Let_def
      prx_server_check_restricted_port_def check_restricted_loop.simps socket_properties_zero_def
      prx_server_socket_create_def srv_env_demo_def io_ref_new_def socket_create_result_def link_socket_def
      sock_upd_def gc_timeout_def socket_demo_def server_socket_zero_def id_demo_def)

section \<open>Well-formed states\<close>

text \<open>
  C4. In every state the server can reach, whatever connections, platform sockets and transports do: a
  message for the id of a socket is given to the socket that has this id, an open socket has a message
  pool to receive into, and the number of bytes sent that a close response reports is zero, because
  nothing ever counts them.
\<close>

theorem server_states_well_formed:
  assumes "srv_reachable C s" "sv_heap s p = Some k"
  shows "(prx_server_get s r = Some p \<longrightarrow> ss_id k = r) \<and>
    (ss_state k = prx_server_socket_opened \<longrightarrow> ss_message_pool k \<noteq> None) \<and> ss_bytes_sent k = 0"
proof -
  have wf: "srv_wf s" using srv_reachable_wf [OF assms(1)] .
  have "ss_id k = r" if "prx_server_get s r = Some p"
  proof -
    from that obtain r' where r': "(r', p) \<in> set (sv_sockets s)" "io_ref_equals (Some r') (Some r)"
      by (auto simp: prx_server_get_def find_Some_iff) (metis fst_conv nth_mem)
    moreover have "ss_id k = r'"
      using wf assms(2) r'(1) by (simp add: srv_wf_def)
    ultimately show ?thesis
      by (simp add: io_ref_equals_def)
  qed
  then show ?thesis
    using srv_wfD [OF wf assms(2)] by (simp add: sock_wf_def)
qed

text \<open>A server that has handled the link request, with the socket this made.\<close>

theorem server_states_well_formed_witness:
  "\<exists>s k. srv_reachable create_env_demo s \<and> prx_server_get s id_demo = Some 0 \<and> sv_heap s 0 = Some k \<and>
     ss_id k = id_demo \<and> ss_bytes_sent k = 0"
proof -
  obtain s where s: "prx_server_create create_env_demo = Some (er_ok, True, Some s)"
      "sv_listener s = Some 0" "sv_sockets s = []" "sv_heap s = Map.empty" "sv_next s = 0" "sv_fac s = Map.empty"
      "sv_next_fac s = 0" "sv_restricted_ports s = [8000, 8080, 22, 22]" "sv_restricted_port_count s = 2"
    using create_env_demo_server by blast
  let ?s = "s\<lparr>sv_fac := [0 \<mapsto> fac_one link_demo], sv_next_fac := 1\<rparr>"
  have "srv_reachable create_env_demo ?s"
    using reach_step [OF reach_created [OF s(1)] step_factory [of s "fac_one link_demo"]] s(6,7) by simp
  moreover have "prx_server_check_restricted_port 0 ?s = Some er_ok"
    by (simp add: prx_server_check_restricted_port_def s check_restricted_loop.simps)
  then obtain s' where s': "prx_server_handler srv_env_demo io_connection_received (Some (0, 0, 0)) ?s = Some (er_ok, s')"
      "sv_heap s' = [0 \<mapsto> socket_demo]" "sv_sockets s' = [(id_demo, 0)]"
    using s(2-5)
    by (simp add: prx_server_handler_def msg_get_def fac_one_def link_demo_def message_zero_def
        io_ref_equals_def io_ref_null_def prx_server_handle_linkrequest_def content_link_def Let_def
        socket_properties_zero_def prx_server_socket_create_def srv_env_demo_def io_ref_new_def
        socket_create_result_def link_socket_def sock_upd_def gc_timeout_def socket_demo_def server_socket_zero_def id_demo_def
        sa_port_def)
  ultimately have reach: "srv_reachable create_env_demo s'"
    using reach_step step_server [OF srv_env_demo_laws s'(1)] by blast
  have get: "prx_server_get s' id_demo = Some 0"
    using s'(3) by (simp add: prx_server_get_def io_ref_equals_def)
  show ?thesis
    using server_states_well_formed [OF reach, of 0 socket_demo id_demo] s'(2) get reach by auto
qed

section \<open>Delivery to the stream\<close>

lemma sock_upd_Some: "sv_heap s p = Some k \<Longrightarrow> sock_upd p f s = Some (s\<lparr>sv_heap := (sv_heap s)(p \<mapsto> f k)\<rparr>)"
  by (simp add: sock_upd_def)

lemma msg_upd_Some:
  assumes "msg_get s q = Some m"
  obtains s' where "msg_upd q f s = Some s'" "msg_get s' q = Some (f m)" "\<And>r. r \<noteq> q \<Longrightarrow> msg_get s' r = msg_get s r"
    "sv_heap s' = sv_heap s" "sv_sent s' = sv_sent s" "sv_id s' = sv_id s" "sv_listener s' = sv_listener s"
proof -
  from assms obtain fac where fac: "sv_fac s (fst q) = Some fac" "fac_store fac (snd q) = Some m"
    by (auto simp: msg_get_def split: bind_splits)
  have *: "msg_upd q f s =
      Some (s\<lparr>sv_fac := (sv_fac s)(fst q \<mapsto> fac\<lparr>fac_store := (fac_store fac)(snd q \<mapsto> f m)\<rparr>)\<rparr>)" (is "_ = Some ?s'")
    using fac assms by (simp add: msg_upd_def msg_put_def)
  have "msg_get ?s' r = msg_get s r" if "r \<noteq> q" for r
    using that fac by (auto simp: msg_get_def prod_eq_iff)
  with fac show ?thesis
    by (intro that [OF *]) (auto simp: msg_get_def)
qed

lemma io_message_release_store [simp]: "fac_store (io_message_release fac a) = fac_store fac"
  by (simp add: io_message_release_def Let_def split: option.split)

lemma msg_release_Some:
  assumes "msg_get s q = Some m"
  obtains s' where "msg_release q s = Some s'" "\<And>r. msg_get s' r = msg_get s r"
    "sv_heap s' = sv_heap s" "sv_sent s' = sv_sent s" "sv_id s' = sv_id s" "sv_listener s' = sv_listener s"
proof -
  from assms obtain fac where fac: "sv_fac s (fst q) = Some fac"
    by (auto simp: msg_get_def split: bind_splits)
  have *: "msg_release q s = Some (s\<lparr>sv_fac := (sv_fac s)(fst q \<mapsto> io_message_release fac (Some (snd q)))\<rparr>)" (is "_ = Some ?s'")
    using fac by (simp add: msg_release_def)
  have "msg_get ?s' r = msg_get s r" for r
    using fac by (auto simp: msg_get_def)
  then show ?thesis
    by (intro that [OF *]) auto
qed

text \<open>A message as it goes to the stream of a socket.\<close>

definition addressed :: "io_ref \<Rightarrow> prx_server_socket \<Rightarrow> mem_ptr io_message \<Rightarrow> mem_ptr io_message" where
  "addressed proxy k m = m\<lparr>msg_proxy_id := proxy, msg_target_id := ss_stream_id k, msg_source_id := ss_id k\<rparr>"

lemma io_connection_send_Some:
  "msg_get s q = Some m \<Longrightarrow> io_connection_send E (Some c) q s = Some (ev_send E c m, s\<lparr>sv_sent := sv_sent s @ [(c, m, ev_send E c m)]\<rparr>)"
  by (simp add: io_connection_send_def Let_def)

lemma msg_get_frame [simp]: "msg_get (s\<lparr>sv_sent := x\<rparr>) q = msg_get s q" "msg_get (s\<lparr>sv_heap := h\<rparr>) q = msg_get s q"
  by (simp_all add: msg_get_def)

lemma deliver_recv_loop_unpolled:
  assumes "sv_heap s p = Some k" "\<not> ss_polled k" "ss_stream k = Some c" "ss_recv_queue k = qs" "distinct qs"
    and "\<forall>q \<in> set qs. msg_get s q = Some (M q)" "sv_id s = proxy"
  shows "\<exists>s'. deliver_recv_loop E p qs s = Some s' \<and>
    (let msg = (\<lambda>q. addressed proxy k (M q)); n = length (takeWhile (\<lambda>q. ev_send E c (msg q) = er_ok) qs)
     in sv_sent s' = sv_sent s @ map (\<lambda>q. (c, msg q, ev_send E c (msg q))) (take (Suc n) qs) \<and>
        sv_heap s' p = Some (k\<lparr>ss_recv_queue := drop n qs\<rparr>))"
  using assms
proof (induction qs arbitrary: s k)
  case Nil
  then show ?case by simp
next
  case (Cons q qs)
  let ?k = "k\<lparr>ss_recv_queue := qs\<rparr>" and ?m = "addressed proxy k (M q)"
  let ?s = "s\<lparr>sv_heap := (sv_heap s)(p \<mapsto> ?k)\<rparr>"
  have g: "msg_get ?s q = Some (M q)" using Cons.prems by simp
  let ?f = "\<lambda>x. x\<lparr>msg_proxy_id := sv_id s, msg_target_id := ss_stream_id k, msg_source_id := ss_id k\<rparr>"
  have f: "?f (M q) = ?m" using Cons.prems(7) by (simp add: addressed_def)
  obtain s1 where s1: "msg_upd q ?f ?s = Some s1" "msg_get s1 q = Some (?f (M q))"
      "\<And>r. r \<noteq> q \<Longrightarrow> msg_get s1 r = msg_get ?s r" "sv_heap s1 = sv_heap ?s" "sv_sent s1 = sv_sent ?s" "sv_id s1 = sv_id ?s"
    using msg_upd_Some [OF g, of ?f] by blast
  note s1 = s1 [unfolded f]
  let ?s2 = "s1\<lparr>sv_sent := sv_sent s @ [(c, ?m, ev_send E c ?m)]\<rparr>"
  have send: "io_connection_send E (Some c) q s1 = Some (ev_send E c ?m, ?s2)"
    using io_connection_send_Some [OF s1(2)] s1(5) by simp
  have step: "deliver_recv_loop E p (q # qs) s = (if ev_send E c ?m \<noteq> er_ok
      then sock_upd p (\<lambda>k. k\<lparr>ss_recv_queue := q # ss_recv_queue k, ss_read_queue := ss_read_queue k\<rparr>) ?s2
      else Option.bind (msg_release q ?s2) (deliver_recv_loop E p qs))"
    using Cons.prems s1(1) send by (simp add: sock_upd_Some fun_eq_iff cong: if_cong)
  show ?case
  proof (cases "ev_send E c ?m = er_ok")
    case False
    have "sv_heap ?s2 p = Some ?k" using s1(4) by simp
    with False step show ?thesis
      using Cons.prems(4) by (simp add: sock_upd_Some Let_def)
  next
    case True
    have g2: "msg_get ?s2 q = Some ?m" using s1(2) by simp
    obtain s3 where s3: "msg_release q ?s2 = Some s3" "\<And>r. msg_get s3 r = msg_get ?s2 r"
        "sv_heap s3 = sv_heap ?s2" "sv_sent s3 = sv_sent ?s2" "sv_id s3 = sv_id ?s2"
      using msg_release_Some [OF g2] by blast
    have rest: "\<forall>r \<in> set qs. msg_get s3 r = Some (M r)"
    proof
      fix r assume "r \<in> set qs"
      then show "msg_get s3 r = Some (M r)"
        using s3(2) [of r] s1(3) [of r] Cons.prems(5,6) by auto
    qed
    have "\<exists>s'. deliver_recv_loop E p qs s3 = Some s' \<and>
      (let msg = (\<lambda>q. addressed proxy ?k (M q)); n = length (takeWhile (\<lambda>q. ev_send E c (msg q) = er_ok) qs)
       in sv_sent s' = sv_sent s3 @ map (\<lambda>q. (c, msg q, ev_send E c (msg q))) (take (Suc n) qs) \<and>
          sv_heap s' p = Some (?k\<lparr>ss_recv_queue := drop n qs\<rparr>))"
      using Cons.prems s1(4) s3(3,5) s1(6) rest by (intro Cons.IH) simp_all
    moreover have "addressed proxy ?k = addressed proxy k"
      by (simp add: addressed_def fun_eq_iff)
    ultimately show ?thesis
      using step True s3(1,4) by (auto simp: Let_def)
  qed
qed


text \<open>Two messages, of which the connection refuses the second.\<close>

definition server_two :: "prx_server_socket \<Rightarrow> mem_ptr io_message \<Rightarrow> mem_ptr io_message \<Rightarrow> prx_server" where
  "server_two k m1 m2 = server_demo\<lparr>sv_heap := [0 \<mapsto> k], sv_next := 1,
     sv_fac := [0 \<mapsto> (fac_one m1)\<lparr>fac_store := [(0, 0) \<mapsto> m1, (0, 1) \<mapsto> m2]\<rparr>]\<rparr>"

lemma server_two_simps [simp]:
  "sv_heap (server_two k m1 m2) = [0 \<mapsto> k]" "msg_get (server_two k m1 m2) (0, 0, 0) = Some m1"
  "msg_get (server_two k m1 m2) (0, 0, Suc 0) = Some m2" "sv_sent (server_two k m1 m2) = []"
  "sv_id (server_two k m1 m2) = \<lparr>ref_0 = 1, ref_1 = 2\<rparr>"
  by (simp_all add: server_two_def msg_get_def server_demo_def server_zero_def)


section \<open>Poll requests\<close>

text \<open>The answer to a poll request that has timed out.\<close>

definition timeout_response :: "mem_ptr io_message \<Rightarrow> mem_ptr io_message" where
  "timeout_response m = (io_message_as_response m)\<lparr>msg_error_code := err_code er_timeout\<rparr>"

lemma fold_remove1_distinct: "distinct xs \<Longrightarrow> fold remove1 ys xs = filter (\<lambda>x. x \<notin> set ys) xs"
proof (induction ys arbitrary: xs)
  case (Cons y ys)
  then show ?case
    by (simp add: distinct_remove1_removeAll removeAll_filter_not_eq) (metis (mono_tags, lifting))
qed simp

lemma manage_read_loop_timeouts:
  assumes "sv_heap s p = Some k" "ss_stream k = Some c" "distinct qs"
    and "\<forall>q \<in> set qs. msg_get s q = Some (M q) \<and> content_poll (msg_content (M q)) = Some (D q)"
  shows "\<exists>s'. manage_read_loop E p False qs s = Some s' \<and>
    (let now = (\<lambda>q. sint (pm_timeout (D q)) \<ge> ev_now E); msg = (\<lambda>q. timeout_response (M q))
     in sv_sent s' = sv_sent s @ map (\<lambda>q. (c, msg q, ev_send E c (msg q))) (filter now qs) \<and>
        sv_heap s' p = Some (k\<lparr>ss_read_queue := fold remove1 (filter now qs) (ss_read_queue k)\<rparr>))"
  using assms
proof (induction qs arbitrary: s k)
  case Nil
  then show ?case by simp
next
  case (Cons q qs)
  have q: "msg_get s q = Some (M q)" "content_poll (msg_content (M q)) = Some (D q)"
    using Cons.prems by simp_all
  show ?case
  proof (cases "sint (pm_timeout (D q)) \<ge> ev_now E")
    case False
    then show ?thesis
      using Cons.IH [OF Cons.prems(1,2)] Cons.prems q by (simp add: Let_def)
  next
    case True
    let ?k = "k\<lparr>ss_read_queue := remove1 q (ss_read_queue k)\<rparr>" and ?m = "timeout_response (M q)"
    let ?s = "s\<lparr>sv_heap := (sv_heap s)(p \<mapsto> ?k)\<rparr>"
    have g: "msg_get ?s q = Some (M q)" using q by simp
    obtain s1 where s1: "msg_upd q (\<lambda>_. ?m) ?s = Some s1" "msg_get s1 q = Some ?m"
        "\<And>r. r \<noteq> q \<Longrightarrow> msg_get s1 r = msg_get ?s r" "sv_heap s1 = sv_heap ?s" "sv_sent s1 = sv_sent ?s"
      using msg_upd_Some [OF g, of "\<lambda>_. ?m"] by blast
    have put: "msg_put q ?m ?s = Some s1"
      using s1(1) g by (simp add: msg_upd_def)
    let ?s2 = "s1\<lparr>sv_sent := sv_sent s @ [(c, ?m, ev_send E c ?m)]\<rparr>"
    have send: "io_connection_send E (Some c) q s1 = Some (ev_send E c ?m, ?s2)"
      using io_connection_send_Some [OF s1(2)] s1(5) by simp
    have g2: "msg_get ?s2 q = Some ?m" using s1(2) by simp
    obtain s3 where s3: "msg_release q ?s2 = Some s3" "\<And>r. msg_get s3 r = msg_get ?s2 r"
        "sv_heap s3 = sv_heap ?s2" "sv_sent s3 = sv_sent ?s2"
      using msg_release_Some [OF g2] by blast
    have rest: "\<forall>r \<in> set qs. msg_get s3 r = Some (M r) \<and> content_poll (msg_content (M r)) = Some (D r)"
    proof
      fix r assume "r \<in> set qs"
      then show "msg_get s3 r = Some (M r) \<and> content_poll (msg_content (M r)) = Some (D r)"
        using s3(2) [of r] s1(3) [of r] Cons.prems(3,4) by auto
    qed
    have "manage_read_loop E p False (q # qs) s = manage_read_loop E p False qs s3"
      using q True Cons.prems(1,2) put send s1(4) s3(1) by (simp add: sock_upd_Some timeout_response_def)
    moreover have "sv_heap s3 p = Some ?k" using s1(4) s3(3) by simp
    then have "\<exists>s'. manage_read_loop E p False qs s3 = Some s' \<and>
      (let now = (\<lambda>q. sint (pm_timeout (D q)) \<ge> ev_now E); msg = (\<lambda>q. timeout_response (M q))
       in sv_sent s' = sv_sent s3 @ map (\<lambda>q. (c, msg q, ev_send E c (msg q))) (filter now qs) \<and>
          sv_heap s' p = Some (?k\<lparr>ss_read_queue := fold remove1 (filter now qs) (ss_read_queue ?k)\<rparr>))"
      using Cons.prems(2,3) rest by (intro Cons.IH) simp_all
    ultimately show ?thesis
      using True s3(4) by (auto simp: Let_def)
  qed
qed

text \<open>
  C7. The task that is to end the poll requests whose time is over does the opposite: it answers exactly
  the requests whose deadline has not passed yet with a timeout, and keeps exactly those whose deadline
  has passed, which are never answered by it.
\<close>

theorem poll_timeout_inverted:
  assumes "sv_heap s p = Some k" "ss_stream k = Some c" "distinct (ss_read_queue k)"
    and "\<forall>q \<in> set (ss_read_queue k). msg_get s q = Some (M q) \<and> content_poll (msg_content (M q)) = Some (D q)"
  shows "\<exists>s'. prx_server_socket_timeout_pollrequest E p s = Some s' \<and>
    (let later = (\<lambda>q. sint (pm_timeout (D q)) \<ge> ev_now E); msg = (\<lambda>q. timeout_response (M q))
     in sv_sent s' = sv_sent s @ map (\<lambda>q. (c, msg q, ev_send E c (msg q))) (filter later (ss_read_queue k)) \<and>
        sv_heap s' p = Some (k\<lparr>ss_read_queue := filter (\<lambda>q. \<not> later q) (ss_read_queue k)\<rparr>))"
proof -
  have "fold remove1 (filter P xs) xs = filter (\<lambda>x. \<not> P x) xs" if "distinct xs" for P and xs :: "msg_ptr list"
    using that by (auto simp: fold_remove1_distinct intro: filter_cong)
  then show ?thesis
    using manage_read_loop_timeouts [OF assms, of E] assms(1,3)
    by (simp add: prx_server_socket_timeout_pollrequest_def prx_server_socket_manage_read_queue_def)
qed

text \<open>At time 1000, a request with the deadline 500 and one with the deadline 2000.\<close>

theorem poll_timeout_inverted_witness:
  "let k = socket_demo\<lparr>ss_stream := Some 9, ss_read_queue := [(0, 0, 0), (0, 0, 1)]\<rparr>;
       poll = (\<lambda>n t. message_zero\<lparr>msg_correlation_id := n,
                 msg_content := poll_message \<lparr>pm_sequence_number = 0, pm_timeout = t\<rparr>\<rparr>)
   in \<exists>s'. prx_server_socket_timeout_pollrequest srv_env_demo 0 (server_two k (poll 1 500) (poll 2 2000)) = Some s' \<and>
        map (\<lambda>(c, m, r). (c, msg_correlation_id m, msg_error_code m)) (sv_sent s') = [(9, 2, err_code er_timeout)] \<and>
        sv_heap s' 0 = Some (k\<lparr>ss_read_queue := [(0, 0, 0)]\<rparr>)"
proof -
  let ?k = "socket_demo\<lparr>ss_stream := Some 9, ss_read_queue := [(0, 0, 0), (0, 0, 1)]\<rparr>"
  let ?d = "\<lambda>t. \<lparr>pm_sequence_number = 0, pm_timeout = t\<rparr> :: io_poll_message"
  let ?m = "\<lambda>n t. message_zero\<lparr>msg_correlation_id := n, msg_content := poll_message (?d t)\<rparr>"
  have "sint (500 :: u64) = 500" "sint (2000 :: u64) = 2000" by simp_all
  then show ?thesis
    using poll_timeout_inverted [of "server_two ?k (?m 1 500) (?m 2 2000)" 0 ?k 9
        "\<lambda>(_, _, i). if i = 0 then ?m 1 500 else ?m 2 2000" "\<lambda>(_, _, i). if i = 0 then ?d 500 else ?d 2000" srv_env_demo]
    by (auto simp: Let_def socket_demo_def server_socket_zero_def timeout_response_def content_poll_def srv_env_demo_def
        io_message_as_response_def io_ref_swap_def)
qed

end
