(* ===== verification/Srv_Ownership.thy ===== *)
theory Srv_Ownership
  imports Srv_Properties
begin

text \<open>
  Who owns the sockets and messages of the proxy server: what a link request leaves behind when it succeeds
  and when it fails, and how an unused socket is collected.
\<close>

section \<open>Link requests\<close>

text \<open>The conditions under which a link request gets as far as making a socket, and the socket it makes.\<close>

definition link_accepted :: "srv_env \<Rightarrow> mem_ptr prx_socket_properties \<Rightarrow> prx_server \<Rightarrow> bool" where
  "link_accepted E props s \<longleftrightarrow> (sp_flags props AND prx_socket_flag_internal \<noteq> 0 \<or> sp_flags props AND prx_socket_flag_passive \<noteq> 0 \<or>
      prx_server_check_restricted_port (sa_port (sp_address props)) s = Some er_ok) \<and>
     ev_zalloc E \<and> socket_create_result E = er_ok"

definition new_id :: "srv_env \<Rightarrow> io_ref" where
  "new_id E = the (snd (io_ref_new (ev_rand E) (Some io_ref_null)))"

definition linked_socket :: "srv_env \<Rightarrow> mem_ptr io_message \<Rightarrow> mem_ptr prx_socket_properties \<Rightarrow> prx_server_socket" where
  "linked_socket E m props = server_socket_zero\<lparr>ss_owner := msg_source_id m, ss_id := new_id E,
     ss_props := props\<lparr>sp_timeout := gc_timeout (sp_timeout props)\<rparr>, ss_sock := snd (link_socket E props)\<rparr>"

definition linked_server :: "srv_env \<Rightarrow> prx_server_socket \<Rightarrow> prx_server \<Rightarrow> prx_server" where
  "linked_server E k s = s\<lparr>sv_next := Suc (sv_next s), sv_sockets := ev_insert E (new_id E, sv_next s) (sv_sockets s),
     sv_heap := (sv_heap s)(sv_next s \<mapsto> k)\<rparr>"

text \<open>A link request that reaches the server.\<close>

definition link_received :: "prx_server \<Rightarrow> msg_ptr \<Rightarrow> mem_ptr io_message \<Rightarrow> mem_ptr prx_socket_properties \<Rightarrow> bool" where
  "link_received s q m props \<longleftrightarrow> msg_get s q = Some m \<and> msg_type m = io_message_type_link \<and>
     io_ref_equals (Some (msg_target_id m)) (Some io_ref_null) \<and> map_option lr_props (content_link (msg_content m)) = Some props"

lemma link_received_handled:
  assumes "link_received s q m props" "link_accepted E props s"
  shows "prx_server_handler E io_connection_received (Some q) s = map_option (Pair er_ok) (
    if fst (link_socket E props) = er_ok
    then Some (linked_server E ((linked_socket E m props)\<lparr>ss_link_message := Some q, ss_last_activity := ev_now E\<rparr>) s)
    else link_failed E (fst (link_socket E props)) (Some (sv_next s)) q (linked_server E (linked_socket E m props) s))"
  using assms
  by (auto simp: link_received_def link_accepted_def prx_server_handler_def prx_server_handle_linkrequest_def Let_def
      prx_server_socket_create_def new_id_def linked_socket_def linked_server_def sock_upd_def split: prod.splits)

lemma pool_free_last:
  assumes "pool_refs pool a = 1" "distinct (pool_checked_out pool)"
  shows "a \<notin> set (pool_checked_out (prx_buffer_release f pool a))"
  using assms
  by (auto simp: prx_buffer_release_def prx_buffer_pool_free_buffer_def pool_set_refs_def pool_refs_def pool_unlink_def
      Let_def split: option.splits)

lemma io_message_release_last:
  assumes "pool_refs (fac_messages fac) a = 1" "distinct (pool_checked_out (fac_messages fac))"
  shows "a \<notin> set (pool_checked_out (fac_messages (io_message_release fac (Some a))))"
  using pool_free_last [OF assms, of fixed_pool] by (simp add: io_message_release_def Let_def split: option.split)

text \<open>
  C5. The message of a link request is kept by the socket it makes, for the response when the socket is
  open, but the socket takes no reference to it. The transport releases the message as soon as the
  handler returns. If the transport held the only reference, as it does for every message it receives, the
  message is then back in the pool of the transport while the socket still has its address: the response
  is written into whatever message uses this memory by then.
\<close>

theorem link_message_dangles:
  assumes "link_received s q m props" "link_accepted E props s" "fst (link_socket E props) = er_ok"
    and "sv_fac s (fst q) = Some fac" "pool_refs (fac_messages fac) (snd q) = 1" "distinct (pool_checked_out (fac_messages fac))"
    and "hash_laws E"
  shows "\<exists>s1 s2 k. prx_server_handler E io_connection_received (Some q) s = Some (er_ok, s1) \<and>
    msg_release q s1 = Some s2 \<and> prx_server_get s2 (new_id E) \<noteq> None \<and>
    sv_heap s2 (sv_next s) = Some k \<and> ss_link_message k = Some q \<and> \<not> msg_live s2 q"
proof -
  let ?k = "(linked_socket E m props)\<lparr>ss_link_message := Some q, ss_last_activity := ev_now E\<rparr>"
  let ?s1 = "linked_server E ?k s"
  have h: "prx_server_handler E io_connection_received (Some q) s = Some (er_ok, ?s1)"
    using link_received_handled [OF assms(1,2)] assms(3) by simp
  have fac: "sv_fac ?s1 (fst q) = Some fac" using assms(4) by (simp add: linked_server_def)
  let ?s2 = "?s1\<lparr>sv_fac := (sv_fac ?s1)(fst q \<mapsto> io_message_release fac (Some (snd q)))\<rparr>"
  have r: "msg_release q ?s1 = Some ?s2" using fac by (simp add: msg_release_def)
  have "\<not> msg_live ?s2 q"
    using io_message_release_last [OF assms(5,6)] by (simp add: msg_live_def)
  moreover have "(new_id E, sv_next s) \<in> set (sv_sockets ?s2)"
    using assms(7) by (simp add: linked_server_def hash_laws_def)
  then have "prx_server_get ?s2 (new_id E) \<noteq> None"
    by (auto simp: prx_server_get_def find_None_iff io_ref_equals_def)
  moreover have "sv_heap ?s2 (sv_next s) = Some ?k" by (simp add: linked_server_def)
  ultimately show ?thesis
    using h r by (intro exI [of _ ?s1] exI [of _ ?s2] exI [of _ ?k]) simp
qed

lemma link_demo_received:
  "link_received server_demo (0, 0, 0) link_demo socket_properties_zero" "link_accepted srv_env_demo socket_properties_zero server_demo"
  "sv_fac server_demo 0 = Some (fac_one link_demo)" "sv_next server_demo = 0" "sv_sockets server_demo = []"
  by (simp_all add: link_received_def link_accepted_def server_demo_def server_zero_def msg_get_def fac_one_def link_demo_def
      message_zero_def io_ref_equals_def io_ref_null_def content_link_def prx_server_check_restricted_port_def
      check_restricted_loop.simps srv_env_demo_def socket_create_result_def io_ref_new_def)

theorem link_message_dangles_witness:
  "\<exists>s1 s2 k. prx_server_handler srv_env_demo io_connection_received (Some (0, 0, 0)) server_demo = Some (er_ok, s1) \<and>
     msg_release (0, 0, 0) s1 = Some s2 \<and> prx_server_get s2 (new_id srv_env_demo) \<noteq> None \<and>
     sv_heap s2 0 = Some k \<and> ss_link_message k = Some (0, 0, 0) \<and> \<not> msg_live s2 (0, 0, 0)"
proof -
  have "fst (link_socket srv_env_demo socket_properties_zero) = er_ok"
    by (simp add: link_socket_def srv_env_demo_def socket_properties_zero_def)
  moreover have "pool_refs (fac_messages (fac_one link_demo)) (0, 0) = 1" "distinct (pool_checked_out (fac_messages (fac_one link_demo)))"
    by (simp_all add: fac_one_def pool_refs_def)
  ultimately show ?thesis
    using link_message_dangles [OF link_demo_received(1,2)] link_demo_received(3,4) srv_env_demo_laws by simp
qed

lemma link_failed_new_socket:
  assumes "msg_get s q = Some m" "sv_heap s p = Some (linked_socket E m' props)" "sv_listener s = Some l"
  obtains s' where "link_failed E result (Some p) q s = Some s'" "sv_heap s' = (sv_heap s)(p := None)"
    "sv_sockets s' = sv_sockets s"
    "sv_sent s' = sv_sent s @ [(l, (io_message_as_response m)\<lparr>msg_error_code := err_code result\<rparr>,
       ev_send E l ((io_message_as_response m)\<lparr>msg_error_code := err_code result\<rparr>))]"
proof -
  let ?f = "\<lambda>m. (io_message_as_response m)\<lparr>msg_error_code := err_code result\<rparr>"
  from assms(1) obtain fac where fac: "sv_fac s (fst q) = Some fac" "fac_store fac (snd q) = Some m"
    by (auto simp: msg_get_def split: bind_splits)
  let ?s1 = "s\<lparr>sv_fac := (sv_fac s)(fst q \<mapsto> fac\<lparr>fac_store := (fac_store fac)(snd q \<mapsto> ?f m)\<rparr>)\<rparr>"
  have upd: "msg_upd q ?f s = Some ?s1"
    using fac assms(1) by (simp add: msg_upd_def msg_put_def)
  let ?s2 = "(case snd (link_socket E props) of None \<Rightarrow> ?s1 | Some h \<Rightarrow> srv_call (pal_socket_free h) ?s1)"
  let ?s3 = "?s2\<lparr>sv_tasks := filter (\<lambda>(t, _). task_socket t \<noteq> Some p) (sv_tasks ?s2), sv_heap := (sv_heap ?s2)(p := None)\<rparr>"
  have same: "sv_heap ?s2 = sv_heap s" "sv_fac ?s2 = sv_fac ?s1" "sv_listener ?s2 = Some l" "sv_sockets ?s2 = sv_sockets s"
      "sv_sent ?s2 = sv_sent s"
    using assms(3) by (simp_all add: srv_call_def split: option.split)
  have free: "prx_server_socket_free p ?s1 = Some ?s3"
    using assms(2) by (simp add: prx_server_socket_free_def linked_socket_def server_socket_zero_def Let_def)
  have get: "msg_get ?s3 q = Some (?f m)"
    by (simp add: msg_get_def same)
  show ?thesis
    using upd free io_connection_send_Some [OF get, of E l] same
    by (intro that [of "?s3\<lparr>sv_sent := sv_sent s @ [(l, ?f m, ev_send E l (?f m))]\<rparr>"]) (simp_all add: link_failed_def)
qed

text \<open>
  C6. When the platform cannot make or open the socket of a link request, the client gets the error and
  the socket object is freed, but its entry stays in the table of sockets. The worker has no result as
  soon as it comes to this entry, and neither has the next message for its id: both use the freed socket.
\<close>

theorem failed_link_leaves_entry:
  assumes "link_received s q m props" "link_accepted E props s" "fst (link_socket E props) \<noteq> er_ok"
    and "sv_listener s = Some l" "hash_laws E"
  shows "\<exists>s' m'. prx_server_handler E io_connection_received (Some q) s = Some (er_ok, s') \<and>
    sv_sent s' = sv_sent s @ [(l, m', ev_send E l m')] \<and> msg_is_response m' \<and>
    msg_error_code m' = err_code (fst (link_socket E props)) \<and>
    (new_id E, sv_next s) \<in> set (sv_sockets s') \<and> sv_heap s' (sv_next s) = None \<and>
    worker_socket E' (new_id E, sv_next s) s' = None"
proof -
  let ?s = "linked_server E (linked_socket E m props) s"
  have "msg_get ?s q = Some m"
    using assms(1) by (simp add: linked_server_def link_received_def msg_get_def)
  moreover have "sv_heap ?s (sv_next s) = Some (linked_socket E m props)" "sv_listener ?s = Some l" "sv_sent ?s = sv_sent s"
    using assms(4) by (simp_all add: linked_server_def)
  moreover have "(new_id E, sv_next s) \<in> set (sv_sockets ?s)"
    using assms(5) by (simp add: linked_server_def hash_laws_def)
  ultimately obtain s' where
      "link_failed E (fst (link_socket E props)) (Some (sv_next s)) q ?s = Some s'" "sv_heap s' (sv_next s) = None"
      "(new_id E, sv_next s) \<in> set (sv_sockets s')"
      "sv_sent s' = sv_sent s @ [(l, (io_message_as_response m)\<lparr>msg_error_code := err_code (fst (link_socket E props))\<rparr>,
         ev_send E l ((io_message_as_response m)\<lparr>msg_error_code := err_code (fst (link_socket E props))\<rparr>))]"
    using link_failed_new_socket [of ?s q m "sv_next s" E m props l "fst (link_socket E props)"] by (metis fun_upd_same)
  then show ?thesis
    using link_received_handled [OF assms(1,2)] assms(3)
    by (intro exI [of _ s'] exI [of _ "(io_message_as_response m)\<lparr>msg_error_code := err_code (fst (link_socket E props))\<rparr>"])
      (simp add: worker_socket_def io_message_as_response_def io_ref_swap_def)
qed

theorem failed_link_leaves_entry_witness:
  "let E = srv_env_demo\<lparr>ev_socket_open := (\<lambda>h. er_refused)\<rparr>
   in \<exists>s'. prx_server_handler E io_connection_received (Some (0, 0, 0)) server_demo = Some (er_ok, s') \<and>
        sv_heap s' 0 = None \<and> (new_id E, 0) \<in> set (sv_sockets s') \<and> worker_socket E (new_id E, 0) s' = None"
proof -
  let ?E = "srv_env_demo\<lparr>ev_socket_open := (\<lambda>h. er_refused)\<rparr>"
  have "link_accepted ?E socket_properties_zero server_demo"
    using link_demo_received(2) by (auto simp: link_accepted_def socket_create_result_def split: if_splits)
  moreover have "hash_laws ?E"
    using srv_env_demo_laws by (simp add: hash_laws_def)
  moreover have "fst (link_socket ?E socket_properties_zero) \<noteq> er_ok"
    by (simp add: link_socket_def srv_env_demo_def socket_properties_zero_def)
  moreover have "sv_listener server_demo = Some 0"
    by (simp add: server_demo_def)
  ultimately show ?thesis
    using failed_link_leaves_entry [OF link_demo_received(1), of ?E 0 ?E] link_demo_received(4) by (auto simp: Let_def)
qed

section \<open>Collection of sockets\<close>





end
