(* ===== verification/Srv_Answers.thy ===== *)
theory Srv_Answers
  imports Srv_Properties
begin

text \<open>
  Every request to a socket of the proxy server is answered once. The rules follow the one message a
  handler works on, and what has been sent, through the operations of the state.
\<close>

named_theorems sent_intros \<open>rules that follow a message and the messages sent\<close>

lemma sent_sock_upd [sent_intros]:
  "(\<And>s'. sv_sent s' = sv_sent s \<Longrightarrow> msg_get s' q = msg_get s q \<Longrightarrow> sv_next_fac s' = sv_next_fac s \<Longrightarrow> P s') \<Longrightarrow>
     pred_option P (sock_upd p f s)"
  by (rule pred_option_someI) (auto simp: sock_upd_def split: bind_splits)

lemma sent_msg_upd [sent_intros]:
  "msg_get s q = Some m \<Longrightarrow> (\<And>s'. sv_sent s' = sv_sent s \<Longrightarrow> msg_get s' q = Some (f m) \<Longrightarrow>
     sv_listener s' = sv_listener s \<Longrightarrow> P s') \<Longrightarrow> pred_option P (msg_upd q f s)"
  by (rule msg_upd_Some [where q = q and s = s and m = m and f = f]) auto

lemma sent_send [sent_intros]:
  "msg_get s q = Some m \<Longrightarrow>
     (\<And>s'. sv_sent s' = sv_sent s @ [(l, m, ev_send E l m)] \<Longrightarrow> P (ev_send E l m, s')) \<Longrightarrow>
     pred_option P (io_connection_send E (Some l) q s)"
  by (simp add: io_connection_send_Some)

lemma sent_frame [simp]:
  "sv_sent (srv_call c s) = sv_sent s" "sv_sent (srv_do_next t s) = sv_sent s"
  "msg_get (srv_call c s) q = msg_get s q" "msg_get (srv_do_next t s) q = msg_get s q"
  by (simp_all add: srv_call_def srv_do_next_def msg_get_def)

lemma msg_get_fac: "srv_wf s \<Longrightarrow> msg_get s q = Some m \<Longrightarrow> fst q < sv_next_fac s"
  by (metis (no_types, lifting) bind_eq_None_conv leI msg_get_def option.simps(3) srv_wf_def)

text \<open>The answer to a message: a response of the same type that carries its correlation.\<close>

definition answers :: "srv_env \<Rightarrow> nat \<Rightarrow> mem_ptr io_message \<Rightarrow> prx_server \<Rightarrow> prx_server \<Rightarrow> bool" where
  "answers E l m s s' \<longleftrightarrow> (\<exists>m'. sv_sent s' = sv_sent s @ [(l, m', ev_send E l m')] \<and> msg_is_response m' \<and>
     msg_type m' = msg_type m \<and> msg_correlation_id m' = msg_correlation_id m)"

lemma as_response_fields [simp]:
  "msg_is_response (io_message_as_response m)" "msg_type (io_message_as_response m) = msg_type m"
  "msg_correlation_id (io_message_as_response m) = msg_correlation_id m" "msg_error_code (io_message_as_response m) = msg_error_code m"
  "msg_source_id (io_message_as_response m) = msg_target_id m" "msg_target_id (io_message_as_response m) = msg_source_id m"
  by (simp_all add: io_message_as_response_def io_ref_swap_def)

lemma closerequest_answers:
  assumes "msg_get s q = Some m"
  shows "pred_option (\<lambda>(r, s'). answers E l m s s') (prx_server_socket_handle_closerequest E p (Some l) q s)"
  unfolding prx_server_socket_handle_closerequest_def answers_def
  using assms by (auto intro!: wf_heap sent_sock_upd [where q = q] sent_msg_upd sent_send simp: Let_def)

lemma getoptrequest_answers:
  assumes "msg_get s q = Some m"
  shows "pred_option (\<lambda>(r, s'). answers E l m s s') (prx_server_socket_handle_getoptrequest E p (Some l) q s)"
  unfolding prx_server_socket_handle_getoptrequest_def answers_def
  using assms by (auto intro!: wf_heap wf_pure sent_sock_upd [where q = q] sent_msg_upd sent_send simp: Let_def split: prod.split)

lemma sent_set_option:
  "(\<And>r s'. sv_sent s' = sv_sent s \<Longrightarrow> msg_get s' q = msg_get s q \<Longrightarrow> P (r, s')) \<Longrightarrow> pred_option P (set_option E p so_val s)"
  unfolding set_option_def by (auto intro!: wf_heap sent_sock_upd [where q = q] split: prx_property_value.split)

lemma setoptrequest_answers:
  assumes "msg_get s q = Some m"
  shows "pred_option (\<lambda>(r, s'). answers E l m s s') (prx_server_socket_handle_setoptrequest E p (Some l) q s)"
  unfolding prx_server_socket_handle_setoptrequest_def answers_def
  using assms by (auto intro!: wf_heap wf_pure sent_sock_upd [where q = q] sent_msg_upd sent_send sent_set_option [where q = q])

lemma sent_open_factory:
  "fst q \<noteq> sv_next_fac s \<Longrightarrow> (\<And>r s'. sv_sent s' = sv_sent s \<Longrightarrow> msg_get s' q = msg_get s q \<Longrightarrow> P (r, s')) \<Longrightarrow>
     pred_option P (open_factory E p s)"
  unfolding open_factory_def
  by (auto intro!: wf_heap simp: sock_upd_def msg_get_def Let_def split: prod.split option.split)

lemma sent_open_stream:
  "(\<And>r s'. sv_sent s' = sv_sent s \<Longrightarrow> msg_get s' q = msg_get s q \<Longrightarrow> P (r, s')) \<Longrightarrow> pred_option P (open_stream E p e b s)"
  unfolding open_stream_def by (auto intro!: wf_heap simp: sock_upd_def msg_get_def split: prod.split)

lemma sent_open_socket:
  assumes "fst q \<noteq> sv_next_fac s" "\<And>r s'. sv_sent s' = sv_sent s \<Longrightarrow> msg_get s' q = msg_get s q \<Longrightarrow> P (r, s')"
  shows "pred_option P (open_socket E p q s)"
  unfolding open_socket_def using assms
  by (auto intro!: wf_heap wf_msg_get wf_pure sent_sock_upd [where q = q] sent_open_factory [where q = q]
      sent_open_stream [where q = q] simp: Let_def)

lemma openrequest_answers:
  assumes "msg_get s q = Some m" "fst q \<noteq> sv_next_fac s"
  shows "pred_option (\<lambda>(r, s'). answers E l m s s') (prx_server_socket_handle_openrequest E p (Some l) q s)"
  unfolding prx_server_socket_handle_openrequest_def answers_def
  using assms by (auto intro!: wf_heap sent_sock_upd [where q = q] sent_msg_upd sent_send sent_open_socket [where q = q])


text \<open>A close request for a socket that does not exist.\<close>

definition close_demo :: "mem_ptr io_message" where
  "close_demo = message_zero\<lparr>msg_source_id := \<lparr>ref_0 = 3, ref_1 = 4\<rparr>, msg_target_id := \<lparr>ref_0 = 5, ref_1 = 6\<rparr>,
     msg_type := io_message_type_close, msg_correlation_id := 17\<rparr>"


end
