(* ===== verification/Spec2Isabelle.thy ===== *)
theory Spec2Isabelle
  imports Util_Misc Io_Url Cs_Text Cs_Token Util_Ringbuf Prx_Err Prx_Buffer Prx_Sched Io_Queue Io_Stream Util_String Prx_Types
    Io_Ref Io_Codec Io_Mpack Mpack_Laws Io_Types Io_Proto Proto_Wire
    Proto_Message Pool_Supply Io_Ws Ws_Stream Io_Transport Ws_Transport Cmp_Model Ws_Delivery Ws_Properties
    Srv_State Prx_Server Srv_Handlers Srv_Requests Srv_Ports Srv_Invariant Srv_Properties Srv_Ownership Srv_Answers
begin

text \<open>
  \<^bold>\<open>A verification of the reverse proxy for IoT Edge.\<close>

  The proxy runs next to the devices of a private network. It opens a websocket to a broker, receives protocol
  messages over it, and serves them: a client links a virtual socket, opens a stream to it, exchanges data, reads
  and sets options, and closes it. The file and function names below are those of the repository; a definition
  has the name of the function, type or macro it translates wherever that name is free.

  \<^bold>\<open>How the code is translated.\<close> Structs are records, enumerations and unions datatypes, \<open>size_t\<close> is a natural
  number with the wrap-around of 64 bits written out where it can happen (\<open>size_sub\<close>, \<open>size_add\<close> of \<open>Prelude\<close>), the
  integers of fixed width are words, or integers narrowed explicitly (\<open>to_int32\<close>, \<open>int32_of\<close>). A null pointer is
  \<^const>\<open>None\<close>, a C string the list of its bytes. Errors are values of \<^typ>\<open>prx_error\<close>; where memory can be written
  out of bounds or a null pointer be used, the result is \<^const>\<open>Crash\<close> of \<open>res\<close>, and in the parts with counted
  objects \<^const>\<open>None\<close> of the option monad, which stands for the use of freed memory. Allocation may fail: every
  definition that allocates has an argument that says which allocations succeed. State is passed explicitly. The
  platform layer and the libraries the code links to are arguments or records of functions, with what is relied on
  as named hypotheses.

  \<^bold>\<open>The parts, from the bottom up.\<close>

  \<^item> \<open>Prelude\<close>, \<open>Prx_Err\<close>: machine types, copies into buffers, the error codes of \<open>inc/prx_err.h\<close> and their names.

  \<^item> \<open>Util_Misc\<close> (\<open>src/util_misc.c\<close>): the checksum is the one of the bitwise shift register, the bit count gives the
    prefix of a network mask.

  \<^item> \<open>Util_Ringbuf\<close> (\<open>src/util_ringbuf.c\<close>): the ring buffer with its pointers. Reads and writes refine those of a
    bounded byte queue, the locale \<open>byte_fifo\<close>, whose law for runs then holds of the ring buffer.

  \<^item> \<open>Prx_Buffer\<close> (\<open>src/prx_buffer.c\<close>): the dynamic and the fixed buffer pool, with growth, references, watermarks
    and the flow control callback. The locale \<open>buffer_factory\<close> is their contract. The references a pool counts are
    those its client holds, and flow control resumes a client that has given its buffers back.

  \<^item> \<open>Prx_Sched\<close> (\<open>src/prx_sched.c\<close>): queues of immediate and delayed tasks, the choice of the next one, removal,
    clearing and references. An inductive step relation gives the reachable states; its invariant holds in all.

  \<^item> \<open>Io_Queue\<close> (\<open>src/io_queue.c\<close>): the queue whose buffers are ready, in progress or done, with abort and rollback.

  \<^item> \<open>Io_Stream\<close> (\<open>inc/io_stream.h\<close>, \<open>src/util_stream.c\<close>): the stream interface and its implementations. The locales
    \<open>in_stream\<close>, \<open>out_stream\<close> and \<open>sink\<close> are what readers and writers rely on; they are interpreted on the fixed
    buffer, the memory stream, the queue buffer and both directions of the websocket connection.

  \<^item> \<open>Util_String\<close>, \<open>String_Handles\<close> (\<open>src/util_string.c\<close>): comparison, search, trimming, the key value parser, uuids,
    base 16, range lists, service names, and the functions on string handles. Printing and parsing are inverse for
    uuids, range lists and service names; two functions write out of bounds, and for which inputs is proved.

  \<^item> \<open>Io_Ref\<close>, \<open>Prx_Types\<close>, \<open>Io_Types\<close> (\<open>src/io_ref.c\<close>, \<open>inc/prx_types.h\<close>, \<open>src/io_types.c\<close>): references, addresses,
    properties and socket options, and their encoders and decoders.

  \<^item> \<open>Io_Codec\<close>, \<open>Io_Mpack\<close> (\<open>inc/io_codec.h\<close>, \<open>src/io_codec.c\<close>): the codec interface over an arbitrary codec, and the
    MessagePack codec over the functions of the cmp library. \<open>Mpack_Laws\<close> derives the laws of the codec from the
    laws of that library, and \<open>Cmp_Model\<close> is a concrete instance of them.

  \<^item> \<open>Io_Proto\<close> (\<open>src/io_proto.c\<close>, \<open>inc/io_proto.h\<close>): all message contents, the message encoder and decoder, the
    message factory. \<open>Proto_Wire\<close> and \<open>Proto_Message\<close> show that a decoder reads back what the encoder wrote, member
    by member and for whole messages; \<open>Pool_Supply\<close> that a pool with free buffers supplies what decoding needs.

  \<^item> \<open>Io_Ws\<close>, \<open>Io_Transport\<close> (\<open>src/io_ws.c\<close>, \<open>src/io_transport.c\<close>): the websocket connection with its streams, tasks
    and client events, and the message path of the transport. \<open>Ws_Stream\<close> relates the streams of the connection to
    the bytes in its queues, \<open>Ws_Transport\<close> encodes and decodes through them, and \<open>Ws_Delivery\<close> composes both ends.
    \<open>Ws_Properties\<close> is about resets, tokens and the back off of reconnects.

  \<^item> \<open>Io_Cs\<close>, \<open>Io_Token\<close>, \<open>Io_Url\<close> (\<open>src/io_cs.c\<close>, \<open>src/io_token.c\<close>, \<open>src/io_url.c\<close>): connection strings, token
    providers and urls. \<open>Cs_Text\<close> shows that printed connection strings are parsed back, \<open>Cs_Token\<close> what tokens
    a connection string of a device leads to.

  \<^item> \<open>Srv_State\<close>, \<open>Prx_Server\<close>, \<open>Srv_Handlers\<close>, \<open>Srv_Requests\<close> (\<open>src/prx_server.c\<close>): the server. The state is a record
    with the table of sockets, the messages, the queued tasks and a trace of the calls to the platform. \<open>Prx_Server\<close>
    holds the worker and the delivery of results, \<open>Srv_Handlers\<close> the callbacks of the platform sockets,
    \<open>Srv_Requests\<close> the requests, the dispatch of messages, creation and release.

  \<^bold>\<open>How they interact.\<close> Bytes of the client go into the inbound queue of the connection (\<open>Io_Queue\<close> over a pool of
  \<open>Prx_Buffer\<close>); the receive task of the transport, run by the scheduler, decodes them through the stream of the
  connection (\<open>Io_Codec\<close>, \<open>Io_Proto\<close>) into a message of the factory and hands it to the server, which dispatches it
  by its target to a socket or handles link and ping itself. Answers take the opposite way. The property about
  message delivery composes all of these.

  \<^bold>\<open>What is shown of the server.\<close> \<open>Srv_Invariant\<close> defines the steps of the server, which are messages, tasks, platform
  events and time, and an invariant of all reachable states, by rules collected in \<open>wf_intros\<close>. \<open>Srv_Answers\<close>: every control
  request is answered once. \<open>Srv_Properties\<close>: received data leaves in order; the timeouts of polls are inverted.
  \<open>Srv_Ports\<close>: the restricted ports are those of the configured ranges. \<open>Srv_Ownership\<close>: idle sockets are collected;
  the message of a link dangles, a failed link leaves a freed socket in the table, and a polled stream socket leaks.
  Statements of this last kind describe what the code does where it differs from what it is meant to do.

  \<^bold>\<open>Bounds and fuel.\<close> No definition runs on fuel. Loops over data are structural or have a measure; the growth
  of the memory stream terminates by the doubling of its size below \<open>SIZE_MOD\<close>, and the loops of the server go over
  lists of its state. The hypotheses that bound lengths exclude wrap-around of \<open>size_t\<close>, of \<open>int32_t\<close> in times,
  or the limits the formats themselves have. The witnesses evaluate the definitions on concrete states, with concrete functions
  for the platform and the libraries.

  \<^bold>\<open>Not modelled.\<close> The client library \<open>src/prx_client.c\<close> is excluded from compilation and does not compile; the C socket
  api and the C# api are separate clients. The name service, the JSON codec, the mqtt connection and the xio adapters are
  layers over http, json, mqtt and socket libraries that are not part of the sources. The host, the module, the
  configuration and the logging set up the process and decide nothing in the parts above, whose definitions take
  configured values as arguments. Of \<open>src/io_transport.c\<close> the mqtt transport is left out. The browse server is left out
  with the service discovery of the platform it drives. The platform layer is the environment. Threads and locks are not modelled: operations are
  atomic steps, as the locks and the single worker thread make them.
\<close>

end
